(* ===== verification/Prelude.thy ===== *)
theory Prelude
  imports Main "HOL-Library.AList"
begin

text \<open>
  What every component of the development shares: the string operations of Go's
  packages strings and strconv that the provider uses, Terraform attribute values, and the
  association lists that stand for Go maps.

  A Go string is a sequence of bytes and is modelled as a \<open>string\<close>, a list of HOL
  characters (bytes). Case folding and white space are the ASCII parts of the Go functions;
  bytes above 127 are left alone, so the statements about case-insensitive comparison are
  about ASCII text (TrueNAS enums, hex digits, host names, error texts).
\<close>

named_theorems go_simps \<open>unfolding rules for Go library functions\<close>

section \<open>Characters\<close>

type_synonym bytes = string

definition ord_of :: "char \<Rightarrow> nat" where
  "ord_of c = of_char c"

definition is_digit :: "char \<Rightarrow> bool" where
  "is_digit c \<longleftrightarrow> 48 \<le> ord_of c \<and> ord_of c \<le> 57"

definition digit_val :: "char \<Rightarrow> nat" where
  "digit_val c = ord_of c - 48"

definition digit_char :: "nat \<Rightarrow> char" where
  "digit_char d = char_of (48 + d)"

definition is_upper :: "char \<Rightarrow> bool" where
  "is_upper c \<longleftrightarrow> 65 \<le> ord_of c \<and> ord_of c \<le> 90"

definition is_lower :: "char \<Rightarrow> bool" where
  "is_lower c \<longleftrightarrow> 97 \<le> ord_of c \<and> ord_of c \<le> 122"

definition lower_char :: "char \<Rightarrow> char" where
  "lower_char c = (if is_upper c then char_of (ord_of c + 32) else c)"

definition upper_char :: "char \<Rightarrow> char" where
  "upper_char c = (if is_lower c then char_of (ord_of c - 32) else c)"

text \<open>Tab, line feed, vertical tab, form feed, carriage return and blank.\<close>

definition is_space :: "char \<Rightarrow> bool" where
  "is_space c \<longleftrightarrow> (9 \<le> ord_of c \<and> ord_of c \<le> 13) \<or> ord_of c = 32"

lemma ord_of_less [simp]: "ord_of c < 256"
  unfolding ord_of_def using of_char_mod_256 [of c, where 'a = nat]
  by (metis mod_less_divisor zero_less_numeral)

lemma ord_of_char_of [simp]: "n < 256 \<Longrightarrow> ord_of (char_of n) = n"
  by (simp add: ord_of_def)

lemma char_of_ord_of [simp]: "char_of (ord_of c) = c"
  by (simp add: ord_of_def)

lemma ord_of_inject [simp]: "ord_of c = ord_of d \<longleftrightarrow> c = d"
  by (metis char_of_ord_of)

lemma digit_char_simps [simp]:
  "digit_char 0 = CHR ''0''" "digit_char (Suc 0) = CHR ''1''" "digit_char 1 = CHR ''1''"
  "digit_char 2 = CHR ''2''" "digit_char 3 = CHR ''3''" "digit_char 4 = CHR ''4''"
  "digit_char 5 = CHR ''5''" "digit_char 6 = CHR ''6''" "digit_char 7 = CHR ''7''"
  "digit_char 8 = CHR ''8''" "digit_char 9 = CHR ''9''"
  unfolding digit_char_def ord_of_inject [symmetric] by (simp_all, simp_all add: ord_of_def)

lemma digit_val_char [simp]: "d < 10 \<Longrightarrow> digit_val (digit_char d) = d"
  by (simp add: digit_val_def digit_char_def)

lemma is_digit_char [simp]: "d < 10 \<Longrightarrow> is_digit (digit_char d)"
  by (simp add: is_digit_def digit_char_def)

lemma digit_char_val [simp]: "is_digit c \<Longrightarrow> digit_char (digit_val c) = c"
  by (simp add: is_digit_def digit_char_def digit_val_def)

lemma digit_val_less: "is_digit c \<Longrightarrow> digit_val c < 10"
  unfolding is_digit_def digit_val_def by linarith

lemma ord_of_lower_char:
  "ord_of (lower_char c) = (if is_upper c then ord_of c + 32 else ord_of c)"
  by (simp add: lower_char_def is_upper_def)

lemma ord_of_upper_char:
  "ord_of (upper_char c) = (if is_lower c then ord_of c - 32 else ord_of c)"
  using ord_of_less [of c] by (auto simp: upper_char_def is_lower_def intro!: ord_of_char_of)

lemma lower_lower [simp]: "lower_char (lower_char c) = lower_char c"
  by (simp add: ord_of_lower_char is_upper_def flip: ord_of_inject)

lemma lower_upper [simp]: "lower_char (upper_char c) = lower_char c"
  by (auto simp: ord_of_lower_char ord_of_upper_char is_upper_def is_lower_def
           simp flip: ord_of_inject)

lemma upper_lower [simp]: "upper_char (lower_char c) = upper_char c"
  by (auto simp: ord_of_lower_char ord_of_upper_char is_upper_def is_lower_def
           simp flip: ord_of_inject)

lemma upper_upper [simp]: "upper_char (upper_char c) = upper_char c"
proof -
  have "\<not> is_lower (upper_char c)"
    unfolding is_lower_def ord_of_upper_char by (cases "is_lower c") (auto simp: is_lower_def)
  then show ?thesis by (simp add: upper_char_def)
qed

lemma is_space_lower [simp]: "is_space (lower_char c) = is_space c"
  by (auto simp: is_space_def ord_of_lower_char is_upper_def)

section \<open>Package strings\<close>

definition to_lower :: "string \<Rightarrow> string" where
  "to_lower s = map lower_char s"

definition to_upper :: "string \<Rightarrow> string" where
  "to_upper s = map upper_char s"

definition equal_fold :: "string \<Rightarrow> string \<Rightarrow> bool" where
  "equal_fold a b \<longleftrightarrow> to_lower a = to_lower b"

lemma to_lower_idem [simp]: "to_lower (to_lower s) = to_lower s"
  by (simp add: to_lower_def)

lemma to_lower_upper [simp]: "to_lower (to_upper s) = to_lower s"
  by (simp add: to_lower_def to_upper_def)

lemma to_upper_lower [simp]: "to_upper (to_lower s) = to_upper s"
  by (simp add: to_lower_def to_upper_def)

lemma equal_fold_refl [simp]: "equal_fold a a"
  by (simp add: equal_fold_def)

lemma equal_fold_sym: "equal_fold a b = equal_fold b a"
  by (auto simp: equal_fold_def)

lemma equal_fold_trans: "equal_fold a b \<Longrightarrow> equal_fold b c \<Longrightarrow> equal_fold a c"
  by (simp add: equal_fold_def)

lemma equal_fold_upper: "equal_fold a b \<longleftrightarrow> to_upper a = to_upper b"
  unfolding equal_fold_def by (metis to_lower_upper to_upper_lower)

definition has_prefix :: "string \<Rightarrow> string \<Rightarrow> bool" where
  "has_prefix s p \<longleftrightarrow> take (length p) s = p"

definition has_suffix :: "string \<Rightarrow> string \<Rightarrow> bool" where
  "has_suffix s p \<longleftrightarrow> has_prefix (rev s) (rev p)"

definition trim_prefix :: "string \<Rightarrow> string \<Rightarrow> string" where
  "trim_prefix s p = (if has_prefix s p then drop (length p) s else s)"

definition cut_suffix :: "string \<Rightarrow> string \<Rightarrow> string option" where
  "cut_suffix s p = (if has_suffix s p then Some (take (length s - length p) s) else None)"

fun contains_str :: "string \<Rightarrow> string \<Rightarrow> bool" where
  "contains_str [] p = (p = [])"
| "contains_str (c # cs) p = (has_prefix (c # cs) p \<or> contains_str cs p)"

definition trim_left_by :: "(char \<Rightarrow> bool) \<Rightarrow> string \<Rightarrow> string" where
  "trim_left_by P s = dropWhile P s"

definition trim_right_by :: "(char \<Rightarrow> bool) \<Rightarrow> string \<Rightarrow> string" where
  "trim_right_by P s = rev (dropWhile P (rev s))"

definition trim_space :: "string \<Rightarrow> string" where
  "trim_space s = trim_right_by is_space (trim_left_by is_space s)"

text \<open>\<open>strings.Cut\<close> and \<open>strings.Split\<close> with a one-byte separator.\<close>

fun cut :: "char \<Rightarrow> string \<Rightarrow> string \<times> string \<times> bool" where
  "cut d [] = ([], [], False)"
| "cut d (c # cs) =
     (if c = d then ([], cs, True)
      else (case cut d cs of (a, b, ok) \<Rightarrow> (c # a, b, ok)))"

fun split_on :: "char \<Rightarrow> string \<Rightarrow> string list" where
  "split_on d [] = [[]]"
| "split_on d (c # cs) =
     (if c = d then [] # split_on d cs
      else (case split_on d cs of [] \<Rightarrow> [[c]] | p # ps \<Rightarrow> (c # p) # ps))"

text \<open>\<open>strings.LastIndexByte\<close> as a split at the last occurrence.\<close>

definition cut_last :: "char \<Rightarrow> string \<Rightarrow> (string \<times> string) option" where
  "cut_last d s = (case cut d (rev s) of (a, b, ok) \<Rightarrow> if ok then Some (rev b, rev a) else None)"

text \<open>\<open>strings.ReplaceAll\<close> with a non-empty old string.\<close>

function replace_all :: "string \<Rightarrow> string \<Rightarrow> string \<Rightarrow> string" where
  "replace_all old new s =
     (case s of [] \<Rightarrow> []
      | c # cs \<Rightarrow> if old \<noteq> [] \<and> has_prefix s old then new @ replace_all old new (drop (length old) s)
                 else c # replace_all old new cs)"
  by pat_completeness auto
termination
  by (relation "measure (\<lambda>(old, new, s). length s)") auto

declare replace_all.simps [simp del]

text \<open>\<open>strings.Join\<close>, the \<open>%t\<close> verb and a line feed.\<close>

fun join :: "string \<Rightarrow> string list \<Rightarrow> string" where
  "join sep [] = []"
| "join sep [x] = x"
| "join sep (x # y # xs) = x @ sep @ join sep (y # xs)"

definition go_bool :: "bool \<Rightarrow> string" where
  "go_bool b = (if b then ''true'' else ''false'')"

definition newline :: string where "newline = [char_of (10 :: nat)]"

text \<open>The \<open>%q\<close> verb of package fmt, for text without characters that need escaping.\<close>

definition quoted :: "string \<Rightarrow> string" where
  "quoted s = CHR 0x22 # s @ [CHR 0x22]"

lemma split_on_nonempty [simp]: "split_on d s \<noteq> []"
  by (induction s) (auto split: list.splits)

lemma has_prefix_append [simp]: "has_prefix (p @ s) p"
  by (simp add: has_prefix_def)

lemma has_prefix_iff: "has_prefix s p \<longleftrightarrow> (\<exists>r. s = p @ r)"
  by (metis append_take_drop_id has_prefix_append has_prefix_def)

lemma has_suffix_iff: "has_suffix s p \<longleftrightarrow> (\<exists>r. s = r @ p)"
  by (auto simp: has_suffix_def has_prefix_iff) (metis rev_append rev_rev_ident)

lemma cut_suffix_append [simp]: "cut_suffix (s @ p) p = Some s"
  by (auto simp: cut_suffix_def has_suffix_iff)

lemma contains_str_iff: "contains_str s p \<longleftrightarrow> (\<exists>a b. s = a @ p @ b)"
proof (induction s)
  case Nil
  show ?case by auto
next
  case (Cons c cs)
  show ?case
  proof
    assume "contains_str (c # cs) p"
    then show "\<exists>a b. c # cs = a @ p @ b"
      using Cons.IH by (auto simp: has_prefix_iff) (metis append_Cons append_Nil)+
  next
    assume "\<exists>a b. c # cs = a @ p @ b"
    then obtain a b where ab: "c # cs = a @ p @ b" by blast
    show "contains_str (c # cs) p"
    proof (cases a)
      case Nil
      with ab have "has_prefix (c # cs) p" by (auto simp: has_prefix_iff)
      then show ?thesis by simp
    next
      case (Cons x xs)
      with ab have "cs = xs @ p @ b" by simp
      with Cons.IH show ?thesis by auto
    qed
  qed
qed

lemma cut_append: "d \<notin> set a \<Longrightarrow> cut d (a @ d # b) = (a, b, True)"
  by (induction a) auto

lemma cut_found: "cut d s = (a, b, True) \<Longrightarrow> s = a @ d # b \<and> d \<notin> set a"
  by (induction s arbitrary: a b) (auto split: prod.splits if_splits)

lemma cut_not_found: "d \<notin> set s \<Longrightarrow> cut d s = (s, [], False)"
  by (induction s) auto

lemma cut_last_append: "d \<notin> set b \<Longrightarrow> cut_last d (a @ d # b) = Some (a, b)"
  by (simp add: cut_last_def cut_append)

lemma trim_left_by_idem [simp]: "trim_left_by P (trim_left_by P s) = trim_left_by P s"
  by (simp add: trim_left_by_def)

lemma trim_right_by_idem [simp]: "trim_right_by P (trim_right_by P s) = trim_right_by P s"
  by (simp add: trim_right_by_def)

lemma split_on_none: "d \<notin> set s \<Longrightarrow> split_on d s = [s]"
  by (induction s) auto

lemma split_on_append: "d \<notin> set a \<Longrightarrow> split_on d (a @ d # s) = a # split_on d s"
  by (induction a) auto

lemma split_on_no_sep: "p \<in> set (split_on d s) \<Longrightarrow> d \<notin> set p"
proof (induction s arbitrary: p)
  case (Cons c s)
  then show ?case by (cases "split_on d s") (auto split: if_splits)
qed auto

lemma split_on_join:
  "xs \<noteq> [] \<Longrightarrow> \<forall>x \<in> set xs. d \<notin> set x \<Longrightarrow> split_on d (join [d] xs) = xs"
  by (induction "[d]" xs rule: join.induct) (simp_all add: split_on_none split_on_append)

lemma join_inject:
  assumes "join [d] xs = join [d] ys" and "xs \<noteq> []" "ys \<noteq> []"
    and "\<forall>x \<in> set xs. d \<notin> set x" "\<forall>y \<in> set ys. d \<notin> set y"
  shows "xs = ys"
  by (metis assms split_on_join)

section \<open>Package strconv\<close>

datatype num_error = SyntaxErr | RangeErr

fun nat_digits :: "nat \<Rightarrow> string" where
  "nat_digits n =
     (if n < 10 then [digit_char n] else nat_digits (n div 10) @ [digit_char (n mod 10)])"

declare nat_digits.simps [simp del]

definition itoa :: "int \<Rightarrow> string" where
  "itoa i = (if i < 0 then CHR ''-'' # nat_digits (nat (- i)) else nat_digits (nat i))"

text \<open>
  \<open>strconv.ParseUint\<close>: the digits are read from the left, an invalid digit is a syntax
  error, and the first value above the maximum stops the scan with a range error, whatever
  follows.
\<close>

fun parse_uint_loop :: "nat \<Rightarrow> nat \<Rightarrow> nat \<Rightarrow> string \<Rightarrow> num_error + nat" where
  "parse_uint_loop base lim n [] = Inr n"
| "parse_uint_loop base lim n (c # cs) =
     (if \<not> is_digit c \<or> base \<le> digit_val c then Inl SyntaxErr
      else let n1 = n * base + digit_val c in
        if lim < n1 then Inl RangeErr else parse_uint_loop base lim n1 cs)"

definition parse_uint :: "nat \<Rightarrow> nat \<Rightarrow> string \<Rightarrow> num_error + nat" where
  "parse_uint base bits s =
     (if s = [] then Inl SyntaxErr else parse_uint_loop base (2 ^ bits - 1) 0 s)"

definition max_int64 :: int where "max_int64 = 2 ^ 63 - 1"

definition min_int64 :: int where "min_int64 = - (2 ^ 63)"

definition strip_sign :: "string \<Rightarrow> bool \<times> string" where
  "strip_sign s = (case s of [] \<Rightarrow> (False, [])
     | c # cs \<Rightarrow> if c = CHR ''+'' then (False, cs) else if c = CHR ''-'' then (True, cs) else (False, s))"

text \<open>
  \<open>strconv.Atoi\<close> and \<open>strconv.ParseInt\<close> (base 10, 64 bits): the value Go returns and
  the error, if any. On a range error the value is the nearest representable one.
\<close>

definition atoi :: "string \<Rightarrow> int \<times> num_error option" where
  "atoi s = (case strip_sign s of (neg, t) \<Rightarrow>
     (case parse_uint 10 64 t of
        Inl SyntaxErr \<Rightarrow> (0, Some SyntaxErr)
      | Inl RangeErr \<Rightarrow> (if neg then min_int64 else max_int64, Some RangeErr)
      | Inr n \<Rightarrow>
          if \<not> neg \<and> max_int64 < int n then (max_int64, Some RangeErr)
          else if neg \<and> int n > 2 ^ 63 then (min_int64, Some RangeErr)
          else (if neg then - int n else int n, None)))"

lemma atoi_range: "atoi s = (i, e) \<Longrightarrow> min_int64 \<le> i \<and> i \<le> max_int64"
  by (auto simp: atoi_def min_int64_def max_int64_def split: prod.splits sum.splits num_error.splits if_splits)

lemma nat_digits_ne [simp]: "nat_digits n \<noteq> []"
  by (subst nat_digits.simps) simp

lemma nat_digits_digits: "\<forall>c \<in> set (nat_digits n). is_digit c"
proof (induction n rule: nat_digits.induct)
  case (1 n)
  then show ?case by (cases "n < 10") (auto simp: nat_digits.simps [of n])
qed

lemma parse_uint_loop_append:
  "parse_uint_loop base lim n (xs @ ys) =
     (case parse_uint_loop base lim n xs of Inl e \<Rightarrow> Inl e | Inr m \<Rightarrow> parse_uint_loop base lim m ys)"
  by (induction xs arbitrary: n) (auto simp: Let_def)

lemma parse_nat_digits: "n \<le> lim \<Longrightarrow> parse_uint_loop 10 lim 0 (nat_digits n) = Inr n"
proof (induction n rule: nat_digits.induct)
  case (1 n)
  show ?case
  proof (cases "n < 10")
    case True
    with 1 show ?thesis by (simp add: nat_digits.simps [of n])
  next
    case False
    with 1 have "parse_uint_loop 10 lim 0 (nat_digits (n div 10)) = Inr (n div 10)" by simp
    with False "1.prems" show ?thesis
      by (simp add: nat_digits.simps [of n] parse_uint_loop_append)
  qed
qed

lemma parse_uint_loop_bound: "parse_uint_loop base lim n s = Inr m \<Longrightarrow> n \<le> lim \<Longrightarrow> m \<le> lim"
  by (induction s arbitrary: n) (auto simp: Let_def split: if_splits)

lemma strip_sign_digits: "s \<noteq> [] \<Longrightarrow> \<forall>c \<in> set s. is_digit c \<Longrightarrow> strip_sign s = (False, s)"
  by (cases s) (auto simp: strip_sign_def is_digit_def ord_of_def)

lemma atoi_itoa: "min_int64 \<le> i \<Longrightarrow> i \<le> max_int64 \<Longrightarrow> atoi (itoa i) = (i, None)"
proof (cases "i < 0")
  case True
  assume "min_int64 \<le> i"
  with True have "parse_uint_loop 10 (2 ^ 64 - 1) 0 (nat_digits (nat (- i))) = Inr (nat (- i))"
    by (intro parse_nat_digits) (simp add: min_int64_def)
  with True \<open>min_int64 \<le> i\<close> show ?thesis
    by (simp add: atoi_def itoa_def strip_sign_def parse_uint_def min_int64_def max_int64_def)
next
  case False
  assume "i \<le> max_int64"
  with False have "parse_uint_loop 10 (2 ^ 64 - 1) 0 (nat_digits (nat i)) = Inr (nat i)"
    by (intro parse_nat_digits) (simp add: max_int64_def)
  with False \<open>i \<le> max_int64\<close> show ?thesis
    by (simp add: atoi_def itoa_def strip_sign_digits nat_digits_digits parse_uint_def
        min_int64_def max_int64_def)
qed

section \<open>Go maps as association lists\<close>

text \<open>
  A Go map with string keys is an association list with distinct keys; \<open>m[k] = v\<close> is
  \<open>AList.update\<close>, \<open>delete(m, k)\<close> is \<open>AList.delete\<close>, \<open>m[k]\<close> is \<open>map_of\<close> and
  \<open>len(m)\<close> is the length of the list.
\<close>

type_synonym 'v gomap = "(string \<times> 'v) list"

abbreviation put :: "string \<Rightarrow> 'v \<Rightarrow> 'v gomap \<Rightarrow> 'v gomap" where
  "put \<equiv> AList.update"

abbreviation del :: "string \<Rightarrow> 'v gomap \<Rightarrow> 'v gomap" where
  "del \<equiv> AList.delete"

definition has_key :: "'v gomap \<Rightarrow> string \<Rightarrow> bool" where
  "has_key m k \<longleftrightarrow> map_of m k \<noteq> None"

definition wf_map :: "'v gomap \<Rightarrow> bool" where
  "wf_map m \<longleftrightarrow> distinct (map fst m)"

lemma map_of_put [simp]: "map_of (put k v m) = (map_of m)(k \<mapsto> v)"
  by (simp add: AList.update_conv')

lemma map_of_del [simp]: "map_of (del k m) = (map_of m)(k := None)"
  by (simp add: AList.delete_conv')

lemma wf_map_put [intro]: "wf_map m \<Longrightarrow> wf_map (put k v m)"
  by (simp add: wf_map_def AList.distinct_update)

lemma wf_map_del [intro]: "wf_map m \<Longrightarrow> wf_map (del k m)"
  by (simp add: wf_map_def AList.distinct_delete)

lemma wf_map_Nil [simp]: "wf_map []"
  by (simp add: wf_map_def)

lemma has_key_iff: "has_key m k \<longleftrightarrow> k \<in> fst ` set m"
  by (auto simp: has_key_def map_of_eq_None_iff)

lemma gomap_empty_iff: "m = [] \<longleftrightarrow> (\<forall>k. map_of m k = None)"
  by (cases m) auto

section \<open>Terraform attribute values\<close>

text \<open>
  A framework value (\<open>types.String\<close>, \<open>types.Int64\<close>, \<open>types.Bool\<close>) is null, unknown
  or known. \<open>ValueString\<close>, \<open>ValueInt64\<close> and \<open>ValueBool\<close> return the zero value of the type
  for a null or unknown value.
\<close>

datatype 'a tf = TfNull | TfUnknown | Known 'a

definition is_null :: "'a tf \<Rightarrow> bool" where "is_null v \<longleftrightarrow> v = TfNull"

definition is_unknown :: "'a tf \<Rightarrow> bool" where "is_unknown v \<longleftrightarrow> v = TfUnknown"

definition value_or :: "'a \<Rightarrow> 'a tf \<Rightarrow> 'a" where
  "value_or d v = (case v of Known x \<Rightarrow> x | _ \<Rightarrow> d)"

abbreviation value_string :: "string tf \<Rightarrow> string" where "value_string \<equiv> value_or []"

abbreviation value_int64 :: "int tf \<Rightarrow> int" where "value_int64 \<equiv> value_or 0"

abbreviation value_bool :: "bool tf \<Rightarrow> bool" where "value_bool \<equiv> value_or False"

lemma tf_null_simps [simp]:
  "is_null TfNull" "\<not> is_null TfUnknown" "\<not> is_null (Known x)"
  "is_unknown TfUnknown" "\<not> is_unknown TfNull" "\<not> is_unknown (Known x)"
  by (simp_all add: is_null_def is_unknown_def)

lemma value_or_simps [simp]:
  "value_or d (Known x) = x" "value_or d TfNull = d" "value_or d TfUnknown = d"
  by (simp_all add: value_or_def)

lemma tf_known: "\<not> is_null v \<Longrightarrow> \<not> is_unknown v \<Longrightarrow> v = Known (value_or d v)"
  by (cases v) auto

end
