(* ===== verification/GoError.thy ===== *)
theory GoError
  imports Prelude
begin

text \<open>
  Errors of the client (src/internal/client): the TrueNAS API error, the package's sentinel
  errors, and errors wrapped with \<open>fmt.Errorf\<close>. The predicates that decide what an error
  means for a caller follow: \<open>IsNotFound\<close>, \<open>IsRateLimited\<close>, \<open>isTransient\<close> and
  \<open>isSCRAMUnsupported\<close>.
\<close>

section \<open>Error values\<close>

text \<open>\<open>APIError\<close>; the server's trace is never looked at and is left out.\<close>

record api_error =
  ae_code :: int
  ae_errname :: string
  ae_message :: string

datatype sentinel =
    ErrResponseTooLarge
  | ErrDial
  | ErrClosedDuringAuth
  | ErrNoResponse
  | ErrAPIKeyRejected
  | CtxCanceled
  | CtxDeadlineExceeded

text \<open>
  An error made by \<open>fmt.Errorf\<close> is the list of the pieces of its text; a piece is literal
  text (a \<open>%v\<close> argument included, since it is not unwrapped) or an error wrapped with \<open>%w\<close>.
  \<open>errors.New\<close> of a text used once is a list with one text piece.
\<close>

datatype go_error =
    Api api_error
  | Sentinel sentinel
  | Wrapped "err_piece list"
and err_piece = Text string | Cause go_error

definition errorf :: "string \<Rightarrow> go_error" where
  "errorf s = Wrapped [Text s]"

fun sentinel_text :: "sentinel \<Rightarrow> string" where
  "sentinel_text ErrResponseTooLarge = ''response exceeds the client's size limit''"
| "sentinel_text ErrDial = ''cannot open connection''"
| "sentinel_text ErrClosedDuringAuth = ''connection closed during authentication''"
| "sentinel_text ErrNoResponse = ''no response from TrueNAS''"
| "sentinel_text ErrAPIKeyRejected = ''authentication rejected: invalid API key''"
| "sentinel_text CtxCanceled = ''context canceled''"
| "sentinel_text CtxDeadlineExceeded = ''context deadline exceeded''"

definition api_error_text :: "api_error \<Rightarrow> string" where
  "api_error_text e = ''truenas API error (code '' @ itoa (ae_code e) @ ''): '' @ ae_message e"

text \<open>\<open>err.Error()\<close>, \<open>errors.Is\<close> with a sentinel, and \<open>errors.As\<close> with an \<open>*APIError\<close>: the
  first one in a left-to-right, depth-first walk of what is wrapped.\<close>

fun err_text :: "go_error \<Rightarrow> string" and piece_text :: "err_piece \<Rightarrow> string" where
  "err_text (Api e) = api_error_text e"
| "err_text (Sentinel s) = sentinel_text s"
| "err_text (Wrapped ps) = concat (map piece_text ps)"
| "piece_text (Text s) = s"
| "piece_text (Cause e) = err_text e"

fun errors_is :: "go_error \<Rightarrow> sentinel \<Rightarrow> bool" and piece_is :: "err_piece \<Rightarrow> sentinel \<Rightarrow> bool" where
  "errors_is (Api e) t = False"
| "errors_is (Sentinel s) t = (s = t)"
| "errors_is (Wrapped ps) t = list_ex (\<lambda>p. piece_is p t) ps"
| "piece_is (Text s) t = False"
| "piece_is (Cause e) t = errors_is e t"

fun errors_as :: "go_error \<Rightarrow> api_error option" and pieces_as :: "err_piece list \<Rightarrow> api_error option" where
  "errors_as (Api e) = Some e"
| "errors_as (Sentinel s) = None"
| "errors_as (Wrapped ps) = pieces_as ps"
| "pieces_as [] = None"
| "pieces_as (Text s # ps) = pieces_as ps"
| "pieces_as (Cause e # ps) = (case errors_as e of Some a \<Rightarrow> Some a | None \<Rightarrow> pieces_as ps)"

lemma errorf_simps [simp]:
  "errors_is (errorf s) t = False" "errors_as (errorf s) = None" "err_text (errorf s) = s"
  by (simp_all add: errorf_def)

section \<open>From the wire: \<open>rpcError\<close>\<close>

record rpc_error =
  re_code :: int
  re_message :: string
  re_data :: "api_error option"

text \<open>\<open>apiError\<close>: the TrueNAS error object when there is one, else one made of the JSON-RPC
  code and message.\<close>

definition rpc_api_error :: "rpc_error \<Rightarrow> api_error" where
  "rpc_api_error e = (case re_data e of
      Some d \<Rightarrow> d
    | None \<Rightarrow> \<lparr>ae_code = re_code e, ae_errname = [], ae_message = re_message e\<rparr>)"

text \<open>The error \<open>failPending\<close> delivers: an \<open>APIError\<close> with code 0.\<close>

definition conn_lost :: "string \<Rightarrow> go_error" where
  "conn_lost msg = Api \<lparr>ae_code = 0, ae_errname = [], ae_message = msg\<rparr>"

section \<open>What an error means\<close>

definition is_not_found :: "go_error \<Rightarrow> bool" where
  "is_not_found err = (case err of
      Api e \<Rightarrow>
        (if ae_code e < 0 then False
         else let msg = to_lower (ae_message e) in
           ae_code e = 2 \<or> ae_errname e = ''ENOENT'' \<or> contains_str msg ''[enoent]'' \<or>
           contains_str msg ''not found'' \<or> contains_str msg ''does not exist'')
    | _ \<Rightarrow> False)"

definition is_rate_limited :: "go_error option \<Rightarrow> bool" where
  "is_rate_limited err = (case err of
      None \<Rightarrow> False
    | Some e \<Rightarrow>
        (case errors_as e of Some a \<Rightarrow> ae_code a = 16 | None \<Rightarrow> False) \<or>
        contains_str (to_lower (err_text e)) ''rate limit'')"

definition is_transient :: "go_error option \<Rightarrow> bool" where
  "is_transient err = (case err of
      None \<Rightarrow> False
    | Some e \<Rightarrow>
        if errors_is e ErrResponseTooLarge then False
        else (case errors_as e of
            Some a \<Rightarrow> (let msg = to_lower (ae_message a) in
              ae_code a = 0 \<or> ae_code a = 16 \<or> ae_code a = -32000 \<or>
              contains_str msg ''rate limit'' \<or> contains_str msg ''concurrent calls'')
          | None \<Rightarrow> True))"

definition is_scram_unsupported :: "go_error option \<Rightarrow> bool" where
  "is_scram_unsupported err = (case err of
      None \<Rightarrow> False
    | Some e \<Rightarrow> (case errors_as e of
          None \<Rightarrow> False
        | Some a \<Rightarrow>
            if is_rate_limited err then False
            else contains_str (ae_message a) (CHR 0x27 # ''SCRAM'' @ [CHR 0x27]) \<and> contains_str (ae_message a) ''does not match''))"

end
