(* ===== verification/Values.thy ===== *)
theory Values
  imports GoError Complex_Main "HOL-Library.Monad_Syntax"
begin

text \<open>
  Decoded JSON and YAML documents, and the comparison of two of them
  (src/internal/normalize/json.go). The same type stands for the values the client sends and
  receives (\<open>any\<close>, \<open>json.RawMessage\<close>): a document on the wire is represented by its decoded
  form, with numbers kept as their literal text, as \<open>json.Number\<close> keeps them.
\<close>

section \<open>Values\<close>

text \<open>A float64: a finite one is \<open>m * 2 ^ e\<close>.\<close>

datatype f64 = F_NaN | F_Inf bool | F_Fin int int

datatype gval =
    GNil
  | GBool bool
  | GStr string
  | GNumber string
  | GFloat f64
  | GInt int
  | GArr "gval list"
  | GObj "(string \<times> gval) list"

text \<open>Every object of a decoded document has distinct keys, since it was a Go map.\<close>

fun wf_val :: "gval \<Rightarrow> bool" and wf_vals :: "gval list \<Rightarrow> bool" and wf_entries :: "(string \<times> gval) list \<Rightarrow> bool" where
  "wf_val (GArr xs) = wf_vals xs"
| "wf_val (GObj m) = (wf_map m \<and> wf_entries m)"
| "wf_val _ = True"
| "wf_vals [] = True"
| "wf_vals (x # xs) = (wf_val x \<and> wf_vals xs)"
| "wf_entries [] = True"
| "wf_entries ((k, v) # m) = (wf_val v \<and> wf_entries m)"

lemma wf_vals_iff: "wf_vals xs \<longleftrightarrow> (\<forall>x \<in> set xs. wf_val x)"
  by (induction xs) auto

lemma wf_entries_iff: "wf_entries m \<longleftrightarrow> (\<forall>(k, v) \<in> set m. wf_val v)"
  by (induction m) auto

section \<open>Typed decoding\<close>

text \<open>
  \<open>json.Unmarshal\<close> into a typed field: a missing key and a JSON null both leave the zero
  value; a value of another type is an error (\<open>None\<close>). Keys match exactly.
\<close>

definition field :: "gval gomap \<Rightarrow> string \<Rightarrow> gval" where
  "field m k = (case map_of m k of None \<Rightarrow> GNil | Some v \<Rightarrow> v)"

fun as_string :: "gval \<Rightarrow> string option" where
  "as_string (GStr s) = Some s"
| "as_string GNil = Some []"
| "as_string _ = None"

fun as_bool :: "gval \<Rightarrow> bool option" where
  "as_bool (GBool b) = Some b"
| "as_bool GNil = Some False"
| "as_bool _ = None"

fun as_int64 :: "gval \<Rightarrow> int option" where
  "as_int64 (GNumber s) = (case atoi s of (i, None) \<Rightarrow> Some i | _ \<Rightarrow> None)"
| "as_int64 GNil = Some 0"
| "as_int64 _ = None"

text \<open>Into a pointer (\<open>*string\<close>, \<open>*int64\<close>): null is the nil pointer.\<close>

definition as_ptr :: "(gval \<Rightarrow> 'a option) \<Rightarrow> gval \<Rightarrow> 'a option option" where
  "as_ptr f v = (if v = GNil then Some None else map_option Some (f v))"

fun map_opt :: "('a \<Rightarrow> 'b option) \<Rightarrow> 'a list \<Rightarrow> 'b list option" where
  "map_opt f [] = Some []"
| "map_opt f (x # xs) = do { y \<leftarrow> f x; ys \<leftarrow> map_opt f xs; Some (y # ys) }"

lemma map_opt_length: "map_opt f xs = Some ys \<Longrightarrow> length ys = length xs"
  by (induction xs arbitrary: ys) (auto split: Option.bind_splits)

fun as_list :: "(gval \<Rightarrow> 'a option) \<Rightarrow> gval \<Rightarrow> 'a list option" where
  "as_list f (GArr xs) = map_opt f xs"
| "as_list f GNil = Some []"
| "as_list f _ = None"

fun as_object :: "gval \<Rightarrow> gval gomap option" where
  "as_object (GObj m) = Some m"
| "as_object GNil = Some []"
| "as_object _ = None"

section \<open>Comparing documents: \<open>EqualTree\<close>\<close>

text \<open>
  Numbers are compared as \<open>big.Float\<close> values of precision 512. The conversion of a decimal
  literal (\<open>big.Float.SetString\<close>) is the parameter \<open>lit\<close>; a float64 is exact at that
  precision, and an integer is rounded to the nearest, ties to even.
\<close>

datatype bigf = B_Inf bool | B_Fin rat

fun bit_len :: "nat \<Rightarrow> nat" where
  "bit_len n = (if n = 0 then 0 else Suc (bit_len (n div 2)))"

declare bit_len.simps [simp del]

definition round_prec :: "nat \<Rightarrow> int \<Rightarrow> int" where
  "round_prec p n =
     (let a = nat \<bar>n\<bar> in
      if a < 2 ^ p then n
      else let s = bit_len a - p; q = a div 2 ^ s; r = a mod 2 ^ s; h = 2 ^ (s - 1);
               q' = (if r > h \<or> (r = h \<and> odd q) then q + 1 else q)
           in sgn n * int (q' * 2 ^ s))"

definition f64_rat :: "int \<Rightarrow> int \<Rightarrow> rat" where
  "f64_rat m e = (if 0 \<le> e then of_int m * 2 ^ nat e else of_int m / 2 ^ nat (- e))"

fun to_big_float :: "(string \<Rightarrow> bigf option) \<Rightarrow> gval \<Rightarrow> bigf option" where
  "to_big_float lit (GNumber s) = lit s"
| "to_big_float lit (GFloat F_NaN) = None"
| "to_big_float lit (GFloat (F_Inf neg)) = Some (B_Inf neg)"
| "to_big_float lit (GFloat (F_Fin m e)) = Some (B_Fin (f64_rat m e))"
| "to_big_float lit (GInt n) = Some (B_Fin (of_int (round_prec 512 n)))"
| "to_big_float lit _ = None"

text \<open>A \<open>LeafEqual\<close> hook returns (equal, handled); \<open>KeyEqual\<close> builds one from a table of
  string comparisons per key.\<close>

type_synonym leaf_equal = "string \<Rightarrow> gval \<Rightarrow> gval \<Rightarrow> bool \<times> bool"

definition key_equal :: "(string \<times> (string \<Rightarrow> string \<Rightarrow> bool)) list \<Rightarrow> leaf_equal" where
  "key_equal funcs key want got = (case map_of funcs key of
      None \<Rightarrow> (False, False)
    | Some f \<Rightarrow> (case (want, got) of
          (GStr ws, GStr gs) \<Rightarrow> (f ws gs, True)
        | _ \<Rightarrow> (False, False)))"

definition scalar_equal :: "(string \<Rightarrow> bigf option) \<Rightarrow> gval \<Rightarrow> gval \<Rightarrow> bool" where
  "scalar_equal lit want got = (case want of
      GNil \<Rightarrow> got = GNil
    | GStr s \<Rightarrow> got = GStr s
    | GBool b \<Rightarrow> got = GBool b
    | _ \<Rightarrow> (case (to_big_float lit want, to_big_float lit got) of
          (Some x, Some y) \<Rightarrow> x = y | _ \<Rightarrow> False))"

definition leaf_or_scalar ::
  "(string \<Rightarrow> bigf option) \<Rightarrow> leaf_equal option \<Rightarrow> string \<Rightarrow> gval \<Rightarrow> gval \<Rightarrow> bool" where
  "leaf_or_scalar lit leaf key want got = (case leaf of
      None \<Rightarrow> scalar_equal lit want got
    | Some f \<Rightarrow> (case f key want got of (eq, handled) \<Rightarrow>
        if handled then eq else scalar_equal lit want got))"

text \<open>
  The loop over a Go map visits the entries in some order; the model takes the order of the
  association list, and \<open>equal_tree_perm\<close> below shows that the order does not matter.
\<close>

fun equal_tree ::
  "(string \<Rightarrow> bigf option) \<Rightarrow> leaf_equal option \<Rightarrow> bool \<Rightarrow> string \<Rightarrow> gval \<Rightarrow> gval \<Rightarrow> bool"
and equal_obj ::
  "(string \<Rightarrow> bigf option) \<Rightarrow> leaf_equal option \<Rightarrow> bool \<Rightarrow> gval gomap \<Rightarrow> gval gomap \<Rightarrow> bool"
and equal_arr ::
  "(string \<Rightarrow> bigf option) \<Rightarrow> leaf_equal option \<Rightarrow> bool \<Rightarrow> string \<Rightarrow> gval list \<Rightarrow> gval list \<Rightarrow> bool"
where
  "equal_tree lit leaf sub key (GObj w) got = (case got of
      GObj g \<Rightarrow> (if \<not> sub \<and> length w \<noteq> length g then False else equal_obj lit leaf sub w g)
    | _ \<Rightarrow> False)"
| "equal_tree lit leaf sub key (GArr w) got = (case got of
      GArr g \<Rightarrow> (if length w \<noteq> length g then False else equal_arr lit leaf sub key w g)
    | _ \<Rightarrow> False)"
| "equal_tree lit leaf sub key want got = leaf_or_scalar lit leaf key want got"
| "equal_obj lit leaf sub [] g = True"
| "equal_obj lit leaf sub ((k, wv) # w) g = (case map_of g k of
      None \<Rightarrow> (if sub \<and> wv = GNil then equal_obj lit leaf sub w g else False)
    | Some gv \<Rightarrow> (if equal_tree lit leaf sub k wv gv then equal_obj lit leaf sub w g else False))"
| "equal_arr lit leaf sub key (x # xs) (y # ys) =
     (if equal_tree lit leaf sub key x y then equal_arr lit leaf sub key xs ys else False)"
| "equal_arr lit leaf sub key _ _ = True"

definition equal_documents :: "(string \<Rightarrow> bigf option) \<Rightarrow> gval \<Rightarrow> gval \<Rightarrow> bool \<Rightarrow> bool" where
  "equal_documents lit want got sub = equal_tree lit None sub [] want got"

text \<open>
  \<open>EqualJSON\<close> and \<open>JSONSubsetOf\<close> over texts. \<open>decode\<close> stands for the text to document step
  of \<open>encoding/json\<close>; \<open>DecodeJSON\<close> refuses text after the value and returns no document then.
\<close>

definition equal_json :: "(string \<Rightarrow> gval option) \<Rightarrow> (string \<Rightarrow> bigf option) \<Rightarrow> string \<Rightarrow> string \<Rightarrow> bool" where
  "equal_json decode lit a b =
     (if a = b then True
      else (case (decode a, decode b) of
          (Some x, Some y) \<Rightarrow> equal_documents lit x y False
        | _ \<Rightarrow> False))"

definition json_subset_of :: "(string \<Rightarrow> gval option) \<Rightarrow> (string \<Rightarrow> bigf option) \<Rightarrow> string \<Rightarrow> string \<Rightarrow> bool" where
  "json_subset_of decode lit configured server =
     (if configured = server then True
      else (case (decode configured, decode server) of
          (Some x, Some y) \<Rightarrow> equal_documents lit x y True
        | _ \<Rightarrow> False))"

section \<open>Facts about \<open>equal_tree\<close>\<close>

lemma equal_obj_iff:
  "equal_obj lit leaf sub w g \<longleftrightarrow>
     (\<forall>(k, wv) \<in> set w. case map_of g k of
        None \<Rightarrow> sub \<and> wv = GNil | Some gv \<Rightarrow> equal_tree lit leaf sub k wv gv)"
proof (induction w)
  case (Cons e w)
  obtain k v where e: "e = (k, v)" by (cases e)
  have "equal_obj lit leaf sub ((k, v) # w) g \<longleftrightarrow>
      (case map_of g k of None \<Rightarrow> sub \<and> v = GNil | Some gv \<Rightarrow> equal_tree lit leaf sub k v gv) \<and>
      equal_obj lit leaf sub w g"
    by (cases sub; cases "map_of g k") simp_all
  then show ?case unfolding e by (simp add: Cons.IH)
qed simp

lemma equal_arr_iff:
  "length xs = length ys \<Longrightarrow>
   equal_arr lit leaf sub key xs ys \<longleftrightarrow> list_all2 (equal_tree lit leaf sub key) xs ys"
  by (induction xs ys rule: list_induct2) auto

definition perm_entries :: "gval gomap \<Rightarrow> gval gomap \<Rightarrow> bool" where
  "perm_entries m m' \<longleftrightarrow> wf_map m \<and> wf_map m' \<and> set m = set m'"

lemma perm_entries_map_of: "perm_entries m m' \<Longrightarrow> map_of m = map_of m'"
  unfolding perm_entries_def wf_map_def by (metis map_of_inject_set)

lemma perm_entries_length: "perm_entries m m' \<Longrightarrow> length m = length m'"
  unfolding perm_entries_def wf_map_def
  by (metis distinct_card distinct_map)

lemma equal_tree_perm:
  assumes "perm_entries w w'" and "perm_entries g g'"
  shows "equal_tree lit leaf sub key (GObj w) (GObj g) = equal_tree lit leaf sub key (GObj w') (GObj g')"
proof -
  have "equal_obj lit leaf sub w g = equal_obj lit leaf sub w' g'"
    using assms perm_entries_map_of [OF assms(2)] by (simp add: equal_obj_iff perm_entries_def)
  then show ?thesis
    using perm_entries_length [OF assms(1)] perm_entries_length [OF assms(2)]
    by (cases sub) simp_all
qed

lemma scalar_equal_sym: "scalar_equal lit a b \<Longrightarrow> scalar_equal lit b a"
  by (cases a; cases b) (auto simp: scalar_equal_def split: option.splits)

lemma scalar_equal_trans: "scalar_equal lit a b \<Longrightarrow> scalar_equal lit b c \<Longrightarrow> scalar_equal lit a c"
  by (cases a; cases b) (auto simp: scalar_equal_def split: option.splits gval.splits)

lemma leaf_or_scalar_None [simp]: "leaf_or_scalar lit None key = scalar_equal lit"
  by (intro ext) (simp add: leaf_or_scalar_def)

lemma scalar_equal_container [simp]:
  "\<not> scalar_equal lit a (GObj g)" "\<not> scalar_equal lit a (GArr xs)"
  by (cases a; simp add: scalar_equal_def split: option.splits)+

lemma scalar_equal_tree: "scalar_equal lit a b \<Longrightarrow> equal_tree lit None sub key a b"
  by (cases a) (simp_all add: scalar_equal_def split: option.splits)

lemma scalar_equal_tree_trans:
  "scalar_equal lit a b \<Longrightarrow> equal_tree lit None sub key b c \<Longrightarrow> scalar_equal lit a c"
  by (cases b) (simp_all add: scalar_equal_trans)

lemma scalar_equal_tree_sym: "scalar_equal lit a b \<Longrightarrow> equal_tree lit None sub key b a"
  by (blast intro: scalar_equal_tree scalar_equal_sym)

text \<open>
  With no hook the key is not looked at. The induction for the three relational laws goes over
  the wanted document; the objects need distinct keys on both sides, since the strict
  comparison only checks the lengths and one inclusion.
\<close>

lemma same_keys_converse:
  assumes "wf_map w" and "wf_map g" and "length w = length g" and "fst ` set w \<subseteq> fst ` set g"
  shows "fst ` set w = fst ` set g"
proof (rule card_subset_eq)
  show "card (fst ` set w) = card (fst ` set g)"
    using assms(1-3) unfolding wf_map_def by (metis distinct_card list.set_map length_map)
qed (use assms(4) in auto)

lemma strict_obj_keys:
  assumes "equal_obj lit leaf False w g"
  shows "fst ` set w \<subseteq> fst ` set g"
proof
  fix k assume "k \<in> fst ` set w"
  then obtain v where "(k, v) \<in> set w" by auto
  with assms have "map_of g k \<noteq> None" by (force simp: equal_obj_iff split: option.splits)
  then show "k \<in> fst ` set g" by (metis map_of_eq_None_iff)
qed

lemma wf_map_in_map_of: "wf_map m \<Longrightarrow> (k, v) \<in> set m \<longleftrightarrow> map_of m k = Some v"
  by (simp add: wf_map_def)

lemma equal_tree_sym_aux:
  "equal_tree lit leaf sub key a b \<Longrightarrow> leaf = None \<Longrightarrow> \<not> sub \<Longrightarrow> wf_val a \<Longrightarrow> wf_val b \<Longrightarrow>
     equal_tree lit None False key' b a"
  "equal_obj lit leaf sub w g \<Longrightarrow> leaf = None \<Longrightarrow> \<not> sub \<Longrightarrow> wf_entries w \<Longrightarrow> wf_entries g \<Longrightarrow>
     wf_map w \<Longrightarrow> wf_map g \<Longrightarrow>
     (\<forall>(k, wv) \<in> set w. \<forall>gv key'. map_of g k = Some gv \<longrightarrow> equal_tree lit None False key' gv wv)"
  "equal_arr lit leaf sub key xs ys \<Longrightarrow> leaf = None \<Longrightarrow> \<not> sub \<Longrightarrow> wf_vals xs \<Longrightarrow> wf_vals ys \<Longrightarrow>
     length xs = length ys \<Longrightarrow> equal_arr lit None False key' ys xs"
proof (induction lit leaf sub key a b and lit leaf sub w g and lit leaf sub key xs ys
    arbitrary: key' and and key' rule: equal_tree_equal_obj_equal_arr.induct)
  case (1 lit leaf sub key w got)
  then obtain g where g: "got = GObj g" "length w = length g" "equal_obj lit None False w g"
    by (auto split: gval.splits if_splits)
  with 1 have vals: "\<forall>(k, wv) \<in> set w. \<forall>gv key'. map_of g k = Some gv \<longrightarrow> equal_tree lit None False key' gv wv"
    by auto
  have keys: "fst ` set w = fst ` set g"
    using same_keys_converse [of w g] strict_obj_keys [OF g(3)] g "1.prems" by simp
  have "case map_of w k of None \<Rightarrow> False \<and> gv = GNil | Some wv \<Rightarrow> equal_tree lit None False k gv wv"
    if "(k, gv) \<in> set g" for k gv
  proof -
    have "k \<in> fst ` set w" using that keys by force
    then obtain wv where "(k, wv) \<in> set w" by auto
    moreover have "map_of w k = Some wv" "map_of g k = Some gv"
      using calculation that "1.prems" g by (auto simp: wf_map_in_map_of)
    ultimately show ?thesis using vals by auto
  qed
  then have "equal_obj lit None False g w" unfolding equal_obj_iff by blast
  with g show ?case by simp
next
  case (2 lit leaf sub key w got)
  then show ?case by (auto split: gval.splits if_splits)
next
  case (5 lit leaf sub k wv w g)
  then obtain gv where gv: "map_of g k = Some gv" "equal_tree lit None False k wv gv"
      "equal_obj lit None False w g"
    by (auto split: option.splits if_splits)
  then have "wf_val gv" using "5.prems" by (auto simp: wf_entries_iff dest: map_of_SomeD)
  then have hd: "equal_tree lit None False key'' gv wv" for key''
    using "5.IH"(2) [OF gv(1)] gv(2) "5.prems" by simp
  have wf: "wf_entries w" "wf_map w" using "5.prems" by (auto simp: wf_map_def)
  have tl: "\<forall>(k, wv) \<in> set w. \<forall>gv key'. map_of g k = Some gv \<longrightarrow> equal_tree lit None False key' gv wv"
    using "5.IH"(3) [OF gv(1)] gv "5.prems" wf by simp
  show ?case using hd tl gv(1) by auto
next
  case (6 lit leaf sub key x xs y ys)
  then show ?case by (auto split: if_splits)
qed (simp_all add: scalar_equal_tree_sym)

lemma equal_tree_sym:
  "equal_tree lit None False key a b \<Longrightarrow> wf_val a \<Longrightarrow> wf_val b \<Longrightarrow> equal_tree lit None False key' b a"
  by (blast intro: equal_tree_sym_aux(1))

lemma equal_tree_trans_aux:
  "equal_tree lit leaf sub key a b \<Longrightarrow> leaf = None \<Longrightarrow> \<not> sub \<Longrightarrow>
     equal_tree lit None False key' b c \<Longrightarrow> wf_val b \<Longrightarrow> equal_tree lit None False key'' a c"
  "equal_obj lit leaf sub w g \<Longrightarrow> leaf = None \<Longrightarrow> \<not> sub \<Longrightarrow>
     equal_obj lit None False g h \<Longrightarrow> wf_entries g \<Longrightarrow> equal_obj lit None False w h"
  "equal_arr lit leaf sub key xs ys \<Longrightarrow> leaf = None \<Longrightarrow> \<not> sub \<Longrightarrow>
     equal_arr lit None False key' ys zs \<Longrightarrow> wf_vals ys \<Longrightarrow>
     length xs = length ys \<Longrightarrow> length ys = length zs \<Longrightarrow> equal_arr lit None False key'' xs zs"
proof (induction lit leaf sub key a b and lit leaf sub w g and lit leaf sub key xs ys
    arbitrary: key' key'' c and h and key' key'' zs rule: equal_tree_equal_obj_equal_arr.induct)
  case (1 lit leaf sub key w got)
  from "1.prems"(1-3) obtain g where g: "got = GObj g" "length w = length g" "equal_obj lit None False w g"
    by (cases got) (simp_all split: if_splits)
  from g "1.prems"(4) obtain h where h: "c = GObj h" "length g = length h" "equal_obj lit None False g h"
    by (cases c) (simp_all split: if_splits)
  have "wf_entries g" using "1.prems" g by simp
  with "1.IH" g h "1.prems" have "equal_obj lit None False w h" by simp
  with g h show ?case by simp
next
  case (2 lit leaf sub key w got)
  from "2.prems"(1-3) obtain g where g: "got = GArr g" "length w = length g" "equal_arr lit None False key w g"
    by (cases got) (simp_all split: if_splits)
  from g "2.prems"(4) obtain h where h: "c = GArr h" "length g = length h" "equal_arr lit None False key' g h"
    by (cases c) (simp_all split: if_splits)
  have "wf_vals g" using "2.prems" g by simp
  with "2.IH" g h "2.prems" have "equal_arr lit None False key'' w h" by simp
  with g h show ?case by simp
next
  case (5 lit leaf sub k wv w g)
  from "5.prems"(1-3) obtain gv where gv: "map_of g k = Some gv" "equal_tree lit None False k wv gv"
      "equal_obj lit None False w g"
    by (cases "map_of g k") (simp_all split: if_splits)
  then have mem: "(k, gv) \<in> set g" by (simp add: map_of_SomeD)
  have "case map_of h k of None \<Rightarrow> False \<and> gv = GNil | Some hv \<Rightarrow> equal_tree lit None False k gv hv"
    using "5.prems"(4) mem unfolding equal_obj_iff by blast
  then obtain hv where hv: "map_of h k = Some hv" "equal_tree lit None False k gv hv"
    by (cases "map_of h k") simp_all
  have "wf_val gv" using mem "5.prems"(5) by (auto simp: wf_entries_iff)
  then have "equal_tree lit None False k wv hv"
    using "5.IH"(2) [OF gv(1)] gv(2) hv(2) "5.prems"(2,3) by simp
  moreover have "equal_obj lit None False w h"
    using "5.IH"(3) [OF gv(1)] gv(2,3) "5.prems"(2-5) by simp
  ultimately show ?case using hv(1) by simp
next
  case (6 lit leaf sub key x xs y ys)
  then show ?case by (cases zs) (auto split: if_splits)
qed (auto dest: scalar_equal_tree_trans)

lemma equal_tree_trans:
  "equal_tree lit None False key a b \<Longrightarrow> equal_tree lit None False key' b c \<Longrightarrow> wf_val b \<Longrightarrow>
     equal_tree lit None False key'' a c"
  by (blast intro: equal_tree_trans_aux(1))

text \<open>The strict comparison implies the subset comparison.\<close>

lemma equal_tree_weaken_aux:
  "equal_tree lit leaf sub key a b \<Longrightarrow> equal_tree lit leaf True key a b"
  "equal_obj lit leaf sub w g \<Longrightarrow> equal_obj lit leaf True w g"
  "equal_arr lit leaf sub key xs ys \<Longrightarrow> equal_arr lit leaf True key xs ys"
proof (induction lit leaf sub key a b and lit leaf sub w g and lit leaf sub key xs ys
    rule: equal_tree_equal_obj_equal_arr.induct)
qed (auto split: option.splits if_splits gval.splits)

text \<open>
  A key the server added to an object does not change the subset comparison, wherever the
  object is: at the top, or inside another object or list.
\<close>

lemma subset_ignores_added_key:
  assumes "k \<notin> fst ` set w" and "equal_tree lit leaf True key (GObj w) (GObj g)"
  shows "equal_tree lit leaf True key (GObj w) (GObj (put k v g))"
proof -
  have "(k', wv) \<in> set w \<Longrightarrow> k' \<noteq> k" for k' wv using assms(1) by force
  with assms(2) show ?thesis by (fastforce simp: equal_obj_iff)
qed

end
