(* ===== verification/Transport.thy ===== *)
theory Transport
  imports Values
begin

text \<open>
  One caller's view of the client (src/internal/client/client.go): opening and
  authenticating a connection, reconnecting, and sending one request.

  Everything the caller does not decide comes from an environment: what the websocket open
  answers, whether \<open>c.conn\<close> is set when it is read (other goroutines and the read loop
  change it at any time), whether a write succeeds, which branch of a \<open>select\<close> is taken and
  what the server answers. The environment is a script indexed by the number of questions
  asked so far, so a run is a function of the script and every behaviour of the
  environment is some script. What the caller does is recorded in a trace.
\<close>

section \<open>The environment and the trace\<close>

type_synonym duration = int

definition second :: duration where "second = 1000000000"

text \<open>How the final \<open>select\<close> of \<open>send\<close> ends, and with which answer.\<close>

datatype answer =
    Reply gval
  | ReplyError rpc_error
  | Oversized
  | ConnLost string
  | CtxEnded go_error
  | TimedOut

text \<open>\<open>EvSend auth m ps\<close>: the frame of request \<open>m\<close> was handed to the connection; \<open>auth\<close>
  says the connection was being authenticated.\<close>

datatype event =
    EvDial
  | EvSend bool string "gval list"
  | EvPing
  | EvSleep duration
  | EvClose

record env =
  e_endpoint :: string
  e_dial :: "nat \<Rightarrow> string option"
  e_conn :: "nat \<Rightarrow> bool"
  e_closed :: "nat \<Rightarrow> bool"
  e_write :: "nat \<Rightarrow> string option"
  e_answer :: "nat \<Rightarrow> answer"
  e_wait :: "nat \<Rightarrow> go_error option"
  e_slot :: "nat \<Rightarrow> go_error option"
  e_rand :: "nat \<Rightarrow> nat"
  e_nonce :: "nat \<Rightarrow> string + bytes"

record world =
  tick :: nat
  trace :: "event list"

definition ask :: "(nat \<Rightarrow> 'a) \<Rightarrow> world \<Rightarrow> 'a \<times> world" where
  "ask f w = (f (tick w), w\<lparr>tick := Suc (tick w)\<rparr>)"

definition emit :: "event \<Rightarrow> world \<Rightarrow> world" where
  "emit ev w = w\<lparr>trace := trace w @ [ev]\<rparr>"

type_synonym 'w auth_fn = "'w \<Rightarrow> go_error option \<times> 'w"

section \<open>Sending one request: \<open>send\<close>\<close>

text \<open>The outcome of registering, writing and waiting, before the caller's reaction to a
  timeout. \<open>conn.closed\<close> is checked while the call is registered.\<close>

datatype outcome = Failed go_error | Answered gval | NoAnswer

definition write_error :: "string \<Rightarrow> string \<Rightarrow> go_error" where
  "write_error m e = Wrapped [Text ''write '', Text m, Text '': '', Cause (errorf e)]"

definition too_large :: "string \<Rightarrow> go_error" where
  "too_large m = Wrapped [Text m, Text '': '',
     Cause (Wrapped [Cause (Sentinel ErrResponseTooLarge), Text '' (268435456 bytes)''])]"

definition exchange :: "env \<Rightarrow> event \<Rightarrow> string \<Rightarrow> world \<Rightarrow> outcome \<times> world" where
  "exchange env ev m w =
     (let (closed, w1) = ask (e_closed env) w in
      if closed then (Failed (errorf (''write '' @ m @ '': connection closed'')), w1)
      else let (werr, w2) = ask (e_write env) (emit ev w1) in
        case werr of
          Some e \<Rightarrow> (Failed (write_error m e), w2)
        | None \<Rightarrow> let (ans, w3) = ask (e_answer env) w2 in
            (case ans of
               CtxEnded e \<Rightarrow> Failed e
             | TimedOut \<Rightarrow> NoAnswer
             | Oversized \<Rightarrow> Failed (too_large m)
             | ConnLost t \<Rightarrow> Failed (conn_lost (''connection closed: '' @ t))
             | ReplyError e \<Rightarrow> Failed (Api (rpc_api_error e))
             | Reply v \<Rightarrow> Answered v, w3))"

text \<open>\<open>dropIfUnresponsive\<close>: a ping with a deadline of its own, so that it ends one way or the
  other; the connection is closed when the ping fails.\<close>

definition drop_if_unresponsive :: "env \<Rightarrow> world \<Rightarrow> world" where
  "drop_if_unresponsive env w =
     (case exchange env EvPing ''core.ping'' w of
        (Answered v, w1) \<Rightarrow> w1
      | (_, w1) \<Rightarrow> emit EvClose w1)"

definition no_response :: "bool \<Rightarrow> string \<Rightarrow> go_error" where
  "no_response auth m = Wrapped [Text m, Text '': '', Cause (Sentinel ErrNoResponse),
     Text '' after '', Text (if auth then ''2m0s'' else ''10m0s'')]"

definition send :: "env \<Rightarrow> bool \<Rightarrow> string \<Rightarrow> gval list \<Rightarrow> world \<Rightarrow> (go_error + gval) \<times> world" where
  "send env auth m ps w =
     (case exchange env (EvSend auth m ps) m w of
        (Failed e, w1) \<Rightarrow> (Inl e, w1)
      | (Answered v, w1) \<Rightarrow> (Inr v, w1)
      | (NoAnswer, w1) \<Rightarrow> (Inl (no_response auth m), drop_if_unresponsive env w1))"

section \<open>Waiting\<close>

text \<open>
  \<open>jitteredBackoff\<close>: the delay plus a random part below half of it. \<open>rand.Int63n\<close> panics when
  its argument is not positive, which a delay of one nanosecond would cause (\<open>None\<close>).
\<close>

definition jittered_backoff :: "duration \<Rightarrow> nat \<Rightarrow> duration option" where
  "jittered_backoff d r =
     (if d \<le> 0 then Some d
      else if d div 2 \<le> 0 then None
      else Some (d + int r mod (d div 2)))"

definition dial_retry_delays :: "duration list" where
  "dial_retry_delays = [2 * second, 5 * second, 10 * second]"

definition reconnect_retry_delays :: "duration list" where
  "reconnect_retry_delays = [2 * second, 5 * second, 10 * second, 20 * second, 30 * second]"

definition read_retry_delays :: "duration list" where
  "read_retry_delays = [2 * second, 5 * second, 10 * second]"

text \<open>A \<open>select\<close> between the context and a timer; \<open>Some e\<close>: the context ended first.\<close>

definition wait :: "env \<Rightarrow> duration \<Rightarrow> world \<Rightarrow> go_error option \<times> world" where
  "wait env d w = (case ask (e_wait env) (emit (EvSleep d) w) of (r, w1) \<Rightarrow> (r, w1))"

definition jittered_wait :: "env \<Rightarrow> duration \<Rightarrow> world \<Rightarrow> go_error option \<times> world" where
  "jittered_wait env d w =
     (let (r, w1) = ask (e_rand env) w in
      case jittered_backoff d r of
        Some d' \<Rightarrow> wait env d' w1
      | None \<Rightarrow> (Some (errorf ''panic: invalid argument to Int63n''), w1))"

section \<open>Connecting: \<open>dialOnce\<close>, \<open>dial\<close>, \<open>Connect\<close>, \<open>reconnect\<close>\<close>

text \<open>
  \<open>dialOnce\<close>. The authentication function runs on the new connection before it is published;
  the questions to the environment are, in order, the websocket open, whether the connection
  was found closed after a failed authentication, and whether its reader had finished
  when it was to be published.
\<close>

definition dial_once :: "env \<Rightarrow> world auth_fn option \<Rightarrow> world \<Rightarrow> go_error option \<times> world" where
  "dial_once env auth_fn w =
     (let (d, w1) = ask (e_dial env) (emit EvDial w) in
      case d of
        Some t \<Rightarrow> (Some (Wrapped [Text ''websocket dial '', Text (e_endpoint env), Text '': '',
                       Cause (Sentinel ErrDial), Text '': '', Cause (errorf t)]), w1)
      | None \<Rightarrow>
          let (aerr, w2) = (case auth_fn of None \<Rightarrow> (None, w1) | Some f \<Rightarrow> f w1) in
          case aerr of
            Some e \<Rightarrow>
              let (dropped, w3) = ask (e_closed env) w2; w4 = emit EvClose w3 in
              if dropped \<or> errors_is e ErrNoResponse
              then (Some (Wrapped [Text ''websocket '', Text (e_endpoint env), Text '': '',
                      Cause (Sentinel ErrClosedDuringAuth), Text '': '', Text (err_text e)]), w4)
              else (Some e, w4)
          | None \<Rightarrow>
              let (finished, w3) = ask (e_closed env) w2 in
              if finished
              then (Some (Wrapped [Text ''websocket '', Text (e_endpoint env), Text '': '',
                      Cause (Sentinel ErrClosedDuringAuth)]), w3)
              else (None, w3))"

fun dial_loop :: "env \<Rightarrow> world auth_fn option \<Rightarrow> duration list \<Rightarrow> world \<Rightarrow> go_error option \<times> world" where
  "dial_loop env auth_fn ds w =
     (case dial_once env auth_fn w of
        (None, w1) \<Rightarrow> (None, w1)
      | (Some e, w1) \<Rightarrow>
          if \<not> errors_is e ErrClosedDuringAuth then (Some e, w1)
          else (case ds of
              [] \<Rightarrow> (Some e, w1)
            | d # ds' \<Rightarrow> (case jittered_wait env d w1 of
                  (Some ce, w2) \<Rightarrow> (Some ce, w2)
                | (None, w2) \<Rightarrow> dial_loop env auth_fn ds' w2)))"

definition dial :: "env \<Rightarrow> world auth_fn option \<Rightarrow> world \<Rightarrow> go_error option \<times> world" where
  "dial env auth_fn = dial_loop env auth_fn dial_retry_delays"

fun connect_loop :: "env \<Rightarrow> world auth_fn option \<Rightarrow> duration list \<Rightarrow> world \<Rightarrow> go_error option \<times> world" where
  "connect_loop env auth_fn ds w =
     (case dial env auth_fn w of
        (None, w1) \<Rightarrow> (None, w1)
      | (Some e, w1) \<Rightarrow>
          if \<not> errors_is e ErrDial then (Some e, w1)
          else (case ds of
              [] \<Rightarrow> (Some e, w1)
            | d # ds' \<Rightarrow> (case jittered_wait env d w1 of
                  (Some ce, w2) \<Rightarrow> (Some ce, w2)
                | (None, w2) \<Rightarrow> connect_loop env auth_fn ds' w2)))"

definition connect :: "env \<Rightarrow> world auth_fn option \<Rightarrow> world \<Rightarrow> go_error option \<times> world" where
  "connect env auth_fn = connect_loop env auth_fn dial_retry_delays"

definition reconnect :: "env \<Rightarrow> world auth_fn option \<Rightarrow> world \<Rightarrow> go_error option \<times> world" where
  "reconnect env auth_fn w =
     (let (up, w1) = ask (e_conn env) w in
      if up then (None, w1) else dial env auth_fn w1)"

section \<open>\<open>Call\<close>\<close>

text \<open>The loop of \<open>Call\<close> that re-dials while no request has been sent.\<close>

fun await_conn :: "env \<Rightarrow> world auth_fn option \<Rightarrow> duration list \<Rightarrow> world \<Rightarrow> (go_error + unit) \<times> world" where
  "await_conn env auth_fn ds w =
     (let (rerr, w1) = reconnect env auth_fn w; (up, w2) = ask (e_conn env) w1 in
      if up then (Inr (), w2)
      else (case rerr of
          None \<Rightarrow> (Inl (errorf ''not connected''), w2)
        | Some e \<Rightarrow>
            if \<not> errors_is e ErrDial then (Inl (errorf (''not connected: '' @ err_text e)), w2)
            else (case ds of
                [] \<Rightarrow> (Inl (errorf (''not connected: '' @ err_text e)), w2)
              | d # ds' \<Rightarrow> (case wait env d w2 of
                    (Some ce, w3) \<Rightarrow> (Inl ce, w3)
                  | (None, w3) \<Rightarrow> await_conn env auth_fn ds' w3))))"

definition call :: "env \<Rightarrow> world auth_fn option \<Rightarrow> string \<Rightarrow> gval list \<Rightarrow> world \<Rightarrow> (go_error + gval) \<times> world" where
  "call env auth_fn m ps w =
     (let (slot, w1) = ask (e_slot env) w in
      case slot of
        Some ce \<Rightarrow> (Inl ce, w1)
      | None \<Rightarrow>
          let (up, w2) = ask (e_conn env) w1 in
          if up then send env False m ps w2
          else (case await_conn env auth_fn reconnect_retry_delays w2 of
              (Inl e, w3) \<Rightarrow> (Inl e, w3)
            | (Inr _, w3) \<Rightarrow> send env False m ps w3))"

declare dial_loop.simps [simp del] connect_loop.simps [simp del] await_conn.simps [simp del]

lemmas dial_loop_Nil = dial_loop.simps [of _ _ "[]"]
lemmas dial_loop_Cons = dial_loop.simps [of _ _ "d # ds" for d ds]
lemmas connect_loop_Nil = connect_loop.simps [of _ _ "[]"]
lemmas connect_loop_Cons = connect_loop.simps [of _ _ "d # ds" for d ds]
lemmas await_conn_Nil = await_conn.simps [of _ _ "[]"]
lemmas await_conn_Cons = await_conn.simps [of _ _ "d # ds" for d ds]

text \<open>A call made by the authentication function goes straight to the connection being
  authenticated, with no slot and no reconnect.\<close>

definition auth_call :: "env \<Rightarrow> string \<Rightarrow> gval list \<Rightarrow> world \<Rightarrow> (go_error + gval) \<times> world" where
  "auth_call env = send env True"

section \<open>Which requests a run sends\<close>

text \<open>The requests of the caller itself: neither the ones that authenticate a connection nor the
  liveness ping.\<close>

fun own_request :: "event \<Rightarrow> (string \<times> gval list) list" where
  "own_request (EvSend False m ps) = [(m, ps)]"
| "own_request _ = []"

definition requests :: "world \<Rightarrow> (string \<times> gval list) list" where
  "requests w = concat (map own_request (trace w))"

text \<open>A step that sends no request of the caller's own.\<close>

definition quiet :: "(world \<Rightarrow> 'r \<times> world) \<Rightarrow> bool" where
  "quiet f \<longleftrightarrow> (\<forall>w. requests (snd (f w)) = requests w)"

definition quiet_auth :: "world auth_fn option \<Rightarrow> bool" where
  "quiet_auth a \<longleftrightarrow> (case a of None \<Rightarrow> True | Some f \<Rightarrow> quiet f)"

lemma requests_emit [simp]: "requests (emit ev w) = requests w @ own_request ev"
  by (simp add: requests_def emit_def)

lemma requests_tick [simp]: "requests (w\<lparr>tick := n\<rparr>) = requests w"
  by (simp add: requests_def)

lemma ask_requests: "ask f w = (a, w') \<Longrightarrow> requests w' = requests w"
  by (auto simp: ask_def)

lemma requests_ask [simp]: "requests (snd (ask f w)) = requests w"
  by (simp add: ask_def)

lemma quietD: "quiet f \<Longrightarrow> f w = (r, w') \<Longrightarrow> requests w' = requests w"
  unfolding quiet_def by (metis snd_conv)

lemma exchange_requests:
  "exchange env ev m w = (r, w') \<Longrightarrow>
     requests w' = requests w \<or> requests w' = requests w @ own_request ev"
  by (auto simp: exchange_def Let_def split: prod.splits if_splits option.splits dest!: ask_requests)

lemma exchange_answered:
  "exchange env ev m w = (Answered v, w') \<Longrightarrow> requests w' = requests w @ own_request ev"
  by (auto simp: exchange_def Let_def split: prod.splits if_splits option.splits answer.splits
      dest!: ask_requests)

lemma exchange_no_answer:
  "exchange env ev m w = (NoAnswer, w') \<Longrightarrow> requests w' = requests w @ own_request ev"
  by (auto simp: exchange_def Let_def split: prod.splits if_splits option.splits answer.splits
      dest!: ask_requests)

lemma drop_quiet [simp]: "requests (drop_if_unresponsive env w) = requests w"
  using exchange_requests [of env EvPing]
  by (fastforce simp: drop_if_unresponsive_def split: prod.splits outcome.splits)

lemma send_requests:
  "send env False m ps w = (r, w') \<Longrightarrow> requests w' = requests w \<or> requests w' = requests w @ [(m, ps)]"
  using exchange_requests [of env "EvSend False m ps" m w]
  by (auto simp: send_def split: prod.splits outcome.splits)

lemma send_answered:
  "send env False m ps w = (Inr v, w') \<Longrightarrow> requests w' = requests w @ [(m, ps)]"
  using exchange_answered [of env "EvSend False m ps" m w]
  by (auto simp: send_def split: prod.splits outcome.splits)

lemma auth_call_quiet: "quiet (auth_call env m ps)"
  using exchange_requests [of env "EvSend True m ps" m]
  by (fastforce simp: quiet_def auth_call_def send_def split: prod.splits outcome.splits)

lemma wait_quiet: "quiet (wait env d)"
  by (simp add: quiet_def wait_def split: prod.splits)

lemma quietI: "(\<And>w r w'. f w = (r, w') \<Longrightarrow> requests w' = requests w) \<Longrightarrow> quiet f"
  unfolding quiet_def by (metis prod.collapse)

lemma jittered_wait_quiet: "quiet (jittered_wait env d)"
  by (rule quietI) (auto simp: jittered_wait_def Let_def split: prod.splits option.splits
      dest!: ask_requests quietD [OF wait_quiet])

lemma auth_step_requests:
  "quiet_auth a \<Longrightarrow> (case a of None \<Rightarrow> (None, w) | Some f \<Rightarrow> f w) = (r, w') \<Longrightarrow> requests w' = requests w"
  by (auto simp: quiet_auth_def split: option.splits dest: quietD)

lemma dial_once_quiet: "quiet_auth a \<Longrightarrow> quiet (dial_once env a)"
  by (rule quietI) (auto simp: dial_once_def Let_def simp del: split_paired_All
      split: prod.splits option.splits(2) if_splits dest!: ask_requests auth_step_requests)

lemma dial_loop_quiet: "quiet_auth a \<Longrightarrow> dial_loop env a ds w = (r, w') \<Longrightarrow> requests w' = requests w"
proof (induction ds arbitrary: w)
  case Nil
  then show ?case
    by (auto simp: dial_loop_Nil split: prod.splits option.splits if_splits
        dest: quietD [OF dial_once_quiet])
next
  case (Cons d ds)
  then show ?case
    by (auto simp: dial_loop_Cons split: prod.splits option.splits if_splits
        dest!: quietD [OF dial_once_quiet] quietD [OF jittered_wait_quiet])
qed

lemma dial_quiet: "quiet_auth a \<Longrightarrow> quiet (dial env a)"
  unfolding dial_def by (rule quietI) (rule dial_loop_quiet)

lemma reconnect_quiet: "quiet_auth a \<Longrightarrow> quiet (reconnect env a)"
  by (rule quietI) (auto simp: reconnect_def Let_def split: prod.splits if_splits
      dest!: ask_requests quietD [OF dial_quiet])

lemma await_conn_quiet:
  "quiet_auth a \<Longrightarrow> await_conn env a ds w = (r, w') \<Longrightarrow> requests w' = requests w"
proof (induction ds arbitrary: w)
  case Nil
  then show ?case
    by (auto simp: await_conn_Nil Let_def split: prod.splits option.splits if_splits
        dest!: quietD [OF reconnect_quiet] ask_requests)
next
  case (Cons d ds)
  then show ?case
    by (auto simp: await_conn_Cons Let_def split: prod.splits option.splits if_splits
        dest!: quietD [OF reconnect_quiet] quietD [OF wait_quiet] ask_requests)
qed

lemma call_requests:
  assumes "quiet_auth a" and "call env a m ps w = (r, w')"
  shows "requests w' = requests w \<or> requests w' = requests w @ [(m, ps)]"
  using assms by (auto simp: call_def Let_def split: prod.splits option.splits if_splits sum.splits
      dest!: ask_requests send_requests await_conn_quiet)

lemma call_answered:
  assumes "quiet_auth a" and "call env a m ps w = (Inr v, w')"
  shows "requests w' = requests w @ [(m, ps)]"
  using assms by (auto simp: call_def Let_def split: prod.splits option.splits if_splits sum.splits
      dest!: ask_requests send_answered await_conn_quiet)

end
