(* ===== verification/Sha512.thy ===== *)
theory Sha512
  imports Prelude "HOL-Library.Word"
begin

text \<open>
  The parts of Go's packages crypto/sha512, crypto/hmac and crypto/pbkdf2 that the SCRAM login
  uses: SHA-512 on 64-bit words, HMAC, and PBKDF2 with one output block.
\<close>

unbundle bit_operations_syntax

section \<open>SHA-512\<close>

type_synonym w64 = "64 word"

text \<open>
  The round constants are the first 64 bits of the fractional parts of the cube roots of the
  first eighty primes, and the initial state those of the square roots of the first
  eight; \<open>root_bits k n\<close> is the integer \<open>k\<close>-th root, found bit by bit.
\<close>

definition root_bits :: "nat \<Rightarrow> nat \<Rightarrow> nat" where
  "root_bits k n = foldl (\<lambda>r b. if (r + 2 ^ b) ^ k \<le> n then r + 2 ^ b else r) 0 (rev [0..<70])"

definition small_primes :: "nat list" where
  "small_primes = filter (\<lambda>p. list_all (\<lambda>d. p mod d \<noteq> 0) [2..<p]) [2..<410]"

definition root_constant :: "nat \<Rightarrow> nat \<Rightarrow> w64" where
  "root_constant k p = of_nat (root_bits k (p * 2 ^ (64 * k)))"

definition sha512_k :: "w64 list" where
  "sha512_k = map (root_constant 3) small_primes"

definition sha512_init :: "w64 list" where
  "sha512_init = map (root_constant 2) (take 8 small_primes)"

definition nat_bytes :: "nat \<Rightarrow> nat \<Rightarrow> bytes" where
  "nat_bytes k n = map (\<lambda>i. char_of (n div 256 ^ (k - 1 - i) mod 256)) [0..<k]"

definition bytes_word :: "bytes \<Rightarrow> w64" where
  "bytes_word bs = foldl (\<lambda>a c. push_bit 8 a OR of_nat (ord_of c)) 0 bs"

definition word_bytes :: "w64 \<Rightarrow> bytes" where
  "word_bytes w = nat_bytes 8 (unat w)"

definition sha512_pad :: "bytes \<Rightarrow> bytes" where
  "sha512_pad m = m @ [char_of (0x80 :: nat)] @
     replicate ((239 - length m mod 128) mod 128) (char_of (0 :: nat)) @ nat_bytes 16 (8 * length m)"

function chunks :: "nat \<Rightarrow> 'a list \<Rightarrow> 'a list list" where
  "chunks n xs = (if n = 0 \<or> xs = [] then [] else take n xs # chunks n (drop n xs))"
  by pat_completeness auto
termination
  by (relation "measure (\<lambda>(n, xs). length xs)") auto

declare chunks.simps [simp del]

definition small_sigma0 :: "w64 \<Rightarrow> w64" where
  "small_sigma0 x = word_rotr 1 x XOR word_rotr 8 x XOR drop_bit 7 x"

definition small_sigma1 :: "w64 \<Rightarrow> w64" where
  "small_sigma1 x = word_rotr 19 x XOR word_rotr 61 x XOR drop_bit 6 x"

definition big_sigma0 :: "w64 \<Rightarrow> w64" where
  "big_sigma0 x = word_rotr 28 x XOR word_rotr 34 x XOR word_rotr 39 x"

definition big_sigma1 :: "w64 \<Rightarrow> w64" where
  "big_sigma1 x = word_rotr 14 x XOR word_rotr 18 x XOR word_rotr 41 x"

definition schedule_next :: "w64 list \<Rightarrow> w64 list" where
  "schedule_next ws = (let t = length ws in
     ws @ [small_sigma1 (ws ! (t - 2)) + ws ! (t - 7) + small_sigma0 (ws ! (t - 15)) + ws ! (t - 16)])"

definition schedule :: "bytes \<Rightarrow> w64 list" where
  "schedule block = (schedule_next ^^ 64) (map bytes_word (chunks 8 block))"

datatype hstate = HState w64 w64 w64 w64 w64 w64 w64 w64

fun sha512_round :: "hstate \<Rightarrow> w64 \<times> w64 \<Rightarrow> hstate" where
  "sha512_round (HState a b c d e f g h) (k, w) =
     (let t1 = h + big_sigma1 e + ((e AND f) XOR (NOT e AND g)) + k + w;
          t2 = big_sigma0 a + ((a AND b) XOR (a AND c) XOR (b AND c))
      in HState (t1 + t2) a b c (d + t1) e f g)"

fun hwords :: "hstate \<Rightarrow> w64 list" where
  "hwords (HState a b c d e f g h) = [a, b, c, d, e, f, g, h]"

fun hstate_of :: "w64 list \<Rightarrow> hstate" where
  "hstate_of [a, b, c, d, e, f, g, h] = HState a b c d e f g h"
| "hstate_of _ = HState 0 0 0 0 0 0 0 0"

definition sha512_block :: "hstate \<Rightarrow> bytes \<Rightarrow> hstate" where
  "sha512_block st block =
     hstate_of (map2 (+) (hwords st) (hwords (foldl sha512_round st (zip sha512_k (schedule block)))))"

definition sha512 :: "bytes \<Rightarrow> bytes" where
  "sha512 m = concat (map word_bytes
     (hwords (foldl sha512_block (hstate_of sha512_init) (chunks 128 (sha512_pad m)))))"

lemma length_nat_bytes [simp]: "length (nat_bytes k n) = k"
  by (simp add: nat_bytes_def)

lemma length_sha512 [simp]: "length (sha512 m) = 64"
proof -
  have "length (hwords st) = 8" for st by (cases st) simp
  then show ?thesis
    by (cases "foldl sha512_block (hstate_of sha512_init) (chunks 128 (sha512_pad m))")
       (simp add: sha512_def word_bytes_def)
qed

section \<open>HMAC and PBKDF2\<close>

definition byte_xor :: "char \<Rightarrow> char \<Rightarrow> char" where
  "byte_xor a b = char_of (ord_of a XOR ord_of b)"

definition xor_bytes :: "bytes \<Rightarrow> bytes \<Rightarrow> bytes" where
  "xor_bytes = map2 byte_xor"

definition hmac_block_key :: "bytes \<Rightarrow> bytes" where
  "hmac_block_key key = (let k = (if 128 < length key then sha512 key else key)
     in k @ replicate (128 - length k) (char_of (0 :: nat)))"

definition hmac_sha512 :: "bytes \<Rightarrow> bytes \<Rightarrow> bytes" where
  "hmac_sha512 key m = (let k = hmac_block_key key in
     sha512 (map (byte_xor (char_of (0x5c :: nat))) k @
       sha512 (map (byte_xor (char_of (0x36 :: nat))) k @ m)))"

text \<open>The running value of HMAC and the XOR of all of them, for \<open>n\<close> further iterations.\<close>

fun pbkdf2_loop :: "bytes \<Rightarrow> nat \<Rightarrow> bytes \<Rightarrow> bytes \<Rightarrow> bytes" where
  "pbkdf2_loop secret 0 u t = t"
| "pbkdf2_loop secret (Suc n) u t =
     (let u' = hmac_sha512 secret u in pbkdf2_loop secret n u' (xor_bytes t u'))"

definition pbkdf2_sha512 :: "bytes \<Rightarrow> bytes \<Rightarrow> nat \<Rightarrow> bytes" where
  "pbkdf2_sha512 secret salt iterations =
     (let u = hmac_sha512 secret (salt @ nat_bytes 4 1)
      in pbkdf2_loop secret (iterations - 1) u u)"

lemma length_hmac [simp]: "length (hmac_sha512 key m) = 64"
  by (simp add: hmac_sha512_def Let_def)

lemma length_xor_bytes [simp]: "length (xor_bytes a b) = min (length a) (length b)"
  by (simp add: xor_bytes_def)

lemma length_pbkdf2 [simp]: "length (pbkdf2_sha512 secret salt n) = 64"
proof -
  have "length t = 64 \<Longrightarrow> length (pbkdf2_loop secret k u t) = 64" for k u t
    by (induction k arbitrary: u t) (simp_all add: Let_def)
  then show ?thesis by (simp add: pbkdf2_sha512_def Let_def)
qed

lemma byte_xor_less: "ord_of a XOR ord_of b < 256"
proof -
  have "(ord_of a XOR ord_of b) = take_bit 8 (ord_of a XOR ord_of b)"
    by (simp add: take_bit_xor) (simp add: take_bit_nat_eq_self)
  also have "\<dots> < 2 ^ 8" by (rule take_bit_nat_less_exp)
  finally show ?thesis by simp
qed

lemma byte_xor_cancel [simp]: "byte_xor (byte_xor a b) b = a"
  by (simp add: byte_xor_def byte_xor_less xor.assoc flip: ord_of_inject)

lemma xor_bytes_cancel: "length a \<le> length b \<Longrightarrow> xor_bytes (xor_bytes a b) b = a"
proof (induction a arbitrary: b)
  case (Cons x a)
  then show ?case by (cases b) (simp_all add: xor_bytes_def)
qed (simp add: xor_bytes_def)

end
