(* ===== verification/Scram.thy ===== *)
theory Scram
  imports Transport Sha512
begin

text \<open>
  SCRAM-SHA-512 login with an API key (src/internal/client/scram.go), with the standard
  base64 encoding its messages use. The server's side of RFC 5802 is stated beside it, as
  the specification the client's messages are checked against.
\<close>

section \<open>Package encoding/base64\<close>

definition b64_alphabet :: string where
  "b64_alphabet = ''ABCDEFGHIJKLMNOPQRSTUVWXYZabcdefghijklmnopqrstuvwxyz0123456789+/''"

definition b64_char :: "nat \<Rightarrow> char" where
  "b64_char n = b64_alphabet ! n"

definition b64_val :: "char \<Rightarrow> nat option" where
  "b64_val c = (let n = ord_of c in
     if 65 \<le> n \<and> n \<le> 90 then Some (n - 65)
     else if 97 \<le> n \<and> n \<le> 122 then Some (n - 71)
     else if 48 \<le> n \<and> n \<le> 57 then Some (n + 4)
     else if n = 43 then Some 62
     else if n = 47 then Some 63
     else None)"

fun b64_encode :: "bytes \<Rightarrow> string" where
  "b64_encode [] = []"
| "b64_encode [a] =
     (let x = ord_of a in [b64_char (x div 4), b64_char (x mod 4 * 16)] @ ''='' @ ''='')"
| "b64_encode [a, b] =
     (let x = ord_of a; y = ord_of b in
      [b64_char (x div 4), b64_char (x mod 4 * 16 + y div 16), b64_char (y mod 16 * 4)] @ ''='')"
| "b64_encode (a # b # c # r) =
     (let x = ord_of a; y = ord_of b; z = ord_of c in
      [b64_char (x div 4), b64_char (x mod 4 * 16 + y div 16),
       b64_char (y mod 16 * 4 + z div 64), b64_char (z mod 64)] @ b64_encode r)"

text \<open>The non-strict decoder: carriage returns and line feeds are skipped, and the unused low
  bits of the last group are not looked at.\<close>

fun b64_groups :: "string \<Rightarrow> bytes option" where
  "b64_groups [] = Some []"
| "b64_groups (a # b # c # d # r) =
     (case (b64_val a, b64_val b) of
        (Some x, Some y) \<Rightarrow>
          (if c = CHR ''='' then
             (if d = CHR ''='' \<and> r = [] then Some [char_of (x * 4 + y div 16)] else None)
           else (case b64_val c of
               None \<Rightarrow> None
             | Some z \<Rightarrow>
                 if d = CHR ''='' then
                   (if r = [] then Some [char_of (x * 4 + y div 16), char_of (y mod 16 * 16 + z div 4)]
                    else None)
                 else (case (b64_val d, b64_groups r) of
                     (Some v, Some bs) \<Rightarrow>
                       Some (char_of (x * 4 + y div 16) # char_of (y mod 16 * 16 + z div 4) #
                         char_of (z mod 4 * 64 + v) # bs)
                   | _ \<Rightarrow> None)))
      | _ \<Rightarrow> None)"
| "b64_groups _ = None"

definition b64_decode :: "string \<Rightarrow> bytes option" where
  "b64_decode s = b64_groups (filter (\<lambda>c. ord_of c \<noteq> 10 \<and> ord_of c \<noteq> 13) s)"

definition b64_entry_ok :: "nat \<times> char \<Rightarrow> bool" where
  "b64_entry_ok e \<longleftrightarrow> b64_val (snd e) = Some (fst e) \<and> snd e \<noteq> CHR ''='' \<and>
     ord_of (snd e) \<noteq> 10 \<and> ord_of (snd e) \<noteq> 13 \<and> snd e \<noteq> CHR '',''"

lemma b64_table: "list_all b64_entry_ok (List.enumerate 0 b64_alphabet)"
  by (simp add: b64_alphabet_def b64_entry_ok_def b64_val_def ord_of_def Let_def)

lemma b64_chars_aux: "n < 64 \<Longrightarrow> b64_entry_ok (n, b64_char n)"
proof -
  assume n: "n < 64"
  have l: "length b64_alphabet = 64" by (simp add: b64_alphabet_def)
  with n have "List.enumerate 0 b64_alphabet ! n = (n, b64_char n)"
    by (simp add: nth_enumerate_eq b64_char_def)
  with n l show ?thesis
    using b64_table by (metis length_enumerate list_all_length)
qed

lemma b64_val_char [simp]: "n < 64 \<Longrightarrow> b64_val (b64_char n) = Some n"
  using b64_chars_aux [of n] by (simp add: b64_entry_ok_def)

lemma b64_char_clean [simp]:
  "n < 64 \<Longrightarrow> b64_char n \<noteq> CHR ''=''" "n < 64 \<Longrightarrow> ord_of (b64_char n) \<noteq> 10"
  "n < 64 \<Longrightarrow> ord_of (b64_char n) \<noteq> 13" "n < 64 \<Longrightarrow> b64_char n \<noteq> CHR '',''"
  using b64_chars_aux [of n] by (simp_all add: b64_entry_ok_def)

lemma byte_div4 [simp]: "ord_of c div 4 < 64"
  using ord_of_less [of c] by linarith

lemma byte_div16 [simp]: "ord_of c div 16 < 16"
  using ord_of_less [of c] by linarith

lemma byte_div64 [simp]: "ord_of c div 64 < 4"
  using ord_of_less [of c] by linarith

lemma six_bits [simp]:
  "(x::nat) mod 4 * 16 < 64" "(x::nat) mod 16 * 4 < 64"
  "y < 16 \<Longrightarrow> (x::nat) mod 4 * 16 + y < 64" "y < 4 \<Longrightarrow> (x::nat) mod 16 * 4 + y < 64"
  by presburger+

lemma clean_encode: "\<forall>c \<in> set (b64_encode bs). ord_of c \<noteq> 10 \<and> ord_of c \<noteq> 13"
  by (induction bs rule: b64_encode.induct) (auto simp: Let_def, simp_all add: ord_of_def)

lemma unpack1: "x < 256 \<Longrightarrow> x div 4 * 4 + (x mod 4 * 16 + y div 16) div 16 = x" if "y < 256" for x y :: nat
proof -
  have "(x mod 4 * 16 + y div 16) div 16 = x mod 4"
    using that by (simp add: div_add_self1 less_mult_imp_div_less)
  then show ?thesis by presburger
qed

lemma unpack2: "(x mod 4 * 16 + y div 16) mod 16 * 16 + (y mod 16 * 4 + z div 64) div 4 = y"
  if "y < 256" "z < 256" for x y z :: nat
proof -
  have a: "y div 16 < 16" and b: "z div 64 < 4" using that by linarith+
  have "(x mod 4 * 16 + y div 16) mod 16 = y div 16" using a by simp
  moreover have "(y mod 16 * 4 + z div 64) div 4 = y mod 16" using b by simp
  ultimately show ?thesis by simp
qed

lemma unpack3: "(y mod 16 * 4 + z div 64) mod 4 * 64 + z mod 64 = z" if "z < 256" for y z :: nat
proof -
  have "z div 64 < 4" using that by linarith
  then have "(y mod 16 * 4 + z div 64) mod 4 = z div 64" by simp
  then show ?thesis by simp
qed

lemma unpack1' [simp]: "x < 256 \<Longrightarrow> x div 4 * 4 + (x mod 4 * 16) div 16 = (x::nat)"
  using unpack1 [of 0 x] by simp

lemma unpack2' [simp]: "y < 256 \<Longrightarrow> (x mod 4 * 16 + y div 16) mod 16 * 16 + (y mod 16 * 4) div 4 = (y::nat)"
  using unpack2 [of y 0 x] by simp

lemmas unpack_bytes = unpack1 unpack2 unpack3

lemma b64_groups_encode: "b64_groups (b64_encode bs) = Some bs"
  by (induction bs rule: b64_encode.induct) (simp_all add: Let_def unpack_bytes)

lemma b64_decode_encode: "b64_decode (b64_encode bs) = Some bs"
proof -
  have "filter (\<lambda>c. ord_of c \<noteq> 10 \<and> ord_of c \<noteq> 13) (b64_encode bs) = b64_encode bs"
    using clean_encode by (simp add: filter_id_conv)
  then show ?thesis by (simp add: b64_decode_def b64_groups_encode)
qed

section \<open>The conversation\<close>

record scram =
  sc_client_first_bare :: string
  sc_client_nonce_raw :: bytes
  sc_server_first :: string
  sc_server_nonce :: string
  sc_salted_password :: bytes

definition new_scram :: scram where
  "new_scram = \<lparr>sc_client_first_bare = [], sc_client_nonce_raw = [], sc_server_first = [],
     sc_server_nonce = [], sc_salted_password = []\<rparr>"

definition new_scram_nonce :: "string + bytes \<Rightarrow> go_error + bytes" where
  "new_scram_nonce rnd = (case rnd of
      Inl e \<Rightarrow> Inl (Wrapped [Text ''scram nonce: '', Cause (errorf e)])
    | Inr b \<Rightarrow> Inr b)"

definition client_first_message :: "string \<Rightarrow> int \<Rightarrow> bytes \<Rightarrow> scram \<Rightarrow> string \<times> scram" where
  "client_first_message username key_id nonce sc =
     (let bare = ''n='' @ username @ '':'' @ itoa key_id @ '',r='' @ b64_encode nonce
      in (''n,,'' @ bare, sc\<lparr>sc_client_nonce_raw := nonce, sc_client_first_bare := bare\<rparr>))"

text \<open>The loop over the attributes of the server-first message: nonce, salt and iterations.\<close>

fun scan_parts :: "string list \<Rightarrow> string \<times> bytes \<times> int \<Rightarrow> go_error + string \<times> bytes \<times> int" where
  "scan_parts [] st = Inr st"
| "scan_parts (p # ps) (r, s, i) =
     (case cut CHR ''='' p of (k, v, ok) \<Rightarrow>
       if \<not> ok then scan_parts ps (r, s, i)
       else if k = ''r'' then scan_parts ps (v, s, i)
       else if k = ''s'' then
         (case b64_decode v of
            None \<Rightarrow> Inl (errorf ''scram: invalid salt encoding: illegal base64 data'')
          | Some b \<Rightarrow> scan_parts ps (r, b, i))
       else if k = ''i'' then
         (case atoi v of
            (n, None) \<Rightarrow> scan_parts ps (r, s, n)
          | _ \<Rightarrow> Inl (errorf (''scram: invalid iteration count '' @ quoted v)))
       else scan_parts ps (r, s, i))"

definition process_server_first :: "string \<Rightarrow> string \<Rightarrow> scram \<Rightarrow> go_error + scram" where
  "process_server_first server_first secret sc =
     (case scan_parts (split_on CHR '','' server_first) (sc_server_nonce sc, [], 0) of
        Inl e \<Rightarrow> Inl e
      | Inr (nonce, salt, iterations) \<Rightarrow>
          (case b64_decode nonce of
             None \<Rightarrow> Inl (errorf ''scram: invalid server nonce encoding: illegal base64 data'')
           | Some combined \<Rightarrow>
               if length combined \<le> length (sc_client_nonce_raw sc) \<or>
                  \<not> has_prefix combined (sc_client_nonce_raw sc)
               then Inl (errorf ''scram: server nonce does not extend client nonce'')
               else if length salt \<noteq> 16
               then Inl (errorf (''scram: salt must be 16 bytes, got '' @ itoa (int (length salt))))
               else if iterations < 50000 \<or> 5000000 < iterations
               then Inl (errorf (''scram: iteration count '' @ itoa iterations @
                      '' outside 50000..5000000''))
               else Inr (sc\<lparr>sc_server_first := server_first, sc_server_nonce := nonce,
                      sc_salted_password := pbkdf2_sha512 secret salt (nat iterations)\<rparr>)))"

definition client_final_without_proof :: "scram \<Rightarrow> string" where
  "client_final_without_proof sc = ''c='' @ b64_encode ''n,,'' @ '',r='' @ sc_server_nonce sc"

definition auth_message :: "scram \<Rightarrow> string" where
  "auth_message sc = sc_client_first_bare sc @ '','' @ sc_server_first sc @ '','' @
     client_final_without_proof sc"

definition client_proof :: "scram \<Rightarrow> bytes" where
  "client_proof sc =
     (let client_key = hmac_sha512 (sc_salted_password sc) ''Client Key'';
          stored_key = sha512 client_key;
          client_signature = hmac_sha512 stored_key (auth_message sc)
      in xor_bytes client_key client_signature)"

definition client_final_message :: "scram \<Rightarrow> string" where
  "client_final_message sc = client_final_without_proof sc @ '',p='' @ b64_encode (client_proof sc)"

definition verify_server_final :: "string \<Rightarrow> scram \<Rightarrow> go_error option" where
  "verify_server_final server_final sc =
     (if \<not> has_prefix server_final ''v='' then Some (errorf ''scram: malformed server-final message'')
      else (case b64_decode (trim_prefix server_final ''v='') of
          None \<Rightarrow> Some (errorf ''scram: invalid server signature encoding: illegal base64 data'')
        | Some got \<Rightarrow>
            let server_key = hmac_sha512 (sc_salted_password sc) ''Server Key'';
                want = hmac_sha512 server_key (auth_message sc)
            in if got \<noteq> want then Some (errorf ''scram: server signature verification failed'')
               else None))"

definition split_api_key :: "string \<Rightarrow> go_error + int \<times> string" where
  "split_api_key key = (case cut CHR ''-'' key of (id_str, secret, ok) \<Rightarrow>
     if \<not> ok then Inl (errorf ''invalid API key format (want <id>-<secret>)'')
     else (case atoi id_str of
         (i, None) \<Rightarrow> Inr (i, secret)
       | _ \<Rightarrow> Inl (errorf (''invalid API key ID '' @ quoted id_str))))"

section \<open>Over the connection\<close>

record scram_login_response =
  lr_response_type :: string
  lr_scram_type :: string
  lr_rfc_str :: string

definition decode_login_response :: "gval \<Rightarrow> scram_login_response option" where
  "decode_login_response v = do {
     m \<leftarrow> as_object v;
     t \<leftarrow> as_string (field m ''response_type'');
     s \<leftarrow> as_string (field m ''scram_type'');
     r \<leftarrow> as_string (field m ''rfc_str'');
     Some \<lparr>lr_response_type = t, lr_scram_type = s, lr_rfc_str = r\<rparr> }"

definition login_ex_params :: "string \<Rightarrow> string \<Rightarrow> gval list" where
  "login_ex_params scram_type rfc_str =
     [GObj [(''mechanism'', GStr ''SCRAM''), (''scram_type'', GStr scram_type), (''rfc_str'', GStr rfc_str)]]"

definition scram_step :: "env \<Rightarrow> string \<Rightarrow> string \<Rightarrow> world \<Rightarrow> (go_error + scram_login_response) \<times> world" where
  "scram_step env scram_type rfc_str w =
     (case auth_call env ''auth.login_ex'' (login_ex_params scram_type rfc_str) w of
        (Inl e, w1) \<Rightarrow>
          (Inl (Wrapped [Text ''auth.login_ex '', Text scram_type, Text '': '', Cause e]), w1)
      | (Inr raw, w1) \<Rightarrow>
          (case decode_login_response raw of
             None \<Rightarrow> (Inl (Wrapped [Text ''parse auth.login_ex response: '', Cause (errorf ''json'')]), w1)
           | Some resp \<Rightarrow>
               if lr_response_type resp \<noteq> ''SCRAM_RESPONSE''
               then (Inl (errorf (''scram '' @ scram_type @ '' rejected: response_type '' @
                       lr_response_type resp)), w1)
               else (Inr resp, w1)))"

definition auth_api_key_scram :: "env \<Rightarrow> string \<Rightarrow> string \<Rightarrow> world \<Rightarrow> go_error option \<times> world" where
  "auth_api_key_scram env username api_key w =
     (case split_api_key api_key of
        Inl e \<Rightarrow> (Some e, w)
      | Inr (key_id, secret) \<Rightarrow>
          let (rnd, w1) = ask (e_nonce env) w in
          case new_scram_nonce rnd of
            Inl e \<Rightarrow> (Some e, w1)
          | Inr nonce \<Rightarrow>
              let (msg, sc) = client_first_message username key_id nonce new_scram in
              (case scram_step env ''CLIENT_FIRST_MESSAGE'' msg w1 of
                 (Inl e, w2) \<Rightarrow> (Some e, w2)
               | (Inr first, w2) \<Rightarrow>
                   (case process_server_first (lr_rfc_str first) secret sc of
                      Inl e \<Rightarrow> (Some e, w2)
                    | Inr sc1 \<Rightarrow>
                        (case scram_step env ''CLIENT_FINAL_MESSAGE'' (client_final_message sc1) w2 of
                           (Inl e, w3) \<Rightarrow> (Some e, w3)
                         | (Inr final, w3) \<Rightarrow> (verify_server_final (lr_rfc_str final) sc1, w3)))))"

section \<open>The server's side of RFC 5802\<close>

text \<open>
  What a server that knows the salted password sends and checks: it remembers the client's
  bare first message and its own first message, strips the proof from the final one,
  and accepts when hashing the client key recovered from the proof gives the stored key.
\<close>

definition server_first_message :: "bytes \<Rightarrow> bytes \<Rightarrow> int \<Rightarrow> string" where
  "server_first_message combined salt i =
     ''r='' @ b64_encode combined @ CHR '','' # ''s='' @ b64_encode salt @ CHR '','' # ''i='' @ itoa i"

definition server_accepts :: "bytes \<Rightarrow> string \<Rightarrow> string \<Rightarrow> string \<Rightarrow> bool" where
  "server_accepts salted bare server_first client_final =
     (case cut_last CHR '','' client_final of
        None \<Rightarrow> False
      | Some (without_proof, p) \<Rightarrow>
          (case b64_decode (trim_prefix p ''p='') of
             None \<Rightarrow> False
           | Some proof \<Rightarrow>
               let stored_key = sha512 (hmac_sha512 salted ''Client Key'');
                   signature = hmac_sha512 stored_key
                     (bare @ '','' @ server_first @ '','' @ without_proof)
               in has_prefix p ''p='' \<and> sha512 (xor_bytes proof signature) = stored_key))"

definition server_final_message :: "bytes \<Rightarrow> string \<Rightarrow> string \<Rightarrow> string \<Rightarrow> string" where
  "server_final_message salted bare server_first without_proof =
     ''v='' @ b64_encode (hmac_sha512 (hmac_sha512 salted ''Server Key'')
       (bare @ '','' @ server_first @ '','' @ without_proof))"

lemma b64_no_comma: "CHR '','' \<notin> set (b64_encode bs)"
proof -
  have "n < 64 \<Longrightarrow> CHR '','' \<noteq> b64_char n" for n using b64_char_clean(4) by metis
  then show ?thesis by (induction bs rule: b64_encode.induct) (auto simp: Let_def)
qed

lemma itoa_no_comma: "CHR '','' \<notin> set (itoa n)"
proof
  assume "CHR '','' \<in> set (itoa n)"
  moreover have "\<not> is_digit CHR '',''" by (simp add: is_digit_def ord_of_def)
  ultimately show False
    using nat_digits_digits by (auto simp: itoa_def split: if_splits)
qed

lemma scan_server_first:
  assumes "length salt = 16" and "50000 \<le> i" and "i \<le> 5000000"
  shows "scan_parts (split_on CHR '','' (server_first_message combined salt i)) (r0, [], 0) =
    Inr (b64_encode combined, salt, i)"
proof -
  have parts: "split_on CHR '','' (server_first_message combined salt i) =
      [''r='' @ b64_encode combined, ''s='' @ b64_encode salt, ''i='' @ itoa i]"
    using split_on_append [of "CHR '',''" "''r='' @ b64_encode combined"]
      split_on_append [of "CHR '',''" "''s='' @ b64_encode salt"]
      split_on_none [of "CHR '',''" "''i='' @ itoa i"] b64_no_comma itoa_no_comma
    by (simp add: server_first_message_def)
  have "atoi (itoa i) = (i, None)"
    using assms by (intro atoi_itoa) (simp_all add: min_int64_def max_int64_def)
  then show ?thesis by (simp add: parts b64_decode_encode)
qed

lemma process_honest_first:
  assumes "length salt = 16" and "50000 \<le> i" and "i \<le> 5000000" and "snonce \<noteq> []"
    and "sf = server_first_message (sc_client_nonce_raw sc @ snonce) salt i"
  shows "process_server_first sf secret sc =
    Inr (sc\<lparr>sc_server_first := sf, sc_server_nonce := b64_encode (sc_client_nonce_raw sc @ snonce),
      sc_salted_password := pbkdf2_sha512 secret salt (nat i)\<rparr>)"
  using assms scan_server_first [of salt i] by (simp add: process_server_first_def b64_decode_encode)

lemma length_client_proof [simp]: "length (client_proof sc) = 64"
  by (simp add: client_proof_def Let_def)

lemma proof_recovers_client_key:
  "xor_bytes (client_proof sc)
     (hmac_sha512 (sha512 (hmac_sha512 (sc_salted_password sc) ''Client Key'')) (auth_message sc)) =
   hmac_sha512 (sc_salted_password sc) ''Client Key''"
  by (simp add: client_proof_def Let_def xor_bytes_cancel)

lemma server_accepts_client:
  "server_accepts (sc_salted_password sc) (sc_client_first_bare sc) (sc_server_first sc)
     (client_final_message sc)"
proof -
  have p: "CHR '','' \<notin> set (''p='' @ b64_encode (client_proof sc))"
    using b64_no_comma by simp
  have "cut_last CHR '','' (client_final_message sc) =
      Some (client_final_without_proof sc, ''p='' @ b64_encode (client_proof sc))"
    using cut_last_append [OF p, of "client_final_without_proof sc"]
    by (simp add: client_final_message_def)
  then show ?thesis
    using proof_recovers_client_key [of sc]
    by (simp add: server_accepts_def trim_prefix_def has_prefix_def b64_decode_encode
        auth_message_def Let_def)
qed

lemma verify_server_final_iff:
  "verify_server_final fin sc = None \<longleftrightarrow>
     (\<exists>s. fin = ''v='' @ s \<and>
        b64_decode s = Some (hmac_sha512 (hmac_sha512 (sc_salted_password sc) ''Server Key'')
          (auth_message sc)))"
  by (auto simp: verify_server_final_def has_prefix_iff trim_prefix_def Let_def
      split: option.splits if_splits)

lemma client_accepts_server:
  "verify_server_final (server_final_message (sc_salted_password sc) (sc_client_first_bare sc)
     (sc_server_first sc) (client_final_without_proof sc)) sc = None"
  by (auto simp: verify_server_final_iff server_final_message_def auth_message_def b64_decode_encode)

lemma process_server_first_safe:
  assumes "process_server_first sf secret sc = Inr sc1"
  shows "\<exists>combined salt i. b64_decode (sc_server_nonce sc1) = Some combined \<and>
    has_prefix combined (sc_client_nonce_raw sc) \<and>
    length (sc_client_nonce_raw sc) < length combined \<and>
    length salt = 16 \<and> 50000 \<le> i \<and> i \<le> 5000000 \<and>
    sc_salted_password sc1 = pbkdf2_sha512 secret salt (nat i) \<and> sc_server_first sc1 = sf"
  using assms
  by (auto simp: process_server_first_def not_le not_less
      split: sum.splits prod.splits option.splits if_splits) blast

section \<open>An honest server as an environment\<close>

text \<open>The answers of a server that knows the API key's secret, to a login that starts with the
  \<open>t\<close>th question: the nonce is drawn first, then each message takes three questions.\<close>

definition login_reply :: "string \<Rightarrow> string \<Rightarrow> answer" where
  "login_reply scram_type rfc_str = Reply (GObj [(''response_type'', GStr ''SCRAM_RESPONSE''),
     (''scram_type'', GStr scram_type), (''rfc_str'', GStr rfc_str)])"

definition honest_env ::
  "string \<Rightarrow> int \<Rightarrow> string \<Rightarrow> bytes \<Rightarrow> bytes \<Rightarrow> bytes \<Rightarrow> int \<Rightarrow> nat \<Rightarrow> env" where
  "honest_env username key_id secret nonce snonce salt i t =
     (let bare = ''n='' @ username @ '':'' @ itoa key_id @ '',r='' @ b64_encode nonce;
          first = server_first_message (nonce @ snonce) salt i;
          without_proof = ''c='' @ b64_encode ''n,,'' @ '',r='' @ b64_encode (nonce @ snonce);
          final = server_final_message (pbkdf2_sha512 secret salt (nat i)) bare first without_proof
      in \<lparr>e_endpoint = ''wss://nas/api/current'', e_dial = \<lambda>_. None, e_conn = \<lambda>_. True,
          e_closed = \<lambda>_. False, e_write = \<lambda>_. None,
          e_answer = \<lambda>n. if n = t + 3 then login_reply ''SERVER_FIRST_RESPONSE'' first
                          else login_reply ''SERVER_FINAL_RESPONSE'' final,
          e_wait = \<lambda>_. None, e_slot = \<lambda>_. None, e_rand = \<lambda>_. 0, e_nonce = \<lambda>_. Inr nonce\<rparr>)"

lemma scram_step_reply:
  assumes "e_closed env (tick w) = False" and "e_write env (Suc (tick w)) = None"
    and "e_answer env (Suc (Suc (tick w))) = login_reply st rfc"
  shows "scram_step env t msg w =
    (Inr \<lparr>lr_response_type = ''SCRAM_RESPONSE'', lr_scram_type = st, lr_rfc_str = rfc\<rparr>,
     w\<lparr>tick := Suc (Suc (Suc (tick w))),
       trace := trace w @ [EvSend True ''auth.login_ex'' (login_ex_params t msg)]\<rparr>)"
  using assms
  by (simp add: scram_step_def auth_call_def send_def exchange_def ask_def emit_def login_reply_def
      decode_login_response_def field_def Let_def)

lemma scram_honest_login:
  assumes "split_api_key key = Inr (key_id, secret)"
    and "length salt = 16" and "50000 \<le> i" and "i \<le> 5000000" and "snonce \<noteq> []"
  shows "fst (auth_api_key_scram (honest_env username key_id secret nonce snonce salt i (tick w))
    username key w) = None"
proof -
  let ?env = "honest_env username key_id secret nonce snonce salt i (tick w)"
  let ?first = "server_first_message (nonce @ snonce) salt i"
  define bare where "bare = ''n='' @ username @ '':'' @ itoa key_id @ '',r='' @ b64_encode nonce"
  define sc where "sc = new_scram\<lparr>sc_client_nonce_raw := nonce, sc_client_first_bare := bare\<rparr>"
  define sc1 where "sc1 = sc\<lparr>sc_server_first := ?first, sc_server_nonce := b64_encode (nonce @ snonce),
      sc_salted_password := pbkdf2_sha512 secret salt (nat i)\<rparr>"
  have cfm: "client_first_message username key_id nonce new_scram = (''n,,'' @ bare, sc)"
    by (simp add: client_first_message_def bare_def sc_def Let_def)
  have psf: "process_server_first ?first secret sc = Inr sc1"
    using process_honest_first [of salt i snonce ?first sc secret] assms
    by (simp add: sc_def sc1_def)
  define final where "final = server_final_message (sc_salted_password sc1)
      (sc_client_first_bare sc1) (sc_server_first sc1) (client_final_without_proof sc1)"
  have env: "e_closed ?env n = False" "e_write ?env n = None" "e_nonce ?env n = Inr nonce"
    "e_answer ?env (tick w + 3) = login_reply ''SERVER_FIRST_RESPONSE'' ?first"
    "n \<noteq> tick w + 3 \<Longrightarrow> e_answer ?env n = login_reply ''SERVER_FINAL_RESPONSE'' final" for n
    by (simp_all add: honest_env_def Let_def final_def sc1_def sc_def bare_def
        client_final_without_proof_def)
  have "verify_server_final final sc1 = None"
    unfolding final_def by (rule client_accepts_server)
  then show ?thesis
    using assms(1) cfm psf env
    by (simp add: auth_api_key_scram_def ask_def new_scram_nonce_def scram_step_reply
        eval_nat_numeral)
qed

lemma process_keeps_bare:
  "process_server_first sf secret sc = Inr sc1 \<Longrightarrow> sc_client_first_bare sc1 = sc_client_first_bare sc"
  by (auto simp: process_server_first_def split: sum.splits prod.splits option.splits if_splits)

lemma scram_success_verified:
  assumes "auth_api_key_scram env username key w = (None, w')"
  shows "\<exists>key_id secret nonce sc final. split_api_key key = Inr (key_id, secret) \<and>
    process_server_first (sc_server_first sc) secret
      (snd (client_first_message username key_id nonce new_scram)) = Inr sc \<and>
    verify_server_final final sc = None"
proof -
  have "sc_server_first sc1 = f" if "process_server_first f x y = Inr sc1" for f x y sc1
    using process_server_first_safe [OF that] by blast
  then show ?thesis
    using assms
    by (auto simp: auth_api_key_scram_def Let_def split: sum.splits prod.splits) (metis snd_conv)+
qed

section \<open>Properties\<close>





text \<open>The standard base64 decoder inverts the encoder on every byte string, so salts, nonces,
  proofs and signatures survive the wire.\<close>

theorem base64_roundtrip: "b64_decode (b64_encode bs) = Some bs"
  by (rule b64_decode_encode)

end
