(* ===== verification/Rpc.thy ===== *)
theory Rpc
  imports Transport
begin

text \<open>
  The calls resources make (src/internal/client/callread.go, jobs.go): idempotent reads with
  retries, calls that may run as jobs on the server, and the server version. They
  use three operations of the client below them: one call, a wait that a context
  can end, and a re-dial.
\<close>

record 'w ops =
  op_call :: "string \<Rightarrow> gval list \<Rightarrow> 'w \<Rightarrow> (go_error + gval) \<times> 'w"
  op_pause :: "duration \<Rightarrow> 'w \<Rightarrow> go_error option \<times> 'w"
  op_redial :: "'w \<Rightarrow> go_error option \<times> 'w"

section \<open>\<open>CallRead\<close>\<close>

fun call_read_loop :: "'w ops \<Rightarrow> duration list \<Rightarrow> string \<Rightarrow> gval list \<Rightarrow> 'w \<Rightarrow> (go_error + gval) \<times> 'w" where
  "call_read_loop os ds m ps w =
     (case op_call os m ps w of
        (Inr v, w1) \<Rightarrow> (Inr v, w1)
      | (Inl e, w1) \<Rightarrow>
          if \<not> is_transient (Some e) then (Inl e, w1)
          else (case ds of
              [] \<Rightarrow> (Inl e, w1)
            | d # ds' \<Rightarrow> (case op_pause os d w1 of
                  (Some ce, w2) \<Rightarrow> (Inl ce, w2)
                | (None, w2) \<Rightarrow> call_read_loop os ds' m ps (snd (op_redial os w2)))))"

definition call_read :: "'w ops \<Rightarrow> string \<Rightarrow> gval list \<Rightarrow> 'w \<Rightarrow> (go_error + gval) \<times> 'w" where
  "call_read os = call_read_loop os read_retry_delays"

declare call_read_loop.simps [simp del]

lemmas call_read_Nil = call_read_loop.simps [of _ "[]"]
lemmas call_read_Cons = call_read_loop.simps [of _ "d # ds" for d ds]

section \<open>Jobs\<close>

text \<open>What the client caches: the job flags of the methods of each service, and the version.\<close>

record 'w client =
  cl_world :: 'w
  cl_jobs :: "bool gomap gomap"
  cl_version :: string

record job_entry =
  jb_id :: int
  jb_state :: string
  jb_result :: gval
  jb_error :: string

definition decode_job :: "gval \<Rightarrow> job_entry option" where
  "decode_job v = do {
     m \<leftarrow> as_object v;
     i \<leftarrow> as_int64 (field m ''id'');
     st \<leftarrow> as_string (field m ''state'');
     er \<leftarrow> as_string (field m ''error'');
     Some \<lparr>jb_id = i, jb_state = st, jb_result = field m ''result'', jb_error = er\<rparr> }"

definition job_poll_interval :: duration where "job_poll_interval = 2 * second"

definition max_job_poll_misses :: nat where "max_job_poll_misses = 5"

definition decode_job_flags :: "gval \<Rightarrow> bool gomap option" where
  "decode_job_flags v = do {
     ms \<leftarrow> as_object v;
     map_opt (\<lambda>(name, x). do { f \<leftarrow> as_object x; b \<leftarrow> as_bool (field f ''job''); Some (name, b) }) ms }"

text \<open>\<open>methodIsJob\<close>: the two results are \<open>isJob\<close> and \<open>known\<close>.\<close>

definition job_flag :: "bool gomap \<Rightarrow> string \<Rightarrow> bool \<times> bool" where
  "job_flag flags m = (case map_of flags m of None \<Rightarrow> (False, False) | Some b \<Rightarrow> (b, True))"

definition method_is_job :: "'w ops \<Rightarrow> string \<Rightarrow> 'w client \<Rightarrow> (bool \<times> bool) \<times> 'w client" where
  "method_is_job os m c =
     (case cut_last CHR ''.'' m of
        None \<Rightarrow> ((False, False), c)
      | Some (service, _) \<Rightarrow>
          if service = [] then ((False, False), c)
          else (case map_of (cl_jobs c) service of
              Some flags \<Rightarrow> (job_flag flags m, c)
            | None \<Rightarrow>
                (case call_read os ''core.get_methods'' [GStr service] (cl_world c) of
                   (Inl e, w1) \<Rightarrow> ((False, False), c\<lparr>cl_world := w1\<rparr>)
                 | (Inr raw, w1) \<Rightarrow>
                     (case decode_job_flags raw of
                        None \<Rightarrow> ((False, False), c\<lparr>cl_world := w1\<rparr>)
                      | Some flags \<Rightarrow> (job_flag flags m,
                          c\<lparr>cl_world := w1, cl_jobs := put service flags (cl_jobs c)\<rparr>)))))"

text \<open>One poll of \<open>waitJob\<close>: wait for the ticker, read the job's entry.\<close>

datatype poll = PollErr go_error | PollMiss | PollEntry job_entry

definition job_query :: "int \<Rightarrow> gval list" where
  "job_query i = [GArr [GArr [GStr ''id'', GStr ''='', GInt i]]]"

definition poll_job :: "'w ops \<Rightarrow> int \<Rightarrow> 'w \<Rightarrow> poll \<times> 'w" where
  "poll_job os i w =
     (case op_pause os job_poll_interval w of
        (Some ce, w1) \<Rightarrow> (PollErr ce, w1)
      | (None, w1) \<Rightarrow>
          (case call_read os ''core.get_jobs'' (job_query i) w1 of
             (Inl e, w2) \<Rightarrow>
               (PollErr (Wrapped [Text ''polling job '', Text (itoa i), Text '': '', Cause e]), w2)
           | (Inr v, w2) \<Rightarrow>
               (case as_list decode_job v of
                  None \<Rightarrow> (PollMiss, w2)
                | Some [] \<Rightarrow> (PollMiss, w2)
                | Some (j # _) \<Rightarrow> (PollEntry j, w2))))"

definition job_not_found :: "int \<Rightarrow> go_error" where
  "job_not_found i = errorf (''polling job '' @ itoa i @ '': job not found in core.get_jobs'')"

definition job_failed :: "int \<Rightarrow> job_entry \<Rightarrow> go_error" where
  "job_failed i j = errorf (''job '' @ itoa i @ '' '' @ jb_state j @ '': '' @ jb_error j)"

text \<open>What one poll means: \<open>Some\<close> result ends the loop, \<open>None\<close> keeps polling with the number
  of misses in a row given second.\<close>

definition poll_step :: "int \<Rightarrow> gval \<Rightarrow> bool \<Rightarrow> nat \<Rightarrow> poll \<Rightarrow> (go_error + gval) option \<times> nat" where
  "poll_step i raw known misses p = (case p of
      PollErr e \<Rightarrow> (Some (Inl e), misses)
    | PollMiss \<Rightarrow>
        if max_job_poll_misses \<le> misses + 1
        then (Some (if known then Inl (job_not_found i) else Inr raw), misses + 1)
        else (None, misses + 1)
    | PollEntry j \<Rightarrow>
        if jb_state j = ''SUCCESS'' then (Some (Inr (jb_result j)), 0)
        else if jb_state j \<in> {''FAILED'', ''ABORTED''} then (Some (Inl (job_failed i j)), 0)
        else (None, 0))"

text \<open>The polling loop has no bound of its own: a job may run for days. \<open>None\<close> is a run that
  polls for ever.\<close>

partial_function (option) wait_job ::
  "'w ops \<Rightarrow> int \<Rightarrow> gval \<Rightarrow> bool \<Rightarrow> nat \<Rightarrow> 'w \<Rightarrow> ((go_error + gval) \<times> 'w) option" where
  "wait_job os i raw known misses w =
     (case poll_job os i w of (p, w1) \<Rightarrow>
       (case poll_step i raw known misses p of
          (Some r, _) \<Rightarrow> Some (r, w1)
        | (None, misses') \<Rightarrow> wait_job os i raw known misses' w1))"

definition call_job ::
  "'w ops \<Rightarrow> string \<Rightarrow> gval list \<Rightarrow> 'w client \<Rightarrow> ((go_error + gval) \<times> 'w client) option" where
  "call_job os m ps c =
     (case op_call os m ps (cl_world c) of
        (Inl e, w1) \<Rightarrow> Some (Inl e, c\<lparr>cl_world := w1\<rparr>)
      | (Inr raw, w1) \<Rightarrow>
          (case method_is_job os m (c\<lparr>cl_world := w1\<rparr>) of ((isjob, known), c1) \<Rightarrow>
            if known \<and> \<not> isjob then Some (Inr raw, c1)
            else (case as_int64 raw of
                None \<Rightarrow> Some (Inr raw, c1)
              | Some i \<Rightarrow>
                  if i = 0 then Some (Inr raw, c1)
                  else map_option (\<lambda>(r, w2). (r, c1\<lparr>cl_world := w2\<rparr>))
                         (wait_job os i raw known 0 (cl_world c1)))))"

section \<open>The server version\<close>

definition decode_error :: go_error where
  "decode_error = errorf ''json: cannot unmarshal''"

definition server_version :: "'w ops \<Rightarrow> 'w client \<Rightarrow> (go_error + string) \<times> 'w client" where
  "server_version os c =
     (if cl_version c \<noteq> [] then (Inr (cl_version c), c)
      else (case call_read os ''system.version_short'' [] (cl_world c) of
          (Inl e, w1) \<Rightarrow> (Inl e, c\<lparr>cl_world := w1\<rparr>)
        | (Inr raw, w1) \<Rightarrow>
            (case as_string raw of
               None \<Rightarrow> (Inl decode_error, c\<lparr>cl_world := w1\<rparr>)
             | Some v \<Rightarrow> (Inr v, c\<lparr>cl_world := w1, cl_version := v\<rparr>))))"


section \<open>Reads: retried on transient failures only\<close>

lemma call_read_hard_error:
  assumes "op_call os m ps w = (Inl e, w1)" and "\<not> is_transient (Some e)"
  shows "call_read_loop os ds m ps w = (Inl e, w1)"
  using assms by (subst call_read_loop.simps) simp

text \<open>The state before attempt \<open>k\<close> when every earlier attempt failed and was waited out.\<close>

fun read_state :: "'w ops \<Rightarrow> string \<Rightarrow> gval list \<Rightarrow> duration list \<Rightarrow> nat \<Rightarrow> 'w \<Rightarrow> 'w" where
  "read_state os m ps (d # ds) (Suc k) w =
     read_state os m ps ds k (snd (op_redial os (snd (op_pause os d (snd (op_call os m ps w))))))"
| "read_state os m ps ds k w = w"

definition transient_result :: "go_error + 'a \<Rightarrow> bool" where
  "transient_result r \<longleftrightarrow> (case r of Inl e \<Rightarrow> is_transient (Some e) | Inr _ \<Rightarrow> False)"

lemma call_read_loop_recovers:
  assumes "k \<le> length ds"
    and "\<forall>j < k. transient_result (fst (op_call os m ps (read_state os m ps ds j w)))"
    and "\<forall>d w. fst (op_pause os d w) = None"
    and "fst (op_call os m ps (read_state os m ps ds k w)) = Inr v"
  shows "fst (call_read_loop os ds m ps w) = Inr v"
  using assms
proof (induction ds arbitrary: w k)
  case Nil
  then show ?case by (cases "op_call os m ps w") (simp add: call_read_Nil)
next
  case (Cons d ds)
  obtain r w1 where c: "op_call os m ps w = (r, w1)" by fastforce
  obtain w2 where p: "op_pause os d w1 = (None, w2)"
    using Cons.prems(3) by (metis prod.collapse)
  show ?case
  proof (cases k)
    case 0
    with Cons.prems c show ?thesis by (simp add: call_read_Cons)
  next
    case (Suc k')
    from Cons.prems(2) Suc have "transient_result (fst (op_call os m ps (read_state os m ps (d # ds) 0 w)))"
      by blast
    with c obtain e where e: "r = Inl e" "is_transient (Some e)"
      by (auto simp: transient_result_def split: sum.splits)
    let ?w = "snd (op_redial os w2)"
    have "fst (call_read_loop os ds m ps ?w) = Inr v"
    proof (rule Cons.IH [of k'])
      show "k' \<le> length ds" using Cons.prems(1) Suc by simp
      show "\<forall>j < k'. transient_result (fst (op_call os m ps (read_state os m ps ds j ?w)))"
        using Cons.prems(2) Suc c p by (auto dest: spec [where x = "Suc j" for j])
      show "\<forall>d w. fst (op_pause os d w) = None" by (rule Cons.prems(3))
      show "fst (op_call os m ps (read_state os m ps ds k' ?w)) = Inr v"
        using Cons.prems(4) Suc c p by simp
    qed
    with c p e show ?thesis by (simp add: call_read_Cons)
  qed
qed

section \<open>Waiting for a job\<close>

primrec after_polls :: "'w ops \<Rightarrow> int \<Rightarrow> nat \<Rightarrow> 'w \<Rightarrow> 'w" where
  "after_polls os i 0 w = w"
| "after_polls os i (Suc k) w = after_polls os i k (snd (poll_job os i w))"

definition nth_poll :: "'w ops \<Rightarrow> int \<Rightarrow> nat \<Rightarrow> 'w \<Rightarrow> poll" where
  "nth_poll os i k w = fst (poll_job os i (after_polls os i k w))"

lemma nth_poll_simps [simp]:
  "nth_poll os i 0 w = fst (poll_job os i w)"
  "nth_poll os i (Suc k) w = nth_poll os i k (snd (poll_job os i w))"
  by (simp_all add: nth_poll_def)

text \<open>A poll that ends the loop whatever came before it: an error or a finished job.\<close>

definition settles :: "poll \<Rightarrow> bool" where
  "settles p = (case p of
      PollErr _ \<Rightarrow> True
    | PollMiss \<Rightarrow> False
    | PollEntry j \<Rightarrow> jb_state j \<in> {''SUCCESS'', ''FAILED'', ''ABORTED''})"

lemma settles_step: "settles p \<Longrightarrow> fst (poll_step i raw known misses p) \<noteq> None"
  by (auto simp: settles_def poll_step_def split: poll.splits)

lemma wait_job_step:
  "wait_job os i raw known misses w =
     (case poll_step i raw known misses (fst (poll_job os i w)) of
        (Some r, _) \<Rightarrow> Some (r, snd (poll_job os i w))
      | (None, misses') \<Rightarrow> wait_job os i raw known misses' (snd (poll_job os i w)))"
  by (subst wait_job.simps) (auto split: prod.splits option.splits)

lemma wait_job_ends:
  "settles (nth_poll os i k w) \<Longrightarrow> \<exists>r w'. wait_job os i raw known misses w = Some (r, w')"
proof (induction k arbitrary: w misses)
  case 0
  then have "fst (poll_step i raw known misses (fst (poll_job os i w))) \<noteq> None"
    by (intro settles_step) simp
  then show ?case by (subst wait_job_step) (auto split: prod.splits option.splits)
next
  case (Suc k)
  then show ?case by (subst wait_job_step) (auto split: prod.splits option.splits)
qed

lemma wait_job_misses:
  assumes "\<forall>j < k. nth_poll os i j w = PollMiss" and "misses + k = max_job_poll_misses" and "0 < k"
  shows "wait_job os i raw known misses w =
    Some (if known then Inl (job_not_found i) else Inr raw, after_polls os i k w)"
  using assms
proof (induction k arbitrary: w misses)
  case (Suc k)
  from Suc.prems(1) have "nth_poll os i 0 w = PollMiss" by blast
  then have p: "fst (poll_job os i w) = PollMiss" by simp
  show ?case
  proof (cases "k = 0")
    case True
    with Suc.prems p show ?thesis by (subst wait_job_step) (simp add: poll_step_def)
  next
    case False
    have "wait_job os i raw known (misses + 1) (snd (poll_job os i w)) =
        Some (if known then Inl (job_not_found i) else Inr raw,
              after_polls os i k (snd (poll_job os i w)))"
    proof (rule Suc.IH)
      show "\<forall>j < k. nth_poll os i j (snd (poll_job os i w)) = PollMiss"
        using Suc.prems(1) by (metis Suc_less_eq nth_poll_simps(2))
    qed (use Suc.prems False in auto)
    with Suc.prems False p show ?thesis
      by (subst wait_job_step) (simp add: poll_step_def)
  qed
qed simp

text \<open>Where a result comes from.\<close>

definition job_outcome :: "'w ops \<Rightarrow> int \<Rightarrow> gval \<Rightarrow> bool \<Rightarrow> nat \<Rightarrow> 'w \<Rightarrow> go_error + gval \<Rightarrow> bool" where
  "job_outcome os i raw known k w r = (case nth_poll os i k w of
      PollErr e \<Rightarrow> r = Inl e
    | PollMiss \<Rightarrow> r = (if known then Inl (job_not_found i) else Inr raw)
    | PollEntry j \<Rightarrow>
        (jb_state j = ''SUCCESS'' \<and> r = Inr (jb_result j)) \<or>
        (jb_state j \<in> {''FAILED'', ''ABORTED''} \<and> r = Inl (job_failed i j)))"

lemma wait_job_sound_aux:
  assumes "wait_job os i raw known misses w = Some res"
  shows "\<exists>k. snd res = after_polls os i (Suc k) w \<and> job_outcome os i raw known k w (fst res)"
proof (rule wait_job.raw_induct [OF _ assms, where P = "\<lambda>os i raw known misses w res.
    \<exists>k. snd res = after_polls os i (Suc k) w \<and> job_outcome os i raw known k w (fst res)"])
  fix wait_job :: "'a ops \<Rightarrow> int \<Rightarrow> gval \<Rightarrow> bool \<Rightarrow> nat \<Rightarrow> 'a \<Rightarrow> ((go_error + gval) \<times> 'a) option"
  fix os :: "'a ops" and i raw known misses w res
  assume IH: "\<And>os i raw known misses w res. wait_job os i raw known misses w = Some res \<Longrightarrow>
      \<exists>k. snd res = after_polls os i (Suc k) w \<and> job_outcome os i raw known k w (fst res)"
    and run: "(case poll_job os i w of (p, w1) \<Rightarrow>
        (case poll_step i raw known misses p of
           (Some r, _) \<Rightarrow> Some (r, w1)
         | (None, misses') \<Rightarrow> wait_job os i raw known misses' w1)) = Some res"
  obtain p w1 where p: "poll_job os i w = (p, w1)" by fastforce
  obtain st misses' where st: "poll_step i raw known misses p = (st, misses')" by fastforce
  show "\<exists>k. snd res = after_polls os i (Suc k) w \<and> job_outcome os i raw known k w (fst res)"
  proof (cases st)
    case (Some r0)
    with run p st have res: "res = (r0, w1)" by simp
    moreover have "job_outcome os i raw known 0 w r0"
      using Some st p by (auto simp: job_outcome_def poll_step_def split: poll.splits if_splits)
    moreover have "snd res = after_polls os i (Suc 0) w" using res p by simp
    ultimately show ?thesis by (metis fst_conv)
  next
    case None
    with run p st have "wait_job os i raw known misses' w1 = Some res" by simp
    from IH [OF this] obtain k where
      "snd res = after_polls os i (Suc k) w1" "job_outcome os i raw known k w1 (fst res)" by blast
    with p show ?thesis by (intro exI [where x = "Suc k"] conjI) (simp_all add: job_outcome_def)
  qed
qed

lemma wait_job_sound:
  "wait_job os i raw known misses w = Some (r, w') \<Longrightarrow>
     \<exists>k. w' = after_polls os i (Suc k) w \<and> job_outcome os i raw known k w r"
  using wait_job_sound_aux [of os i raw known misses w "(r, w')"] by simp

section \<open>What reaches the server\<close>

text \<open>
  The contract of the operations below: a call hands its request over at most once, and
  exactly once when it has an answer; waiting and re-dialling hand over none.
  Every statement about duplicated mutations rests on it.
\<close>

locale rpc =
  fixes os :: "'w ops" and sent :: "'w \<Rightarrow> (string \<times> gval list) list"
  assumes call_once: "op_call os m ps w = (r, w1) \<Longrightarrow> sent w1 = sent w \<or> sent w1 = sent w @ [(m, ps)]"
    and call_exact: "op_call os m ps w = (Inr v, w1) \<Longrightarrow> sent w1 = sent w @ [(m, ps)]"
    and pause_quiet: "op_pause os d w = (e, w1) \<Longrightarrow> sent w1 = sent w"
    and redial_quiet: "op_redial os w = (e, w1) \<Longrightarrow> sent w1 = sent w"
begin

lemma redial_snd: "sent (snd (op_redial os w)) = sent w"
  using redial_quiet by (metis prod.collapse)

lemma read_sends:
  "call_read_loop os ds m ps w = (r, w1) \<Longrightarrow>
     \<exists>n \<le> Suc (length ds). sent w1 = sent w @ replicate n (m, ps)"
proof (induction ds arbitrary: w)
  case Nil
  obtain r0 w0 where c: "op_call os m ps w = (r0, w0)" by fastforce
  with Nil have "w1 = w0" by (auto simp: call_read_Nil split: sum.splits if_splits)
  with call_once [OF c] show ?case
    by (auto intro: exI [where x = 0] exI [where x = 1])
next
  case (Cons d ds)
  obtain r0 w0 where c: "op_call os m ps w = (r0, w0)" by fastforce
  from call_once [OF c] obtain k where k: "k \<le> 1" "sent w0 = sent w @ replicate k (m, ps)"
    by (auto intro: that [of 0] that [of 1])
  show ?case
  proof (cases "w1 = w0")
    case True
    with k show ?thesis by (intro exI [where x = k]) simp
  next
    case False
    obtain e w2 where p: "op_pause os d w0 = (e, w2)" by fastforce
    from pause_quiet [OF p] have q: "sent w2 = sent w0" .
    show ?thesis
    proof (cases e)
      case None
      with Cons.prems c p False have "call_read_loop os ds m ps (snd (op_redial os w2)) = (r, w1)"
        by (auto simp: call_read_Cons split: sum.splits if_splits)
      from Cons.IH [OF this] obtain n where "n \<le> Suc (length ds)"
        "sent w1 = sent w2 @ replicate n (m, ps)" by (auto simp: redial_snd)
      with k q show ?thesis by (intro exI [where x = "k + n"]) (simp add: replicate_add)
    next
      case (Some ce)
      with Cons.prems c p False have "w1 = w2"
        by (auto simp: call_read_Cons split: sum.splits if_splits)
      with k q show ?thesis by (intro exI [where x = k]) simp
    qed
  qed
qed

lemma call_read_sends:
  "call_read os m ps w = (r, w1) \<Longrightarrow> \<exists>n \<le> 4. sent w1 = sent w @ replicate n (m, ps)"
  unfolding call_read_def by (drule read_sends) (simp add: read_retry_delays_def eval_nat_numeral)

lemma poll_sends: "\<exists>n. sent (snd (poll_job os i w)) = sent w @ replicate n (''core.get_jobs'', job_query i)"
proof -
  obtain e w1 where p: "op_pause os job_poll_interval w = (e, w1)" by fastforce
  obtain r w2 where c: "call_read os ''core.get_jobs'' (job_query i) w1 = (r, w2)" by fastforce
  have "snd (poll_job os i w) \<in> {w1, w2}"
    using p c by (auto simp: poll_job_def split: option.splits sum.splits list.splits)
  with pause_quiet [OF p] call_read_sends [OF c] show ?thesis
    by (auto intro: exI [where x = 0])
qed

lemma polls_send: "\<exists>n. sent (after_polls os i k w) = sent w @ replicate n (''core.get_jobs'', job_query i)"
proof (induction k arbitrary: w)
  case 0
  show ?case by (auto intro: exI [where x = 0])
next
  case (Suc k)
  from poll_sends [of i w] Suc.IH [of "snd (poll_job os i w)"] show ?case
    by (auto simp flip: replicate_add)
qed

lemma method_is_job_sends:
  "method_is_job os m c = (r, c1) \<Longrightarrow>
     \<exists>n ps. sent (cl_world c1) = sent (cl_world c) @ replicate n (''core.get_methods'', ps)"
  by (auto simp: method_is_job_def intro: exI [where x = 0]
      split: option.splits prod.splits sum.splits if_splits dest!: call_read_sends)

lemma wait_job_sends:
  assumes "wait_job os i raw known misses w = Some (r, w1)"
  shows "\<exists>n. sent w1 = sent w @ replicate n (''core.get_jobs'', job_query i)"
  using wait_job_sound [OF assms] polls_send by blast

lemma call_job_sends:
  assumes "call_job os m ps c = Some (r, c1)"
  shows "\<exists>k \<le> 1. \<exists>reads. (\<forall>x \<in> set reads. fst x \<in> {''core.get_methods'', ''core.get_jobs''}) \<and>
    sent (cl_world c1) = sent (cl_world c) @ replicate k (m, ps) @ reads"
proof -
  obtain r0 w0 where c: "op_call os m ps (cl_world c) = (r0, w0)" by fastforce
  from call_once [OF c] obtain k where k: "k \<le> 1" "sent w0 = sent (cl_world c) @ replicate k (m, ps)"
    by (auto intro: that [of 0] that [of 1])
  show ?thesis
  proof (cases r0)
    case (Inl e)
    with assms c k show ?thesis by (intro exI [where x = k]) (auto simp: call_job_def)
  next
    case (Inr raw)
    obtain j c2 where mj: "method_is_job os m (c\<lparr>cl_world := w0\<rparr>) = (j, c2)" by fastforce
    from method_is_job_sends [OF mj] obtain n q where
      n: "sent (cl_world c2) = sent w0 @ replicate n (''core.get_methods'', q)" by auto
    have "\<exists>n' i. sent (cl_world c1) = sent (cl_world c2) @ replicate n' (''core.get_jobs'', job_query i)"
      using assms c Inr mj
      by (auto simp: call_job_def intro: exI [where x = 0] split: prod.splits if_splits option.splits
          dest!: wait_job_sends)
    then obtain n' i where "sent (cl_world c1) = sent (cl_world c2) @
        replicate n' (''core.get_jobs'', job_query i)" by blast
    with k n show ?thesis
      by (intro exI [where x = k] conjI exI [where x = "replicate n (''core.get_methods'', q) @
          replicate n' (''core.get_jobs'', job_query i)"]) auto
  qed
qed

end

section \<open>Properties\<close>

text \<open>A server on which one job runs for \<open>n\<close> polls and then succeeds; the world counts calls.\<close>

definition job_ops :: "nat \<Rightarrow> nat ops" where
  "job_ops n = \<lparr>op_call = \<lambda>m ps t. (Inr (GArr [GObj [(''id'', GNumber ''7''),
       (''state'', GStr (if t < n then ''RUNNING'' else ''SUCCESS'')), (''result'', GBool True)]]), Suc t),
     op_pause = \<lambda>d t. (None, t), op_redial = \<lambda>t. (None, t)\<rparr>"

lemma poll_job_ops:
  "poll_job (job_ops n) i t = (PollEntry \<lparr>jb_id = 7,
     jb_state = (if t < n then ''RUNNING'' else ''SUCCESS''), jb_result = GBool True, jb_error = []\<rparr>, Suc t)"
proof -
  have "atoi ''7'' = (7, None)" using atoi_itoa [of 7]
    by (simp add: itoa_def nat_digits.simps min_int64_def max_int64_def)
  then show ?thesis
    by (simp add: poll_job_def job_ops_def call_read_def read_retry_delays_def call_read_Cons
        decode_job_def field_def)
qed

text \<open>A read recovers from transient failures: if one of its four attempts succeeds and the
  earlier ones failed transiently, the read returns that attempt's value, provided the
  context does not end while it waits.\<close>

theorem call_read_recovers:
  assumes "k \<le> 3"
    and "\<forall>j < k. transient_result (fst (op_call os m ps (read_state os m ps read_retry_delays j w)))"
    and "\<forall>d w. fst (op_pause os d w) = None"
    and "fst (op_call os m ps (read_state os m ps read_retry_delays k w)) = Inr v"
  shows "fst (call_read os m ps w) = Inr v"
  unfolding call_read_def
  by (rule call_read_loop_recovers) (use assms in \<open>simp_all add: read_retry_delays_def\<close>)

definition flaky_ops :: "nat ops" where
  "flaky_ops = \<lparr>op_call = \<lambda>m ps t. (if t = 0 then Inl (conn_lost ''EOF'') else Inr (GStr m), Suc t),
     op_pause = \<lambda>d t. (None, t), op_redial = \<lambda>t. (None, t)\<rparr>"

theorem call_read_recovers_witness:
  "fst (call_read flaky_ops ''pool.query'' [] 0) = Inr (GStr ''pool.query'')"
  using call_read_recovers [of 1 flaky_ops "''pool.query''" "[]" 0 "GStr ''pool.query''"]
  by (simp add: flaky_ops_def read_retry_delays_def transient_result_def conn_lost_def
      is_transient_def Let_def)

text \<open>An error that is not transient (an API error such as EINVAL or ENOENT, or an oversized
  response) is returned at once and unchanged, so callers' tests for "not found" see it.\<close>

theorem call_read_keeps_hard_errors:
  assumes "op_call os m ps w = (Inl e, w1)" and "\<not> is_transient (Some e)"
  shows "call_read os m ps w = (Inl e, w1)"
  unfolding call_read_def using assms by (rule call_read_hard_error)

definition enoent_ops :: "nat ops" where
  "enoent_ops = \<lparr>op_call = \<lambda>m ps t. (Inl (Api \<lparr>ae_code = 2, ae_errname = ''ENOENT'',
       ae_message = ''gone''\<rparr>), Suc t), op_pause = \<lambda>d t. (None, t), op_redial = \<lambda>t. (None, t)\<rparr>"

theorem call_read_keeps_hard_errors_witness:
  "\<exists>e. call_read enoent_ops ''pool.dataset.get_instance'' [] 0 = (Inl e, 1) \<and> is_not_found e"
proof -
  let ?e = "Api \<lparr>ae_code = 2, ae_errname = ''ENOENT'', ae_message = ''gone''\<rparr>"
  have "\<not> is_transient (Some ?e)"
    by (simp add: is_transient_def to_lower_def has_prefix_def lower_char_def is_upper_def ord_of_def
        Let_def)
  then have "call_read enoent_ops ''pool.dataset.get_instance'' [] 0 = (Inl ?e, 1)"
    by (intro call_read_keeps_hard_errors) (simp_all add: enoent_ops_def)
  then show ?thesis by (auto simp: is_not_found_def)
qed



text \<open>C4. What \<open>waitJob\<close> returns is what its last poll reported: a result is the result of a job in
  state SUCCESS, a job error comes from FAILED or ABORTED, and a result that is not a job's is
  possible only for a method not known to be a job, after a miss.\<close>

theorem wait_job_reports_job:
  assumes "wait_job os i raw known 0 w = Some (r, w')"
  shows "\<exists>k. w' = after_polls os i (Suc k) w \<and> job_outcome os i raw known k w r"
  using assms by (rule wait_job_sound)

theorem wait_job_reports_job_witness:
  "wait_job (job_ops 2) 7 GNil True 0 0 = Some (Inr (GBool True), 3) \<and>
   (\<exists>k. (3 :: nat) = after_polls (job_ops 2) 7 (Suc k) 0 \<and>
     job_outcome (job_ops 2) 7 GNil True k 0 (Inr (GBool True)))"
proof
  show *: "wait_job (job_ops 2) 7 GNil True 0 0 = Some (Inr (GBool True), 3)"
    by (subst wait_job_step, simp add: poll_job_ops poll_step_def,
        subst wait_job_step, simp add: poll_job_ops poll_step_def,
        subst wait_job_step, simp add: poll_job_ops poll_step_def)
  show "\<exists>k. (3 :: nat) = after_polls (job_ops 2) 7 (Suc k) 0 \<and>
     job_outcome (job_ops 2) 7 GNil True k 0 (Inr (GBool True))"
    by (rule wait_job_reports_job [OF *])
qed

text \<open>An integer that was never a job id is handed back as the plain result it is after five
  polls in a row without an entry; for a method known to be a job the same is an error.\<close>

theorem wait_job_plain_integer:
  assumes "\<forall>j < 5. nth_poll os i j w = PollMiss"
  shows "wait_job os i raw known 0 w =
    Some (if known then Inl (job_not_found i) else Inr raw, after_polls os i 5 w)"
  by (rule wait_job_misses) (use assms in \<open>simp_all add: max_job_poll_misses_def\<close>)

definition no_job_ops :: "nat ops" where
  "no_job_ops = \<lparr>op_call = \<lambda>m ps t. (Inr (GArr []), Suc t),
     op_pause = \<lambda>d t. (None, t), op_redial = \<lambda>t. (None, t)\<rparr>"

theorem wait_job_plain_integer_witness:
  "map_option fst (wait_job no_job_ops 42 (GNumber ''42'') False 0 0) = Some (Inr (GNumber ''42''))"
proof -
  have "poll_job no_job_ops 42 t = (PollMiss, Suc t)" for t
    by (simp add: poll_job_def no_job_ops_def call_read_def read_retry_delays_def call_read_Cons)
  then have "\<forall>j < 5. nth_poll no_job_ops 42 j 0 = PollMiss" by (simp add: nth_poll_def)
  from wait_job_plain_integer [OF this] show ?thesis by simp
qed

end
