(* ===== verification/Auth.thy ===== *)
theory Auth
  imports Scram Rpc
begin

text \<open>
  Logging in (src/internal/client/auth.go and the choice of mechanism in scram.go): the plain
  API-key and password logins, the retry around rate limiting, and \<open>AuthAPIKeyAuto\<close>. An
  authentication function runs on a connection that is being opened, so its calls are
  \<open>auth_call\<close>. The interface of the calls in \<open>Rpc\<close> is provided here for the client
  authenticated with any of these functions.
\<close>

section \<open>The plain logins\<close>

definition login_result :: "string \<Rightarrow> go_error \<Rightarrow> (go_error + gval) \<times> world \<Rightarrow> go_error option \<times> world" where
  "login_result m rejected r = (case r of
      (Inl e, w1) \<Rightarrow> (Some (Wrapped [Text m, Text '': '', Cause e]), w1)
    | (Inr raw, w1) \<Rightarrow>
        (case as_bool raw of
           None \<Rightarrow> (Some (Wrapped [Text ''parse auth response: '', Cause (errorf ''json'')]), w1)
         | Some ok \<Rightarrow> (if \<not> ok then Some rejected else None, w1)))"

definition auth_api_key :: "env \<Rightarrow> string \<Rightarrow> world \<Rightarrow> go_error option \<times> world" where
  "auth_api_key env key w =
     login_result ''auth.login_with_api_key'' (Sentinel ErrAPIKeyRejected)
       (auth_call env ''auth.login_with_api_key'' [GStr key] w)"

definition auth_password :: "env \<Rightarrow> string \<Rightarrow> string \<Rightarrow> world \<Rightarrow> go_error option \<times> world" where
  "auth_password env username password w =
     login_result ''auth.login'' (errorf ''authentication rejected: invalid username or password'')
       (auth_call env ''auth.login'' [GStr username, GStr password] w)"

section \<open>\<open>WithRetry\<close>\<close>

definition auth_retry_backoff :: "duration list" where
  "auth_retry_backoff = [5 * second, 10 * second, 20 * second, 30 * second, 45 * second, 60 * second]"

definition max_api_key_rejected_retries :: nat where "max_api_key_rejected_retries = 2"

text \<open>\<open>pause\<close> waits for the jittered delay or returns the context's error.\<close>

fun with_retry_loop ::
  "(duration \<Rightarrow> 'w \<Rightarrow> go_error option \<times> 'w) \<Rightarrow> 'w auth_fn \<Rightarrow> duration list \<Rightarrow> nat \<Rightarrow> 'w \<Rightarrow>
     go_error option \<times> 'w" where
  "with_retry_loop pause f ds rejections w =
     (case f w of
        (None, w1) \<Rightarrow> (None, w1)
      | (Some e, w1) \<Rightarrow>
          let limited = is_rate_limited (Some e);
              again = \<not> limited \<and> errors_is e ErrAPIKeyRejected \<and> rejections < max_api_key_rejected_retries;
              rejections1 = (if again then Suc rejections else rejections);
              final = (if 0 < rejections1 \<and> errors_is e ErrAPIKeyRejected
                 then Some (Wrapped [Cause e, Text '' (rejected on '',
                        Text (itoa (int (Suc rejections1))), Text '' attempts)''])
                 else Some e)
          in if \<not> (limited \<or> again) then (final, w1)
             else (case ds of
                 [] \<Rightarrow> (final, w1)
               | d # ds' \<Rightarrow> (case pause d w1 of
                     (Some ce, w2) \<Rightarrow> (Some ce, w2)
                   | (None, w2) \<Rightarrow> with_retry_loop pause f ds' rejections1 w2)))"

declare with_retry_loop.simps [simp del]

lemmas with_retry_Nil = with_retry_loop.simps [of _ _ "[]"]
lemmas with_retry_Cons = with_retry_loop.simps [of _ _ "d # ds" for d ds]

definition with_retry :: "(duration \<Rightarrow> 'w \<Rightarrow> go_error option \<times> 'w) \<Rightarrow> 'w auth_fn \<Rightarrow> 'w \<Rightarrow> go_error option \<times> 'w" where
  "with_retry pause f = with_retry_loop pause f auth_retry_backoff 0"

section \<open>Choosing the mechanism\<close>

definition mechanism_choices :: "env \<Rightarrow> world \<Rightarrow> (go_error + string list) \<times> world" where
  "mechanism_choices env w =
     (case auth_call env ''auth.mechanism_choices'' [] w of
        (Inl e, w1) \<Rightarrow> (Inl e, w1)
      | (Inr raw, w1) \<Rightarrow>
          (case as_list as_string raw of
             None \<Rightarrow> (Inl decode_error, w1)
           | Some cs \<Rightarrow> (Inr cs, w1)))"

definition auth_api_key_auto :: "env \<Rightarrow> string \<Rightarrow> string \<Rightarrow> world \<Rightarrow> go_error option \<times> world" where
  "auth_api_key_auto env username key w =
     (if username = [] then auth_api_key env key w
      else (case mechanism_choices env w of (choices, w1) \<Rightarrow>
        (case choices of
           Inl err \<Rightarrow>
             if is_rate_limited (Some err) then
               (case auth_api_key_scram env username key w1 of (serr, w2) \<Rightarrow>
                 if is_scram_unsupported serr then auth_api_key env key w2 else (serr, w2))
             else auth_api_key env key w1
         | Inr cs \<Rightarrow>
             if ''SCRAM'' \<in> set cs then auth_api_key_scram env username key w1
             else auth_api_key env key w1)))"

section \<open>What the authentication sends\<close>

fun auth_event :: "event \<Rightarrow> string list" where
  "auth_event (EvSend True m ps) = [m]"
| "auth_event _ = []"

definition auth_methods :: "world \<Rightarrow> string list" where
  "auth_methods w = concat (map auth_event (trace w))"

lemma auth_methods_emit [simp]: "auth_methods (emit ev w) = auth_methods w @ auth_event ev"
  by (simp add: auth_methods_def emit_def)

lemma ask_auth_methods: "ask f w = (a, w') \<Longrightarrow> auth_methods w' = auth_methods w"
  by (auto simp: ask_def auth_methods_def)

lemma exchange_auth_methods:
  "exchange env ev m w = (r, w') \<Longrightarrow>
     auth_methods w' = auth_methods w \<or> auth_methods w' = auth_methods w @ auth_event ev"
  by (auto simp: exchange_def Let_def split: prod.splits if_splits option.splits dest!: ask_auth_methods)

lemma drop_auth_methods [simp]: "auth_methods (drop_if_unresponsive env w) = auth_methods w"
  using exchange_auth_methods [of env EvPing]
  by (fastforce simp: drop_if_unresponsive_def split: prod.splits outcome.splits)

lemma auth_call_methods:
  "auth_call env m ps w = (r, w') \<Longrightarrow>
     auth_methods w' = auth_methods w \<or> auth_methods w' = auth_methods w @ [m]"
  using exchange_auth_methods [of env "EvSend True m ps" m w]
  by (auto simp: auth_call_def send_def split: prod.splits outcome.splits)

lemma auth_call_within:
  "auth_call env m ps w = (r, w') \<Longrightarrow> set (auth_methods w') \<subseteq> insert m (set (auth_methods w))"
  using auth_call_methods by fastforce

lemma scram_step_within:
  "scram_step env t msg w = (r, w') \<Longrightarrow>
     set (auth_methods w') \<subseteq> insert ''auth.login_ex'' (set (auth_methods w))"
  by (auto simp: scram_step_def split: prod.splits sum.splits option.splits if_splits
      dest!: auth_call_within)

lemma scram_within:
  "auth_api_key_scram env u k w = (r, w') \<Longrightarrow>
     set (auth_methods w') \<subseteq> insert ''auth.login_ex'' (set (auth_methods w))"
  by (force simp: auth_api_key_scram_def Let_def split: prod.splits sum.splits option.splits if_splits
      dest!: scram_step_within ask_auth_methods)

lemma choices_within:
  "mechanism_choices env w = (r, w') \<Longrightarrow>
     set (auth_methods w') \<subseteq> insert ''auth.mechanism_choices'' (set (auth_methods w))"
  by (auto simp: mechanism_choices_def split: prod.splits sum.splits option.splits
      dest!: auth_call_within)

section \<open>Authentication sends no request of the caller's own\<close>

lemma login_result_world: "snd (login_result m rej (r, w)) = w"
  by (auto simp: login_result_def split: sum.splits option.splits)

lemma auth_api_key_quiet: "quiet (auth_api_key env k)"
  using auth_call_quiet by (auto simp: quiet_def auth_api_key_def login_result_def
      split: prod.splits sum.splits option.splits) (metis snd_conv)+

lemma auth_password_quiet: "quiet (auth_password env u p)"
  using auth_call_quiet by (auto simp: quiet_def auth_password_def login_result_def
      split: prod.splits sum.splits option.splits) (metis snd_conv)+

lemma scram_step_quiet: "quiet (scram_step env t msg)"
  by (rule quietI) (auto simp: scram_step_def split: prod.splits sum.splits option.splits if_splits
      dest!: quietD [OF auth_call_quiet])

lemma scram_quiet: "quiet (auth_api_key_scram env u k)"
  by (rule quietI) (auto simp: auth_api_key_scram_def Let_def
      split: prod.splits sum.splits option.splits if_splits
      dest!: quietD [OF scram_step_quiet] ask_requests)

lemma choices_quiet: "quiet (mechanism_choices env)"
  by (rule quietI) (auto simp: mechanism_choices_def split: prod.splits sum.splits option.splits
      dest!: quietD [OF auth_call_quiet])

lemma auto_quiet: "quiet (auth_api_key_auto env u k)"
  by (rule quietI) (auto simp: auth_api_key_auto_def
      split: prod.splits sum.splits option.splits if_splits
      dest!: quietD [OF choices_quiet] quietD [OF scram_quiet] quietD [OF auth_api_key_quiet])

lemma with_retry_loop_quiet:
  assumes "quiet f" and "\<And>d. quiet (pause d)"
  shows "with_retry_loop pause f ds n w = (r, w') \<Longrightarrow> requests w' = requests w"
proof (induction ds arbitrary: n w)
  case Nil
  then show ?case
    by (auto simp: with_retry_Nil Let_def split: prod.splits option.splits if_splits
        dest!: quietD [OF assms(1)])
next
  case (Cons d ds)
  obtain a w1 where f: "f w = (a, w1)" by fastforce
  obtain b w2 where p: "pause d w1 = (b, w2)" by fastforce
  have q: "requests w1 = requests w" "requests w2 = requests w1"
    using f p assms by (auto dest: quietD)
  have "w' = w1 \<or> w' = w2 \<or> (\<exists>n'. with_retry_loop pause f ds n' w2 = (r, w'))"
    using Cons.prems f p by (auto simp: with_retry_Cons Let_def split: option.splits if_splits)
  then show ?case using q Cons.IH by metis
qed

lemma with_retry_quiet: "quiet f \<Longrightarrow> quiet (with_retry (jittered_wait env) f)"
  unfolding with_retry_def by (rule quietI) (rule with_retry_loop_quiet [OF _ jittered_wait_quiet])

text \<open>The state before attempt \<open>k\<close> when every earlier attempt was waited out.\<close>

fun retry_state ::
  "(duration \<Rightarrow> 'w \<Rightarrow> go_error option \<times> 'w) \<Rightarrow> 'w auth_fn \<Rightarrow> duration list \<Rightarrow> nat \<Rightarrow> 'w \<Rightarrow> 'w" where
  "retry_state pause f (d # ds) (Suc k) w = retry_state pause f ds k (snd (pause d (snd (f w))))"
| "retry_state pause f ds k w = w"

lemma with_retry_loop_recovers:
  assumes "k \<le> length ds"
    and "\<forall>j < k. is_rate_limited (fst (f (retry_state pause f ds j w)))"
    and "\<forall>d w. fst (pause d w) = None"
    and "fst (f (retry_state pause f ds k w)) = None"
  shows "with_retry_loop pause f ds n w = (None, snd (f (retry_state pause f ds k w)))"
  using assms
proof (induction ds arbitrary: w k)
  case Nil
  then show ?case by (cases "f w") (simp add: with_retry_Nil)
next
  case (Cons d ds)
  obtain a w1 where f: "f w = (a, w1)" by fastforce
  obtain w2 where p: "pause d w1 = (None, w2)"
    using Cons.prems(3) by (metis prod.collapse)
  show ?case
  proof (cases k)
    case 0
    with Cons.prems f show ?thesis by (simp add: with_retry_Cons)
  next
    case (Suc k')
    with Cons.prems(2) f have "is_rate_limited a" by fastforce
    then obtain e where e: "a = Some e" "is_rate_limited (Some e)"
      by (cases a) (auto simp: is_rate_limited_def)
    have "with_retry_loop pause f ds n w2 = (None, snd (f (retry_state pause f ds k' w2)))"
    proof (rule Cons.IH)
      show "\<forall>j < k'. is_rate_limited (fst (f (retry_state pause f ds j w2)))"
        using Cons.prems(2) Suc f p by (auto dest: spec [where x = "Suc j" for j])
    qed (use Cons.prems Suc f p in auto)
    with f p e Suc show ?thesis by (simp add: with_retry_Cons Let_def)
  qed
qed

lemma with_retry_hard_error:
  assumes "f w = (Some e, w1)" and "\<not> is_rate_limited (Some e)" and "\<not> errors_is e ErrAPIKeyRejected"
  shows "with_retry_loop pause f ds n w = (Some e, w1)"
  using assms by (subst with_retry_loop.simps) simp

lemma with_retry_calls:
  assumes "\<And>w. calls (snd (f w)) = Suc (calls w)" and "\<And>d w. calls (snd (pause d w)) = calls w"
  shows "calls (snd (with_retry_loop pause f ds n w)) \<le> calls w + Suc (length ds)"
proof (induction ds arbitrary: n w)
  case Nil
  have "snd (with_retry_loop pause f [] n w) = snd (f w)"
    by (cases "f w") (auto simp: with_retry_Nil Let_def split: option.splits)
  with assms(1) [of w] show ?case by simp
next
  case (Cons d ds)
  obtain a w1 where f: "f w = (a, w1)" by fastforce
  obtain b w2 where p: "pause d w1 = (b, w2)" by fastforce
  from f p assms have c: "calls w1 = Suc (calls w)" "calls w2 = calls w1" by (metis snd_conv)+
  have "snd (with_retry_loop pause f (d # ds) n w) = w1 \<or>
      snd (with_retry_loop pause f (d # ds) n w) = w2 \<or>
      (\<exists>n'. with_retry_loop pause f (d # ds) n w = with_retry_loop pause f ds n' w2)"
    using f p by (auto simp: with_retry_Cons Let_def split: option.splits)
  with c Cons.IH show ?case by (metis (no_types, lifting) add_Suc_right add_Suc_shift le_add1
    length_Cons)
qed

lemma wrong_key_twice:
  assumes "\<And>w. fst (f w) = Some (Sentinel ErrAPIKeyRejected)" and "\<And>d w. fst (pause d w) = None"
  shows "with_retry_loop pause f (d1 # d2 # ds) 0 w =
    (Some (Wrapped [Cause (Sentinel ErrAPIKeyRejected), Text '' (rejected on '', Text ''3'',
       Text '' attempts)'']), snd (f (snd (pause d2 (snd (f (snd (pause d1 (snd (f w))))))))))"
proof -
  have f: "f w = (Some (Sentinel ErrAPIKeyRejected), snd (f w))" for w
    using assms(1) by (metis prod.collapse)
  have p: "pause d w = (None, snd (pause d w))" for d w
    using assms(2) by (metis prod.collapse)
  have limited: "\<not> is_rate_limited (Some (Sentinel ErrAPIKeyRejected))"
    by (simp add: is_rate_limited_def to_lower_def has_prefix_def lower_char_def is_upper_def ord_of_def)
  have three: "itoa 3 = ''3''"
    by (simp add: itoa_def nat_digits.simps)
  have last: "with_retry_loop pause f ds (Suc (Suc 0)) w =
    (Some (Wrapped [Cause (Sentinel ErrAPIKeyRejected), Text '' (rejected on '', Text ''3'',
       Text '' attempts)'']), snd (f w))" for w
    using limited three
    by (subst with_retry_loop.simps, subst f) (simp add: Let_def max_api_key_rejected_retries_def)
  show ?thesis
    using limited
    by (subst with_retry_Cons, subst f, simp add: Let_def max_api_key_rejected_retries_def,
        subst p, simp, subst with_retry_Cons, subst f,
        simp add: Let_def max_api_key_rejected_retries_def, subst p, simp add: last)
qed

section \<open>The provider's login, and the interface it gives\<close>

text \<open>The authentication function \<open>Configure\<close> builds: an API key (with the owner's name, which
  may be empty) or a user name and password, retried.\<close>

datatype credentials = ApiKeyCred string string | PasswordCred string string

fun base_auth :: "env \<Rightarrow> credentials \<Rightarrow> world auth_fn" where
  "base_auth env (ApiKeyCred username key) = auth_api_key_auto env username key"
| "base_auth env (PasswordCred username password) = auth_password env username password"

definition login :: "env \<Rightarrow> credentials \<Rightarrow> world auth_fn" where
  "login env cred = with_retry (jittered_wait env) (base_auth env cred)"

lemma login_quiet: "quiet (login env cred)"
  unfolding login_def
  by (rule with_retry_quiet) (cases cred; simp add: auto_quiet auth_password_quiet)

lemma quiet_login [simp]: "quiet_auth (Some (login env cred))"
  by (simp add: quiet_auth_def login_quiet)

definition client_ops :: "env \<Rightarrow> credentials \<Rightarrow> world ops" where
  "client_ops env cred =
     \<lparr>op_call = call env (Some (login env cred)), op_pause = wait env,
      op_redial = reconnect env (Some (login env cred))\<rparr>"

interpretation tn: rpc "client_ops env cred" requests for env cred
proof
  fix m ps w r w1
  show "op_call (client_ops env cred) m ps w = (r, w1) \<Longrightarrow>
      requests w1 = requests w \<or> requests w1 = requests w @ [(m, ps)]"
    using call_requests [OF quiet_login] by (simp add: client_ops_def)
next
  fix m ps w v w1
  show "op_call (client_ops env cred) m ps w = (Inr v, w1) \<Longrightarrow> requests w1 = requests w @ [(m, ps)]"
    using call_answered [OF quiet_login] by (simp add: client_ops_def)
next
  fix d w e w1
  show "op_pause (client_ops env cred) d w = (e, w1) \<Longrightarrow> requests w1 = requests w"
    using quietD [OF wait_quiet] by (simp add: client_ops_def)
next
  fix w e w1
  show "op_redial (client_ops env cred) w = (e, w1) \<Longrightarrow> requests w1 = requests w"
    using quietD [OF reconnect_quiet [OF quiet_login]] by (simp add: client_ops_def)
qed

text \<open>A server whose answer to every request is the same.\<close>

definition const_env :: "answer \<Rightarrow> env" where
  "const_env a = \<lparr>e_endpoint = ''wss://nas/api/current'', e_dial = \<lambda>_. None, e_conn = \<lambda>_. True,
     e_closed = \<lambda>_. False, e_write = \<lambda>_. None, e_answer = \<lambda>_. a, e_wait = \<lambda>_. None,
     e_slot = \<lambda>_. None, e_rand = \<lambda>_. 0, e_nonce = \<lambda>_. Inr (replicate 32 CHR ''x'')\<rparr>"

lemma const_env_simps [simp]:
  "e_dial (const_env a) n = None" "e_conn (const_env a) n = True" "e_closed (const_env a) n = False"
  "e_write (const_env a) n = None" "e_answer (const_env a) n = a" "e_wait (const_env a) n = None"
  "e_slot (const_env a) n = None" "e_rand (const_env a) n = 0"
  by (simp_all add: const_env_def)

lemma auth_call_const:
  "auth_call (const_env (Reply v)) m ps w =
     (Inr v, w\<lparr>tick := Suc (Suc (Suc (tick w))), trace := trace w @ [EvSend True m ps]\<rparr>)"
  by (simp add: auth_call_def send_def exchange_def ask_def emit_def Let_def)

definition new_world :: world where
  "new_world = \<lparr>tick = 0, trace = []\<rparr>"

section \<open>Properties\<close>

text \<open>C1. A call never reaches the server twice, whatever the connection does: it adds nothing or
  exactly itself to the requests sent, through every dial, login, retry and reconnect.\<close>

theorem call_at_most_once:
  "requests (snd (call env (Some (login env cred)) m ps w)) \<in>
     {requests w, requests w @ [(m, ps)]}"
  using call_requests [OF quiet_login] by (metis insert_iff prod.collapse)

text \<open>C2. A job call sends the mutating method at most once; everything else it sends only reads
  the method metadata or the job list, however long it polls and however often it reconnects.\<close>

theorem call_job_mutates_once:
  "case call_job (client_ops env cred) m ps c of
     None \<Rightarrow> True
   | Some (r, c1) \<Rightarrow> \<exists>k reads. k \<le> 1 \<and>
       list_all (\<lambda>x. fst x \<in> {''core.get_methods'', ''core.get_jobs''}) reads \<and>
       requests (cl_world c1) = requests (cl_world c) @ replicate k (m, ps) @ reads"
  using tn.call_job_sends [of env cred m ps c]
  by (fastforce simp: list_all_iff split: option.splits prod.splits)

text \<open>A read is sent at most four times, and nothing else is sent in the caller's name.\<close>

theorem call_read_at_most_four:
  "\<exists>n \<le> 4. requests (snd (call_read (client_ops env cred) m ps w)) = requests w @ replicate n (m, ps)"
  using tn.call_read_sends by (metis prod.collapse)



text \<open>A login that is rate limited on up to six attempts and then accepted succeeds, provided the
  context does not end while it waits.\<close>

theorem login_outlasts_rate_limit:
  assumes "k \<le> 6"
    and "\<forall>j < k. is_rate_limited (fst (f (retry_state pause f auth_retry_backoff j w)))"
    and "\<forall>d w. fst (pause d w) = None"
    and "fst (f (retry_state pause f auth_retry_backoff k w)) = None"
  shows "with_retry pause f w = (None, snd (f (retry_state pause f auth_retry_backoff k w)))"
  unfolding with_retry_def
  by (rule with_retry_loop_recovers) (use assms in \<open>simp_all add: auth_retry_backoff_def\<close>)

definition busy_until :: "nat \<Rightarrow> nat auth_fn" where
  "busy_until n t = (if t < n then Some (Api \<lparr>ae_code = 16, ae_errname = ''EBUSY'',
     ae_message = ''Rate Limit Exceeded''\<rparr>) else None, Suc t)"

theorem login_outlasts_rate_limit_witness:
  "with_retry (\<lambda>d t. (None, t)) (busy_until 2) 0 = (None, 3)"
proof -
  let ?p = "\<lambda>d t. (None, t)"
  have st: "j \<le> 2 \<Longrightarrow> retry_state ?p (busy_until 2) auth_retry_backoff j 0 = j" for j
    by (auto simp: busy_until_def auth_retry_backoff_def eval_nat_numeral le_Suc_eq)
  have "j < 2 \<Longrightarrow> is_rate_limited (fst (busy_until 2 j))" for j
    by (simp add: busy_until_def is_rate_limited_def)
  with st have "\<forall>j < 2. is_rate_limited (fst (busy_until 2 (retry_state ?p (busy_until 2) auth_retry_backoff j 0)))"
    by simp
  with st [of 2] login_outlasts_rate_limit [of 2 "busy_until 2" ?p 0] show ?thesis
    by (simp add: busy_until_def)
qed

text \<open>A key the server always rejects is tried exactly three times and reported as rejected on
  three attempts; no login loop hides behind the rate limiter.\<close>

theorem wrong_key_tried_three_times:
  assumes "\<And>w. fst (f w) = Some (Sentinel ErrAPIKeyRejected)" and "\<And>d w. fst (pause d w) = None"
    and "\<And>w. calls (snd (f w)) = Suc (calls w)" and "\<And>d w. calls (snd (pause d w)) = calls w"
  shows "map_option err_text (fst (with_retry pause f w)) =
      Some ''authentication rejected: invalid API key (rejected on 3 attempts)'' \<and>
    calls (snd (with_retry pause f w)) = calls w + 3"
  unfolding with_retry_def auth_retry_backoff_def
  by (subst (1 2) wrong_key_twice) (simp_all add: assms)

theorem wrong_key_tried_three_times_witness:
  "map_option err_text (fst (with_retry (\<lambda>d t. (None, t))
       (\<lambda>t. (Some (Sentinel ErrAPIKeyRejected), Suc t)) (0 :: nat))) =
     Some ''authentication rejected: invalid API key (rejected on 3 attempts)'' \<and>
   snd (with_retry (\<lambda>d t. (None, t)) (\<lambda>t. (Some (Sentinel ErrAPIKeyRejected), Suc t)) (0 :: nat)) = 3"
  using wrong_key_tried_three_times [of "\<lambda>t. (Some (Sentinel ErrAPIKeyRejected), Suc t)"
      "\<lambda>d t. (None, t)" "\<lambda>t. t" "0 :: nat"] by simp

end
