(* ===== verification/Version.thy ===== *)
theory Version
  imports Rpc
begin

text \<open>
  Release floors (src/internal/client/version.go). Fields that exist only on newer TrueNAS
  releases are gated by comparing the leading \<open>major.minor\<close> of the server's release string.
  The order the code implements is made explicit as a linear order on releases.
\<close>

section \<open>Releases\<close>

datatype release = Release (rel_major: int) (rel_minor: int)

instantiation release :: linorder
begin

definition less_eq_release :: "release \<Rightarrow> release \<Rightarrow> bool" where
  "less_eq_release a b \<longleftrightarrow>
     rel_major a < rel_major b \<or> (rel_major a = rel_major b \<and> rel_minor a \<le> rel_minor b)"

definition less_release :: "release \<Rightarrow> release \<Rightarrow> bool" where
  "less_release a b \<longleftrightarrow> a \<le> b \<and> \<not> b \<le> (a :: release)"

instance
  by standard (auto simp: less_eq_release_def less_release_def release.expand)

end

lemma release_le [simp]: "Release a b \<le> Release c d \<longleftrightarrow> a < c \<or> (a = c \<and> b \<le> d)"
  by (simp add: less_eq_release_def)

section \<open>\<open>versionAtLeast\<close>\<close>

definition version_at_least :: "string \<Rightarrow> int \<Rightarrow> int \<Rightarrow> bool" where
  "version_at_least version major minor =
     (let parts = split_on CHR ''.'' version;
          v_major = (if 0 < length parts then fst (atoi (parts ! 0)) else 0);
          v_minor = (if 1 < length parts then fst (atoi (parts ! 1)) else 0)
      in if v_major \<noteq> major then major < v_major else minor \<le> v_minor)"

definition version_at_least_string :: "string \<Rightarrow> int \<Rightarrow> int \<Rightarrow> bool" where
  "version_at_least_string = version_at_least"

definition client_version_at_least ::
  "'w ops \<Rightarrow> int \<Rightarrow> int \<Rightarrow> 'w client \<Rightarrow> (go_error + bool) \<times> 'w client" where
  "client_version_at_least os major minor c =
     (case server_version os c of
        (Inl e, c1) \<Rightarrow> (Inl e, c1)
      | (Inr v, c1) \<Rightarrow> (Inr (version_at_least v major minor), c1))"

section \<open>The release a version string denotes\<close>

definition release_of :: "string \<Rightarrow> release" where
  "release_of v = (case split_on CHR ''.'' v of
      [] \<Rightarrow> Release 0 0
    | [a] \<Rightarrow> Release (fst (atoi a)) 0
    | a # b # _ \<Rightarrow> Release (fst (atoi a)) (fst (atoi b)))"

lemma digits_no_dot: "CHR ''.'' \<notin> set (itoa n)"
proof
  assume "CHR ''.'' \<in> set (itoa n)"
  moreover have "\<not> is_digit CHR ''.''" by (simp add: is_digit_def ord_of_def)
  ultimately show False
    using nat_digits_digits by (auto simp: itoa_def split: if_splits)
qed

definition dotted :: "int \<Rightarrow> int \<Rightarrow> string \<Rightarrow> string" where
  "dotted major minor rest = itoa major @ CHR ''.'' # itoa minor @ rest"

lemma split_dotted:
  assumes "rest = [] \<or> (\<exists>r. rest = CHR ''.'' # r)"
  shows "\<exists>ps. split_on CHR ''.'' (dotted major minor rest) = itoa major # itoa minor # ps"
  using assms digits_no_dot
  by (auto simp: dotted_def split_on_append split_on_none)

lemma version_at_least_release:
  "version_at_least v major minor \<longleftrightarrow> Release major minor \<le> release_of v"
  by (auto simp: version_at_least_def release_of_def Let_def split: list.splits)

text \<open>The client's answer is the comparison with the version the server reported, and a second
  question is answered from the cache, without a request.\<close>

lemma server_version_cached:
  assumes "server_version os c = (Inr v, c1)" and "v \<noteq> []"
  shows "server_version os c1 = (Inr v, c1)"
  using assms
  by (auto simp: server_version_def split: if_splits prod.splits sum.splits option.splits)

section \<open>Properties\<close>

text \<open>The comparator is a linear order on releases: a version passes a floor exactly when the
  release it denotes is not below it. So floors are monotone, and passing a floor implies
  passing every lower one.\<close>

theorem version_floor_is_order:
  "version_at_least v major minor \<longleftrightarrow> Release major minor \<le> release_of v"
  by (rule version_at_least_release)

text \<open>C2. For a release string \<open>major.minor\<close>, with or without further dotted parts, the answer
  is the comparison of the numbers.\<close>

theorem version_at_least_dotted:
  assumes "0 \<le> a" and "a \<le> max_int64" and "0 \<le> b" and "b \<le> max_int64"
    and "rest = [] \<or> (\<exists>r. rest = CHR ''.'' # r)"
  shows "version_at_least_string (dotted a b rest) major minor \<longleftrightarrow>
    major < a \<or> (major = a \<and> minor \<le> b)"
proof -
  from split_dotted [OF assms(5)] obtain ps where
    "split_on CHR ''.'' (dotted a b rest) = itoa a # itoa b # ps" by blast
  moreover have "atoi (itoa a) = (a, None)" "atoi (itoa b) = (b, None)"
    using assms by (auto intro!: atoi_itoa simp: min_int64_def)
  ultimately show ?thesis
    by (auto simp: version_at_least_string_def version_at_least_def Let_def)
qed

theorem version_at_least_dotted_witness:
  "version_at_least_string (dotted 25 10 ''.3.1'') 25 4 \<and>
   \<not> version_at_least_string (dotted 25 10 ''.3.1'') 26 0"
  using version_at_least_dotted [of 25 10 "''.3.1''" 25 4] version_at_least_dotted [of 25 10 "''.3.1''" 26 0]
  by (simp add: max_int64_def)

text \<open>C3. A version whose major part is not a number fails every floor above zero, but one whose
  major part has too many digits passes every floor: \<open>strconv.Atoi\<close> returns the
  largest integer beside the range error that is ignored.\<close>

theorem malformed_version:
  "(snd (atoi (hd (split_on CHR ''.'' v))) = Some SyntaxErr \<and> 0 < major \<longrightarrow>
      \<not> version_at_least v major minor) \<and>
   version_at_least ''99999999999999999999'' max_int64 0"
proof
  have "snd (atoi s) = Some SyntaxErr \<Longrightarrow> fst (atoi s) = 0" for s
    by (auto simp: atoi_def split: prod.splits sum.splits num_error.splits if_splits)
  then show "snd (atoi (hd (split_on CHR ''.'' v))) = Some SyntaxErr \<and> 0 < major \<longrightarrow>
      \<not> version_at_least v major minor"
    by (cases "split_on CHR ''.'' v") (auto simp: version_at_least_def Let_def)
  show "version_at_least ''99999999999999999999'' max_int64 0"
    by (simp add: version_at_least_def Let_def atoi_def strip_sign_def parse_uint_def is_digit_def
        digit_val_def ord_of_def max_int64_def)
qed

theorem malformed_version_witness:
  "\<not> version_at_least ''master.10'' 26 0 \<and> version_at_least ''99999999999999999999'' max_int64 0"
proof -
  have "snd (atoi ''master'') = Some SyntaxErr"
    by (simp add: atoi_def strip_sign_def parse_uint_def is_digit_def ord_of_def)
  then show ?thesis using malformed_version [of "''master.10''" 26 0] by simp
qed

end
