(* ===== verification/NetAddr.thy ===== *)
theory NetAddr
  imports Values "HOL-Library.Word"
begin

text \<open>
  IP addresses and networks (src/internal/normalize/net.go), with the parts of Go's package
  net/netip it relies on: parsing an address in any spelling, prefixes and masking. An
  address is kept at its width, 32 or 128 bits.
\<close>

unbundle bit_operations_syntax

section \<open>Package net/netip: \<open>ParseAddr\<close>\<close>

datatype addr = V4 "32 word" | V6 "128 word" string

definition addr_bits :: "addr \<Rightarrow> nat" where
  "addr_bits a = (case a of V4 _ \<Rightarrow> 32 | V6 _ _ \<Rightarrow> 128)"

definition is4 :: "addr \<Rightarrow> bool" where
  "is4 a = (case a of V4 _ \<Rightarrow> True | V6 _ _ \<Rightarrow> False)"

text \<open>One decimal field of a dotted address: at least one digit, no leading zero, at most 255.\<close>

fun octet_loop :: "nat \<Rightarrow> string \<Rightarrow> nat option" where
  "octet_loop v [] = Some v"
| "octet_loop v (c # cs) =
     (if \<not> is_digit c then None
      else let v1 = v * 10 + digit_val c in if 255 < v1 then None else octet_loop v1 cs)"

definition parse_octet :: "string \<Rightarrow> nat option" where
  "parse_octet s = (case s of
      [] \<Rightarrow> None
    | c # cs \<Rightarrow> if c = CHR ''0'' \<and> cs \<noteq> [] then None else octet_loop 0 s)"

definition parse_v4_fields :: "string \<Rightarrow> nat list option" where
  "parse_v4_fields s =
     (let ps = split_on CHR ''.'' s in if length ps = 4 then map_opt parse_octet ps else None)"

definition join_word :: "nat \<Rightarrow> nat list \<Rightarrow> nat" where
  "join_word base ns = foldl (\<lambda>a n. a * base + n) 0 ns"

definition parse_v4 :: "string \<Rightarrow> addr option" where
  "parse_v4 s = map_option (\<lambda>ns. V4 (of_nat (join_word 256 ns))) (parse_v4_fields s)"

definition hex_val :: "char \<Rightarrow> nat option" where
  "hex_val c = (let n = ord_of c in
     if 48 \<le> n \<and> n \<le> 57 then Some (n - 48)
     else if 97 \<le> n \<and> n \<le> 102 then Some (n - 87)
     else if 65 \<le> n \<and> n \<le> 70 then Some (n - 55)
     else None)"

fun take_hex :: "string \<Rightarrow> nat list \<times> string" where
  "take_hex [] = ([], [])"
| "take_hex (c # cs) = (case hex_val c of
      None \<Rightarrow> ([], c # cs)
    | Some d \<Rightarrow> (case take_hex cs of (ds, r) \<Rightarrow> (d # ds, r)))"

lemma take_hex_length: "take_hex s = (ds, r) \<Longrightarrow> length s = length ds + length r"
  by (induction s arbitrary: ds r) (auto split: option.splits prod.splits)

text \<open>
  The loop over the 16-bit groups: the groups read so far, where the ellipsis stands (as a
  number of groups), and the text that is left. The result is the groups and the ellipsis
  when all the text was used.
\<close>

function v6_loop :: "nat list \<Rightarrow> nat option \<Rightarrow> string \<Rightarrow> (nat list \<times> nat option) option" where
  "v6_loop gs ell s =
     (if 8 \<le> length gs then (if s = [] then Some (gs, ell) else None)
      else case take_hex s of (ds, r) \<Rightarrow>
        if ds = [] \<or> 4 < length ds then None
        else (case r of
            [] \<Rightarrow> Some (gs @ [join_word 16 ds], ell)
          | c # r1 \<Rightarrow>
              if c = CHR ''.'' then
                (if ell = None \<and> length gs \<noteq> 6 then None
                 else if 8 < length gs + 2 then None
                 else (case parse_v4_fields s of
                     Some [a, b, d, e] \<Rightarrow> Some (gs @ [a * 256 + b, d * 256 + e], ell)
                   | _ \<Rightarrow> None))
              else if c \<noteq> CHR '':'' \<or> r1 = [] then None
              else let gs1 = gs @ [join_word 16 ds] in
                if hd r1 = CHR '':'' then
                  (if ell \<noteq> None then None
                   else if tl r1 = [] then Some (gs1, Some (length gs1))
                   else v6_loop gs1 (Some (length gs1)) (tl r1))
                else v6_loop gs1 ell r1))"
  by pat_completeness auto
termination
  by (relation "measure (\<lambda>(gs, ell, s). length s)") (auto dest!: take_hex_length [OF sym])

declare v6_loop.simps [simp del]

definition expand_groups :: "nat list \<Rightarrow> nat option \<Rightarrow> nat list option" where
  "expand_groups gs ell = (case ell of
      None \<Rightarrow> (if length gs < 8 then None else Some gs)
    | Some e \<Rightarrow>
        if length gs < 8 then Some (take e gs @ replicate (8 - length gs) 0 @ drop e gs) else None)"

definition parse_v6_groups :: "string \<Rightarrow> nat list option" where
  "parse_v6_groups s =
     (if has_prefix s ''::'' then
        (if drop 2 s = [] then Some (replicate 8 0)
         else Option.bind (v6_loop [] (Some 0) (drop 2 s)) (\<lambda>(gs, ell). expand_groups gs ell))
      else Option.bind (v6_loop [] None s) (\<lambda>(gs, ell). expand_groups gs ell))"

definition parse_v6 :: "string \<Rightarrow> addr option" where
  "parse_v6 s = (case cut CHR ''%'' s of (a, zone, has_zone) \<Rightarrow>
     if has_zone \<and> zone = [] then None
     else map_option (\<lambda>gs. V6 (of_nat (join_word 65536 gs)) zone) (parse_v6_groups a))"

fun parse_addr_scan :: "string \<Rightarrow> string \<Rightarrow> addr option" where
  "parse_addr_scan s [] = None"
| "parse_addr_scan s (c # cs) =
     (if c = CHR ''.'' then parse_v4 s
      else if c = CHR '':'' then parse_v6 s
      else if c = CHR ''%'' then None
      else parse_addr_scan s cs)"

definition parse_addr :: "string \<Rightarrow> addr option" where
  "parse_addr s = parse_addr_scan s s"

section \<open>Prefixes\<close>

datatype prefix = Prefix (px_addr: addr) (px_bits: nat)

definition without_zone :: "addr \<Rightarrow> addr" where
  "without_zone a = (case a of V4 w \<Rightarrow> V4 w | V6 w _ \<Rightarrow> V6 w [])"

text \<open>\<open>PrefixFrom\<close> drops the zone; the callers have checked the length.\<close>

definition prefix_from :: "addr \<Rightarrow> nat \<Rightarrow> prefix" where
  "prefix_from a n = Prefix (without_zone a) n"

definition clear_low :: "nat \<Rightarrow> 'a::len word \<Rightarrow> 'a word" where
  "clear_low k w = push_bit k (drop_bit k w)"

definition masked :: "prefix \<Rightarrow> prefix" where
  "masked p = (case p of Prefix (V4 w) n \<Rightarrow> Prefix (V4 (clear_low (32 - n) w)) n
                       | Prefix (V6 w z) n \<Rightarrow> Prefix (V6 (clear_low (128 - n) w) z) n)"

definition leading_zeros32 :: "32 word \<Rightarrow> nat" where
  "leading_zeros32 w = 32 - bit_len (unat w)"

section \<open>\<open>ParsePrefix\<close> and the comparisons\<close>

definition parse_prefix :: "string \<Rightarrow> prefix option" where
  "parse_prefix s = (case cut CHR ''/'' s of (addr_part, mask_part, has_mask) \<Rightarrow>
     case parse_addr addr_part of
       None \<Rightarrow> None
     | Some a \<Rightarrow>
         if \<not> has_mask then Some (prefix_from a (addr_bits a))
         else (case atoi mask_part of (n, err) \<Rightarrow>
           if err = None \<and> mask_part \<noteq> [] \<and> hd mask_part \<noteq> CHR ''+'' \<and> hd mask_part \<noteq> CHR ''-'' then
             (if int (addr_bits a) < n then None else Some (prefix_from a (nat n)))
           else (case parse_addr mask_part of
               Some (V4 m) \<Rightarrow>
                 if \<not> is4 a then None
                 else let k = leading_zeros32 (NOT m) in
                   if k < 32 \<and> push_bit k m \<noteq> 0 then None else Some (prefix_from a k)
             | _ \<Rightarrow> None)))"

definition equal_ip :: "string \<Rightarrow> string \<Rightarrow> bool" where
  "equal_ip a b \<longleftrightarrow> a = b \<or> (parse_addr a \<noteq> None \<and> parse_addr a = parse_addr b)"

definition equal_cidr :: "string \<Rightarrow> string \<Rightarrow> bool" where
  "equal_cidr a b \<longleftrightarrow> a = b \<or> (parse_prefix a \<noteq> None \<and> parse_prefix a = parse_prefix b)"

definition equal_network :: "string \<Rightarrow> string \<Rightarrow> bool" where
  "equal_network a b \<longleftrightarrow> a = b \<or>
     (case (parse_prefix a, parse_prefix b) of
        (Some x, Some y) \<Rightarrow> masked x = masked y | _ \<Rightarrow> False)"

definition prefix_error :: "string \<Rightarrow> string" where
  "prefix_error s = quoted s @ '' is not an IP address or network (expected forms: 10.0.0.1, 10.0.0.0/24, 10.0.0.0/255.255.255.0, 2001:db8::/64)''"

definition validate_prefix :: "string \<Rightarrow> string option" where
  "validate_prefix s = (if parse_prefix s = None then Some (prefix_error s) else None)"

section \<open>Dotted spellings\<close>

definition format_v4 :: "32 word \<Rightarrow> string" where
  "format_v4 w = (let n = unat w; f = \<lambda>k. nat_digits (n div 256 ^ k mod 256) in
     f 3 @ CHR ''.'' # f 2 @ CHR ''.'' # f 1 @ CHR ''.'' # f 0)"

definition netmask :: "nat \<Rightarrow> 32 word" where
  "netmask n = NOT (mask (32 - n))"

lemma octet_loop_uint:
  "octet_loop v s = (case parse_uint_loop 10 255 v s of Inl _ \<Rightarrow> None | Inr n \<Rightarrow> Some n)"
proof (induction s arbitrary: v)
  case (Cons c s)
  then show ?case by (auto simp: Let_def not_le dest: digit_val_less)
qed simp

lemma hd_nat_digits: "0 < n \<Longrightarrow> hd (nat_digits n) \<noteq> CHR ''0''"
proof (induction n rule: nat_digits.induct)
  case (1 n)
  show ?case
  proof (cases "n < 10")
    case True
    have "digit_char n \<noteq> CHR ''0''"
    proof
      assume "digit_char n = CHR ''0''"
      then have "ord_of (digit_char n) = 48" by (simp add: ord_of_def)
      with True "1.prems" show False by (simp add: digit_char_def)
    qed
    with True show ?thesis by (simp add: nat_digits.simps [of n])
  next
    case False
    with 1 show ?thesis by (simp add: nat_digits.simps [of n])
  qed
qed

lemma parse_octet_digits: "n < 256 \<Longrightarrow> parse_octet (nat_digits n) = Some n"
proof -
  assume n: "n < 256"
  then have "parse_uint_loop 10 255 0 (nat_digits n) = Inr n" by (intro parse_nat_digits) simp
  moreover obtain c cs where c: "nat_digits n = c # cs" by (cases "nat_digits n") auto
  moreover have "c = CHR ''0'' \<Longrightarrow> cs = []"
  proof -
    assume "c = CHR ''0''"
    with c hd_nat_digits [of n] have "n = 0" by (cases n) auto
    with c show "cs = []" by (simp add: nat_digits.simps)
  qed
  ultimately show ?thesis by (auto simp: parse_octet_def octet_loop_uint)
qed

lemma digits_clean: "is_digit c \<Longrightarrow> c \<noteq> CHR ''.'' \<and> c \<noteq> CHR '':'' \<and> c \<noteq> CHR ''%'' \<and> c \<noteq> CHR ''/''"
  by (auto simp: is_digit_def ord_of_def)

lemma nat_digits_clean:
  "CHR ''.'' \<notin> set (nat_digits n)" "CHR '':'' \<notin> set (nat_digits n)"
  "CHR ''%'' \<notin> set (nat_digits n)" "CHR ''/'' \<notin> set (nat_digits n)"
  using nat_digits_digits digits_clean by blast+

lemma split_format: "split_on CHR ''.'' (format_v4 w) =
    [nat_digits (unat w div 256 ^ 3 mod 256), nat_digits (unat w div 256 ^ 2 mod 256),
     nat_digits (unat w div 256 ^ 1 mod 256), nat_digits (unat w div 256 ^ 0 mod 256)]"
  by (simp add: format_v4_def Let_def split_on_append split_on_none nat_digits_clean)

lemma join_octets:
  fixes n :: nat
  assumes "n < 256 ^ 4"
  shows "join_word 256 [n div 256 ^ 3 mod 256, n div 256 ^ 2 mod 256, n div 256 ^ 1 mod 256,
    n div 256 ^ 0 mod 256] = n"
proof -
  have "n div 256 ^ 3 mod 256 = n div 256 div 256 div 256"
    using assms by (simp add: div_mult2_eq)
  moreover have "n div 256 ^ 2 mod 256 = n div 256 div 256 mod 256"
    by (metis div_mult2_eq power2_eq_square)
  moreover have "k div 256 * 256 + k mod 256 = k" for k :: nat by simp
  ultimately show ?thesis by (simp add: join_word_def)
qed

lemma unat_less_32: "unat (w :: 32 word) < 2 ^ 32"
proof -
  have "unat w < 2 ^ LENGTH(32)" by (rule unsigned_less)
  then show ?thesis by simp
qed

lemma unat_less_256: "unat (w :: 32 word) < 256 ^ 4"
  using unat_less_32 [of w] by simp

lemma parse_v4_format: "parse_v4 (format_v4 w) = Some (V4 w)"
  using join_octets [OF unat_less_256, of w]
  by (simp add: parse_v4_def parse_v4_fields_def split_format parse_octet_digits Let_def)

lemma scan_digits: "\<forall>c \<in> set ds. is_digit c \<Longrightarrow> parse_addr_scan s (ds @ CHR ''.'' # r) = parse_v4 s"
  using digits_clean by (induction ds) auto

lemma parse_addr_format: "parse_addr (format_v4 w) = Some (V4 w)"
proof -
  obtain r where "format_v4 w = nat_digits (unat w div 256 ^ 3 mod 256) @ CHR ''.'' # r"
    by (simp add: format_v4_def Let_def)
  then have "parse_addr (format_v4 w) = parse_v4 (format_v4 w)"
    unfolding parse_addr_def using scan_digits [OF nat_digits_digits] by metis
  then show ?thesis by (simp add: parse_v4_format)
qed

lemma format_no_slash: "CHR ''/'' \<notin> set (format_v4 w)"
  by (simp add: format_v4_def Let_def nat_digits_clean)

section \<open>Netmasks\<close>

lemma bit_len_le: "n < 2 ^ k \<Longrightarrow> bit_len n \<le> k"
proof (induction k arbitrary: n)
  case 0
  then show ?case by (simp add: bit_len.simps)
next
  case (Suc k)
  then have "n div 2 < 2 ^ k" by simp
  from Suc.IH [OF this] show ?case by (simp add: bit_len.simps [of n])
qed

lemma bit_len_less: "n < 2 ^ bit_len n"
proof (induction n rule: bit_len.induct)
  case (1 n)
  show ?case
  proof (cases "n = 0")
    case True
    then show ?thesis by (simp add: bit_len.simps)
  next
    case False
    with 1 have "n div 2 < 2 ^ bit_len (n div 2)" by simp
    then have "n < 2 * 2 ^ bit_len (n div 2)" by linarith
    with False show ?thesis by (simp add: bit_len.simps [of n])
  qed
qed

lemma bit_len_mask: "bit_len (2 ^ k - 1) = k"
proof (rule antisym)
  show "bit_len (2 ^ k - 1) \<le> k" by (rule bit_len_le) simp
  show "k \<le> bit_len (2 ^ k - 1)"
  proof (cases k)
    case (Suc j)
    have "\<not> bit_len (2 ^ k - 1) \<le> j"
    proof
      assume "bit_len (2 ^ k - 1) \<le> j"
      then have "(2::nat) ^ bit_len (2 ^ k - 1) \<le> 2 ^ j" by (intro power_increasing) auto
      with bit_len_less [of "2 ^ k - 1"] have "(2::nat) ^ k - 1 < 2 ^ j" by linarith
      moreover have "(2::nat) ^ k = 2 * 2 ^ j" using Suc by simp
      moreover have "(1::nat) \<le> 2 ^ j" by simp
      ultimately show False by linarith
    qed
    with Suc show ?thesis by simp
  qed simp
qed

lemma unat_mask32: "k \<le> 32 \<Longrightarrow> unat (mask k :: 32 word) = 2 ^ k - 1"
proof -
  assume "k \<le> 32"
  then have "unat (mask k :: 32 word) = mask k"
    by (intro bit_eqI) (auto simp: bit_simps)
  then show ?thesis by (simp add: mask_eq_exp_minus_1)
qed

lemma leading_zeros_netmask: "n \<le> 32 \<Longrightarrow> leading_zeros32 (NOT (netmask n)) = n"
  using bit_len_mask [of "32 - n"] by (simp add: leading_zeros32_def netmask_def unat_mask32)

lemma push_netmask: "n \<le> 32 \<Longrightarrow> push_bit n (netmask n) = 0"
  by (rule bit_word_eqI) (auto simp: netmask_def bit_simps)

lemma push_bit_zero_dvd:
  assumes "push_bit k (m :: 32 word) = 0" and "k \<le> 32"
  shows "2 ^ (32 - k) dvd unat m"
proof -
  have "unat (push_bit k m) = take_bit 32 (push_bit k (unat m))"
    by (simp add: unsigned_push_bit_eq)
  with assms have "(unat m * 2 ^ k) mod 2 ^ 32 = 0"
    by (simp add: take_bit_eq_mod push_bit_eq_mult)
  moreover have "(2::nat) ^ 32 = 2 ^ (32 - k) * 2 ^ k"
    using assms(2) by (simp flip: power_add)
  ultimately have "2 ^ (32 - k) * 2 ^ k dvd unat m * 2 ^ k" by (metis dvd_eq_mod_eq_0)
  then show ?thesis by simp
qed

lemma contiguous_netmask:
  assumes "k = leading_zeros32 (NOT m)" and "k < 32 \<longrightarrow> push_bit k m = 0"
  shows "m = netmask k" and "k \<le> 32"
proof -
  show k: "k \<le> 32" using assms(1) by (simp add: leading_zeros32_def)
  have "NOT m = - 1 - m" by (simp add: not_eq_complement)
  moreover have "m \<le> - 1" by (rule word_order.extremum)
  ultimately have u: "unat (NOT m) = 2 ^ 32 - 1 - unat m"
    by (simp add: unat_sub unsigned_minus_1_eq_mask mask_eq_exp_minus_1)
  have "unat (NOT m) < 2 ^ 32" by (rule unat_less_32)
  then have bl: "bit_len (unat (NOT m)) = 32 - k"
    using assms(1) bit_len_le by (auto simp: leading_zeros32_def)
  then have lt: "unat (NOT m) < 2 ^ (32 - k)" using bit_len_less by metis
  have "2 ^ (32 - k) dvd unat m"
  proof (cases "k = 32")
    case False
    with k assms(2) show ?thesis by (intro push_bit_zero_dvd) auto
  qed simp
  then obtain q where q: "unat m = q * 2 ^ (32 - k)" by (metis dvd_def mult.commute)
  have "unat m < 2 ^ 32" by (rule unat_less_32)
  have "unat (NOT m) = 2 ^ (32 - k) - 1"
  proof -
    have "(2::nat) ^ 32 = 2 ^ k * 2 ^ (32 - k)" using k by (simp flip: power_add)
    with u q have *: "unat (NOT m) = (2 ^ k - q) * 2 ^ (32 - k) - 1"
      by (simp add: diff_mult_distrib)
    have "q < 2 ^ k"
      using q \<open>unat m < 2 ^ 32\<close> \<open>(2::nat) ^ 32 = 2 ^ k * 2 ^ (32 - k)\<close> by (metis mult_less_cancel2)
    moreover have "(2 ^ k - q) * 2 ^ (32 - k) \<le> 2 ^ (32 - k)"
      using * lt by linarith
    ultimately have "2 ^ k - q = 1" by (cases "2 ^ k - q") auto
    with * show ?thesis by simp
  qed
  then have "unat (NOT m) = unat (mask (32 - k) :: 32 word)" by (simp add: unat_mask32)
  then have "NOT m = mask (32 - k)" by (rule word_unat_eq_iff [THEN iffD2])
  then show "m = netmask k" unfolding netmask_def by (metis bit.double_compl)
qed

lemma hd_digit: "hd (nat_digits n) \<noteq> CHR ''+'' \<and> hd (nat_digits n) \<noteq> CHR ''-''"
proof -
  have "is_digit (hd (nat_digits n))" by (metis nat_digits_digits hd_in_set nat_digits_ne)
  then show ?thesis by (auto simp: is_digit_def ord_of_def)
qed

lemma atoi_dotted: "snd (atoi (format_v4 m)) \<noteq> None"
proof -
  obtain d r where f: "format_v4 m = nat_digits d @ CHR ''.'' # r" and d: "d < 256"
    by (simp add: format_v4_def Let_def)
  have "strip_sign (format_v4 m) = (False, format_v4 m)"
    using hd_digit [of d] unfolding f by (cases "nat_digits d") (auto simp: strip_sign_def)
  moreover have "parse_uint 10 64 (format_v4 m) = Inl SyntaxErr"
  proof -
    have "parse_uint_loop 10 (2 ^ 64 - 1) 0 (nat_digits d) = Inr d" using d by (intro parse_nat_digits) simp
    moreover have "\<not> is_digit CHR ''.''" by (simp add: is_digit_def ord_of_def)
    ultimately show ?thesis unfolding f by (simp add: parse_uint_def parse_uint_loop_append)
  qed
  ultimately show ?thesis by (simp add: atoi_def)
qed

lemma parse_prefix_mask:
  "parse_prefix (format_v4 w @ CHR ''/'' # format_v4 m) =
     (let k = leading_zeros32 (NOT m) in
      if k < 32 \<and> push_bit k m \<noteq> 0 then None else Some (Prefix (V4 w) k))"
proof -
  obtain n err where a: "atoi (format_v4 m) = (n, err)" by fastforce
  with atoi_dotted [of m] obtain e where "err = Some e" by auto
  with a show ?thesis
    by (simp add: parse_prefix_def cut_append format_no_slash parse_addr_format is4_def
        prefix_from_def without_zone_def Let_def)
qed

lemma parse_prefix_length:
  assumes "n \<le> 32"
  shows "parse_prefix (format_v4 w @ CHR ''/'' # itoa (int n)) = Some (Prefix (V4 w) n)"
proof -
  have "atoi (itoa (int n)) = (int n, None)"
    using assms by (intro atoi_itoa) (simp_all add: min_int64_def max_int64_def)
  moreover have "itoa (int n) = nat_digits n" by (simp add: itoa_def)
  ultimately show ?thesis
    using assms hd_digit [of n]
    by (simp add: parse_prefix_def cut_append format_no_slash parse_addr_format addr_bits_def
        prefix_from_def without_zone_def)
qed

lemma bit_clear_low: "bit (clear_low k (w :: 'a::len word)) i \<longleftrightarrow> k \<le> i \<and> bit w i"
  using bit_imp_le_length [of w i] by (auto simp: clear_low_def bit_simps)

lemma clear_low_eq_iff:
  "clear_low k (x :: 'a::len word) = clear_low k y \<longleftrightarrow> (\<forall>i. k \<le> i \<longrightarrow> bit x i = bit y i)"
  by (auto simp: bit_eq_iff bit_clear_low dest: bit_imp_le_length)

section \<open>Properties\<close>

text \<open>An IPv4 address with a dotted mask denotes a prefix exactly when the mask is one of the 33
  contiguous netmasks, and then the prefix has that length and keeps the host bits.\<close>

theorem dotted_netmask:
  "parse_prefix (format_v4 w @ CHR ''/'' # format_v4 m) = Some p \<longleftrightarrow>
     (\<exists>n \<le> 32. m = netmask n \<and> p = Prefix (V4 w) n)"
proof
  let ?k = "leading_zeros32 (NOT m)"
  assume "parse_prefix (format_v4 w @ CHR ''/'' # format_v4 m) = Some p"
  then have k: "?k < 32 \<longrightarrow> push_bit ?k m = 0" and p: "p = Prefix (V4 w) ?k"
    by (auto simp: parse_prefix_mask Let_def split: if_splits)
  from contiguous_netmask [OF refl k] p show "\<exists>n \<le> 32. m = netmask n \<and> p = Prefix (V4 w) n" by blast
next
  assume "\<exists>n \<le> 32. m = netmask n \<and> p = Prefix (V4 w) n"
  then obtain n where "n \<le> 32" "m = netmask n" "p = Prefix (V4 w) n" by blast
  then show "parse_prefix (format_v4 w @ CHR ''/'' # format_v4 m) = Some p"
    using leading_zeros_netmask push_netmask by (simp add: parse_prefix_mask Let_def)
qed

text \<open>A netmask spelling and the prefix-length spelling of the same network are equal, so a
  server that answers with one keeps a configuration written with the other.\<close>

theorem netmask_equals_length:
  assumes "n \<le> 32"
  shows "equal_cidr (format_v4 w @ CHR ''/'' # format_v4 (netmask n)) (format_v4 w @ CHR ''/'' # itoa (int n))"
proof -
  have "parse_prefix (format_v4 w @ CHR ''/'' # format_v4 (netmask n)) = Some (Prefix (V4 w) n)"
    using assms leading_zeros_netmask push_netmask by (simp add: parse_prefix_mask Let_def)
  with parse_prefix_length [OF assms] show ?thesis by (simp add: equal_cidr_def)
qed

theorem netmask_equals_length_witness:
  "equal_cidr (format_v4 0x0A000005 @ CHR ''/'' # format_v4 (netmask 24)) (format_v4 0x0A000005 @ CHR ''/'' # itoa 24)"
  using netmask_equals_length [of 24 "0x0A000005"] by simp

text \<open>Two networks are equal for a list of networks exactly when they have the same length and agree
  on the bits the mask keeps; host bits never matter.\<close>

theorem equal_network_bits:
  assumes "parse_prefix a = Some (Prefix (V4 x) n)" and "parse_prefix b = Some (Prefix (V4 y) m)"
  shows "equal_network a b \<longleftrightarrow> a = b \<or> (n = m \<and> (\<forall>i. 32 - n \<le> i \<longrightarrow> bit x i = bit y i))"
  using assms by (auto simp: equal_network_def masked_def clear_low_eq_iff)

theorem equal_network_bits_witness:
  "equal_network (format_v4 0xAC110000 @ CHR ''/'' # itoa 12) (format_v4 0xAC100000 @ CHR ''/'' # itoa 12)"
proof -
  have "clear_low 20 (0xAC110000 :: 32 word) = clear_low 20 0xAC100000"
    by (simp add: clear_low_def)
  then have "\<forall>i. 32 - 12 \<le> i \<longrightarrow> bit (0xAC110000 :: 32 word) i = bit (0xAC100000 :: 32 word) i"
    by (simp add: clear_low_eq_iff)
  with equal_network_bits [OF parse_prefix_length [of 12 "0xAC110000"] parse_prefix_length [of 12 "0xAC100000"]]
  show ?thesis by simp
qed

text \<open>Equal addresses with prefixes are equal networks.\<close>

theorem cidr_implies_network: "equal_cidr a b \<longrightarrow> equal_network a b"
  by (auto simp: equal_cidr_def equal_network_def split: option.splits)

theorem cidr_implies_network_witness:
  "equal_network (format_v4 0 @ CHR ''/'' # format_v4 (netmask 8)) (format_v4 0 @ CHR ''/'' # itoa 8)"
proof -
  have "equal_cidr (format_v4 0 @ CHR ''/'' # format_v4 (netmask 8)) (format_v4 0 @ CHR ''/'' # itoa 8)"
    using leading_zeros_netmask [of 8] push_netmask [of 8] parse_prefix_length [of 8 0]
    by (simp add: equal_cidr_def parse_prefix_mask Let_def)
  with cidr_implies_network show ?thesis by blast
qed

end
