(* ===== verification/Kinds.thy ===== *)
theory Kinds
  imports NetAddr
begin

text \<open>
  The kinds of strings whose spelling the server may change (src/internal/normalize/text.go,
  time.go, net.go): how two spellings are compared and which values are rejected. The
  contract the string type (string.go) relies on, that a comparison is an equivalence,
  is a locale, interpreted for each kind.
\<close>

section \<open>The contract of a kind\<close>

locale spelling =
  fixes eq :: "string \<Rightarrow> string \<Rightarrow> bool"
  assumes eq_refl: "eq a a"
    and eq_sym: "eq a b \<Longrightarrow> eq b a"
    and eq_trans: "eq a b \<Longrightarrow> eq b c \<Longrightarrow> eq a c"
begin

lemma eq_cong: "eq a b \<Longrightarrow> eq a c = eq b c"
  using eq_sym eq_trans by blast

lemma eq_commute: "eq a b = eq b a"
  using eq_sym by blast

end

text \<open>Most kinds compare the values two spellings parse to; a string that does not parse is equal
  only to itself.\<close>

definition equal_via :: "(string \<Rightarrow> 'a option) \<Rightarrow> string \<Rightarrow> string \<Rightarrow> bool" where
  "equal_via parse a b \<longleftrightarrow> a = b \<or> (parse a \<noteq> None \<and> parse a = parse b)"

lemma spelling_via: "spelling (equal_via parse)"
  by standard (unfold equal_via_def, metis+)

lemma spelling_canonical: "spelling (\<lambda>a b. f a = f b)"
  by standard auto

section \<open>Case-insensitive strings, e-mail addresses, trimmed texts\<close>

definition equal_case_insensitive :: "string \<Rightarrow> string \<Rightarrow> bool" where
  "equal_case_insensitive prior got = equal_fold prior got"

definition equal_email :: "string \<Rightarrow> string \<Rightarrow> bool" where
  "equal_email a b \<longleftrightarrow> a = b \<or>
     (case (cut_last CHR ''@'' a, cut_last CHR ''@'' b) of
        (Some (la, da), Some (lb, db)) \<Rightarrow> la = lb \<and> equal_fold da db
      | _ \<Rightarrow> False)"

definition crlf :: string where "crlf = [char_of (13 :: nat), char_of (10 :: nat)]"

definition trim_text :: "string \<Rightarrow> string" where
  "trim_text s = trim_space (replace_all crlf [char_of (10 :: nat)] s)"

definition equal_trimmed :: "string \<Rightarrow> string \<Rightarrow> bool" where
  "equal_trimmed a b \<longleftrightarrow> trim_text a = trim_text b"

section \<open>MAC addresses\<close>

text \<open>\<open>net.ParseMAC\<close>: two hex digits per byte, separated by colons or hyphens, or four by dots;
  6, 8 or 20 bytes.\<close>

fun hex_pairs :: "char \<Rightarrow> string \<Rightarrow> nat list option" where
  "hex_pairs sep [a, b] = (case (hex_val a, hex_val b) of
      (Some x, Some y) \<Rightarrow> Some [x * 16 + y] | _ \<Rightarrow> None)"
| "hex_pairs sep (a # b # c # r) = (case (hex_val a, hex_val b, hex_pairs sep r) of
      (Some x, Some y, Some ns) \<Rightarrow> (if c = sep then Some ((x * 16 + y) # ns) else None) | _ \<Rightarrow> None)"
| "hex_pairs sep _ = None"

fun hex_quads :: "string \<Rightarrow> nat list option" where
  "hex_quads [a, b, c, d] = (case (hex_val a, hex_val b, hex_val c, hex_val d) of
      (Some x, Some y, Some z, Some v) \<Rightarrow> Some [x * 16 + y, z * 16 + v] | _ \<Rightarrow> None)"
| "hex_quads (a # b # c # d # e # r) = (case (hex_val a, hex_val b, hex_val c, hex_val d, hex_quads r) of
      (Some x, Some y, Some z, Some v, Some ns) \<Rightarrow>
        (if e = CHR ''.'' then Some ((x * 16 + y) # (z * 16 + v) # ns) else None)
    | _ \<Rightarrow> None)"
| "hex_quads _ = None"

definition mac_length_ok :: "nat \<Rightarrow> bool" where
  "mac_length_ok n \<longleftrightarrow> n = 6 \<or> n = 8 \<or> n = 20"

definition parse_mac :: "string \<Rightarrow> nat list option" where
  "parse_mac s =
     (if length s < 14 then None
      else if s ! 2 = CHR '':'' \<or> s ! 2 = CHR ''-'' then
        (if (length s + 1) mod 3 \<noteq> 0 \<or> \<not> mac_length_ok ((length s + 1) div 3) then None
         else hex_pairs (s ! 2) s)
      else if s ! 4 = CHR ''.'' then
        (if (length s + 1) mod 5 \<noteq> 0 \<or> \<not> mac_length_ok (2 * (length s + 1) div 5) then None
         else hex_quads s)
      else None)"

definition equal_mac :: "string \<Rightarrow> string \<Rightarrow> bool" where
  "equal_mac a b \<longleftrightarrow> a = b \<or> (parse_mac a \<noteq> None \<and> parse_mac a = parse_mac b)"

section \<open>Certificate subject alternative names\<close>

datatype san_type = SanIP | SanDNS | SanEmail | SanURI

definition san_prefixes :: "(string \<times> san_type) list" where
  "san_prefixes = [(''ip address:'', SanIP), (''ip:'', SanIP), (''dns:'', SanDNS),
     (''email:'', SanEmail), (''uri:'', SanURI)]"

fun san_scan :: "string \<Rightarrow> (string \<times> san_type) list \<Rightarrow> san_type \<times> string" where
  "san_scan s [] = (if parse_addr s \<noteq> None then (SanIP, s) else (SanDNS, s))"
| "san_scan s ((p, t) # ps) =
     (if has_prefix (to_lower s) p then (t, trim_space (drop (length p) s)) else san_scan s ps)"

definition split_san :: "string \<Rightarrow> san_type \<times> string" where
  "split_san s = san_scan (trim_space s) san_prefixes"

definition san_value_equal :: "san_type \<Rightarrow> string \<Rightarrow> string \<Rightarrow> bool" where
  "san_value_equal t a b = (case t of
      SanIP \<Rightarrow> equal_ip a b
    | SanDNS \<Rightarrow> equal_fold a b
    | SanEmail \<Rightarrow> equal_email a b
    | SanURI \<Rightarrow> a = b)"

definition equal_san :: "string \<Rightarrow> string \<Rightarrow> bool" where
  "equal_san a b \<longleftrightarrow> a = b \<or>
     (case (split_san a, split_san b) of ((ta, va), (tb, vb)) \<Rightarrow>
        ta = tb \<and> san_value_equal ta va vb)"

section \<open>Times of day\<close>

definition time_error :: "string \<Rightarrow> string" where
  "time_error s = quoted s @ '' is not a time of day (expected HH:MM)''"

fun time_loop :: "string \<Rightarrow> int list \<Rightarrow> string list \<Rightarrow> int \<Rightarrow> string + int" where
  "time_loop s (l # ls) (p # ps) acc =
     (if length p < 1 \<or> 2 < length p \<or> \<not> list_all is_digit p then Inl (time_error s)
      else let n = fst (atoi p) in
        if l < n then Inl (quoted s @ '' is not a time of day: '' @ itoa n @ '' is out of range'')
        else time_loop s ls ps (acc * 60 + n))"
| "time_loop s ls ps acc = Inr acc"

definition parse_time_of_day :: "string \<Rightarrow> string + int" where
  "parse_time_of_day s =
     (let parts = split_on CHR '':'' s in
      if length parts < 2 \<or> 3 < length parts then Inl (time_error s)
      else (case time_loop s [23, 59, 59] parts 0 of
          Inl e \<Rightarrow> Inl e
        | Inr acc \<Rightarrow> Inr (if length parts = 2 then acc * 60 else acc)))"

definition right :: "'e + 'a \<Rightarrow> 'a option" where
  "right r = (case r of Inl _ \<Rightarrow> None | Inr v \<Rightarrow> Some v)"

definition equal_time_of_day :: "string \<Rightarrow> string \<Rightarrow> bool" where
  "equal_time_of_day a b \<longleftrightarrow> a = b \<or>
     (case (parse_time_of_day a, parse_time_of_day b) of (Inr x, Inr y) \<Rightarrow> x = y | _ \<Rightarrow> False)"

section \<open>Octal file modes\<close>

definition is_octal :: "char \<Rightarrow> bool" where
  "is_octal c \<longleftrightarrow> is_digit c \<and> digit_val c < 8"

definition parse_octal_mode :: "string \<Rightarrow> string + nat" where
  "parse_octal_mode s =
     (let t = trim_prefix (trim_prefix s ''0o'') ''0O'' in
      if t = [] \<or> 5 < length t \<or> \<not> list_all is_octal t
      then Inl (quoted s @ '' is not an octal file mode (for example 0755)'')
      else (case parse_uint 8 32 t of
          Inl _ \<Rightarrow> Inl (quoted s @ '' is not an octal file mode (at most 07777)'')
        | Inr n \<Rightarrow>
            if 4095 < n then Inl (quoted s @ '' is not an octal file mode (at most 07777)'') else Inr n))"

definition equal_octal_mode :: "string \<Rightarrow> string \<Rightarrow> bool" where
  "equal_octal_mode a b \<longleftrightarrow> a = b \<or>
     (case (parse_octal_mode a, parse_octal_mode b) of (Inr x, Inr y) \<Rightarrow> x = y | _ \<Rightarrow> False)"

section \<open>Every kind is an equivalence\<close>

interpretation via: spelling "equal_via parse" for parse
  by (rule spelling_via)

interpretation ci: spelling equal_case_insensitive
  by standard (auto simp: equal_case_insensitive_def equal_fold_def)

interpretation trimmed: spelling equal_trimmed
  by standard (auto simp: equal_trimmed_def)

lemma email_via: "equal_email = equal_via (\<lambda>s. map_option (\<lambda>(l, d). (l, to_lower d)) (cut_last CHR ''@'' s))"
  by (intro ext) (auto simp: equal_email_def equal_via_def equal_fold_def split: option.splits)

interpretation email: spelling equal_email
  unfolding email_via by (rule spelling_via)

lemma ip_via: "equal_ip = equal_via parse_addr"
  by (intro ext) (simp add: equal_ip_def equal_via_def)

interpretation ip: spelling equal_ip
  unfolding ip_via by (rule spelling_via)

lemma cidr_via: "equal_cidr = equal_via parse_prefix"
  by (intro ext) (simp add: equal_cidr_def equal_via_def)

interpretation cidr: spelling equal_cidr
  unfolding cidr_via by (rule spelling_via)

lemma network_via: "equal_network = equal_via (\<lambda>s. map_option masked (parse_prefix s))"
  by (intro ext) (auto simp: equal_network_def equal_via_def split: option.splits)

interpretation network: spelling equal_network
  unfolding network_via by (rule spelling_via)

lemma mac_via: "equal_mac = equal_via parse_mac"
  by (intro ext) (simp add: equal_mac_def equal_via_def)

interpretation mac: spelling equal_mac
  unfolding mac_via by (rule spelling_via)

lemma time_via: "equal_time_of_day = equal_via (\<lambda>s. right (parse_time_of_day s))"
  by (intro ext) (auto simp: equal_time_of_day_def equal_via_def right_def split: sum.splits)

interpretation time_of_day: spelling equal_time_of_day
  unfolding time_via by (rule spelling_via)

lemma octal_via: "equal_octal_mode = equal_via (\<lambda>s. right (parse_octal_mode s))"
  by (intro ext) (auto simp: equal_octal_mode_def equal_via_def right_def split: sum.splits)

interpretation octal_mode: spelling equal_octal_mode
  unfolding octal_via by (rule spelling_via)

lemma san_value_spelling: "spelling (san_value_equal t)"
proof (cases t)
  case SanIP
  have "san_value_equal t = equal_ip" by (intro ext) (simp add: san_value_equal_def SanIP)
  then show ?thesis using ip.spelling_axioms by simp
next
  case SanDNS
  have "san_value_equal t = equal_case_insensitive"
    by (intro ext) (simp add: san_value_equal_def SanDNS equal_case_insensitive_def)
  then show ?thesis using ci.spelling_axioms by simp
next
  case SanEmail
  have "san_value_equal t = equal_email" by (intro ext) (simp add: san_value_equal_def SanEmail)
  then show ?thesis using email.spelling_axioms by simp
next
  case SanURI
  have "san_value_equal t = (=)" by (intro ext) (simp add: san_value_equal_def SanURI)
  then show ?thesis by (simp add: spelling_def)
qed

lemma san_iff: "equal_san a b \<longleftrightarrow> fst (split_san a) = fst (split_san b) \<and>
    san_value_equal (fst (split_san a)) (snd (split_san a)) (snd (split_san b))"
  using spelling.eq_refl [OF san_value_spelling]
  by (auto simp: equal_san_def split: prod.splits)

interpretation san: spelling equal_san
proof
  show "equal_san a a" for a by (simp add: equal_san_def)
  show "equal_san a b \<Longrightarrow> equal_san b a" for a b
    using spelling.eq_sym [OF san_value_spelling] by (auto simp: san_iff)
  show "equal_san a b \<Longrightarrow> equal_san b c \<Longrightarrow> equal_san a c" for a b c
    using spelling.eq_trans [OF san_value_spelling] by (auto simp: san_iff)
qed

section \<open>Spellings of a time\<close>

text \<open>A number below 100 with or without a leading zero.\<close>

definition spell2 :: "bool \<Rightarrow> nat \<Rightarrow> string" where
  "spell2 z n = (if z \<and> n < 10 then CHR ''0'' # nat_digits n else nat_digits n)"

lemma nat_digits_length: "n < 100 \<Longrightarrow> length (nat_digits n) = (if n < 10 then 1 else 2)"
proof -
  assume "n < 100"
  then have "n div 10 < 10" by simp
  then show ?thesis by (simp add: nat_digits.simps [of n] nat_digits.simps [of "n div 10"])
qed

lemma zero_digit: "is_digit CHR ''0''" "digit_val CHR ''0'' = 0"
  by (simp_all add: is_digit_def digit_val_def ord_of_def)

lemma spell2_digits: "\<forall>c \<in> set (spell2 z n). is_digit c"
  using nat_digits_digits zero_digit by (auto simp: spell2_def)

lemma spell2_length: "n < 100 \<Longrightarrow> 1 \<le> length (spell2 z n) \<and> length (spell2 z n) \<le> 2"
  by (simp add: spell2_def nat_digits_length)

lemma atoi_spell2: "n < 100 \<Longrightarrow> atoi (spell2 z n) = (int n, None)"
proof -
  assume n: "n < 100"
  have ne: "spell2 z n \<noteq> []" by (simp add: spell2_def)
  have "parse_uint_loop 10 (2 ^ 64 - 1) 0 (nat_digits n) = Inr n"
    using n by (intro parse_nat_digits) simp
  then have "parse_uint_loop 10 (2 ^ 64 - 1) 0 (spell2 z n) = Inr n"
    by (simp add: spell2_def zero_digit)
  with n ne show ?thesis
    by (simp add: atoi_def strip_sign_digits spell2_digits parse_uint_def max_int64_def)
qed

lemma spell2_no_colon: "CHR '':'' \<notin> set (spell2 z n)"
  using spell2_digits digits_clean by blast

lemma time_step:
  assumes "int n \<le> l" and "l < 100"
  shows "time_loop s (l # ls) (spell2 z n # ps) acc = time_loop s ls ps (acc * 60 + int n)"
  using assms spell2_length [of n z] spell2_digits [of z n] atoi_spell2 [of n z]
  by (auto simp: list_all_iff)

lemma atoi_digits_nonneg: "p \<noteq> [] \<Longrightarrow> \<forall>c \<in> set p. is_digit c \<Longrightarrow> 0 \<le> fst (atoi p)"
  using strip_sign_digits [of p]
  by (auto simp: atoi_def max_int64_def split: sum.splits num_error.splits)

lemma time_loop_bound:
  assumes "time_loop s ls ps acc = Inr t" and "0 \<le> acc"
    and "\<forall>l \<in> set ls. l \<le> 59" and "length ps \<le> length ls"
  shows "0 \<le> t \<and> t < (acc + 1) * 60 ^ length ps"
  using assms
proof (induction s ls ps acc rule: time_loop.induct)
  case (1 s l ls p ps acc)
  let ?n = "fst (atoi p)"
  from 1 have ok: "1 \<le> length p" "length p \<le> 2" "list_all is_digit p" "?n \<le> l"
    "time_loop s ls ps (acc * 60 + ?n) = Inr t"
    by (auto simp: Let_def not_less Suc_le_eq split: if_splits)
  have "0 \<le> ?n"
    using ok by (intro atoi_digits_nonneg) (auto simp: list_all_iff)
  moreover have "?n \<le> 59" using ok 1 by auto
  moreover have "p \<noteq> []" using ok by auto
  ultimately have t: "0 \<le> t" "t < (acc * 60 + ?n + 1) * 60 ^ length ps"
    using 1 ok by (auto simp: Let_def)
  have le: "(acc * 60 + ?n + 1) * 60 ^ length ps \<le> (acc + 1) * 60 * 60 ^ length ps"
    using \<open>?n \<le> 59\<close> by (intro mult_right_mono) auto
  have eq: "(acc + 1) * 60 ^ length (p # ps) = (acc + 1) * 60 * 60 ^ length ps" by simp
  show ?case unfolding eq using t(1) less_le_trans [OF t(2) le] by (rule conjI)
qed auto

section \<open>Properties\<close>

text \<open>A time of day written with or without leading zeros, and with or without seconds, parses to
  the seconds since midnight it names.\<close>

theorem time_of_day_spellings:
  assumes "h \<le> 23" and "m \<le> 59" and "sec \<le> 59"
  shows "parse_time_of_day (spell2 z1 h @ CHR '':'' # spell2 z2 m @ CHR '':'' # spell2 z3 sec) =
      Inr (int (h * 3600 + m * 60 + sec)) \<and>
    parse_time_of_day (spell2 z1 h @ CHR '':'' # spell2 z2 m) = Inr (int (h * 3600 + m * 60))"
proof -
  have s: "split_on CHR '':'' (spell2 z1 h @ CHR '':'' # spell2 z2 m @ CHR '':'' # spell2 z3 sec) =
      [spell2 z1 h, spell2 z2 m, spell2 z3 sec]"
    "split_on CHR '':'' (spell2 z1 h @ CHR '':'' # spell2 z2 m) = [spell2 z1 h, spell2 z2 m]"
    by (simp_all add: split_on_append split_on_none spell2_no_colon)
  show ?thesis
    using assms by (simp add: parse_time_of_day_def Let_def s time_step del: time_loop.simps(1))
qed

theorem time_of_day_spellings_witness:
  "parse_time_of_day (spell2 False 8 @ CHR '':'' # spell2 True 5) = Inr 29100 \<and>
   equal_time_of_day (spell2 False 8 @ CHR '':'' # spell2 True 5) (spell2 True 8 @ CHR '':'' # spell2 False 5)"
  using time_of_day_spellings [of 8 5 0 False True False] time_of_day_spellings [of 8 5 0 True False False]
  by (simp add: equal_time_of_day_def)

text \<open>What parses as a time of day is a second of a day, with or without the seconds part, except
  that nothing past 23:59:59 is accepted.\<close>

theorem time_of_day_range:
  "case parse_time_of_day s of Inl _ \<Rightarrow> True | Inr t \<Rightarrow> 0 \<le> t \<and> t < 86400"
proof (cases "parse_time_of_day s")
  case (Inr t)
  let ?ps = "split_on CHR '':'' s"
  from Inr obtain a where a: "time_loop s [23, 59, 59] ?ps 0 = Inr a" and
    t: "t = (if length ?ps = 2 then a * 60 else a)" and l: "length ?ps = 2 \<or> length ?ps = 3"
    by (auto simp: parse_time_of_day_def Let_def split: sum.splits if_splits)
  then obtain p ps where p: "?ps = p # ps" by (cases ?ps) auto
  let ?n = "fst (atoi p)"
  have d: "p \<noteq> []" "\<forall>c \<in> set p. is_digit c" "?n \<le> 23" and r: "time_loop s [59, 59] ps ?n = Inr a"
    using a p by (auto simp: Let_def list_all_iff not_less split: if_splits)
  have "0 \<le> ?n" using d by (intro atoi_digits_nonneg)
  with r p l have "0 \<le> a \<and> a < (?n + 1) * 60 ^ length ps"
    by (intro time_loop_bound) auto
  then have "0 \<le> t" "t < (?n + 1) * 3600" using t l p by (auto simp: eval_nat_numeral)
  moreover have "(?n + 1) * 3600 \<le> 86400" using d(3) by simp
  ultimately show ?thesis using Inr by simp
qed simp


text \<open>A mode that parses is a 12-bit value, and a leading 0 or 0o does not change it.\<close>

theorem octal_mode_prefix:
  assumes "parse_octal_mode s = Inr n" and "s \<noteq> []" and "length s \<le> 4" and "list_all is_octal s"
  shows "n \<le> 4095 \<and> parse_octal_mode (CHR ''0'' # s) = Inr n \<and> parse_octal_mode (''0o'' @ s) = Inr n"
proof -
  have no: "has_prefix s ''0o'' = False" "has_prefix s ''0O'' = False"
    "has_prefix (CHR ''0'' # s) ''0o'' = False" "has_prefix (CHR ''0'' # s) ''0O'' = False"
    using assms(4) by (cases s; cases "tl s";
      auto simp: has_prefix_def is_octal_def is_digit_def ord_of_def)+
  have z: "is_octal CHR ''0''" by (simp add: is_octal_def zero_digit)
  from assms no have "parse_uint_loop 8 (2 ^ 32 - 1) 0 s = Inr n" "n \<le> 4095"
    by (auto simp: parse_octal_mode_def trim_prefix_def parse_uint_def Let_def not_less
        split: sum.splits if_splits)
  with assms no z show ?thesis
    by (simp add: parse_octal_mode_def trim_prefix_def parse_uint_def zero_digit)
       (simp add: has_prefix_def)
qed

theorem octal_mode_prefix_witness:
  "parse_octal_mode ''0755'' = Inr 493 \<and> parse_octal_mode ''0o755'' = Inr 493"
proof -
  have "parse_octal_mode ''755'' = Inr 493" "list_all is_octal ''755''"
    by (simp_all add: parse_octal_mode_def trim_prefix_def has_prefix_def parse_uint_def is_octal_def
        is_digit_def digit_val_def ord_of_def)
  with octal_mode_prefix [of "''755''" 493] show ?thesis by simp
qed

end
