(* ===== verification/SemEq.thy ===== *)
theory SemEq
  imports Kinds "HOL-Library.Multiset"
begin

text \<open>
  Values whose equality with the server's answer is semantic (src/internal/normalize/string.go,
  list.go, types.go, planmod.go): normalized strings, unordered lists, and the plan
  modifiers that keep the state's spelling. The text-to-document step of encoding/json and the
  literal-to-number step of math/big are the parameter \<open>json_lib\<close>.
\<close>

section \<open>Kinds\<close>

record json_lib =
  jl_decode :: "string \<Rightarrow> gval option"
  jl_lit :: "string \<Rightarrow> bigf option"

datatype kind = IPAddress | CIDR | Network | Email | CaseInsensitive | TimeOfDay | Trimmed | SAN
  | OctalMode | JSON | JSONSubset

definition kind_name :: "kind \<Rightarrow> string" where
  "kind_name k = (case k of
      IPAddress \<Rightarrow> ''IPAddress'' | CIDR \<Rightarrow> ''CIDR'' | Network \<Rightarrow> ''Network'' | Email \<Rightarrow> ''Email''
    | CaseInsensitive \<Rightarrow> ''CaseInsensitive'' | TimeOfDay \<Rightarrow> ''TimeOfDay'' | Trimmed \<Rightarrow> ''Trimmed''
    | SAN \<Rightarrow> ''SAN'' | OctalMode \<Rightarrow> ''OctalMode'' | JSON \<Rightarrow> ''JSON'' | JSONSubset \<Rightarrow> ''JSONSubset'')"

definition kind_equal :: "json_lib \<Rightarrow> kind \<Rightarrow> string \<Rightarrow> string \<Rightarrow> bool" where
  "kind_equal jl k = (case k of
      IPAddress \<Rightarrow> equal_ip | CIDR \<Rightarrow> equal_cidr | Network \<Rightarrow> equal_network | Email \<Rightarrow> equal_email
    | CaseInsensitive \<Rightarrow> equal_case_insensitive | TimeOfDay \<Rightarrow> equal_time_of_day
    | Trimmed \<Rightarrow> equal_trimmed | SAN \<Rightarrow> equal_san | OctalMode \<Rightarrow> equal_octal_mode
    | JSON \<Rightarrow> equal_json (jl_decode jl) (jl_lit jl)
    | JSONSubset \<Rightarrow> json_subset_of (jl_decode jl) (jl_lit jl))"

definition left :: "'e + 'a \<Rightarrow> 'e option" where
  "left r = (case r of Inl e \<Rightarrow> Some e | Inr _ \<Rightarrow> None)"

definition validate_json :: "json_lib \<Rightarrow> string \<Rightarrow> string option" where
  "validate_json jl s = (if jl_decode jl s = None then Some ''not a valid JSON document'' else None)"

definition kind_validate :: "json_lib \<Rightarrow> kind \<Rightarrow> string \<Rightarrow> string option" where
  "kind_validate jl k s = (case k of
      IPAddress \<Rightarrow> (if parse_addr s = None then Some (quoted s @ '' is not an IP address'') else None)
    | CIDR \<Rightarrow> validate_prefix s
    | Network \<Rightarrow> validate_prefix s
    | TimeOfDay \<Rightarrow> left (parse_time_of_day s)
    | OctalMode \<Rightarrow> left (parse_octal_mode s)
    | JSON \<Rightarrow> validate_json jl s
    | JSONSubset \<Rightarrow> validate_json jl s
    | _ \<Rightarrow> None)"

section \<open>Attribute values\<close>

text \<open>A string of a kind, a plain string, or an int64.\<close>

datatype attr = SVal kind "string tf" | Plain "string tf" | IVal "int tf"

definition new_value :: "kind \<Rightarrow> string \<Rightarrow> attr" where "new_value k s = SVal k (Known s)"

definition new_null :: "kind \<Rightarrow> attr" where "new_null k = SVal k TfNull"

definition new_unknown :: "kind \<Rightarrow> attr" where "new_unknown k = SVal k TfUnknown"

definition new_pointer :: "kind \<Rightarrow> string option \<Rightarrow> attr" where
  "new_pointer k p = SVal k (case p of None \<Rightarrow> TfNull | Some s \<Rightarrow> Known s)"

definition value_from_string :: "kind \<Rightarrow> string tf \<Rightarrow> attr" where
  "value_from_string k v = SVal k v"

text \<open>\<open>StringSemanticEquals\<close>: \<open>v\<close> is the new value, \<open>prior\<close> the plan's or the state's.\<close>

definition string_semantic_equals :: "json_lib \<Rightarrow> kind \<Rightarrow> string tf \<Rightarrow> attr \<Rightarrow> bool" where
  "string_semantic_equals jl k v prior = (case prior of
      SVal k' p \<Rightarrow>
        if k' \<noteq> k then False
        else (case (p, v) of
            (Known a, Known b) \<Rightarrow> (if a = b then True else kind_equal jl k a b)
          | _ \<Rightarrow> False)
    | _ \<Rightarrow> False)"

definition validate_attribute :: "json_lib \<Rightarrow> kind \<Rightarrow> string tf \<Rightarrow> (string \<times> string) option" where
  "validate_attribute jl k v = (case v of
      Known s \<Rightarrow>
        if s = [] then None
        else map_option (\<lambda>e. (''Invalid '' @ kind_name k @ '' value'', e)) (kind_validate jl k s)
    | _ \<Rightarrow> None)"

fun attr_is_null :: "attr \<Rightarrow> bool" where
  "attr_is_null (SVal k v) = is_null v"
| "attr_is_null (Plain v) = is_null v"
| "attr_is_null (IVal v) = is_null v"

fun attr_is_unknown :: "attr \<Rightarrow> bool" where
  "attr_is_unknown (SVal k v) = is_unknown v"
| "attr_is_unknown (Plain v) = is_unknown v"
| "attr_is_unknown (IVal v) = is_unknown v"

section \<open>Unordered lists\<close>

definition element_equal :: "json_lib \<Rightarrow> attr \<Rightarrow> attr \<Rightarrow> bool" where
  "element_equal jl prior got =
     (if attr_is_unknown prior \<or> attr_is_unknown got then False
      else if prior = got then True
      else if attr_is_null prior \<or> attr_is_null got then False
      else (case got of SVal k v \<Rightarrow> string_semantic_equals jl k v prior | _ \<Rightarrow> False))"

text \<open>The inner loop: the first element of \<open>got\<close> not yet used that equals \<open>w\<close> is marked.\<close>

fun take_first :: "('a \<Rightarrow> bool) \<Rightarrow> 'a list \<Rightarrow> bool list \<Rightarrow> bool list option" where
  "take_first p (g # gs) (u # us) =
     (if \<not> u \<and> p g then Some (True # us) else map_option (Cons u) (take_first p gs us))"
| "take_first p _ _ = None"

fun match_all :: "('a \<Rightarrow> 'a \<Rightarrow> bool) \<Rightarrow> 'a list \<Rightarrow> 'a list \<Rightarrow> bool list \<Rightarrow> bool" where
  "match_all eq [] got used = True"
| "match_all eq (w # ws) got used = (case take_first (eq w) got used of
      None \<Rightarrow> False | Some used' \<Rightarrow> match_all eq ws got used')"

definition list_semantic_equals :: "json_lib \<Rightarrow> attr list tf \<Rightarrow> attr list tf \<Rightarrow> bool" where
  "list_semantic_equals jl v prior = (case (v, prior) of
      (Known got, Known want) \<Rightarrow>
        if length got \<noteq> length want then False
        else match_all (element_equal jl) want got (replicate (length got) False)
    | _ \<Rightarrow> False)"

section \<open>Keeping the state's spelling in a plan\<close>

definition strings_equivalent :: "json_lib \<Rightarrow> kind \<Rightarrow> string tf \<Rightarrow> string tf \<Rightarrow> bool" where
  "strings_equivalent jl k config state =
     (if k = JSONSubset
      then equal_json (jl_decode jl) (jl_lit jl) (value_string config) (value_string state)
      else string_semantic_equals jl k state (value_from_string k config))"

definition keep_state_string :: "json_lib \<Rightarrow> kind \<Rightarrow> string tf \<Rightarrow> string tf \<Rightarrow> string tf \<Rightarrow> string tf" where
  "keep_state_string jl k state config plan =
     (if is_null state \<or> is_unknown state \<or> is_null config \<or> is_unknown config \<or>
         is_unknown plan \<or> plan = state
      then plan
      else if strings_equivalent jl k config state then state else plan)"

fun elements_loop :: "json_lib \<Rightarrow> attr list \<Rightarrow> attr list \<Rightarrow> bool" where
  "elements_loop jl (c # cs) (s # ss) = (if element_equal jl c s then elements_loop jl cs ss else False)"
| "elements_loop jl _ _ = True"

definition elements_equivalent :: "json_lib \<Rightarrow> attr list \<Rightarrow> attr list \<Rightarrow> bool" where
  "elements_equivalent jl config state =
     (if length config \<noteq> length state then False else elements_loop jl config state)"

text \<open>\<open>unordered\<close> says whether the attribute's list type is \<open>UnorderedListType\<close>.\<close>

definition keep_state_list ::
  "json_lib \<Rightarrow> bool \<Rightarrow> attr list tf \<Rightarrow> attr list tf \<Rightarrow> attr list tf \<Rightarrow> attr list tf" where
  "keep_state_list jl unordered state config plan =
     (if is_null state \<or> is_unknown state \<or> is_null config \<or> is_unknown config \<or>
         is_unknown plan \<or> plan = state
      then plan
      else if (if unordered then list_semantic_equals jl state config
               else elements_equivalent jl (value_or [] config) (value_or [] state))
           then state else plan)"

section \<open>The greedy matching is complete\<close>

text \<open>What is left of \<open>got\<close>.\<close>

fun unused :: "'a list \<Rightarrow> bool list \<Rightarrow> 'a list" where
  "unused (g # gs) (u # us) = (if u then unused gs us else g # unused gs us)"
| "unused _ _ = []"

lemma take_first_None: "take_first p gs us = None \<Longrightarrow> x \<in> set (unused gs us) \<Longrightarrow> \<not> p x"
  by (induction p gs us rule: take_first.induct) (auto split: if_splits)

lemma take_first_Some:
  "take_first p gs us = Some us' \<Longrightarrow>
     \<exists>g. p g \<and> mset (unused gs us) = add_mset g (mset (unused gs us'))"
proof (induction p gs us arbitrary: us' rule: take_first.induct)
  case (1 p g gs u us)
  show ?case
  proof (cases "\<not> u \<and> p g")
    case True
    with "1.prems" have "us' = True # us" by auto
    with True show ?thesis by (intro exI [of _ g]) auto
  next
    case False
    with "1.prems" obtain vs where vs: "take_first p gs us = Some vs" "us' = u # vs"
      by (auto simp del: not_all split: if_splits)
    from "1.IH" [OF False vs(1)] obtain x where
      "p x" "mset (unused gs us) = add_mset x (mset (unused gs vs))" by blast
    with vs show ?thesis by (intro exI [of _ x]) auto
  qed
qed simp_all

locale partial_equivalence =
  fixes R :: "'a \<Rightarrow> 'a \<Rightarrow> bool"
  assumes sym: "R a b \<Longrightarrow> R b a" and trans: "R a b \<Longrightarrow> R b c \<Longrightarrow> R a c"
begin

lemma swap_in:
  assumes "list_all2 R ws zs" and "g \<in> set zs" and "R w g" and "R w z"
  shows "\<exists>zs'. list_all2 R ws zs' \<and> mset zs' = add_mset z (mset zs) - {#g#}"
  using assms
proof (induction ws zs rule: list_all2_induct)
  case (Cons v vs y ys)
  show ?case
  proof (cases "y = g")
    case True
    have "R v z" using Cons.hyps(1) True \<open>R w g\<close> \<open>R w z\<close> sym trans by blast
    with Cons.hyps(2) True show ?thesis by (intro exI [of _ "z # ys"]) simp
  next
    case False
    with Cons obtain zs' where "list_all2 R vs zs'" "mset zs' = add_mset z (mset ys) - {#g#}" by auto
    with Cons.hyps(1) False Cons.prems(1) show ?thesis
      by (intro exI [of _ "y # zs'"]) (auto simp: diff_union_swap2)
  qed
qed simp

lemma match_all_iff:
  "match_all R ws gs us \<longleftrightarrow> (\<exists>zs. list_all2 R ws zs \<and> mset zs \<subseteq># mset (unused gs us))"
proof (induction ws arbitrary: us)
  case Nil
  show ?case by (auto intro: exI [of _ "[]"])
next
  case (Cons w ws)
  show ?case
  proof (cases "take_first (R w) gs us")
    case None
    have "\<not> mset (z # zs) \<subseteq># mset (unused gs us)" if "R w z" for z zs
      using take_first_None [OF None, of z] that
        mset_subset_eqD [of "mset (z # zs)" "mset (unused gs us)" z] by auto
    then have "\<not> (\<exists>zs. list_all2 R (w # ws) zs \<and> mset zs \<subseteq># mset (unused gs us))"
      by (auto simp: list_all2_Cons1)
    with None show ?thesis by simp
  next
    case (Some us')
    from take_first_Some [OF Some] obtain g where
      g: "R w g" "mset (unused gs us) = add_mset g (mset (unused gs us'))" by blast
    have "(\<exists>zs. list_all2 R ws zs \<and> mset zs \<subseteq># mset (unused gs us')) \<longleftrightarrow>
        (\<exists>zs. list_all2 R (w # ws) zs \<and> mset zs \<subseteq># mset (unused gs us))"
    proof
      assume "\<exists>zs. list_all2 R ws zs \<and> mset zs \<subseteq># mset (unused gs us')"
      then obtain zs where "list_all2 R ws zs" "mset zs \<subseteq># mset (unused gs us')" by blast
      with g show "\<exists>zs. list_all2 R (w # ws) zs \<and> mset zs \<subseteq># mset (unused gs us)"
        by (intro exI [of _ "g # zs"]) simp
    next
      assume "\<exists>zs. list_all2 R (w # ws) zs \<and> mset zs \<subseteq># mset (unused gs us)"
      then obtain z zs where z: "R w z" "list_all2 R ws zs"
        "add_mset z (mset zs) \<subseteq># add_mset g (mset (unused gs us'))"
        using g by (auto simp: list_all2_Cons1)
      show "\<exists>zs. list_all2 R ws zs \<and> mset zs \<subseteq># mset (unused gs us')"
      proof (cases "g \<in> set zs")
        case True
        from swap_in [OF z(2) True g(1) z(1)] obtain zs' where
          "list_all2 R ws zs'" "mset zs' = add_mset z (mset zs) - {#g#}" by blast
        with z(3) show ?thesis by (metis add_mset_diff_bothsides add_mset_remove_trivial
              diff_empty subset_eq_diff_conv union_mset_add_mset_right add.right_neutral)
      next
        case False
        have "mset zs \<subseteq># add_mset g (mset (unused gs us'))"
          using z(3) by (meson mset_subset_eq_add_mset_cancel subset_mset.order_trans
              multi_subset_induct mset_subset_eq_insertD subset_mset.less_imp_le)
        then have le: "count (mset zs) x \<le> count (add_mset g (mset (unused gs us'))) x" for x
          by (rule mset_subset_eq_count)
        have "mset zs \<subseteq># mset (unused gs us')"
        proof (rule mset_subset_eqI)
          have "count (mset zs) g = 0" using False by (simp add: count_eq_zero_iff)
          then show "count (mset zs) x \<le> count (mset (unused gs us')) x" for x
            using le [of x] by (cases "x = g") (metis le0, simp)
        qed
        with z(2) show ?thesis by blast
      qed
    qed
    with Some Cons.IH show ?thesis by simp
  qed
qed

end

lemma unused_all: "unused gs (replicate (length gs) False) = gs"
  by (induction gs) auto

context partial_equivalence
begin

text \<open>Started with nothing used on lists of equal length, the greedy loop succeeds exactly when some
  rearrangement of \<open>got\<close> matches \<open>want\<close> element by element.\<close>

lemma match_all_permutation:
  assumes "length ws = length gs"
  shows "match_all R ws gs (replicate (length gs) False) \<longleftrightarrow>
    (\<exists>zs. list_all2 R ws zs \<and> mset zs = mset gs)"
proof -
  have "mset zs = mset gs" if "list_all2 R ws zs" "mset zs \<subseteq># mset gs" for zs
    using that assms list_all2_lengthD [OF that(1)]
    by (metis mset_subset_size nat_less_le size_mset subset_mset.le_less)
  then show ?thesis by (auto simp: match_all_iff unused_all)
qed

lemma match_all_sym:
  assumes "length ws = length gs" and "match_all R ws gs (replicate (length gs) False)"
  shows "match_all R gs ws (replicate (length ws) False)"
proof -
  from assms obtain zs where zs: "list_all2 R ws zs" "mset zs = mset gs"
    by (auto simp: match_all_permutation)
  have "list_all2 R zs ws" using zs(1) sym by (auto simp: list_all2_conv_all_nth)
  then obtain ys where "list_all2 R gs ys" "mset ys = mset ws"
    using zs(2) list_all2_reorder_left_invariance by metis
  then show ?thesis unfolding match_all_permutation [OF assms(1) [symmetric]] by blast
qed

end

section \<open>Element equality is a partial equivalence\<close>

definition json_ok :: "json_lib \<Rightarrow> bool" where
  "json_ok jl \<longleftrightarrow> (\<forall>s v. jl_decode jl s = Some v \<longrightarrow> wf_val v)"

lemma json_spelling:
  assumes "json_ok jl"
  shows "spelling (equal_json (jl_decode jl) (jl_lit jl))"
proof
  fix a b c
  show "equal_json (jl_decode jl) (jl_lit jl) a a" by (simp add: equal_json_def)
  show "equal_json (jl_decode jl) (jl_lit jl) a b \<Longrightarrow> equal_json (jl_decode jl) (jl_lit jl) b a"
    using assms by (auto simp: equal_json_def equal_documents_def json_ok_def
        intro: equal_tree_sym split: option.splits if_splits)
  show "equal_json (jl_decode jl) (jl_lit jl) a b \<Longrightarrow> equal_json (jl_decode jl) (jl_lit jl) b c \<Longrightarrow>
      equal_json (jl_decode jl) (jl_lit jl) a c"
    using assms by (auto simp: equal_json_def equal_documents_def json_ok_def
        intro: equal_tree_trans split: option.splits if_splits)
qed

lemma kind_spelling: "json_ok jl \<Longrightarrow> k \<noteq> JSONSubset \<Longrightarrow> spelling (kind_equal jl k)"
  by (cases k) (simp_all add: kind_equal_def json_spelling ip.spelling_axioms cidr.spelling_axioms
      network.spelling_axioms email.spelling_axioms ci.spelling_axioms time_of_day.spelling_axioms
      trimmed.spelling_axioms san.spelling_axioms octal_mode.spelling_axioms)

text \<open>The subset comparison of JSON documents is not symmetric, so elements of that kind are left
  out; no attribute is a list of them.\<close>

fun symmetric_attr :: "attr \<Rightarrow> bool" where
  "symmetric_attr (SVal k v) = (k \<noteq> JSONSubset)"
| "symmetric_attr _ = True"

definition element_rel :: "json_lib \<Rightarrow> attr \<Rightarrow> attr \<Rightarrow> bool" where
  "element_rel jl a b \<longleftrightarrow> json_ok jl \<and> symmetric_attr a \<and> symmetric_attr b \<and> element_equal jl a b"

lemma element_equal_SVal:
  "element_equal jl a (SVal k v) \<longleftrightarrow>
     (\<exists>p. a = SVal k p \<and> (case (p, v) of
        (Known x, Known y) \<Rightarrow> x = y \<or> kind_equal jl k x y
      | (TfNull, TfNull) \<Rightarrow> True | _ \<Rightarrow> False))"
proof (cases a)
  case (SVal k' p)
  then show ?thesis
    by (cases p; cases v) (auto simp: element_equal_def string_semantic_equals_def)
qed (cases v; auto simp: element_equal_def string_semantic_equals_def split: tf.splits)+

lemma element_equal_other:
  "\<nexists>k v. b = SVal k v \<Longrightarrow> element_equal jl a b \<longleftrightarrow> a = b \<and> \<not> attr_is_unknown b"
  by (cases b) (auto simp: element_equal_def)

interpretation elements: partial_equivalence "element_rel jl" for jl
proof
  fix a b c
  assume "element_rel jl a b"
  then show "element_rel jl b a"
  proof (cases b)
    case (SVal k v)
    with \<open>element_rel jl a b\<close> obtain p where p: "a = SVal k p" "json_ok jl" "k \<noteq> JSONSubset"
      by (auto simp: element_rel_def element_equal_SVal)
    note kind_spelling [OF p(2,3)]
    then show ?thesis
      using \<open>element_rel jl a b\<close> SVal p
      by (auto simp: element_rel_def element_equal_SVal split: tf.splits dest: spelling.eq_sym)
  qed (auto simp: element_rel_def element_equal_other)
next
  fix a b c
  assume ab: "element_rel jl a b" and bc: "element_rel jl b c"
  then show "element_rel jl a c"
  proof (cases c)
    case (SVal k v)
    with bc obtain p where p: "b = SVal k p" "json_ok jl" "k \<noteq> JSONSubset"
      by (auto simp: element_rel_def element_equal_SVal)
    note kind_spelling [OF p(2,3)]
    then show ?thesis
      using ab bc SVal p
      by (auto simp: element_rel_def element_equal_SVal split: tf.splits dest: spelling.eq_trans)
  qed (auto simp: element_rel_def element_equal_other)
qed

lemma take_first_cong:
  "(\<And>g. g \<in> set gs \<Longrightarrow> p g = q g) \<Longrightarrow> take_first p gs us = take_first q gs us"
  by (induction p gs us rule: take_first.induct) auto

lemma match_all_cong:
  "(\<And>w g. w \<in> set ws \<Longrightarrow> g \<in> set gs \<Longrightarrow> eq w g = eq' w g) \<Longrightarrow>
     match_all eq ws gs us = match_all eq' ws gs us"
proof (induction ws arbitrary: us)
  case (Cons w ws)
  have "take_first (eq w) gs us = take_first (eq' w) gs us"
    using Cons.prems by (intro take_first_cong) auto
  with Cons show ?case by (auto split: option.splits)
qed simp

lemma list_equal_permutation:
  assumes "json_ok jl" and "list_all symmetric_attr got" and "list_all symmetric_attr want"
  shows "list_semantic_equals jl (Known got) (Known want) \<longleftrightarrow>
    (\<exists>zs. list_all2 (element_equal jl) want zs \<and> mset zs = mset got)"
proof (cases "length got = length want")
  case True
  have rel: "element_equal jl w g = element_rel jl w g" if "w \<in> set want" "g \<in> set got" for w g
    using assms that by (auto simp: element_rel_def list_all_iff)
  have all2: "list_all2 (element_equal jl) want zs = list_all2 (element_rel jl) want zs"
    if "mset zs = mset got" for zs
  proof (rule list.rel_cong [OF refl refl])
    fix x y assume "x \<in> set want" "y \<in> set zs"
    then show "element_equal jl x y = element_rel jl x y"
      using rel that by (metis set_mset_mset)
  qed
  have "list_semantic_equals jl (Known got) (Known want) \<longleftrightarrow>
      match_all (element_rel jl) want got (replicate (length got) False)"
    using True match_all_cong [of want got "element_equal jl" "element_rel jl"] rel
    by (simp add: list_semantic_equals_def)
  then show ?thesis
    using elements.match_all_permutation [of want got jl] True all2 by metis
next
  case False
  then have "\<not> (list_all2 (element_equal jl) want zs \<and> mset zs = mset got)" for zs
    by (metis list_all2_lengthD size_mset)
  with False show ?thesis by (simp add: list_semantic_equals_def)
qed

section \<open>Properties\<close>

definition no_json :: json_lib where
  "no_json = \<lparr>jl_decode = \<lambda>_. None, jl_lit = \<lambda>_. None\<rparr>"

lemma no_json_ok [simp]: "json_ok no_json"
  by (simp add: json_ok_def no_json_def)

text \<open>The greedy loop over an unordered list is exact: the list from the server is equal to the prior
  one precisely when it can be rearranged so that every element equals its counterpart, with
  duplicates counted and each element compared by its own kind.\<close>

theorem unordered_list_exact:
  assumes "json_ok jl" and "list_all symmetric_attr got" and "list_all symmetric_attr want"
  shows "list_semantic_equals jl (Known got) (Known want) \<longleftrightarrow>
    (\<exists>zs. list_all2 (element_equal jl) want zs \<and> mset zs = mset got)"
  using assms by (rule list_equal_permutation)

theorem unordered_list_exact_witness:
  "list_semantic_equals no_json
     (Known [new_value CaseInsensitive ''B'', new_value CaseInsensitive ''a''])
     (Known [new_value CaseInsensitive ''A'', new_value CaseInsensitive ''b''])"
proof -
  let ?want = "[new_value CaseInsensitive ''A'', new_value CaseInsensitive ''b'']"
  let ?zs = "[new_value CaseInsensitive ''a'', new_value CaseInsensitive ''B'']"
  have "list_all2 (element_equal no_json) ?want ?zs"
    by (simp add: new_value_def element_equal_SVal kind_equal_def equal_case_insensitive_def
        equal_fold_def to_lower_def) (simp add: ord_of_lower_char is_upper_def flip: ord_of_inject, simp add: ord_of_def)
  then show ?thesis
    using unordered_list_exact [of no_json "[new_value CaseInsensitive ''B'', new_value CaseInsensitive ''a'']" ?want]
    by (auto simp: new_value_def intro!: exI [of _ ?zs])
qed

text \<open>The plan modifier keeps the state's spelling exactly when the configured value is equal to it
  under the attribute's kind (for the JSON subset kind: under strict equality), never touches
  an unknown plan, and otherwise leaves the plan as it is, so every real change is planned.\<close>

theorem keep_state_exact:
  "keep_state_string jl k (Known st) (Known cfg) (Known cfg) =
     (if st = cfg \<or> kind_equal jl (if k = JSONSubset then JSON else k) cfg st
      then Known st else Known cfg) \<and>
   keep_state_string jl k state config TfUnknown = TfUnknown \<and>
   keep_state_string jl k TfNull config plan = plan \<and>
   keep_state_string jl k state TfNull plan = plan"
  by (auto simp: keep_state_string_def strings_equivalent_def string_semantic_equals_def
      value_from_string_def kind_equal_def equal_json_def)

text \<open>Both directions of a list comparison agree: whether the server's list keeps the configured one
  does not depend on which of the two is the prior one.\<close>

theorem unordered_list_symmetric:
  assumes "json_ok jl" and "list_all symmetric_attr got" and "list_all symmetric_attr want"
    and "list_semantic_equals jl (Known got) (Known want)"
  shows "list_semantic_equals jl (Known want) (Known got)"
proof -
  from assms obtain zs where zs: "list_all2 (element_equal jl) want zs" "mset zs = mset got"
    by (auto simp: list_equal_permutation)
  have "list_all symmetric_attr zs"
    using assms(2) zs(2) by (metis list_all_iff set_mset_mset)
  have "list_all2 (element_equal jl) zs want"
    unfolding list_all2_conv_all_nth
  proof (intro conjI allI impI)
    show l: "length zs = length want" using zs(1) by (simp add: list_all2_lengthD)
    fix i assume i: "i < length zs"
    with zs(1) l have "element_equal jl (want ! i) (zs ! i)" by (simp add: list_all2_conv_all_nth)
    with assms \<open>list_all symmetric_attr zs\<close> i l have "element_rel jl (want ! i) (zs ! i)"
      by (simp add: element_rel_def list_all_length)
    from elements.sym [OF this] show "element_equal jl (zs ! i) (want ! i)"
      by (simp add: element_rel_def)
  qed
  then obtain ys where "list_all2 (element_equal jl) got ys" "mset ys = mset want"
    using zs(2) list_all2_reorder_left_invariance by metis
  with assms show ?thesis by (auto simp: list_equal_permutation)
qed

theorem unordered_list_symmetric_witness:
  "list_semantic_equals no_json (Known [IVal (Known 2), IVal (Known 1)]) (Known [IVal (Known 1), IVal (Known 2)])"
proof -
  have "list_semantic_equals no_json (Known [IVal (Known 1), IVal (Known 2)]) (Known [IVal (Known 2), IVal (Known 1)])"
    by (simp add: list_semantic_equals_def element_equal_def)
  from unordered_list_symmetric [OF no_json_ok _ _ this] show ?thesis by simp
qed

end
