(* ===== verification/PlanMod.thy ===== *)
theory PlanMod
  imports Prelude
begin

text \<open>
  Plan modifiers (src/internal/planmod): replacement only when a known value changes, and the
  reset of an attribute that is removed from the configuration. The latter keeps a flag
  per attribute in the resource's private state, whose interface is a locale.
\<close>

section \<open>Private state\<close>

text \<open>The interface \<open>privateData\<close>: setting a key to no bytes removes it.\<close>

locale private_data =
  fixes get_key :: "'p \<Rightarrow> string \<Rightarrow> bytes" and set_key :: "'p \<Rightarrow> string \<Rightarrow> bytes \<Rightarrow> 'p"
  assumes get_set: "get_key (set_key p k v) k' = (if k' = k then v else get_key p k')"
begin

lemma get_set_same [simp]: "get_key (set_key p k v) k = v"
  by (simp add: get_set)

lemma get_set_other: "k' \<noteq> k \<Longrightarrow> get_key (set_key p k v) k' = get_key p k'"
  by (simp add: get_set)

end

type_synonym priv_state = "bytes gomap"

definition get_key :: "priv_state \<Rightarrow> string \<Rightarrow> bytes" where
  "get_key p k = (case map_of p k of None \<Rightarrow> [] | Some v \<Rightarrow> v)"

definition set_key :: "priv_state \<Rightarrow> string \<Rightarrow> bytes \<Rightarrow> priv_state" where
  "set_key p k v = (if v = [] then del k p else put k v p)"

interpretation pd: private_data get_key set_key
  by standard (auto simp: get_key_def set_key_def)

section \<open>Managed flags\<close>

definition managed_key :: "string \<Rightarrow> string" where
  "managed_key attr = ''planmod.managed.'' @ attr"

text \<open>A nil private state is \<open>None\<close>.\<close>

definition is_managed :: "priv_state option \<Rightarrow> string \<Rightarrow> bool" where
  "is_managed pr attr = (case pr of None \<Rightarrow> False | Some p \<Rightarrow> get_key p (managed_key attr) \<noteq> [])"

definition set_managed :: "priv_state option \<Rightarrow> string \<Rightarrow> priv_state option" where
  "set_managed pr attr = map_option (\<lambda>p. set_key p (managed_key attr) ''1'') pr"

definition clear_managed :: "priv_state option \<Rightarrow> string \<Rightarrow> priv_state option" where
  "clear_managed pr attr = map_option (\<lambda>p. set_key p (managed_key attr) []) pr"

text \<open>A raw configuration value; objects and maps have named parts.\<close>

datatype raw = RNull | RUnknown | RObj "(string \<times> raw) list" | ROther

fun lookup_parts :: "raw \<Rightarrow> string list \<Rightarrow> raw option" where
  "lookup_parts v [] = Some v"
| "lookup_parts v (p # ps) = (case v of
      RObj m \<Rightarrow> (case map_of m p of None \<Rightarrow> None | Some v' \<Rightarrow> lookup_parts v' ps)
    | _ \<Rightarrow> None)"

definition lookup_path :: "raw \<Rightarrow> string \<Rightarrow> raw option" where
  "lookup_path v dotted = lookup_parts v (split_on CHR ''.'' dotted)"

fun record_loop :: "raw \<Rightarrow> string list \<Rightarrow> priv_state \<Rightarrow> priv_state" where
  "record_loop cfg [] p = p"
| "record_loop cfg (a # as) p =
     (case lookup_path cfg a of
        None \<Rightarrow> record_loop cfg as p
      | Some v \<Rightarrow> if v = RNull then record_loop cfg as p
          else record_loop cfg as (set_key p (managed_key a) ''1''))"

definition record_managed :: "raw \<Rightarrow> priv_state option \<Rightarrow> string list \<Rightarrow> priv_state option" where
  "record_managed cfg pr attrs =
     (if pr = None \<or> cfg = RNull \<or> cfg = RUnknown then pr
      else map_option (record_loop cfg attrs) pr)"

section \<open>\<open>ResetWhenUnset\<close>\<close>

text \<open>\<open>decide\<close>: the value the plan is set to, if any, and the private state of the response.\<close>

definition decide ::
  "'v tf \<Rightarrow> string \<Rightarrow> priv_state option \<Rightarrow> priv_state option \<Rightarrow> 'v tf \<Rightarrow> 'v tf \<Rightarrow> 'v tf option \<times> priv_state option" where
  "decide def path inp out cfg state =
     (let key = managed_key path in
      if \<not> is_null cfg then (None, map_option (\<lambda>p. set_key p key ''1'') out)
      else let flagged = (case inp of None \<Rightarrow> False | Some p \<Rightarrow> get_key p key \<noteq> []) in
        if flagged then (Some def, map_option (\<lambda>p. set_key p key []) out)
        else if \<not> is_null state \<and> \<not> is_unknown state then (Some state, out)
        else (None, out))"

definition reset_when_unset ::
  "'v tf \<Rightarrow> string \<Rightarrow> priv_state option \<Rightarrow> priv_state option \<Rightarrow> 'v tf \<Rightarrow> 'v tf \<Rightarrow> 'v tf \<Rightarrow> 'v tf \<times> priv_state option" where
  "reset_when_unset def path inp out cfg state plan =
     (case decide def path inp out cfg state of
        (None, out1) \<Rightarrow> (plan, out1)
      | (Some v, out1) \<Rightarrow> (v, out1))"

section \<open>\<open>ReplaceFromKnown\<close>\<close>

definition requires_replace :: "bool \<Rightarrow> bool \<Rightarrow> 'v tf \<Rightarrow> 'v tf \<Rightarrow> bool" where
  "requires_replace state_raw_null plan_raw_null state_value plan_value =
     (if state_raw_null \<or> plan_raw_null then False
      else if is_null state_value then False
      else plan_value \<noteq> state_value)"

definition requires_replace_fold :: "bool \<Rightarrow> bool \<Rightarrow> string tf \<Rightarrow> string tf \<Rightarrow> bool" where
  "requires_replace_fold state_raw_null plan_raw_null state_value plan_value =
     (if state_raw_null \<or> plan_raw_null \<or> is_null state_value then False
      else if is_null plan_value \<or> is_unknown plan_value then True
      else \<not> equal_fold (value_string plan_value) (value_string state_value))"

section \<open>A resource's life\<close>

text \<open>
  What the framework does around the modifier: the response's private state starts as a copy of
  the request's, an applied plan keeps it, and the new state holds the planned value; a plan
  that leaves the attribute unknown takes what the server answers. One round is an
  update with a configured value and the server's answer.
\<close>

definition plan_value :: "'v tf \<Rightarrow> 'v tf \<Rightarrow> 'v tf" where
  "plan_value cfg state = (if is_null cfg then TfUnknown else cfg)"

definition update_round ::
  "'v tf \<Rightarrow> string \<Rightarrow> 'v tf \<times> 'v \<Rightarrow> 'v tf \<times> priv_state \<Rightarrow> 'v tf \<times> priv_state" where
  "update_round def path r st = (case (r, st) of ((cfg, answer), (state, p)) \<Rightarrow>
     (case reset_when_unset def path (Some p) (Some p) cfg state (plan_value cfg state) of
        (v, p1) \<Rightarrow> (if is_unknown v then Known answer else v, (case p1 of None \<Rightarrow> p | Some p' \<Rightarrow> p'))))"

definition life :: "'v tf \<Rightarrow> string \<Rightarrow> ('v tf \<times> 'v) list \<Rightarrow> 'v tf \<times> priv_state \<Rightarrow> 'v tf \<times> priv_state" where
  "life def path rounds st = foldl (\<lambda>st r. update_round def path r st) st rounds"

lemma managed_simps [simp]:
  "is_managed (Some (set_key p (managed_key a) v)) a \<longleftrightarrow> v \<noteq> []"
  "managed_key a = managed_key b \<longleftrightarrow> a = b"
  by (simp_all add: is_managed_def managed_key_def)

lemma round_configured:
  "\<not> is_null cfg \<Longrightarrow> is_managed (Some (snd (update_round def path (cfg, ans) (state, p)))) path"
  by (simp add: update_round_def reset_when_unset_def decide_def Let_def)

lemma round_unset:
  "is_managed (Some (snd (update_round def path (TfNull, ans) (state, p)))) path = False"
  by (auto simp: update_round_def reset_when_unset_def decide_def Let_def is_managed_def split: if_splits)

lemma round_flag:
  "is_managed (Some (snd (update_round def path (cfg, ans) st))) path \<longleftrightarrow> \<not> is_null cfg"
  by (cases cfg; cases st) (simp_all add: round_configured round_unset)

lemma life_flag:
  "rounds \<noteq> [] \<Longrightarrow> is_managed (Some (snd (life def path rounds st))) path \<longleftrightarrow> \<not> is_null (fst (last rounds))"
  by (induction rounds rule: rev_induct) (auto simp: life_def round_flag)

lemma round_value:
  assumes "is_null cfg" and "\<not> is_null state" and "\<not> is_unknown state" and "\<not> is_unknown def"
  shows "fst (update_round def path (cfg, ans) (state, p)) =
    (if is_managed (Some p) path then def else state)"
  using assms by (auto simp: update_round_def reset_when_unset_def decide_def Let_def is_managed_def)

lemma record_loop_get:
  "get_key (record_loop cfg as p) (managed_key a) =
     (if a \<in> set as \<and> (case lookup_path cfg a of None \<Rightarrow> False | Some v \<Rightarrow> v \<noteq> RNull)
      then ''1'' else get_key p (managed_key a))"
proof (induction "as" arbitrary: p)
  case (Cons b as)
  show ?case
    by (cases "lookup_path cfg b"; cases "b = a")
       (simp_all add: Cons.IH pd.get_set split: option.splits)
qed simp

section \<open>Properties\<close>



text \<open>Recording at create time flags exactly the listed attributes that the configuration sets
  (null parts, and paths through null or unknown objects, do not count), and no other key.\<close>

theorem record_managed_exact:
  "is_managed (record_managed (RObj m) (Some p) attrs) a \<longleftrightarrow>
     is_managed (Some p) a \<or>
     (a \<in> set attrs \<and> (case lookup_path (RObj m) a of None \<Rightarrow> False | Some v \<Rightarrow> v \<noteq> RNull))"
  by (auto simp: record_managed_def is_managed_def record_loop_get)

text \<open>A replacement is planned exactly when an existing resource keeps existing and the attribute
  changes from a known or unknown value; recording a value after an import, creating and
  destroying never replace. Ignoring case only removes replacements.\<close>

theorem replace_only_from_known:
  "(requires_replace sn pn sv pv \<longleftrightarrow> \<not> sn \<and> \<not> pn \<and> sv \<noteq> TfNull \<and> pv \<noteq> sv) \<and>
   requires_replace_fold sn pn s (Known b) \<le> requires_replace sn pn s (Known b)"
  by (cases s) (auto simp: requires_replace_def requires_replace_fold_def is_null_def)

end
