(* ===== verification/Overlay.thy ===== *)
theory Overlay
  imports Values
begin

text \<open>
  Secrets that stay out of state (src/internal/writeonly/writeonly.go) and dropping attributes
  from old state (src/internal/stateupgrade/stateupgrade.go). Documents are decoded JSON; the text
  steps of encoding/json are the parameters \<open>decode\<close> (\<open>json.Unmarshal\<close> of a text, \<open>None\<close> on
  a syntax error) and \<open>encode\<close> (\<open>json.Marshal\<close>).
\<close>

section \<open>The operations\<close>

text \<open>\<open>for k, v := range overlay { out[k] = v }\<close>.\<close>

definition merge_into :: "gval gomap \<Rightarrow> gval gomap \<Rightarrow> gval gomap" where
  "merge_into out overlay = foldl (\<lambda>m (k, v). put k v m) out overlay"

definition merge_overlay ::
  "(string \<Rightarrow> gval option) \<Rightarrow> gval gomap \<Rightarrow> string \<Rightarrow> gval gomap option" where
  "merge_overlay decode base overlay_json =
     (if overlay_json = [] then Some base
      else (case Option.bind (decode overlay_json) as_object of
          None \<Rightarrow> None
        | Some overlay \<Rightarrow> Some (merge_into (merge_into [] base) overlay)))"

text \<open>The loop runs over the shape, whose keys are distinct, so every entry is a new key of \<open>out\<close>; the
  order of an association list stands for no order of the Go map.\<close>

fun project_val :: "gval \<Rightarrow> gval \<Rightarrow> gval" and project_map :: "gval gomap \<Rightarrow> gval gomap \<Rightarrow> gval gomap" where
  "project_val lv (GObj sm) = (case lv of GObj lm \<Rightarrow> GObj (project_map lm sm) | _ \<Rightarrow> lv)"
| "project_val lv sv = lv"
| "project_map live [] = []"
| "project_map live ((k, sv) # shape) = (case map_of live k of
      None \<Rightarrow> project_map live shape
    | Some lv \<Rightarrow> (k, project_val lv sv) # project_map live shape)"

definition project_onto_keys ::
  "(string \<Rightarrow> gval option) \<Rightarrow> (gval \<Rightarrow> string) \<Rightarrow> string \<Rightarrow> gval gomap \<Rightarrow> string" where
  "project_onto_keys decode encode base_json live =
     (case Option.bind (decode base_json) as_object of
        None \<Rightarrow> base_json
      | Some base \<Rightarrow> encode (GObj (project_map live base)))"

text \<open>\<open>DropAttrsJSON\<close> on the decoded object.\<close>

definition drop_attrs_json :: "gval \<Rightarrow> string list \<Rightarrow> gval option" where
  "drop_attrs_json raw attrs = (case as_object raw of
      None \<Rightarrow> None
    | Some m \<Rightarrow> Some (GObj (fold del attrs m)))"

datatype upgrade = NoChange | UpgradeError | Upgraded gval

definition drop_attrs :: "string list \<Rightarrow> gval option \<Rightarrow> upgrade" where
  "drop_attrs attrs raw_state = (case raw_state of
      None \<Rightarrow> NoChange
    | Some raw \<Rightarrow> (case drop_attrs_json raw attrs of None \<Rightarrow> UpgradeError | Some v \<Rightarrow> Upgraded v))"

section \<open>Facts\<close>

lemma map_of_merge_into:
  "wf_map overlay \<Longrightarrow> map_of (merge_into out overlay) k =
     (case map_of overlay k of None \<Rightarrow> map_of out k | Some v \<Rightarrow> Some v)"
proof (induction overlay arbitrary: out)
  case (Cons e ov)
  obtain j v where e: "e = (j, v)" by fastforce
  from Cons.prems e have "wf_map ov" "map_of ov j = None"
    by (auto simp: wf_map_def map_of_eq_None_iff)
  with Cons.IH [of "put j v out"] show ?case
    by (auto simp: merge_into_def e split: option.splits)
qed (simp add: merge_into_def)

lemma map_of_project:
  "wf_map shape \<Longrightarrow> map_of (project_map live shape) k =
     (case (map_of live k, map_of shape k) of
        (Some lv, Some sv) \<Rightarrow> Some (project_val lv sv) | _ \<Rightarrow> None)"
proof (induction shape)
  case (Cons e shape)
  obtain j sv where e: "e = (j, sv)" by fastforce
  from Cons.prems e have "wf_map shape" "map_of shape j = None"
    by (auto simp: wf_map_def map_of_eq_None_iff)
  with Cons.IH e show ?case by (auto split: option.splits)
qed (simp split: option.splits)

lemma project_keys: "k \<in> set (map fst (project_map live shape)) \<Longrightarrow> k \<in> set (map fst shape)"
proof (induction shape)
  case (Cons e shape)
  then show ?case by (cases e) (simp del: set_map split: option.splits, blast)
qed simp

lemma wf_project: "wf_map shape \<Longrightarrow> wf_map (project_map live shape)"
proof (induction shape)
  case (Cons e shape)
  obtain k v where e: "e = (k, v)" by fastforce
  from Cons.prems e have "k \<notin> set (map fst shape)" "wf_map shape"
    by (simp_all add: wf_map_def)
  with Cons.IH project_keys [of k live shape] show ?case
    unfolding e wf_map_def by (auto simp del: set_map split: option.splits)
qed simp

lemma project_self_aux:
  "lv = sv \<Longrightarrow> wf_val sv \<Longrightarrow> project_val lv sv = sv"
  "wf_map m \<Longrightarrow> wf_entries m \<Longrightarrow> \<forall>(k, v) \<in> set m. map_of live k = Some v \<Longrightarrow> project_map live m = m"
proof (induction lv sv and live m rule: project_val_project_map.induct)
  case (1 lv sm)
  then have "\<forall>(k, v) \<in> set sm. map_of sm k = Some v"
    by (auto simp: wf_map_def)
  with 1 show ?case by auto
next
  case (4 live k sv shape)
  then show ?case by (auto simp: wf_map_def)
qed auto

lemma wf_merge: "wf_map out \<Longrightarrow> wf_map (merge_into out ov)"
  unfolding merge_into_def by (induction ov arbitrary: out) (auto simp: wf_map_put)

lemma fold_del: "map_of (fold del attrs m) k = (if k \<in> set attrs then None else map_of m k)"
  by (induction attrs arbitrary: m) auto

lemma project_val_cases:
  "project_val lv sv = (case (lv, sv) of
      (GObj lm, GObj sm) \<Rightarrow> GObj (project_map lm sm) | _ \<Rightarrow> lv)"
  by (cases sv; cases lv) simp_all

section \<open>Properties\<close>

text \<open>Projecting the server's object onto the base attribute keeps exactly the keys the user wrote,
  with the server's value, recursively where both are objects; a key that is not in the base
  attribute, such as a secret the server echoes, never reaches state.\<close>

theorem projection_exact:
  assumes "wf_map shape"
  shows "wf_map (project_map live shape) \<and>
    map_of (project_map live shape) k =
      (case (map_of live k, map_of shape k) of
         (Some (GObj lm), Some (GObj sm)) \<Rightarrow> Some (GObj (project_map lm sm))
       | (Some lv, Some sv) \<Rightarrow> Some lv
       | _ \<Rightarrow> None)"
  using assms map_of_project [OF assms, of live k]
  by (cases "map_of live k"; cases "map_of shape k")
     (simp_all add: wf_project project_val_cases split: gval.splits)

theorem projection_exact_witness:
  "map_of (project_map [(''key'', GStr ''s''), (''region'', GStr ''eu'')] [(''region'', GStr ''us'')]) ''region'' =
     Some (GStr ''eu'') \<and>
   map_of (project_map [(''key'', GStr ''s''), (''region'', GStr ''eu'')] [(''region'', GStr ''us'')]) ''key'' = None"
  using projection_exact [of "[(''region'', GStr ''us'')]" "[(''key'', GStr ''s''), (''region'', GStr ''eu'')]" "''region''"]
    projection_exact [of "[(''region'', GStr ''us'')]" "[(''key'', GStr ''s''), (''region'', GStr ''eu'')]" "''key''"]
  by (simp add: wf_map_def)

text \<open>Secrets make a round trip without a trace: the merged object the provider sends holds the base
  keys and every key of the write-only overlay, and when the server answers with all of it,
  projecting the answer gives the configured base back, so no drift is planned and no overlay
  key is stored.\<close>

theorem overlay_roundtrip:
  assumes "wf_val (GObj base)" and "wf_map ov" and "decode json = Some (GObj ov)" and "json \<noteq> []"
    and "\<forall>k. map_of ov k \<noteq> None \<longrightarrow> map_of base k = None"
  shows "\<exists>sent. merge_overlay decode base json = Some sent \<and>
    map_of sent = map_of base ++ map_of ov \<and> project_map sent base = base"
proof -
  let ?sent = "merge_into (merge_into [] base) ov"
  have wf: "wf_map base" "wf_entries base" using assms(1) by simp_all
  have get: "map_of ?sent k = (map_of base ++ map_of ov) k" for k
    using wf(1) assms(2) by (simp add: map_of_merge_into map_add_def split: option.splits)
  have "project_map ?sent base = base"
  proof (rule project_self_aux(2) [OF wf])
    have "map_of ?sent k = Some v" if "(k, v) \<in> set base" for k v
    proof -
      have "map_of base k = Some v" using that wf(1) by (simp add: wf_map_def)
      moreover from this assms(5) have "map_of ov k = None" by (metis option.distinct(1))
      ultimately show ?thesis using get [of k] by (simp add: map_add_def)
    qed
    then show "\<forall>(k, v) \<in> set base. map_of ?sent k = Some v" by auto
  qed
  with assms get show ?thesis by (auto simp: merge_overlay_def)
qed

theorem overlay_roundtrip_witness:
  "\<exists>sent. merge_overlay (\<lambda>s. Some (GObj [(''pass'', GStr ''x'')])) [(''user'', GStr ''u'')] ''{}'' = Some sent \<and>
     map_of sent ''pass'' = Some (GStr ''x'') \<and> project_map sent [(''user'', GStr ''u'')] = [(''user'', GStr ''u'')]"
proof -
  have "\<exists>sent. merge_overlay (\<lambda>s. Some (GObj [(''pass'', GStr ''x'')])) [(''user'', GStr ''u'')] ''{}'' = Some sent \<and>
      map_of sent = map_of [(''user'', GStr ''u'')] ++ map_of [(''pass'', GStr ''x'')] \<and>
      project_map sent [(''user'', GStr ''u'')] = [(''user'', GStr ''u'')]"
    by (rule overlay_roundtrip) (simp_all add: wf_map_def)
  then show ?thesis by (auto simp del: project_map.simps)
qed

text \<open>The state upgrader removes exactly the named attributes and keeps every other one; state that is
  not an object is an error, never a silent pass.\<close>

theorem drop_attrs_exact:
  "(case drop_attrs attrs (Some raw) of
      Upgraded v \<Rightarrow> (case (as_object raw, v) of
          (Some m, GObj out) \<Rightarrow> map_of out k = (if k \<in> set attrs then None else map_of m k)
        | _ \<Rightarrow> False)
    | UpgradeError \<Rightarrow> as_object raw = None
    | NoChange \<Rightarrow> False)"
  by (auto simp: drop_attrs_def drop_attrs_json_def fold_del split: option.splits)

end
