(* ===== verification/Listing.thy ===== *)
theory Listing
  imports Rpc
begin

text \<open>
  Listing resources and resolving import ids (src/internal/listing). A list result is produced
  per row of a query by a function of the resource, which is a parameter; a stream is
  the sequence of its results, or one result that only carries a diagnostic.
\<close>

type_synonym diagnostic = "string \<times> string"

datatype 'r stream = Failed_Stream diagnostic | Results "'r list"

definition stream_collection_filtered ::
  "'w ops \<Rightarrow> string \<Rightarrow> gval \<Rightarrow> int \<Rightarrow> (gval \<Rightarrow> 'r) \<Rightarrow> 'w \<Rightarrow> 'r stream \<times> 'w" where
  "stream_collection_filtered os query_method qf limit map_row w =
     (case call_read os query_method [qf] w of
        (Inl e, w1) \<Rightarrow> (Failed_Stream (''List query failed'', query_method @ '': '' @ err_text e), w1)
      | (Inr raw, w1) \<Rightarrow>
          (case as_list Some raw of
             None \<Rightarrow> (Failed_Stream (''List parse failed'', query_method @ '': json''), w1)
           | Some rows \<Rightarrow>
               let rows1 = (if 0 < limit \<and> limit < int (length rows) then take (nat limit) rows else rows)
               in (Results (map map_row rows1), w1)))"

definition stream_collection ::
  "'w ops \<Rightarrow> string \<Rightarrow> int \<Rightarrow> (gval \<Rightarrow> 'r) \<Rightarrow> 'w \<Rightarrow> 'r stream \<times> 'w" where
  "stream_collection os query_method = stream_collection_filtered os query_method (GArr [])"

definition stream_singleton :: "'w ops \<Rightarrow> string \<Rightarrow> (gval \<Rightarrow> 'r) \<Rightarrow> 'w \<Rightarrow> 'r stream \<times> 'w" where
  "stream_singleton os config_method map_one w =
     (case call_read os config_method [] w of
        (Inl e, w1) \<Rightarrow> (Failed_Stream (''List config failed'', config_method @ '': '' @ err_text e), w1)
      | (Inr raw, w1) \<Rightarrow> (Results [map_one raw], w1))"

text \<open>An import request: the string id (empty when absent) and, for an identity block, what reading its
  \<open>id\<close> attribute gives.\<close>

record 'a import_req =
  ir_id :: string
  ir_identity :: "(diagnostic + 'a) option"

definition missing_import_id :: diagnostic where
  "missing_import_id = (''Missing import id'', ''Provide an import id or an identity block with an id.'')"

definition import_int64 :: "int import_req \<Rightarrow> int \<times> diagnostic list" where
  "import_int64 req =
     (if ir_id req \<noteq> [] then
        (case atoi (ir_id req) of
           (i, None) \<Rightarrow> (i, [])
         | (i, Some _) \<Rightarrow> (i, [(''Import ID must be an integer'', ir_id req)]))
      else (case ir_identity req of
          Some (Inr i) \<Rightarrow> (i, [])
        | Some (Inl d) \<Rightarrow> (0, [d])
        | None \<Rightarrow> (0, [missing_import_id])))"

definition import_string :: "string import_req \<Rightarrow> string \<times> diagnostic list" where
  "import_string req =
     (if ir_id req \<noteq> [] then (ir_id req, [])
      else (case ir_identity req of
          Some (Inr s) \<Rightarrow> (s, [])
        | Some (Inl d) \<Rightarrow> ([], [d])
        | None \<Rightarrow> ([], [missing_import_id])))"

section \<open>Properties\<close>

lemma map_opt_Some: "map_opt Some xs = Some xs"
  by (induction xs) auto

text \<open>A listing sends only its query, at most four times, and shows the rows in the server's order, at
  most as many as the limit allows; an answer that is not a list is reported, never shown as empty.\<close>

theorem listing_bounded:
  assumes "stream_collection_filtered os m f limit map_row w = (s, w1)"
  shows "case s of
      Results rs \<Rightarrow> (\<exists>rows. (fst (call_read os m [f] w) = Inr (GArr rows) \<or>
          (rows = [] \<and> fst (call_read os m [f] w) = Inr GNil)) \<and>
        rs = map map_row (if 0 < limit then take (nat limit) rows else rows))
    | Failed_Stream d \<Rightarrow> (\<forall>rows. fst (call_read os m [f] w) \<noteq> Inr (GArr rows))"
proof (cases "fst (call_read os m [f] w)")
  case (Inl e)
  with assms show ?thesis by (auto simp: stream_collection_filtered_def split: prod.splits)
next
  case (Inr raw)
  then obtain w2 where "call_read os m [f] w = (Inr raw, w2)" by (metis prod.collapse)
  show ?thesis
  proof (cases raw)
    case (GArr rows)
    have "s = Results (map map_row (if 0 < limit then take (nat limit) rows else rows))"
      using \<open>call_read os m [f] w = (Inr raw, w2)\<close> GArr assms
      by (auto simp: stream_collection_filtered_def Let_def map_opt_Some split: if_splits)
    with Inr GArr show ?thesis by simp
  qed (use \<open>call_read os m [f] w = (Inr raw, w2)\<close> assms in
      \<open>auto simp: stream_collection_filtered_def Let_def map_opt_Some split: if_splits\<close>)
qed

theorem listing_bounded_witness:
  "fst (stream_collection_filtered (job_ops 0) ''core.get_jobs'' (GArr []) 5 (\<lambda>r. (1::nat)) 0) = Results [1]"
proof -
  obtain s w1 where r: "stream_collection_filtered (job_ops 0) ''core.get_jobs'' (GArr []) 5 (\<lambda>r. (1::nat)) 0 = (s, w1)"
    by fastforce
  have c: "fst (call_read (job_ops 0) ''core.get_jobs'' [GArr []] 0) =
      Inr (GArr [GObj [(''id'', GNumber ''7''), (''state'', GStr ''SUCCESS''), (''result'', GBool True)]])"
    by (simp add: job_ops_def call_read_def read_retry_delays_def call_read_Cons)
  from listing_bounded [OF r] c r show ?thesis by (auto split: stream.splits)
qed

text \<open>Importing by number round-trips: an id printed in decimal is read back exactly, and what is
  not an int64 is refused with a diagnostic.\<close>

theorem import_id_roundtrip:
  "(min_int64 \<le> i \<and> i \<le> max_int64 \<longrightarrow>
      import_int64 \<lparr>ir_id = itoa i, ir_identity = idn\<rparr> = (i, [])) \<and>
   (s \<noteq> [] \<longrightarrow> (snd (import_int64 \<lparr>ir_id = s, ir_identity = idn\<rparr>) = [] \<longleftrightarrow> snd (atoi s) = None))"
proof -
  have "itoa i \<noteq> []" by (simp add: itoa_def)
  then show ?thesis
    by (auto simp: import_int64_def atoi_itoa split: prod.splits option.splits)
qed

theorem import_id_roundtrip_witness:
  "import_int64 \<lparr>ir_id = itoa 42, ir_identity = None\<rparr> = (42, []) \<and>
   snd (import_int64 \<lparr>ir_id = ''tank'', ir_identity = None\<rparr>) \<noteq> []"
proof -
  have "snd (atoi ''tank'') \<noteq> None"
    by (simp add: atoi_def strip_sign_def parse_uint_def is_digit_def ord_of_def)
  then show ?thesis
    using import_id_roundtrip [of 42 None "''tank''"] by (simp add: min_int64_def max_int64_def)
qed

end
