(* ===== verification/ConnState.thy ===== *)
theory ConnState
  imports GoError Values
begin

text \<open>
  The client as its goroutines share it (src/internal/client/client.go): request numbers,
  pending calls, the reader of each connection, publishing and unpublishing connections, and the
  semaphore. The part of a caller that makes one call is in the theory of the transport; here any
  number of callers, readers and dials interleave, each step being one critical
  section of the code (under \<open>pendingMu\<close> or \<open>connMu\<close>) or one channel operation.
\<close>

section \<open>The shared state\<close>

type_synonym conn = nat

type_synonym request = nat

datatype reply = Got gval | Lost go_error

text \<open>Where a run of \<open>send\<close> stands: numbered, registered in \<open>pending\<close>, written and waiting, returned.\<close>

datatype phase = Numbered conn | Registered conn | Waiting conn | Returned reply

text \<open>
  \<open>closed\<close> is the flag of \<open>wsConn\<close>, \<open>finished\<close> says that the reader has closed its \<open>done\<close> channel,
  \<open>logged_in\<close> that \<open>authFn\<close> succeeded on the connection; \<open>inbox\<close> is the channel (capacity 1) of a
  pending call; \<open>slots\<close> are the holders of the semaphore and \<open>owner\<close> tells which
  of them made a request (none for the calls of a login, which take no slot).
\<close>

record shared =
  published :: "conn option"
  next_conn :: conn
  logged_in :: "conn \<Rightarrow> bool"
  closed :: "conn \<Rightarrow> bool"
  finished :: "conn \<Rightarrow> bool"
  seq :: nat
  pending :: "request \<Rightarrow> conn option"
  inbox :: "request \<Rightarrow> reply option"
  phase_of :: "request \<Rightarrow> phase option"
  wire :: "request list"
  slots :: "nat set"
  owner :: "request \<Rightarrow> nat option"

definition fresh_client :: shared where
  "fresh_client = \<lparr>published = None, next_conn = 0, logged_in = (\<lambda>_. False), closed = (\<lambda>_. False),
     finished = (\<lambda>_. False), seq = 0, pending = (\<lambda>_. None), inbox = (\<lambda>_. None),
     phase_of = (\<lambda>_. None), wire = [], slots = {}, owner = (\<lambda>_. None)\<rparr>"

section \<open>One critical section each\<close>

text \<open>\<open>c.seq.Add(1)\<close>. The counter has 64 bits and is taken as unbounded.\<close>

definition take_number :: "conn \<Rightarrow> nat option \<Rightarrow> shared \<Rightarrow> shared" where
  "take_number c who s = (let i = seq s + 1 in
     s\<lparr>seq := i, phase_of := (phase_of s)(i \<mapsto> Numbered c), owner := (owner s)(i := who)\<rparr>)"

definition register_call :: "string \<Rightarrow> request \<Rightarrow> conn \<Rightarrow> shared \<Rightarrow> shared" where
  "register_call m i c s =
     (if closed s c
      then s\<lparr>phase_of := (phase_of s)(i \<mapsto> Returned (Lost (errorf (''write '' @ m @ '': connection closed''))))\<rparr>
      else s\<lparr>pending := (pending s)(i \<mapsto> c), phase_of := (phase_of s)(i \<mapsto> Registered c)\<rparr>)"

definition write_frame :: "request \<Rightarrow> conn \<Rightarrow> shared \<Rightarrow> shared" where
  "write_frame i c s = s\<lparr>wire := i # wire s, phase_of := (phase_of s)(i \<mapsto> Waiting c)\<rparr>"

text \<open>A failed write, an ended context or a timeout: the call is no longer pending.\<close>

definition abandon :: "request \<Rightarrow> go_error \<Rightarrow> shared \<Rightarrow> shared" where
  "abandon i e s = s\<lparr>pending := (pending s)(i := None), phase_of := (phase_of s)(i \<mapsto> Returned (Lost e))\<rparr>"

definition take_reply :: "request \<Rightarrow> reply \<Rightarrow> shared \<Rightarrow> shared" where
  "take_reply i r s = s\<lparr>inbox := (inbox s)(i := None), phase_of := (phase_of s)(i \<mapsto> Returned r)\<rparr>"

text \<open>\<open>deliver\<close> does not ask on which connection the answer came.\<close>

definition deliver :: "request \<Rightarrow> reply \<Rightarrow> shared \<Rightarrow> shared" where
  "deliver i r s = (case pending s i of
      None \<Rightarrow> s
    | Some _ \<Rightarrow> s\<lparr>pending := (pending s)(i := None), inbox := (inbox s)(i \<mapsto> r)\<rparr>)"

definition fail_pending :: "conn \<Rightarrow> string \<Rightarrow> shared \<Rightarrow> shared" where
  "fail_pending c text s = s\<lparr>closed := (closed s)(c := True),
     inbox := (\<lambda>i. if pending s i = Some c then Some (Lost (conn_lost text)) else inbox s i),
     pending := (\<lambda>i. if pending s i = Some c then None else pending s i)\<rparr>"

definition reader_exit :: "conn \<Rightarrow> shared \<Rightarrow> shared" where
  "reader_exit c s = s\<lparr>published := (if published s = Some c then None else published s),
     finished := (finished s)(c := True)\<rparr>"

text \<open>The end of \<open>dialOnce\<close>: a connection whose reader has ended is not published.\<close>

definition publish :: "conn \<Rightarrow> shared \<Rightarrow> shared" where
  "publish c s = (if finished s c then s else s\<lparr>published := Some c\<rparr>)"

definition close_client :: "shared \<Rightarrow> shared" where
  "close_client s = s\<lparr>published := None\<rparr>"

section \<open>The interleavings\<close>

text \<open>A request has returned, or was never made.\<close>

definition is_returned :: "phase option \<Rightarrow> bool" where
  "is_returned p = (case p of None \<Rightarrow> True | Some (Returned r) \<Rightarrow> True | _ \<Rightarrow> False)"

definition idle :: "nat \<Rightarrow> shared \<Rightarrow> bool" where
  "idle k s \<longleftrightarrow> (\<forall>i. owner s i = Some k \<longrightarrow> is_returned (phase_of s i))"

lemma is_returned_simps [simp]:
  "is_returned None" "is_returned (Some (Returned r))" "\<not> is_returned (Some (Numbered c))"
  "\<not> is_returned (Some (Registered c))" "\<not> is_returned (Some (Waiting c))"
  by (simp_all add: is_returned_def)

inductive step :: "nat \<Rightarrow> shared \<Rightarrow> shared \<Rightarrow> bool" for cap where
  step_open: "step cap s (s\<lparr>next_conn := next_conn s + 1\<rparr>)"
| step_login: "c < next_conn s \<Longrightarrow> step cap s (s\<lparr>logged_in := (logged_in s)(c := True)\<rparr>)"
| step_publish: "logged_in s c \<Longrightarrow> step cap s (publish c s)"
| step_close: "step cap s (close_client s)"
| step_acquire: "k \<notin> slots s \<Longrightarrow> card (slots s) < cap \<Longrightarrow> step cap s (s\<lparr>slots := insert k (slots s)\<rparr>)"
| step_release: "k \<in> slots s \<Longrightarrow> idle k s \<Longrightarrow> step cap s (s\<lparr>slots := slots s - {k}\<rparr>)"
| step_number_auth: "c < next_conn s \<Longrightarrow> step cap s (take_number c None s)"
| step_number: "k \<in> slots s \<Longrightarrow> idle k s \<Longrightarrow> logged_in s c \<Longrightarrow> step cap s (take_number c (Some k) s)"
| step_register: "phase_of s i = Some (Numbered c) \<Longrightarrow> step cap s (register_call m i c s)"
| step_write: "phase_of s i = Some (Registered c) \<Longrightarrow> step cap s (write_frame i c s)"
| step_write_fails: "phase_of s i = Some (Registered c) \<Longrightarrow> step cap s (abandon i e s)"
| step_give_up: "phase_of s i = Some (Waiting c) \<Longrightarrow> step cap s (abandon i e s)"
| step_receive: "phase_of s i = Some (Waiting c) \<Longrightarrow> inbox s i = Some r \<Longrightarrow> step cap s (take_reply i r s)"
| step_deliver: "c < next_conn s \<Longrightarrow> \<not> closed s c \<Longrightarrow> step cap s (deliver i r s)"
| step_fail: "c < next_conn s \<Longrightarrow> \<not> closed s c \<Longrightarrow> step cap s (fail_pending c text s)"
| step_exit: "closed s c \<Longrightarrow> step cap s (reader_exit c s)"

inductive reachable :: "nat \<Rightarrow> shared \<Rightarrow> bool" for cap where
  reach_fresh: "reachable cap fresh_client"
| reach_step: "reachable cap s \<Longrightarrow> step cap s s' \<Longrightarrow> reachable cap s'"

inductive_cases step_cases [elim]: "step cap s s'"

lemmas section_defs = take_number_def register_call_def write_frame_def abandon_def take_reply_def deliver_def
  fail_pending_def reader_exit_def publish_def close_client_def Let_def

section \<open>Invariants\<close>

text \<open>A pending call is registered or waiting on that connection, its channel is empty and the
  connection still has its reader; a waiting call is pending or has its answer.\<close>

definition calls_ok :: "shared \<Rightarrow> bool" where
  "calls_ok s \<longleftrightarrow>
     (\<forall>i c. pending s i = Some c \<longrightarrow>
        phase_of s i \<in> {Some (Registered c), Some (Waiting c)} \<and> inbox s i = None \<and> \<not> closed s c) \<and>
     (\<forall>i c. phase_of s i \<in> {Some (Registered c), Some (Waiting c)} \<longrightarrow>
        pending s i = Some c \<or> inbox s i \<noteq> None) \<and>
     (\<forall>i c. phase_of s i = Some (Numbered c) \<longrightarrow> pending s i = None \<and> inbox s i = None)"

definition numbers_ok :: "shared \<Rightarrow> bool" where
  "numbers_ok s \<longleftrightarrow>
     (\<forall>i. phase_of s i \<noteq> None \<longleftrightarrow> 0 < i \<and> i \<le> seq s) \<and>
     (\<forall>i. phase_of s i = None \<longrightarrow> pending s i = None \<and> inbox s i = None \<and> owner s i = None) \<and>
     distinct (wire s) \<and>
     (\<forall>i \<in> set (wire s). phase_of s i \<noteq> None \<and> (\<forall>c. phase_of s i \<notin> {Some (Numbered c), Some (Registered c)}))"

definition conns_ok :: "shared \<Rightarrow> bool" where
  "conns_ok s \<longleftrightarrow>
     (\<forall>c. published s = Some c \<longrightarrow> logged_in s c \<and> \<not> finished s c) \<and>
     (\<forall>c. finished s c \<longrightarrow> closed s c)"

definition slots_ok :: "nat \<Rightarrow> shared \<Rightarrow> bool" where
  "slots_ok cap s \<longleftrightarrow> finite (slots s) \<and> card (slots s) \<le> cap \<and>
     (\<forall>i k. owner s i = Some k \<and> \<not> is_returned (phase_of s i) \<longrightarrow> k \<in> slots s) \<and>
     (\<forall>i j k. owner s i = Some k \<and> owner s j = Some k \<and>
        \<not> is_returned (phase_of s i) \<and> \<not> is_returned (phase_of s j) \<longrightarrow> i = j)"

lemma fresh_number:
  assumes "numbers_ok s"
  shows "phase_of s (Suc (seq s)) = None" "pending s (Suc (seq s)) = None" "inbox s (Suc (seq s)) = None"
    "owner s (Suc (seq s)) = None"
  using assms unfolding numbers_ok_def by (metis not_less_eq_eq order_refl)+

lemma numbers_step:
  assumes "step cap s s'" and n: "numbers_ok s" and "calls_ok s"
  shows "numbers_ok s'"
  using assms(1) n assms(3) fresh_number [OF n]
  by cases (auto simp: numbers_ok_def calls_ok_def section_defs split: option.splits if_splits)

lemma calls_step:
  assumes "step cap s s'" and n: "numbers_ok s" and "calls_ok s"
  shows "calls_ok s'"
  using assms(1) assms(3) fresh_number [OF n]
  by cases (auto simp: calls_ok_def section_defs split: option.splits if_splits,
    (metis option.distinct(1) option.exhaust option.inject phase.inject(2) phase.distinct)+)

lemma conns_step:
  assumes "step cap s s'" and "conns_ok s"
  shows "conns_ok s'"
  using assms by cases (auto simp: conns_ok_def section_defs split: option.splits if_splits)

lemma slots_step:
  assumes "step cap s s'" and n: "numbers_ok s" and "slots_ok cap s"
  shows "slots_ok cap s'"
  using assms(1) assms(3) fresh_number [OF n]
  by cases (auto simp: slots_ok_def idle_def card_insert_if section_defs split: option.splits if_splits,
    (metis is_returned_simps)+)

lemma reachable_ok: "reachable cap s \<Longrightarrow> numbers_ok s \<and> calls_ok s \<and> conns_ok s \<and> slots_ok cap s"
proof (induction rule: reachable.induct)
  case reach_fresh
  show ?case
    by (auto simp: numbers_ok_def calls_ok_def conns_ok_def slots_ok_def fresh_client_def)
next
  case (reach_step s s')
  then show ?case
    using numbers_step calls_step conns_step slots_step by blast
qed

section \<open>One outcome per call\<close>

text \<open>What a caller may rely on, one request at a time: it is open until it is answered or fails, and ends
  once. An answer that is there may still lose against the caller's context.\<close>

datatype outcome_state = Not_called | Open | Answered reply | Ended reply

inductive spec_step :: "outcome_state \<Rightarrow> outcome_state \<Rightarrow> bool" where
  spec_call: "spec_step Not_called Open"
| spec_answer: "spec_step Open (Answered r)"
| spec_fail: "spec_step Open (Ended (Lost e))"
| spec_return: "spec_step (Answered r) (Ended r)"
| spec_late: "spec_step (Answered r) (Ended (Lost e))"

definition outcome_of :: "shared \<Rightarrow> request \<Rightarrow> outcome_state" where
  "outcome_of s i = (case phase_of s i of
      None \<Rightarrow> Not_called
    | Some (Returned r) \<Rightarrow> Ended r
    | _ \<Rightarrow> (case inbox s i of Some r \<Rightarrow> Answered r | None \<Rightarrow> Open))"

inductive_simps spec_step_simps [simp]:
  "spec_step Not_called x" "spec_step Open x" "spec_step (Answered r) x" "spec_step (Ended r) x"

lemma step_refines:
  assumes "step cap s s'" and n: "numbers_ok s" and "calls_ok s"
  shows "outcome_of s' i = outcome_of s i \<or> spec_step (outcome_of s i) (outcome_of s' i)"
  using assms(1) assms(3) fresh_number [OF n]
  by cases (auto simp: outcome_of_def calls_ok_def section_defs split: option.splits if_splits phase.splits)

lemma in_flight_bound:
  assumes "slots_ok cap s"
  shows "card {i. owner s i \<noteq> None \<and> \<not> is_returned (phase_of s i)} \<le> cap"
proof -
  let ?A = "{i. owner s i \<noteq> None \<and> \<not> is_returned (phase_of s i)}" and ?f = "\<lambda>i. the (owner s i)"
  have "inj_on ?f ?A" "?f ` ?A \<subseteq> slots s"
    using assms by (auto simp: inj_on_def slots_ok_def)
  moreover have "finite (slots s)" "card (slots s) \<le> cap"
    using assms by (simp_all add: slots_ok_def)
  ultimately show ?thesis by (meson card_inj_on_le order_trans)
qed

section \<open>Reading one message\<close>

text \<open>
  The tokens of a JSON decoder. \<open>scanResponseID\<close> looks for the id of a message that is too large to
  hold; \<open>More\<close> is true unless the input or the object ends, and an error of the decoder is the end
  of the token list.
\<close>

datatype token = T_Open | T_Close | T_Str string | T_Num string | T_Bool bool | T_Null

text \<open>The rest of the tokens after one value; \<open>depth\<close> counts open brackets.\<close>

fun skip_json_value :: "nat \<Rightarrow> token list \<Rightarrow> token list option" where
  "skip_json_value depth [] = None"
| "skip_json_value depth (t # ts) =
     (let d = (case t of T_Open \<Rightarrow> depth + 1 | T_Close \<Rightarrow> depth - 1 | _ \<Rightarrow> depth) in
      if d = 0 then Some ts else skip_json_value d ts)"

text \<open>Decoding into a uint64: null leaves the zero value.\<close>

definition token_uint64 :: "token \<Rightarrow> nat option" where
  "token_uint64 t = (case t of
      T_Num s \<Rightarrow> (case parse_uint 10 64 s of Inr n \<Rightarrow> Some n | Inl e \<Rightarrow> None)
    | T_Null \<Rightarrow> Some 0
    | _ \<Rightarrow> None)"

lemma skip_shorter: "skip_json_value d ts = Some ts' \<Longrightarrow> length ts' < length ts"
  by (induction d ts arbitrary: ts' rule: skip_json_value.induct) (force simp: Let_def split: if_splits)+

function scan_members :: "token list \<Rightarrow> nat option" where
  "scan_members ts = (case ts of
      [] \<Rightarrow> None
    | t # ts1 \<Rightarrow>
        if t = T_Close then None
        else if t = T_Str ''id'' then (case ts1 of [] \<Rightarrow> None | v # _ \<Rightarrow> token_uint64 v)
        else (case skip_json_value 0 ts1 of None \<Rightarrow> None | Some ts2 \<Rightarrow> scan_members ts2))"
  by pat_completeness auto
termination
  by (relation "measure length") (auto dest: skip_shorter)

declare scan_members.simps [simp del]

definition scan_response_id :: "token list \<Rightarrow> nat option" where
  "scan_response_id ts = (case ts of T_Open # ts1 \<Rightarrow> scan_members ts1 | _ \<Rightarrow> None)"

text \<open>The tokens of a document.\<close>

fun tokens_of :: "gval \<Rightarrow> token list" and tokens_list :: "gval list \<Rightarrow> token list"
  and tokens_members :: "gval gomap \<Rightarrow> token list" where
  "tokens_of GNil = [T_Null]"
| "tokens_of (GBool b) = [T_Bool b]"
| "tokens_of (GStr s) = [T_Str s]"
| "tokens_of (GNumber s) = [T_Num s]"
| "tokens_of (GInt i) = [T_Num (itoa i)]"
| "tokens_of (GFloat f) = [T_Null]"
| "tokens_of (GArr xs) = T_Open # tokens_list xs @ [T_Close]"
| "tokens_of (GObj m) = T_Open # tokens_members m @ [T_Close]"
| "tokens_list [] = []"
| "tokens_list (x # xs) = tokens_of x @ tokens_list xs"
| "tokens_members [] = []"
| "tokens_members ((k, v) # m) = T_Str k # tokens_of v @ tokens_members m"

lemma skip_tokens:
  "skip_json_value d (tokens_of v @ ts) = (if d = 0 then Some ts else skip_json_value d ts)"
  "skip_json_value (Suc d) (tokens_list vs @ ts) = skip_json_value (Suc d) ts"
  "skip_json_value (Suc d) (tokens_members m @ ts) = skip_json_value (Suc d) ts"
  by (induction v and vs and m arbitrary: d ts and d ts and d ts rule: tokens_of_tokens_list_tokens_members.induct)
    simp_all

lemma hd_tokens: "\<exists>t ts. tokens_of v = t # ts"
  by (cases v) auto

definition id_of :: "gval \<Rightarrow> nat option" where
  "id_of v = (case v of
      GNumber s \<Rightarrow> (case parse_uint 10 64 s of Inr n \<Rightarrow> Some n | Inl e \<Rightarrow> None)
    | GInt i \<Rightarrow> (case parse_uint 10 64 (itoa i) of Inr n \<Rightarrow> Some n | Inl e \<Rightarrow> None)
    | GNil \<Rightarrow> Some 0 | GFloat f \<Rightarrow> Some 0 | _ \<Rightarrow> None)"

lemma token_uint64_hd: "token_uint64 (hd (tokens_of v)) = id_of v"
  by (cases v) (simp_all add: token_uint64_def id_of_def)

lemma scan_members_tokens:
  "scan_members (tokens_members m @ T_Close # rest) = Option.bind (map_of m ''id'') id_of"
proof (induction m)
  case Nil
  show ?case by (subst scan_members.simps) simp
next
  case (Cons e m)
  obtain k v where e: "e = (k, v)" by fastforce
  obtain t ts where t: "tokens_of v = t # ts" using hd_tokens [of v] by blast
  then have "token_uint64 t = id_of v" using token_uint64_hd [of v] by simp
  then show ?case
    using Cons.IH skip_tokens(1) [of 0 v "tokens_members m @ T_Close # rest"] t
    by (subst scan_members.simps) (simp add: e)
qed

section \<open>Dispatching one message\<close>

datatype dispatch = Reader_stops string | Ignored | Delivers request reply

text \<open>The members of a response; the data of an error is an \<open>APIError\<close>.\<close>

definition as_uint64 :: "gval \<Rightarrow> nat option" where
  "as_uint64 v = (case v of
      GNumber s \<Rightarrow> (case parse_uint 10 64 s of Inr n \<Rightarrow> Some n | Inl e \<Rightarrow> None)
    | GNil \<Rightarrow> Some 0 | _ \<Rightarrow> None)"

definition decode_api_error :: "gval \<Rightarrow> api_error option" where
  "decode_api_error v = do {
     m \<leftarrow> as_object v;
     c \<leftarrow> as_int64 (field m ''error'');
     n \<leftarrow> as_string (field m ''errname'');
     r \<leftarrow> as_string (field m ''reason'');
     Some \<lparr>ae_code = c, ae_errname = n, ae_message = r\<rparr> }"

definition decode_rpc_error :: "gval \<Rightarrow> rpc_error option" where
  "decode_rpc_error v = do {
     m \<leftarrow> as_object v;
     c \<leftarrow> as_int64 (field m ''code'');
     t \<leftarrow> as_string (field m ''message'');
     d \<leftarrow> as_ptr decode_api_error (field m ''data'');
     Some \<lparr>re_code = c, re_message = t, re_data = d\<rparr> }"

definition decode_response :: "gval \<Rightarrow> (nat option \<times> rpc_error option \<times> gval) option" where
  "decode_response v = do {
     m \<leftarrow> as_object v;
     j \<leftarrow> as_string (field m ''jsonrpc'');
     i \<leftarrow> as_ptr as_uint64 (field m ''id'');
     t \<leftarrow> as_string (field m ''method'');
     e \<leftarrow> as_ptr decode_rpc_error (field m ''error'');
     Some (i, e, field m ''result'') }"

definition max_response_bytes :: nat where "max_response_bytes = 268435456"

definition too_large_error :: go_error where
  "too_large_error = Wrapped [Cause (Sentinel ErrResponseTooLarge), Text ('' ('' @ itoa (int max_response_bytes) @ '' bytes)'')]"

text \<open>A message is its size, its tokens and, when it parses, its document.\<close>

definition read_message :: "nat \<Rightarrow> token list \<Rightarrow> gval option \<Rightarrow> dispatch" where
  "read_message bytes_read toks doc =
     (if max_response_bytes < bytes_read then
        (case scan_response_id toks of
           None \<Rightarrow> Reader_stops (''oversized response (> '' @ itoa (int max_response_bytes) @ '' bytes) without a readable id'')
         | Some i \<Rightarrow> Delivers i (Lost too_large_error))
      else (case Option.bind doc decode_response of
          None \<Rightarrow> Reader_stops (err_text (errorf ''json''))
        | Some (None, e, r) \<Rightarrow> Ignored
        | Some (Some i, Some e, r) \<Rightarrow> Delivers i (Lost (Api (rpc_api_error e)))
        | Some (Some i, None, r) \<Rightarrow> Delivers i (Got r)))"

section \<open>Options and the keepalive\<close>

record client_config =
  cc_endpoint :: string
  cc_user_agent :: string
  cc_cap :: "nat option"

definition user_agent :: "string \<Rightarrow> string" where
  "user_agent version = ''terraform-provider-truenas/'' @ version @
     '' (+https://github.com/truenas/terraform-provider-truenas)''"

definition with_max_concurrent_calls :: "int \<Rightarrow> client_config \<Rightarrow> client_config" where
  "with_max_concurrent_calls n c = (if 1 \<le> n then c\<lparr>cc_cap := Some (nat n)\<rparr> else c)"

definition with_user_agent :: "string \<Rightarrow> client_config \<Rightarrow> client_config" where
  "with_user_agent version c = c\<lparr>cc_user_agent := user_agent (if version = [] then ''dev'' else version)\<rparr>"

definition default_max_concurrent_calls :: nat where "default_max_concurrent_calls = 16"

definition new_client :: "string \<Rightarrow> (client_config \<Rightarrow> client_config) list \<Rightarrow> client_config" where
  "new_client endpoint opts =
     (let c = fold (\<lambda>opt c. opt c) opts \<lparr>cc_endpoint = endpoint, cc_user_agent = user_agent ''dev'', cc_cap = None\<rparr>
      in if cc_cap c = None then c\<lparr>cc_cap := Some default_max_concurrent_calls\<rparr> else c)"

text \<open>What a tick of the keepalive does: nothing for a client that has been idle for too long, that has no
  connection or that gets no slot; otherwise it pings the connection.\<close>

definition keepalive_ping :: "int \<Rightarrow> int \<Rightarrow> bool \<Rightarrow> shared \<Rightarrow> conn option" where
  "keepalive_ping since_use idle_limit got_slot s =
     (if idle_limit < since_use then None
      else case published s of None \<Rightarrow> None | Some c \<Rightarrow> if got_slot then Some c else None)"

section \<open>A run\<close>

text \<open>One connection is opened and logged in, and a caller has written a request on it.\<close>

definition example_open :: shared where
  "example_open = fresh_client\<lparr>next_conn := 1, logged_in := (\<lambda>_. False)(0 := True), slots := {7}\<rparr>"

definition example_waiting :: shared where
  "example_waiting = write_frame 1 0 (register_call ''pool.query'' 1 0 (take_number 0 (Some 7) example_open))"

lemma example_reachable: "reachable 16 example_waiting"
proof -
  have r1: "reachable 16 (fresh_client\<lparr>next_conn := 1\<rparr>)"
    using reach_step [OF reach_fresh step_open [of 16 fresh_client]] by (simp add: fresh_client_def)
  then have r2: "reachable 16 (fresh_client\<lparr>next_conn := 1, logged_in := (\<lambda>_. False)(0 := True)\<rparr>)"
    using reach_step [OF r1 step_login [of 0]] by (simp add: fresh_client_def)
  have r3: "reachable 16 example_open"
    using reach_step [OF r2 step_acquire [of 7]] by (simp add: fresh_client_def example_open_def)
  have r4: "reachable 16 (take_number 0 (Some 7) example_open)"
    by (rule reach_step [OF r3 step_number])
      (simp_all add: example_open_def fresh_client_def idle_def)
  have r5: "reachable 16 (register_call ''pool.query'' 1 0 (take_number 0 (Some 7) example_open))"
    by (rule reach_step [OF r4 step_register])
      (simp add: take_number_def example_open_def fresh_client_def Let_def)
  show ?thesis
    unfolding example_waiting_def
    by (rule reach_step [OF r5 step_write])
      (simp add: take_number_def register_call_def example_open_def fresh_client_def Let_def)
qed

lemma example_facts:
  "phase_of example_waiting 1 = Some (Waiting 0)" "inbox example_waiting 1 = None"
  "pending example_waiting 1 = Some 0" "owner example_waiting i = (if i = 1 then Some 7 else None)"
  by (simp_all add: example_waiting_def section_defs example_open_def fresh_client_def)

lemmas example_simps = example_facts [unfolded One_nat_def]

section \<open>Properties\<close>

text \<open>C4. However callers, readers, dials and logins interleave, a call that waits has its answer, or is
  still pending on a connection whose reader runs; a pending call's channel is empty, so the reader
  never blocks on it; a request goes over the wire at most once; and the connection that
  callers find is logged in and has its reader.\<close>

theorem shared_client_invariant:
  assumes "reachable cap s"
  shows "(\<forall>i c. phase_of s i = Some (Waiting c) \<longrightarrow> inbox s i \<noteq> None \<or> (pending s i = Some c \<and> \<not> closed s c)) \<and>
    (\<forall>i c. pending s i = Some c \<longrightarrow> inbox s i = None) \<and>
    distinct (wire s) \<and>
    (\<forall>c. published s = Some c \<longrightarrow> logged_in s c \<and> \<not> finished s c)"
  using reachable_ok [OF assms] unfolding numbers_ok_def calls_ok_def conns_ok_def by blast

theorem shared_client_invariant_witness: "\<not> closed example_waiting 0"
  using shared_client_invariant [OF example_reachable] example_facts(1,2) by blast

text \<open>C5. Each call ends exactly once: one step of the client leaves the outcome of a request alone or
  moves it along the life of a single call, from open to answered or failed, and an ended call stays ended.\<close>

theorem calls_refine_spec:
  assumes "reachable cap s" and "step cap s s'"
  shows "outcome_of s' i = outcome_of s i \<or> spec_step (outcome_of s i) (outcome_of s' i)"
  using step_refines [OF assms(2)] reachable_ok [OF assms(1)] by blast

theorem calls_refine_spec_witness:
  "spec_step (outcome_of example_waiting 1) (outcome_of (deliver 1 (Got GNil) example_waiting) 1)"
proof -
  have "step 16 example_waiting (deliver 1 (Got GNil) example_waiting)"
    by (rule step_deliver [of 0]) (simp_all add: example_waiting_def section_defs example_open_def fresh_client_def)
  from calls_refine_spec [OF example_reachable this, of 1] show ?thesis
    by (auto simp: outcome_of_def example_simps deliver_def)
qed

text \<open>Outside logins no more calls are in flight than the semaphore has slots.\<close>

theorem calls_in_flight_bounded:
  assumes "reachable cap s"
  shows "card {i. owner s i \<noteq> None \<and> \<not> is_returned (phase_of s i)} \<le> cap"
  using in_flight_bound reachable_ok [OF assms] by blast

theorem calls_in_flight_bounded_witness:
  "card {i. owner example_waiting i \<noteq> None \<and> \<not> is_returned (phase_of example_waiting i)} \<le> 16"
  by (rule calls_in_flight_bounded [OF example_reachable])

text \<open>C31. The scan for the id of an oversized response finds the id member of the object, past any values
  before it, whatever they hold and whatever follows.\<close>

theorem scan_finds_id:
  "scan_response_id (tokens_of (GObj m) @ rest) = Option.bind (map_of m ''id'') id_of"
  by (simp add: scan_response_id_def scan_members_tokens)

end
