(* ===== verification/Provider.thy ===== *)
theory Provider
  imports Auth
begin

text \<open>
  The provider (src/internal/provider/provider.go): how a configuration and the environment become
  the settings of a client, how clients are shared within the process, and the registry of
  resources, data sources, list resources and actions. Reading files, parsing certificates and
  SHA-256 belong to Go's library and are parameters.
\<close>

section \<open>Settings\<close>

record provider_model =
  pm_endpoint :: "string tf"
  pm_api_key :: "string tf"
  pm_username :: "string tf"
  pm_password :: "string tf"
  pm_insecure :: "bool tf"
  pm_ca_cert :: "string tf"

definition env_or_val :: "(string \<Rightarrow> string) \<Rightarrow> string tf \<Rightarrow> string \<Rightarrow> string" where
  "env_or_val getenv v key =
     (if \<not> is_null v \<and> \<not> is_unknown v \<and> value_string v \<noteq> [] then value_string v else getenv key)"

datatype 'p tls_roots = Unverified | System_Roots | Own_Roots 'p

text \<open>\<open>BuildTLSConfig\<close>: \<open>read\<close> reads a file and \<open>certs\<close> is the pool of the certificates in a PEM text.\<close>

definition build_tls_config ::
  "(string \<Rightarrow> string + bytes) \<Rightarrow> (bytes \<Rightarrow> 'p option) \<Rightarrow> bool \<Rightarrow> string \<Rightarrow> go_error + 'p tls_roots" where
  "build_tls_config read certs insecure ca_file =
     (if insecure then Inr Unverified
      else if ca_file \<noteq> [] then
        (case read ca_file of
           Inl e \<Rightarrow> Inl (Wrapped [Text ''reading CA certificate '', Text ca_file, Text '': '', Cause (errorf e)])
         | Inr pem \<Rightarrow> (case certs pem of
               None \<Rightarrow> Inl (errorf (''no valid certificates found in '' @ ca_file))
             | Some p \<Rightarrow> Inr (Own_Roots p)))
      else Inr System_Roots)"

record 'p settings =
  st_endpoint :: string
  st_cred :: credentials
  st_tls :: "'p tls_roots"

type_synonym diag = "string \<times> string"

text \<open>Endpoints written for the legacy path are rewritten.\<close>

definition current_endpoint :: "string \<Rightarrow> string" where
  "current_endpoint endpoint = (case cut_suffix endpoint ''/websocket'' of
      Some base \<Rightarrow> base @ ''/api/current''
    | None \<Rightarrow> endpoint)"

text \<open>The strings that \<open>clientCacheKey\<close> hashes.\<close>

definition cache_parts ::
  "string \<Rightarrow> string \<Rightarrow> string \<Rightarrow> string \<Rightarrow> string \<Rightarrow> bool \<Rightarrow> string \<Rightarrow> string list" where
  "cache_parts endpoint api_key username password ca_file insecure version =
     [endpoint, api_key, username, password, ca_file, go_bool insecure, version]"

definition nul :: char where "nul = char_of (0 :: nat)"

definition client_cache_key :: "(string \<Rightarrow> 'k) \<Rightarrow> string list \<Rightarrow> 'k" where
  "client_cache_key sha parts = sha (join [nul] parts)"

section \<open>Shared clients\<close>

definition shared_client ::
  "'k \<Rightarrow> ('w \<Rightarrow> (go_error + 'c) \<times> 'w) \<Rightarrow> ('k \<times> 'c) list \<times> 'w \<Rightarrow> (go_error + 'c) \<times> (('k \<times> 'c) list \<times> 'w)" where
  "shared_client key conn s = (case s of (clients, w) \<Rightarrow>
     (case map_of clients key of
        Some c \<Rightarrow> (Inr c, (clients, w))
      | None \<Rightarrow> (case conn w of
            (Inl e, w1) \<Rightarrow> (Inl e, (clients, w1))
          | (Inr c, w1) \<Rightarrow> (Inr c, (AList.update key c clients, w1)))))"

section \<open>\<open>Configure\<close>\<close>

text \<open>What a configuration asks for, before the client is made: diagnostics, or the settings and the
  strings of the cache key.\<close>

definition resolve ::
  "(string \<Rightarrow> string) \<Rightarrow> (string \<Rightarrow> string + bytes) \<Rightarrow> (bytes \<Rightarrow> 'p option) \<Rightarrow> string \<Rightarrow> provider_model \<Rightarrow>
     diag + 'p settings \<times> string list" where
  "resolve getenv read certs version cfg =
     (let endpoint = env_or_val getenv (pm_endpoint cfg) ''TRUENAS_ENDPOINT'';
          api_key = env_or_val getenv (pm_api_key cfg) ''TRUENAS_API_KEY'';
          username = env_or_val getenv (pm_username cfg) ''TRUENAS_USERNAME'';
          password = env_or_val getenv (pm_password cfg) ''TRUENAS_PASSWORD''
      in if endpoint = [] then
           Inl (''Missing endpoint'', ''Set endpoint in provider config or TRUENAS_ENDPOINT env var.'')
         else let endpoint = current_endpoint endpoint;
                  has_api_key = (api_key \<noteq> []);
                  has_password = (username \<noteq> [] \<and> password \<noteq> [])
           in if has_api_key \<and> password \<noteq> [] then
                Inl (''Conflicting auth'', ''Provide api_key OR username+password, not both. (username alone may accompany api_key to enable SCRAM.)'')
              else if \<not> has_api_key \<and> \<not> has_password then
                Inl (''Missing auth'', ''Provide api_key or username+password.'')
              else let insecure = (\<not> is_null (pm_insecure cfg) \<and> \<not> is_unknown (pm_insecure cfg) \<and> value_bool (pm_insecure cfg));
                       ca_file = (if \<not> is_null (pm_ca_cert cfg) \<and> \<not> is_unknown (pm_ca_cert cfg)
                         then value_string (pm_ca_cert cfg) else [])
                in if insecure \<and> ca_file \<noteq> [] then
                     Inl (''Conflicting TLS config'', ''Set insecure or ca_cert, not both.'')
                   else (case build_tls_config read certs insecure ca_file of
                       Inl e \<Rightarrow> Inl (''TLS config error'', err_text e)
                     | Inr tls \<Rightarrow> Inr (\<lparr>st_endpoint = endpoint,
                           st_cred = (if has_api_key then ApiKeyCred username api_key else PasswordCred username password),
                           st_tls = tls\<rparr>,
                         cache_parts endpoint api_key username password ca_file insecure version)))"

definition configure ::
  "(string \<Rightarrow> string) \<Rightarrow> (string \<Rightarrow> string + bytes) \<Rightarrow> (bytes \<Rightarrow> 'p option) \<Rightarrow> (string \<Rightarrow> 'k) \<Rightarrow>
     ('p settings \<Rightarrow> string \<Rightarrow> 'w \<Rightarrow> (go_error + 'c) \<times> 'w) \<Rightarrow> string \<Rightarrow> provider_model \<Rightarrow>
     ('k \<times> 'c) list \<times> 'w \<Rightarrow> (diag + 'c) \<times> (('k \<times> 'c) list \<times> 'w)" where
  "configure getenv read certs sha conn version cfg s =
     (case resolve getenv read certs version cfg of
        Inl d \<Rightarrow> (Inl d, s)
      | Inr (st, parts) \<Rightarrow>
          (case shared_client (client_cache_key sha parts) (conn st version) s of
             (Inl e, s1) \<Rightarrow> (Inl (''Connection failed'',
                ''Cannot connect to TrueNAS at '' @ st_endpoint st @ '': '' @ err_text e), s1)
           | (Inr c, s1) \<Rightarrow> (Inr c, s1)))"

text \<open>The connect function of the provider: the client is its environment and its credentials.\<close>

definition connect_client ::
  "('p settings \<Rightarrow> env) \<Rightarrow> 'p settings \<Rightarrow> string \<Rightarrow> world \<Rightarrow> (go_error + env \<times> credentials) \<times> world" where
  "connect_client env_of st version w =
     (case connect (env_of st) (Some (login (env_of st) (st_cred st))) w of
        (Some e, w1) \<Rightarrow> (Inl e, w1)
      | (None, w1) \<Rightarrow> (Inr (env_of st, st_cred st), w1))"

section \<open>The registry\<close>

text \<open>Constructors are named by their packages, in the order of the code.\<close>

definition resources :: "string list" where
  "resources =
    [''acl_template'', ''acme_dns_authenticator'', ''alert_policy'', ''alert_service'',
     ''api_key'', ''app'', ''app_registry'', ''audit_config'', ''boot_environment'',
     ''catalog_config'', ''certificate'', ''cloud_backup'', ''cloudsync'',
     ''cloudsync_credentials'', ''container'', ''container_device'', ''cronjob'', ''dataset'',
     ''directoryservices'', ''docker_config'', ''enclosure_label'', ''failover_config'',
     ''filesystem_acl'', ''filesystem_permissions'', ''ftp_config'', ''group'',
     ''init_shutdown_script'', ''ipmi_lan'', ''iscsi_auth'', ''iscsi_extent'', ''iscsi_global'',
     ''iscsi_initiator'', ''iscsi_portal'', ''iscsi_target'', ''iscsi_targetextent'',
     ''kerberos_config'', ''kerberos_keytab'', ''kerberos_realm'', ''keychain_ssh_connection'',
     ''keychain_ssh_keypair'', ''lxc_config'', ''mail'', ''nfs'', ''nfs_config'',
     ''network_config'', ''network_interface'', ''ntp_server'', ''nvmet_global'', ''nvmet_host'',
     ''nvmet_host_subsys'', ''nvmet_namespace'', ''nvmet_port'', ''nvmet_port_subsys'',
     ''nvmet_subsys'', ''periodic_snapshot'', ''pool'', ''privilege'', ''replication'',
     ''replication_config'', ''reporting_exporter'', ''resilver_config'', ''rsync_task'',
     ''scrub_task'', ''service'', ''smb'', ''smb_config'', ''smb_share_acl'', ''snapshot'',
     ''snmp_config'', ''static_route'', ''ssh_config'', ''system_advanced'', ''system_dataset'',
     ''system_general'', ''tn_connect_config'', ''truecommand_config'', ''tunable'',
     ''twofactor_auth'', ''user'', ''ups_config'', ''vm'', ''vm_device'', ''vmware'', ''webshare'',
     ''webshare_config'', ''zvol'']"

definition data_sources :: "string list" where
  "data_sources =
    [''acl_template'', ''acme_dns_authenticator'', ''alert_policy'', ''alert_service'',
     ''api_key'', ''app'', ''app_registry'', ''audit_config'', ''boot_environment'',
     ''catalog_config'', ''certificate'', ''cloud_backup'', ''cloudsync'',
     ''cloudsync_credentials'', ''container'', ''container_device'', ''container_image'',
     ''cronjob'', ''dataset'', ''directoryservices'', ''docker_config'', ''docker_network'',
     ''enclosure'', ''failover_config'', ''filesystem_acl'', ''filesystem_permissions'',
     ''ftp_config'', ''group'', ''init_shutdown_script'', ''ipmi_lan'', ''iscsi_auth'',
     ''iscsi_extent'', ''iscsi_global'', ''iscsi_initiator'', ''iscsi_portal'', ''iscsi_target'',
     ''iscsi_targetextent'', ''kerberos_config'', ''kerberos_keytab'', ''kerberos_realm'',
     ''keychain_ssh_connection'', ''keychain_ssh_keypair'', ''lxc_config'', ''mail'', ''nfs'',
     ''nfs_config'', ''network_config'', ''network_interface'', ''ntp_server'', ''nvmet_global'',
     ''nvmet_host'', ''nvmet_host_subsys'', ''nvmet_namespace'', ''nvmet_port'',
     ''nvmet_port_subsys'', ''nvmet_subsys'', ''periodic_snapshot'', ''pool'', ''privilege'',
     ''replication'', ''replication_config'', ''reporting_exporter'', ''resilver_config'',
     ''rsync_task'', ''scrub_task'', ''service'', ''smb'', ''smb_config'', ''smb_share_acl'',
     ''snapshot'', ''snmp_config'', ''static_route'', ''ssh_config'', ''system_advanced'',
     ''system_dataset'', ''system_general'', ''tn_connect_config'', ''truecommand_config'',
     ''tunable'', ''twofactor_auth'', ''user'', ''ups_config'', ''vm'', ''vm_device'', ''vmware'',
     ''webshare'', ''webshare_config'', ''zvol'']"

definition actions :: "string list" where
  "actions =
    [''app_redeploy'', ''app_start'', ''app_stop'', ''cloudsync_run'', ''cronjob_run'',
     ''dataset_lock'', ''dataset_promote'', ''dataset_rename'', ''dataset_set_quota'',
     ''dataset_unlock'', ''replication_run'', ''scrub_run'', ''service_control'',
     ''snapshot_clone'', ''snapshot_hold'', ''snapshot_release'', ''snapshot_rename'',
     ''snapshot_rollback'', ''snapshot_task_run'', ''ui_restart'', ''vm_clone'', ''vm_reset'',
     ''vm_restart'', ''vm_start'', ''vm_stop'']"

definition list_resources :: "string list" where
  "list_resources =
    [''boot_environment'', ''ipmi_lan'', ''user'', ''dataset'', ''ssh_config'', ''group'',
     ''pool'', ''privilege'', ''certificate'', ''cronjob'', ''rsync_task'', ''replication'',
     ''cloudsync'', ''cloudsync_credentials'', ''periodic_snapshot'', ''scrub_task'', ''tunable'',
     ''iscsi_auth'', ''iscsi_extent'', ''iscsi_initiator'', ''iscsi_portal'', ''iscsi_target'',
     ''iscsi_targetextent'', ''nvmet_host'', ''nvmet_host_subsys'', ''nvmet_namespace'',
     ''nvmet_port'', ''nvmet_port_subsys'', ''nvmet_subsys'', ''acme_dns_authenticator'',
     ''acl_template'', ''alert_service'', ''api_key'', ''app_registry'', ''cloud_backup'',
     ''container'', ''container_device'', ''init_shutdown_script'', ''kerberos_keytab'',
     ''kerberos_realm'', ''ntp_server'', ''reporting_exporter'', ''static_route'', ''vm'',
     ''vm_device'', ''vmware'', ''smb'', ''webshare'', ''keychain_ssh_connection'',
     ''keychain_ssh_keypair'', ''app'', ''snapshot'', ''nfs'', ''network_interface'',
     ''enclosure_label'', ''service'', ''zvol'', ''alert_policy'', ''audit_config'',
     ''catalog_config'', ''directoryservices'', ''docker_config'', ''failover_config'',
     ''ftp_config'', ''iscsi_global'', ''kerberos_config'', ''lxc_config'', ''mail'',
     ''network_config'', ''nfs_config'', ''nvmet_global'', ''replication_config'',
     ''resilver_config'', ''smb_config'', ''snmp_config'', ''system_advanced'', ''system_dataset'',
     ''system_general'', ''tn_connect_config'', ''truecommand_config'', ''twofactor_auth'',
     ''ups_config'', ''webshare_config'']"

section \<open>Facts\<close>

lemma current_endpoint_shape:
  "\<not> has_suffix e ''/websocket'' \<Longrightarrow> current_endpoint e = e"
  "current_endpoint (b @ ''/websocket'') = b @ ''/api/current''"
  by (simp_all add: current_endpoint_def cut_suffix_def[of e] split: option.split)

definition clean :: "string \<Rightarrow> bool" where "clean s \<longleftrightarrow> nul \<notin> set s"

lemma clean_bool [simp]: "clean (go_bool b)"
  by (simp add: clean_def go_bool_def nul_def flip: ord_of_inject) (simp add: ord_of_def)

lemma go_bool_inject [simp]: "go_bool a = go_bool b \<longleftrightarrow> a = b"
  by (simp add: go_bool_def)

lemma resolve_parts:
  assumes "resolve getenv read certs version cfg = Inr (st, parts)"
  obtains key user pw ca ins where
    "parts = [st_endpoint st, key, user, pw, ca, go_bool ins, version]"
    "st_cred st = (if key \<noteq> [] then ApiKeyCred user key else PasswordCred user pw)"
  using assms by (auto simp: resolve_def Let_def cache_parts_def split: if_splits sum.splits)

lemma current_endpoint_not_legacy: "\<not> has_suffix (current_endpoint e) ''/websocket''"
proof (cases "has_suffix e ''/websocket''")
  case True
  then obtain b where "e = b @ ''/websocket''" by (auto simp: has_suffix_iff)
  then show ?thesis by (simp add: current_endpoint_shape has_suffix_def has_prefix_def)
next
  case False
  then show ?thesis by (simp add: current_endpoint_shape)
qed

lemma distinct_resources: "distinct resources" by (simp add: resources_def)

lemma distinct_data_sources: "distinct data_sources" by (simp add: data_sources_def)

lemma distinct_actions: "distinct actions" by (simp add: actions_def)

lemma distinct_list_resources: "distinct list_resources" by (simp add: list_resources_def)

lemma listed_are_resources: "set list_resources \<subseteq> set resources"
  by (simp add: list_resources_def resources_def)

definition example_provider :: provider_model where
  "example_provider = \<lparr>pm_endpoint = Known ''wss://nas/websocket'', pm_api_key = TfNull,
     pm_username = Known ''root'', pm_password = Known ''pw'', pm_insecure = TfNull, pm_ca_cert = TfNull\<rparr>"

definition example_resolve :: "string \<Rightarrow> diag + nat settings \<times> string list" where
  "example_resolve endpoint = resolve (\<lambda>_. []) (\<lambda>_. Inl []) (\<lambda>_. None) ''1.0''
     (example_provider\<lparr>pm_endpoint := Known endpoint\<rparr>)"

definition example_settings :: "nat settings" where
  "example_settings = \<lparr>st_endpoint = ''wss://nas/api/current'', st_cred = PasswordCred ''root'' ''pw'', st_tls = System_Roots\<rparr>"

definition example_parts :: "string list" where
  "example_parts = [''wss://nas/api/current'', [], ''root'', ''pw'', [], ''false'', ''1.0'']"

lemma example_resolved:
  "example_resolve ''wss://nas/websocket'' = Inr (example_settings, example_parts)"
  "example_resolve ''wss://nas/api/current'' = Inr (example_settings, example_parts)"
proof -
  have "current_endpoint ''wss://nas/websocket'' = ''wss://nas/api/current''"
    using current_endpoint_shape(2) [of "''wss://nas''"] by simp
  moreover have "current_endpoint ''wss://nas/api/current'' = ''wss://nas/api/current''"
    by (rule current_endpoint_shape) (simp add: has_suffix_def has_prefix_def)
  ultimately show "example_resolve ''wss://nas/websocket'' = Inr (example_settings, example_parts)"
      "example_resolve ''wss://nas/api/current'' = Inr (example_settings, example_parts)"
    by (simp_all add: example_resolve_def resolve_def example_provider_def env_or_val_def build_tls_config_def
        cache_parts_def go_bool_def Let_def example_settings_def example_parts_def)
qed

lemma example_clean: "\<forall>s \<in> set example_parts. clean s"
  by (simp add: clean_def nul_def example_parts_def flip: ord_of_inject) (simp add: ord_of_def)

section \<open>Properties\<close>

text \<open>C40. A configuration is accepted exactly when there is an endpoint, one way to log in and no
  contradiction about certificates, and the CA file, if one is used, can be read; the accepted endpoint is
  never the legacy one.\<close>

theorem configuration_accepted:
  "let endpoint = env_or_val getenv (pm_endpoint cfg) ''TRUENAS_ENDPOINT'';
       key = env_or_val getenv (pm_api_key cfg) ''TRUENAS_API_KEY'';
       user = env_or_val getenv (pm_username cfg) ''TRUENAS_USERNAME'';
       pw = env_or_val getenv (pm_password cfg) ''TRUENAS_PASSWORD'';
       insecure = value_bool (pm_insecure cfg); ca = value_string (pm_ca_cert cfg)
   in case resolve getenv read certs version cfg of
        Inr (st, parts) \<Rightarrow> endpoint \<noteq> [] \<and> (if key = [] then user \<noteq> [] \<and> pw \<noteq> [] else pw = []) \<and>
          (if insecure then ca = [] else ca = [] \<or> (\<exists>pem p. read ca = Inr pem \<and> certs pem = Some p)) \<and>
          \<not> has_suffix (st_endpoint st) ''/websocket''
      | Inl d \<Rightarrow> endpoint = [] \<or> (if key = [] then user = [] \<or> pw = [] else pw \<noteq> []) \<or>
          (if insecure then ca \<noteq> [] else ca \<noteq> [] \<and> (\<forall>pem p. read ca \<noteq> Inr pem \<or> certs pem \<noteq> Some p))"
proof -
  have b: "(\<not> is_null v \<and> \<not> is_unknown v \<and> value_bool v) = value_bool v" for v
    by (cases v) auto
  have c: "(if \<not> is_null v \<and> \<not> is_unknown v then value_string v else []) = value_string v" for v
    by (cases v) auto
  show ?thesis
    unfolding resolve_def Let_def b c
    by (auto simp: build_tls_config_def current_endpoint_not_legacy split: sum.splits option.splits)
qed

theorem configuration_accepted_witness:
  "\<not> has_suffix (st_endpoint (fst (projr (example_resolve ''wss://nas/websocket'')))) ''/websocket''"
proof -
  let ?cfg = "example_provider\<lparr>pm_endpoint := Known ''wss://nas/websocket''\<rparr>"
  have "\<not> has_suffix (st_endpoint example_settings) ''/websocket''"
    using configuration_accepted [where getenv = "\<lambda>_. []" and cfg = ?cfg and read = "\<lambda>_. Inl []" and
        certs = "\<lambda>_. None :: nat option" and version = "''1.0''"]
    by (simp add: example_resolved [unfolded example_resolve_def] Let_def)
  then show ?thesis by (simp add: example_resolved)
qed

text \<open>C29. Two configurations that share a client have the same endpoint, the same credentials and the same
  provider version: a cached client never acts for another user. (No collision of the
  hash for the two, and no NUL byte in what they hold.)\<close>

theorem shared_client_same_login:
  assumes "resolve getenv read certs version cfg = Inr (st, parts)"
    and "resolve getenv' read' certs' version' cfg' = Inr (st', parts')"
    and "client_cache_key sha parts = client_cache_key sha parts'"
    and no_collision: "sha (join [nul] parts) = sha (join [nul] parts') \<Longrightarrow> join [nul] parts = join [nul] parts'"
    and "\<forall>s \<in> set parts. clean s" "\<forall>s \<in> set parts'. clean s"
  shows "st_endpoint st = st_endpoint st' \<and> st_cred st = st_cred st' \<and> version = version'"
proof -
  have "parts \<noteq> []" "parts' \<noteq> []"
    using resolve_parts [OF assms(1)] resolve_parts [OF assms(2)] by (metis list.distinct(1))+
  moreover have "join [nul] parts = join [nul] parts'"
    using assms(3) no_collision by (simp add: client_cache_key_def)
  ultimately have eq: "parts = parts'"
    using assms(5,6) by (intro join_inject [of nul]) (auto simp: clean_def)
  obtain key user pw ca ins where 1:
    "parts = [st_endpoint st, key, user, pw, ca, go_bool ins, version]"
    "st_cred st = (if key \<noteq> [] then ApiKeyCred user key else PasswordCred user pw)"
    by (rule resolve_parts [OF assms(1)])
  obtain key' user' pw' ca' ins' where 2:
    "parts' = [st_endpoint st', key', user', pw', ca', go_bool ins', version']"
    "st_cred st' = (if key' \<noteq> [] then ApiKeyCred user' key' else PasswordCred user' pw')"
    by (rule resolve_parts [OF assms(2)])
  from 1 2 eq show ?thesis by simp
qed

theorem shared_client_same_login_witness:
  "st_cred (fst (projr (example_resolve ''wss://nas/websocket''))) =
   st_cred (fst (projr (example_resolve ''wss://nas/api/current'')))"
proof -
  have "st_cred example_settings = st_cred example_settings"
    using shared_client_same_login [OF example_resolved(1) [unfolded example_resolve_def]
        example_resolved(2) [unfolded example_resolve_def], of id] example_clean
    by simp
  then show ?thesis by (simp add: example_resolved)
qed

text \<open>A client that connected is kept and handed out again without connecting; a failed attempt
  leaves nothing behind.\<close>

theorem client_kept_when_connected:
  "case shared_client key conn (clients, w) of
      (Inl e, s) \<Rightarrow> fst s = clients \<and> map_of clients key = None
    | (Inr c, s) \<Rightarrow> shared_client key other s = (Inr c, s)"
  by (auto simp: shared_client_def AList.update_conv' split: option.splits prod.splits sum.splits)

text \<open>Every resource, data source and action is registered once, and only resources can be listed.\<close>

theorem registry_consistent:
  "distinct resources \<and> distinct data_sources \<and> distinct actions \<and> distinct list_resources \<and>
   set list_resources \<subseteq> set resources"
  by (simp add: distinct_resources distinct_data_sources distinct_actions distinct_list_resources listed_are_resources)

end
