(* ===== verification/Resource.thy ===== *)
theory Resource
  imports Listing Version
begin

text \<open>
  What the resources share: the calls they make through the client, the outcome of a resource
  operation as the framework records it, and the steps that build a request payload from a
  model (\<open>p[key] = value\<close> for the attributes that are set).
\<close>

section \<open>The client as a resource sees it\<close>

text \<open>
  \<open>Call\<close>, \<open>CallRead\<close>, \<open>CallJob\<close> (\<open>None\<close>: it never returns), \<open>VersionAtLeast\<close>, the clock and a
  wait that a context can end.
\<close>

record 'w api =
  api_call :: "string \<Rightarrow> gval list \<Rightarrow> 'w \<Rightarrow> (go_error + gval) \<times> 'w"
  api_read :: "string \<Rightarrow> gval list \<Rightarrow> 'w \<Rightarrow> (go_error + gval) \<times> 'w"
  api_job :: "string \<Rightarrow> gval list \<Rightarrow> 'w \<Rightarrow> ((go_error + gval) \<times> 'w) option"
  api_at_least :: "int \<Rightarrow> int \<Rightarrow> 'w \<Rightarrow> (go_error + bool) \<times> 'w"
  api_now :: "'w \<Rightarrow> duration \<times> 'w"
  api_pause :: "duration \<Rightarrow> 'w \<Rightarrow> go_error option \<times> 'w"

definition on_client :: "('w \<Rightarrow> 'r \<times> 'w) \<Rightarrow> 'w client \<Rightarrow> 'r \<times> 'w client" where
  "on_client f c = (case f (cl_world c) of (r, w1) \<Rightarrow> (r, c\<lparr>cl_world := w1\<rparr>))"

definition client_api :: "'w ops \<Rightarrow> ('w \<Rightarrow> duration \<times> 'w) \<Rightarrow> 'w client api" where
  "client_api os now =
     \<lparr>api_call = (\<lambda>m ps. on_client (op_call os m ps)),
      api_read = (\<lambda>m ps. on_client (call_read os m ps)),
      api_job = call_job os,
      api_at_least = client_version_at_least os,
      api_now = on_client now,
      api_pause = (\<lambda>d. on_client (op_pause os d))\<rparr>"

text \<open>The same calls with a log of what was sent and answered; waits and the clock leave no entry.\<close>

type_synonym exchanged = "string \<times> gval list \<times> (go_error + gval)"

definition noting ::
  "string \<Rightarrow> gval list \<Rightarrow> (go_error + gval) \<times> 'w \<Rightarrow> exchanged list \<Rightarrow> (go_error + gval) \<times> ('w \<times> exchanged list)" where
  "noting m ps rw l = (fst rw, (snd rw, l @ [(m, ps, fst rw)]))"

definition quietly :: "('w \<Rightarrow> 'r \<times> 'w) \<Rightarrow> 'w \<times> exchanged list \<Rightarrow> 'r \<times> ('w \<times> exchanged list)" where
  "quietly f s = (case f (fst s) of (r, w1) \<Rightarrow> (r, (w1, snd s)))"

definition logged :: "'w api \<Rightarrow> ('w \<times> exchanged list) api" where
  "logged a =
     \<lparr>api_call = (\<lambda>m ps s. noting m ps (api_call a m ps (fst s)) (snd s)),
      api_read = (\<lambda>m ps s. noting m ps (api_read a m ps (fst s)) (snd s)),
      api_job = (\<lambda>m ps s. map_option (\<lambda>rw. noting m ps rw (snd s)) (api_job a m ps (fst s))),
      api_at_least = (\<lambda>major minor. quietly (api_at_least a major minor)),
      api_now = quietly (api_now a),
      api_pause = (\<lambda>d. quietly (api_pause a d))\<rparr>"

lemma logged_simps [simp]:
  "api_call (logged a) m ps s = noting m ps (api_call a m ps (fst s)) (snd s)"
  "api_read (logged a) m ps s = noting m ps (api_read a m ps (fst s)) (snd s)"
  "api_job (logged a) m ps s = map_option (\<lambda>rw. noting m ps rw (snd s)) (api_job a m ps (fst s))"
  "api_at_least (logged a) x y = quietly (api_at_least a x y)"
  "api_now (logged a) = quietly (api_now a)"
  "api_pause (logged a) d = quietly (api_pause a d)"
  by (simp_all add: logged_def)

lemma noting_iff [simp]: "noting m ps rw l = (r, s) \<longleftrightarrow> r = fst rw \<and> s = (snd rw, l @ [(m, ps, r)])"
  by (auto simp: noting_def)

lemma quietly_iff [simp]: "quietly f s = (r, s1) \<longleftrightarrow> f (fst s) = (r, fst s1) \<and> snd s1 = snd s"
  by (cases s1) (auto simp: quietly_def split: prod.splits)

text \<open>
  What the loop needs of its surroundings to end: a job call returns, the clock never goes back
  and a wait that is not cut short lets at least its duration pass.
\<close>

definition clock :: "'w api \<Rightarrow> 'w \<Rightarrow> duration" where
  "clock a w = fst (api_now a w)"

definition time_passes :: "'w api \<Rightarrow> bool" where
  "time_passes a \<longleftrightarrow>
     (\<forall>m ps w. clock a w \<le> clock a (snd (api_call a m ps w))) \<and>
     (\<forall>m ps w. \<exists>r w1. api_job a m ps w = Some (r, w1) \<and> clock a w \<le> clock a w1) \<and>
     (\<forall>w. clock a w \<le> clock a (snd (api_now a w))) \<and>
     (\<forall>d w w1. api_pause a d w = (None, w1) \<longrightarrow> clock a w + d \<le> clock a w1)"

text \<open>The same of reads.\<close>

definition reads_pass :: "'w api \<Rightarrow> bool" where
  "reads_pass a \<longleftrightarrow> (\<forall>m ps w. clock a w \<le> clock a (snd (api_read a m ps w)))"

section \<open>Outcomes\<close>

text \<open>
  A resource operation reports errors and leaves the state as the framework prepared it, stores
  a new state with its identity, or removes the resource from the state.
\<close>

datatype 'm outcome = Failure "diagnostic list" | Stored string 'm | Removed

definition fail_err :: "string \<Rightarrow> go_error \<Rightarrow> 'm outcome" where
  "fail_err summary e = Failure [(summary, err_text e)]"

text \<open>\<open>json.Unmarshal\<close> of an answer; the text of its error is not modelled further.\<close>

definition parse_failure :: "string \<Rightarrow> 'm outcome" where
  "parse_failure summary = fail_err summary decode_error"

section \<open>Building a payload\<close>

type_synonym payload = "gval gomap"

definition is_set :: "'a tf \<Rightarrow> bool" where
  "is_set v \<longleftrightarrow> \<not> is_null v \<and> \<not> is_unknown v"

definition put_when :: "bool \<Rightarrow> string \<Rightarrow> gval \<Rightarrow> payload \<Rightarrow> payload" where
  "put_when c k v p = (if c then put k v p else p)"

definition put_str :: "string \<Rightarrow> string tf \<Rightarrow> payload \<Rightarrow> payload" where
  "put_str k v = put_when (is_set v) k (GStr (value_string v))"

definition put_int64 :: "string \<Rightarrow> int tf \<Rightarrow> payload \<Rightarrow> payload" where
  "put_int64 k v = put_when (is_set v) k (GInt (value_int64 v))"

definition put_bool :: "string \<Rightarrow> bool tf \<Rightarrow> payload \<Rightarrow> payload" where
  "put_bool k v = put_when (is_set v) k (GBool (value_bool v))"

lemma is_set_simps [simp]: "is_set (Known x)" "\<not> is_set TfNull" "\<not> is_set TfUnknown"
  by (simp_all add: is_set_def)

lemma is_set_iff: "is_set v \<longleftrightarrow> (\<exists>x. v = Known x)"
  by (cases v) auto

text \<open>What a payload holds under a key after one step.\<close>

lemma map_of_put_when: "map_of (put_when c k v p) j = (if c \<and> j = k then Some v else map_of p j)"
  by (simp add: put_when_def)

lemma wf_put_when [simp]: "wf_map p \<Longrightarrow> wf_map (put_when c k v p)"
  by (auto simp: put_when_def)

lemma wf_put_steps [simp]:
  "wf_map p \<Longrightarrow> wf_map (put_str k s p)" "wf_map p \<Longrightarrow> wf_map (put_int64 k i p)"
  "wf_map p \<Longrightarrow> wf_map (put_bool k b p)"
  by (simp_all add: put_str_def put_int64_def put_bool_def)

lemmas payload_simps = map_of_put_when put_str_def put_int64_def put_bool_def

text \<open>Deleting several keys.\<close>

definition del_all :: "string list \<Rightarrow> payload \<Rightarrow> payload" where
  "del_all ks p = fold del ks p"

lemma map_of_del_all: "map_of (del_all ks p) j = (if j \<in> set ks then None else map_of p j)"
proof (induction ks arbitrary: p)
  case (Cons k ks)
  then show ?case by (simp add: del_all_def)
qed (simp add: del_all_def)

lemma wf_del_all [simp]: "wf_map p \<Longrightarrow> wf_map (del_all ks p)"
  by (induction ks arbitrary: p) (auto simp: del_all_def)

section \<open>Attributes as lists and as values\<close>

text \<open>\<open>ElementsAs\<close> into a slice: a null list is empty, an unknown list or a null or unknown element is an error.\<close>

definition conversion_error :: diagnostic where
  "conversion_error = (''Value Conversion Error'', ''unhandled unknown or null value'')"

definition known_value :: "'a tf \<Rightarrow> 'a option" where
  "known_value v = (case v of Known s \<Rightarrow> Some s | _ \<Rightarrow> None)"

definition elements_as :: "'a tf list tf \<Rightarrow> diagnostic + 'a list" where
  "elements_as l = (case l of
      TfNull \<Rightarrow> Inr []
    | TfUnknown \<Rightarrow> Inl conversion_error
    | Known vs \<Rightarrow> (case map_opt known_value vs of Some xs \<Rightarrow> Inr xs | None \<Rightarrow> Inl conversion_error))"

text \<open>The list a payload or a comparison works with: empty where the attribute is not set.\<close>

definition set_elements :: "'a tf list tf \<Rightarrow> diagnostic + 'a list" where
  "set_elements l = (if is_set l then elements_as l else Inr [])"

definition known_list :: "'a list \<Rightarrow> 'a tf list tf" where
  "known_list xs = Known (map Known xs)"

text \<open>\<open>attr.Value\<close>: attributes of different types side by side. Under one key the type is fixed, so two are
  \<open>Equal\<close> exactly when their encodings are the same.\<close>

type_synonym attrs = "(string \<times> gval tf) list"

definition elem_val :: "('a \<Rightarrow> gval) \<Rightarrow> 'a tf \<Rightarrow> gval" where
  "elem_val f v = (case v of Known x \<Rightarrow> f x | TfNull \<Rightarrow> GNil | TfUnknown \<Rightarrow> GObj [])"

definition list_attr :: "('a \<Rightarrow> gval) \<Rightarrow> 'a tf list tf \<Rightarrow> gval tf" where
  "list_attr f = map_tf (\<lambda>vs. GArr (map (elem_val f) vs))"

abbreviation str_attr :: "string tf \<Rightarrow> gval tf" where "str_attr \<equiv> map_tf GStr"
abbreviation int_attr :: "int tf \<Rightarrow> gval tf" where "int_attr \<equiv> map_tf GInt"
abbreviation bool_attr :: "bool tf \<Rightarrow> gval tf" where "bool_attr \<equiv> map_tf GBool"

lemma attr_value:
  "is_set s \<Longrightarrow> value_or GNil (str_attr s) = GStr (value_string s)"
  "is_set b \<Longrightarrow> value_or GNil (bool_attr b) = GBool (value_bool b)"
  "is_set i \<Longrightarrow> value_or GNil (int_attr i) = GInt (value_int64 i)"
  by (auto simp: is_set_iff)

text \<open>The loops over the optional attributes that delete keys from a payload: those left unset, and for an
  update also those that are as before.\<close>

definition drop_unset :: "attrs \<Rightarrow> payload \<Rightarrow> payload" where
  "drop_unset fs p = del_all (map fst (filter (\<lambda>(k, v). \<not> is_set v) fs)) p"

definition drop_unchanged :: "attrs \<Rightarrow> attrs \<Rightarrow> payload \<Rightarrow> payload" where
  "drop_unchanged fs prior p =
     del_all (map fst (filter (\<lambda>(k, v). \<not> is_set v \<or> map_of prior k = Some v) fs)) p"

lemma known_value_list [simp]: "map_opt known_value (map Known xs) = Some xs"
  by (induction xs) (auto simp: known_value_def)

lemma elements_known [simp]:
  "elements_as (Known (map Known xs)) = Inr xs" "elements_as (known_list xs) = Inr xs"
  "set_elements (known_list xs) = Inr xs" "set_elements TfNull = Inr []" "set_elements TfUnknown = Inr []"
  by (simp_all add: elements_as_def known_list_def set_elements_def)

lemma map_opt_known: "map_opt known_value vs = Some xs \<Longrightarrow> vs = map Known xs"
  by (induction vs arbitrary: xs) (auto simp: known_value_def split: tf.splits Option.bind_splits)

lemma set_elements_Inr: "set_elements l = Inr xs \<longleftrightarrow> l = known_list xs \<or> (\<not> is_set l \<and> xs = [])"
  by (cases l) (auto simp: set_elements_def elements_as_def known_list_def split: option.splits dest: map_opt_known)

lemma list_attr_known [simp]: "list_attr f (known_list xs) = Known (GArr (map f xs))"
  by (simp add: list_attr_def known_list_def elem_val_def comp_def)

lemma list_attr_value:
  "is_set l \<Longrightarrow> set_elements l = Inr xs \<Longrightarrow> value_or GNil (list_attr f l) = GArr (map f xs)"
  by (auto simp: set_elements_Inr)

lemma is_set_map [simp]: "is_set (map_tf f v) = is_set v" "is_set (list_attr f l) = is_set l"
  by (cases v; simp) (cases l; simp add: list_attr_def)

lemma is_set_known_list [simp]: "is_set (known_list xs)"
  by (simp add: known_list_def)

lemma map_of_filter_keys:
  assumes "wf_map fs"
  shows "k \<in> fst ` {x \<in> set fs. P x} \<longleftrightarrow> (case map_of fs k of None \<Rightarrow> False | Some v \<Rightarrow> P (k, v))"
proof -
  from assms have "(k, v) \<in> set fs \<longleftrightarrow> map_of fs k = Some v" for v
    by (simp add: wf_map_def)
  then show ?thesis by (force split: option.splits)
qed

lemma map_of_drop_unset:
  "wf_map fs \<Longrightarrow> map_of (drop_unset fs p) k = (case map_of fs k of
     None \<Rightarrow> map_of p k | Some v \<Rightarrow> if is_set v then map_of p k else None)"
  by (simp add: drop_unset_def map_of_del_all map_of_filter_keys split: option.splits)

lemma map_of_drop_unchanged:
  "wf_map fs \<Longrightarrow> map_of (drop_unchanged fs prior p) k = (case map_of fs k of
     None \<Rightarrow> map_of p k | Some v \<Rightarrow> if is_set v \<and> map_of prior k \<noteq> Some v then map_of p k else None)"
  by (auto simp: drop_unchanged_def map_of_del_all map_of_filter_keys split: option.splits)

lemma wf_drop [simp]:
  "wf_map p \<Longrightarrow> wf_map (drop_unset fs p)" "wf_map p \<Longrightarrow> wf_map (drop_unchanged fs prior p)"
  by (simp_all add: drop_unset_def drop_unchanged_def)

section \<open>Reading and writing one object\<close>

text \<open>
  The contract that makes an apply converge: reading the same answer again changes
  nothing, and a plan that is the state sends nothing.
\<close>

locale managed_object =
  fixes read_into :: "'a \<Rightarrow> 'm \<Rightarrow> 'm"
    and update_payload :: "'m \<Rightarrow> 'm \<Rightarrow> payload"
  assumes read_again: "read_into a (read_into a m) = read_into a m"
    and same_sends_nothing: "update_payload m m = []"
begin

text \<open>Any number of refreshes with the same answer leave what the first one stored, and applying the
  stored state sends nothing.\<close>

lemma refresh_settles: "(read_into a ^^ Suc n) m = read_into a m"
  by (induction n) (simp_all add: read_again)

lemma refresh_then_apply:
  "update_payload ((read_into a ^^ Suc n) m) (read_into a m) = []"
  unfolding refresh_settles by (rule same_sends_nothing)

end

end
