(* ===== verification/ZfsProps.thy ===== *)
theory ZfsProps
  imports Resource
begin

text \<open>
  ZFS properties as pool.dataset.get_instance reports them, and the helpers that the dataset
  and zvol resources share (src/internal/resources/dataset/zfsprops.go and the helper functions of
  model.go and resource.go there).
\<close>

section \<open>One property: \<open>zfsSourced\<close>\<close>

record zfs_sourced =
  zs_value :: "string option"
  zs_parsed :: gval
  zs_raw :: "string option"
  zs_source :: string

definition decode_zfs_sourced :: "gval \<Rightarrow> zfs_sourced option" where
  "decode_zfs_sourced v = do {
     m \<leftarrow> as_object v;
     x \<leftarrow> as_ptr as_string (field m ''value'');
     r \<leftarrow> as_ptr as_string (field m ''rawvalue'');
     s \<leftarrow> as_string (field m ''source'');
     Some \<lparr>zs_value = x, zs_parsed = field m ''parsed'', zs_raw = r, zs_source = s\<rparr> }"

definition is_explicit_source :: "string \<Rightarrow> bool" where
  "is_explicit_source s \<longleftrightarrow> s = ''LOCAL'' \<or> s = ''RECEIVED''"

definition is_explicit :: "zfs_sourced \<Rightarrow> bool" where
  "is_explicit z = is_explicit_source (zs_source z)"

definition is_absent :: "zfs_sourced \<Rightarrow> bool" where
  "is_absent z \<longleftrightarrow> zs_source z = [] \<and> zs_value z = None \<and> zs_parsed z = GNil"

text \<open>\<open>strconv.ParseInt\<close> after \<open>strings.TrimSpace\<close>.\<close>

definition parse_trimmed :: "string \<Rightarrow> int option" where
  "parse_trimmed s = (case atoi (trim_space s) of (v, None) \<Rightarrow> Some v | _ \<Rightarrow> None)"

definition parsed_int :: "zfs_sourced \<Rightarrow> int option" where
  "parsed_int z =
     (if zs_parsed z = GNil then Option.bind (zs_raw z) parse_trimmed
      else (case as_int64 (zs_parsed z) of
          Some n \<Rightarrow> Some n
        | None \<Rightarrow> (case as_string (zs_parsed z) of
              Some s \<Rightarrow> parse_trimmed s
            | None \<Rightarrow> None)))"

definition local_string_or_inherit :: "zfs_sourced \<Rightarrow> string tf" where
  "local_string_or_inherit z =
     (if is_absent z then TfNull
      else case zs_value z of
          Some v \<Rightarrow> if is_explicit z then Known v else Known ''INHERIT''
        | None \<Rightarrow> Known ''INHERIT'')"

definition local_string :: "zfs_sourced \<Rightarrow> string tf" where
  "local_string z = (case zs_value z of
      Some v \<Rightarrow> if is_explicit z then Known v else TfNull
    | None \<Rightarrow> TfNull)"

definition local_int :: "zfs_sourced \<Rightarrow> int tf" where
  "local_int z =
     (if is_explicit z then (case parsed_int z of Some n \<Rightarrow> Known n | None \<Rightarrow> TfNull) else TfNull)"

definition put_enum :: "string \<Rightarrow> string tf \<Rightarrow> payload \<Rightarrow> payload" where
  "put_enum k v = put_when (is_set v) k (GStr (to_upper (value_string v)))"

definition put_int :: "string \<Rightarrow> int tf \<Rightarrow> payload \<Rightarrow> payload" where
  "put_int k v = put_when (is_set v) k (GInt (value_int64 v))"

lemma wf_put_zfs [simp]:
  "wf_map p \<Longrightarrow> wf_map (put_enum k s p)" "wf_map p \<Longrightarrow> wf_map (put_int k i p)"
  by (simp_all add: put_enum_def put_int_def)

section \<open>Spelling\<close>

definition preserve_case :: "string tf \<Rightarrow> string \<Rightarrow> string tf" where
  "preserve_case current api_val =
     (if is_null current \<or> is_unknown current then Known (to_lower api_val)
      else if equal_fold (value_string current) api_val then current
      else Known (to_lower api_val))"

definition compression_canon :: "string \<Rightarrow> string" where
  "compression_canon v = (let s = to_lower (trim_space v) in
     if s = ''zstd-fast-1'' then ''zstd-fast'' else if s = ''gzip-6'' then ''gzip'' else s)"

definition compression_api :: "string \<Rightarrow> string" where
  "compression_api v = to_upper (compression_canon v)"

definition preserve_compression :: "string tf \<Rightarrow> string \<Rightarrow> string tf" where
  "preserve_compression current api_val =
     (if is_null current \<or> is_unknown current then Known (to_lower api_val)
      else if compression_canon (value_string current) = compression_canon api_val then current
      else Known (to_lower api_val))"

definition comments_value :: "string \<Rightarrow> string" where
  "comments_value v = (if v = ''INHERIT'' then [] else v)"

lemma preserve_case_again [simp]: "preserve_case (preserve_case c v) v = preserve_case c v"
  by (cases c) (auto simp: preserve_case_def equal_fold_def)

lemma trim_space_lower [simp]: "trim_space (to_lower v) = to_lower (trim_space v)"
  by (simp add: trim_space_def trim_left_by_def trim_right_by_def to_lower_def
      dropWhile_map o_def rev_map)

lemma compression_canon_lower [simp]: "compression_canon (to_lower v) = compression_canon v"
  by (simp add: compression_canon_def)

lemma preserve_compression_again [simp]:
  "preserve_compression (preserve_compression c v) v = preserve_compression c v"
  by (cases c) (auto simp: preserve_compression_def)

section \<open>What an update sends\<close>

definition volsize_changed :: "payload \<Rightarrow> payload \<Rightarrow> bool" where
  "volsize_changed p prior = (case map_of p ''volsize'' of
      None \<Rightarrow> False
    | Some v \<Rightarrow> map_of prior ''volsize'' \<noteq> Some v)"

text \<open>The loop deletes from the map it ranges over; each key is looked at once.\<close>

definition strip_step :: "bool \<Rightarrow> payload \<Rightarrow> string \<times> gval \<Rightarrow> payload \<Rightarrow> payload" where
  "strip_step changed prior e p = (case e of (k, v) \<Rightarrow>
     (if map_of prior k \<noteq> Some v then p
      else if k = ''refreservation'' \<and> changed then p
      else del k p))"

definition strip_unchanged :: "payload \<Rightarrow> payload \<Rightarrow> payload" where
  "strip_unchanged p prior = fold (strip_step (volsize_changed p prior) prior) p p"

definition keep_thick :: "int tf \<Rightarrow> int tf \<Rightarrow> int tf \<Rightarrow> payload \<Rightarrow> payload" where
  "keep_thick planned prior_ref_res prior_vol_size p = (case map_of p ''volsize'' of
      None \<Rightarrow> p
    | Some vs \<Rightarrow>
        if \<not> is_unknown planned \<or> is_null prior_ref_res \<or> is_unknown prior_ref_res \<or>
           is_null prior_vol_size \<or> is_unknown prior_vol_size \<or>
           value_int64 prior_ref_res \<noteq> value_int64 prior_vol_size
        then p else put ''refreservation'' vs p)"

lemma map_of_strip_step:
  "map_of (strip_step c prior (j, v) p) k =
     (if k = j \<and> map_of prior j = Some v \<and> \<not> (j = ''refreservation'' \<and> c) then None else map_of p k)"
  by (auto simp: strip_step_def)

lemma map_of_strip_fold:
  "map_of (fold (strip_step c prior) es p) k =
     (if \<exists>v. (k, v) \<in> set es \<and> map_of prior k = Some v \<and> \<not> (k = ''refreservation'' \<and> c) then None
      else map_of p k)"
proof (induction es arbitrary: p)
  case (Cons e es)
  obtain j v where e: "e = (j, v)" by fastforce
  show ?case unfolding e fold_simps Cons.IH map_of_strip_step by auto
qed simp

lemma map_of_strip_unchanged:
  assumes "wf_map p"
  shows "map_of (strip_unchanged p prior) k =
     (if map_of p k \<noteq> None \<and> map_of prior k = map_of p k \<and> \<not> (k = ''refreservation'' \<and> volsize_changed p prior)
      then None else map_of p k)"
proof -
  have "(k, v) \<in> set p \<longleftrightarrow> map_of p k = Some v" for v
    using assms by (auto simp: wf_map_def map_of_eq_Some_iff)
  then show ?thesis
    unfolding strip_unchanged_def map_of_strip_fold by auto
qed

lemma wf_strip_step: "wf_map p \<Longrightarrow> wf_map (strip_step c prior e p)"
  by (auto simp: strip_step_def split: prod.splits)

lemma wf_strip_fold: "wf_map p \<Longrightarrow> wf_map (fold (strip_step c prior) es p)"
  by (induction es arbitrary: p) (simp_all add: wf_strip_step)

lemma wf_strip_unchanged [simp]: "wf_map p \<Longrightarrow> wf_map (strip_unchanged p prior)"
  by (simp add: strip_unchanged_def wf_strip_fold)

lemma wf_keep_thick [simp]: "wf_map p \<Longrightarrow> wf_map (keep_thick a b c p)"
  by (auto simp: keep_thick_def split: option.splits)

lemma strip_same: "wf_map p \<Longrightarrow> strip_unchanged p p = []"
  unfolding gomap_empty_iff by (auto simp: map_of_strip_unchanged volsize_changed_def split: option.splits)

lemma keep_thick_Nil [simp]: "keep_thick a b c [] = []"
  by (simp add: keep_thick_def)

end
