(* ===== verification/Dataset.thy ===== *)
theory Dataset
  imports ZfsProps
begin

text \<open>
  The dataset resource (src/internal/resources/dataset): its model, the payloads of create and
  update, the mapping of an answer of pool.dataset.get_instance back to the model, and the
  resource's operations. Deleting is in its own theory.
\<close>

section \<open>The model and the answer\<close>

record dataset_model =
  ds_id :: "string tf"
  ds_name :: "string tf"
  ds_type :: "string tf"
  ds_compression :: "string tf"
  ds_acltype :: "string tf"
  ds_share_type :: "string tf"
  ds_comments :: "string tf"
  ds_quota :: "int tf"
  ds_refquota :: "int tf"
  ds_reservation :: "int tf"
  ds_volsize :: "int tf"
  ds_aclmode :: "string tf"
  ds_atime :: "string tf"
  ds_exec :: "string tf"
  ds_readonly :: "string tf"
  ds_sync :: "string tf"
  ds_checksum :: "string tf"
  ds_snapdir :: "string tf"
  ds_dedup :: "string tf"
  ds_recordsize :: "string tf"
  ds_copies :: "int tf"
  ds_ssbs :: "int tf"
  ds_refreservation :: "int tf"
  ds_xattr :: "string tf"
  ds_encryption :: "bool tf"
  ds_inherit :: "bool tf"
  ds_algorithm :: "string tf"
  ds_generate_key :: "bool tf"
  ds_passphrase :: "string tf"
  ds_key :: "string tf"
  ds_mountpoint :: "string tf"
  ds_encrypted :: "bool tf"
  ds_key_format :: "string tf"
  ds_locked :: "bool tf"
  ds_pool :: "string tf"

text \<open>The resource model adds \<open>force_destroy\<close> to the shared one.\<close>

record dataset_resource = dataset_model +
  ds_force :: "bool tf"

record dataset_response =
  dr_name :: string
  dr_type :: string
  dr_mountpoint :: string
  dr_encrypted :: bool
  dr_locked :: bool
  dr_pool :: string
  dr_root :: "string option"
  dr_algorithm :: "string option"
  dr_key_format :: "string option"
  dr_compression :: "string \<times> string"
  dr_acltype :: "string \<times> string"
  dr_quota :: "int option"
  dr_refquota :: "int option"
  dr_reservation :: "int option"
  dr_volsize :: int
  dr_aclmode :: zfs_sourced
  dr_atime :: zfs_sourced
  dr_exec :: zfs_sourced
  dr_readonly :: zfs_sourced
  dr_sync :: zfs_sourced
  dr_checksum :: zfs_sourced
  dr_snapdir :: zfs_sourced
  dr_dedup :: zfs_sourced
  dr_recordsize :: zfs_sourced
  dr_copies :: zfs_sourced
  dr_ssbs :: zfs_sourced
  dr_refres :: zfs_sourced
  dr_xattr :: zfs_sourced
  dr_comments :: string

text \<open>A member of an object member, as the tags of the anonymous structs name it.\<close>

definition inner :: "(gval \<Rightarrow> 'a option) \<Rightarrow> string \<Rightarrow> gval \<Rightarrow> 'a option" where
  "inner f k v = do { m \<leftarrow> as_object v; f (field m k) }"

definition parsed_source :: "gval \<Rightarrow> (string \<times> string) option" where
  "parsed_source v = do {
     p \<leftarrow> inner as_string ''parsed'' v;
     s \<leftarrow> inner as_string ''source'' v;
     Some (p, s) }"

definition decode_dataset :: "gval \<Rightarrow> dataset_response option" where
  "decode_dataset v = do {
     m \<leftarrow> as_object v;
     name \<leftarrow> as_string (field m ''name'');
     ty \<leftarrow> as_string (field m ''type'');
     mp \<leftarrow> as_string (field m ''mountpoint'');
     enc \<leftarrow> as_bool (field m ''encrypted'');
     lck \<leftarrow> as_bool (field m ''locked'');
     pool \<leftarrow> as_string (field m ''pool'');
     root \<leftarrow> as_ptr as_string (field m ''encryption_root'');
     alg \<leftarrow> inner (as_ptr as_string) ''value'' (field m ''encryption_algorithm'');
     kf \<leftarrow> inner (as_ptr as_string) ''value'' (field m ''key_format'');
     cmp \<leftarrow> parsed_source (field m ''compression'');
     acl \<leftarrow> parsed_source (field m ''acltype'');
     quota \<leftarrow> inner (as_ptr as_int64) ''parsed'' (field m ''quota'');
     refquota \<leftarrow> inner (as_ptr as_int64) ''parsed'' (field m ''refquota'');
     resv \<leftarrow> inner (as_ptr as_int64) ''parsed'' (field m ''reservation'');
     vol \<leftarrow> inner as_int64 ''parsed'' (field m ''volsize'');
     aclmode \<leftarrow> decode_zfs_sourced (field m ''aclmode'');
     atime \<leftarrow> decode_zfs_sourced (field m ''atime'');
     ex \<leftarrow> decode_zfs_sourced (field m ''exec'');
     ro \<leftarrow> decode_zfs_sourced (field m ''readonly'');
     sync \<leftarrow> decode_zfs_sourced (field m ''sync'');
     checksum \<leftarrow> decode_zfs_sourced (field m ''checksum'');
     snapdir \<leftarrow> decode_zfs_sourced (field m ''snapdir'');
     dedup \<leftarrow> decode_zfs_sourced (field m ''deduplication'');
     recordsize \<leftarrow> decode_zfs_sourced (field m ''recordsize'');
     copies \<leftarrow> decode_zfs_sourced (field m ''copies'');
     ssbs \<leftarrow> decode_zfs_sourced (field m ''special_small_block_size'');
     refres \<leftarrow> decode_zfs_sourced (field m ''refreservation'');
     xattr \<leftarrow> decode_zfs_sourced (field m ''xattr'');
     com \<leftarrow> inner (inner as_string ''value'') ''comments'' (field m ''user_properties'');
     Some \<lparr>dr_name = name, dr_type = ty, dr_mountpoint = mp, dr_encrypted = enc, dr_locked = lck,
       dr_pool = pool, dr_root = root, dr_algorithm = alg, dr_key_format = kf,
       dr_compression = cmp, dr_acltype = acl, dr_quota = quota, dr_refquota = refquota,
       dr_reservation = resv, dr_volsize = vol, dr_aclmode = aclmode, dr_atime = atime,
       dr_exec = ex, dr_readonly = ro, dr_sync = sync, dr_checksum = checksum,
       dr_snapdir = snapdir, dr_dedup = dedup, dr_recordsize = recordsize, dr_copies = copies,
       dr_ssbs = ssbs, dr_refres = refres, dr_xattr = xattr, dr_comments = com\<rparr> }"

section \<open>Payloads\<close>

definition encryption_options :: "'x dataset_model_scheme \<Rightarrow> payload" where
  "encryption_options m =
     put_bool ''generate_key'' (ds_generate_key m)
       (put_when (is_set (ds_algorithm m) \<and> value_string (ds_algorithm m) \<noteq> []) ''algorithm''
         (GStr (value_string (ds_algorithm m))) [])"

definition api_payload :: "'x dataset_model_scheme \<Rightarrow> payload" where
  "api_payload m =
     (let p = [(''name'', GStr (value_string (ds_name m)))];
          p = put_enum ''type'' (ds_type m) p;
          p = put_when (is_set (ds_compression m)) ''compression''
                (GStr (compression_api (value_string (ds_compression m)))) p;
          p = put_enum ''acltype'' (ds_acltype m) p;
          p = put_enum ''share_type'' (ds_share_type m) p;
          p = put_str ''comments'' (ds_comments m) p;
          p = put_int64 ''quota'' (ds_quota m) p;
          p = put_int64 ''refquota'' (ds_refquota m) p;
          p = put_int64 ''reservation'' (ds_reservation m) p;
          p = put_when (is_set (ds_volsize m) \<and> value_int64 (ds_volsize m) \<noteq> 0) ''volsize''
                (GInt (value_int64 (ds_volsize m))) p;
          p = put_enum ''aclmode'' (ds_aclmode m) p;
          p = put_enum ''atime'' (ds_atime m) p;
          p = put_enum ''exec'' (ds_exec m) p;
          p = put_enum ''readonly'' (ds_readonly m) p;
          p = put_enum ''sync'' (ds_sync m) p;
          p = put_enum ''checksum'' (ds_checksum m) p;
          p = put_enum ''snapdir'' (ds_snapdir m) p;
          p = put_enum ''deduplication'' (ds_dedup m) p;
          p = put_enum ''recordsize'' (ds_recordsize m) p;
          p = put_int ''copies'' (ds_copies m) p;
          p = put_int ''special_small_block_size'' (ds_ssbs m) p;
          p = put_int ''refreservation'' (ds_refreservation m) p;
          p = put_bool ''encryption'' (ds_encryption m) p;
          p = put_bool ''inherit_encryption'' (ds_inherit m) p;
          eo = encryption_options m
      in put_when (0 < length eo) ''encryption_options'' (GObj eo) p)"

definition create_api_payload :: "'x dataset_model_scheme \<Rightarrow> payload" where
  "create_api_payload m =
     (let p = api_payload m;
          p = put_when (has_key p ''encryption'' \<and> \<not> has_key p ''inherit_encryption'')
                ''inherit_encryption'' (GBool False) p
      in put_when (map_of p ''acltype'' \<in> {Some (GStr ''POSIX''), Some (GStr ''OFF'')} \<and> \<not> has_key p ''aclmode'')
           ''aclmode'' (GStr ''DISCARD'') p)"

definition updatable_fields :: "'x dataset_model_scheme \<Rightarrow> payload" where
  "updatable_fields m =
     del_all [''name'', ''type'', ''encryption'', ''inherit_encryption'', ''encryption_options'',
       ''share_type'', ''acltype''] (api_payload m)"

definition update_api_payload :: "'x dataset_model_scheme \<Rightarrow> 'y dataset_model_scheme option \<Rightarrow> payload" where
  "update_api_payload m prior =
     (let p = updatable_fields m in
      case prior of
        None \<Rightarrow> p
      | Some s \<Rightarrow> keep_thick (ds_refreservation m) (ds_refreservation s) (ds_volsize s)
                    (strip_unchanged p (updatable_fields s)))"

text \<open>The write-only secrets come from the configuration.\<close>

definition inject_encryption_secrets :: "payload \<Rightarrow> 'x dataset_model_scheme \<Rightarrow> payload" where
  "inject_encryption_secrets p cfg =
     (let eo = (case map_of p ''encryption_options'' of Some (GObj m) \<Rightarrow> m | _ \<Rightarrow> []);
          eo = put_when (is_set (ds_passphrase cfg) \<and> value_string (ds_passphrase cfg) \<noteq> []) ''passphrase''
                 (GStr (value_string (ds_passphrase cfg))) eo;
          eo = put_when (is_set (ds_key cfg) \<and> value_string (ds_key cfg) \<noteq> []) ''key''
                 (GStr (value_string (ds_key cfg))) eo
      in put_when (0 < length eo) ''encryption_options'' (GObj eo) p)"

section \<open>From the answer to the model\<close>

definition some_string :: "string option \<Rightarrow> string tf" where
  "some_string v = (case v of Some s \<Rightarrow> if s \<noteq> [] then Known s else TfNull | None \<Rightarrow> TfNull)"

definition or_zero :: "int option \<Rightarrow> int tf" where
  "or_zero v = (case v of Some n \<Rightarrow> Known n | None \<Rightarrow> Known 0)"

definition response_to_model :: "dataset_response \<Rightarrow> 'x dataset_model_scheme \<Rightarrow> 'x dataset_model_scheme" where
  "response_to_model api m = m\<lparr>
     ds_id := Known (dr_name api),
     ds_name := Known (dr_name api),
     ds_type := preserve_case (ds_type m) (dr_type api),
     ds_mountpoint := Known (dr_mountpoint api),
     ds_encrypted := Known (dr_encrypted api),
     ds_encryption := Known (dr_encrypted api),
     ds_locked := Known (dr_locked api),
     ds_algorithm := some_string (dr_algorithm api),
     ds_key_format := some_string (dr_key_format api),
     ds_inherit := Known (dr_encrypted api \<and> dr_root api \<noteq> None \<and> dr_root api \<noteq> Some (dr_name api)),
     ds_pool := Known (dr_pool api),
     ds_compression := (if is_explicit_source (snd (dr_compression api))
        then preserve_compression (ds_compression m) (fst (dr_compression api))
        else preserve_case (ds_compression m) ''INHERIT''),
     ds_acltype := (if is_explicit_source (snd (dr_acltype api))
        then preserve_case (ds_acltype m) (fst (dr_acltype api))
        else preserve_case (ds_acltype m) ''INHERIT''),
     ds_comments := Known (comments_value (dr_comments api)),
     ds_quota := or_zero (dr_quota api),
     ds_refquota := or_zero (dr_refquota api),
     ds_reservation := or_zero (dr_reservation api),
     ds_volsize := Known (dr_volsize api),
     ds_aclmode := local_string_or_inherit (dr_aclmode api),
     ds_atime := local_string_or_inherit (dr_atime api),
     ds_exec := local_string_or_inherit (dr_exec api),
     ds_readonly := local_string_or_inherit (dr_readonly api),
     ds_sync := local_string_or_inherit (dr_sync api),
     ds_checksum := local_string_or_inherit (dr_checksum api),
     ds_snapdir := local_string_or_inherit (dr_snapdir api),
     ds_dedup := local_string_or_inherit (dr_dedup api),
     ds_recordsize := local_string (dr_recordsize api),
     ds_copies := local_int (dr_copies api),
     ds_ssbs := local_int (dr_ssbs api),
     ds_refreservation := local_int (dr_refres api),
     ds_xattr := (case zs_value (dr_xattr api) of Some v \<Rightarrow> Known v | None \<Rightarrow> TfNull)\<rparr>"

section \<open>Plan modifiers and checks\<close>

text \<open>\<open>refreservation\<close> follows \<open>volsize\<close>: the two flags say whether the raw state and plan are null;
  the attribute reads can fail (\<open>None\<close>).\<close>

definition refreservation_follows_volsize ::
  "int tf \<Rightarrow> bool \<Rightarrow> bool \<Rightarrow> int tf option \<Rightarrow> int tf option \<Rightarrow> int tf \<Rightarrow> int tf" where
  "refreservation_follows_volsize config state_raw_null plan_raw_null planned prior plan =
     (if \<not> is_null config \<or> state_raw_null \<or> plan_raw_null then plan
      else case planned of
          None \<Rightarrow> plan
        | Some pv \<Rightarrow>
            if is_null pv then plan
            else (case prior of
                None \<Rightarrow> plan
              | Some sv \<Rightarrow>
                  if is_unknown pv \<or> (\<not> is_null sv \<and> value_int64 pv \<noteq> value_int64 sv)
                  then TfUnknown else plan))"

definition fixed_algorithm :: string where "fixed_algorithm = ''AES-256-GCM''"

definition algorithm_fixed_diag :: diagnostic where
  "algorithm_fixed_diag = (''encryption_algorithm cannot be chosen on this TrueNAS release'',
     ''TrueNAS 26.0 and later always encrypt with '' @ fixed_algorithm @ '' (26.0 ignores the '' @
     ''algorithm, 27.0 removed it). Remove encryption_algorithm or set it to '' @ quoted fixed_algorithm @ ''.'')"

text \<open>\<open>CheckEncryptionAlgorithm\<close>: \<open>configured\<close> says whether the client is set; \<open>prior\<close> is the prior
  state's algorithm when there is a state and it can be read.\<close>

definition check_encryption_algorithm ::
  "'w api \<Rightarrow> bool \<Rightarrow> bool \<Rightarrow> string tf option \<Rightarrow> string tf option \<Rightarrow> 'w \<Rightarrow> diagnostic list \<times> 'w" where
  "check_encryption_algorithm a configured plan_raw_null cfg prior w =
     (if \<not> configured \<or> plan_raw_null then ([], w)
      else case cfg of
          None \<Rightarrow> ([], w)
        | Some c \<Rightarrow>
            if is_null c \<or> is_unknown c \<or> value_string c = fixed_algorithm then ([], w)
            else if (case prior of
                  Some s \<Rightarrow> \<not> is_null s \<and> value_string s = value_string c | None \<Rightarrow> False) then ([], w)
            else (case api_at_least a 26 0 w of
                (Inr True, w1) \<Rightarrow> ([algorithm_fixed_diag], w1)
              | (_, w1) \<Rightarrow> ([], w1)))"

definition validate_config :: "'x dataset_model_scheme \<Rightarrow> diagnostic list" where
  "validate_config cfg =
     (if is_set (ds_inherit cfg) \<and> value_bool (ds_inherit cfg) \<and> is_set (ds_encryption cfg)
      then [(''Conflicting encryption configuration'',
        ''encryption cannot be set when inherit_encryption = true: the dataset inherits '' @
        ''its encryption from the parent, which determines the value. Remove encryption, '' @
        ''or set inherit_encryption = false to manage encryption on this dataset.'')]
      else [])"

section \<open>The operations\<close>

definition force_destroy_or_false :: "bool tf \<Rightarrow> bool tf" where
  "force_destroy_or_false v = (if is_null v \<or> is_unknown v then Known False else v)"

definition get_instance ::
  "'w api \<Rightarrow> string \<Rightarrow> string \<Rightarrow> string \<Rightarrow> 'w \<Rightarrow> (diagnostic list + dataset_response) \<times> 'w" where
  "get_instance a name read_err parse_err w =
     (case api_read a ''pool.dataset.get_instance'' [GStr name] w of
        (Inl e, w1) \<Rightarrow> (Inl [(read_err, err_text e)], w1)
      | (Inr raw, w1) \<Rightarrow> (case decode_dataset raw of
            None \<Rightarrow> (Inl [(parse_err, err_text decode_error)], w1)
          | Some api \<Rightarrow> (Inr api, w1)))"

definition store :: "dataset_response \<Rightarrow> dataset_resource \<Rightarrow> dataset_resource outcome" where
  "store api m = (let m1 = response_to_model api m in Stored (value_string (ds_id m1)) m1)"

text \<open>TrueNAS 27.0 removed the choice of the algorithm.\<close>

definition drop_algorithm :: "payload \<Rightarrow> payload" where
  "drop_algorithm p = (case map_of p ''encryption_options'' of
      Some (GObj eo) \<Rightarrow>
        (let eo1 = del ''algorithm'' eo in
         if length eo1 = 0 then del ''encryption_options'' p
         else put ''encryption_options'' (GObj eo1) p)
    | _ \<Rightarrow> p)"

definition dataset_create ::
  "'w api \<Rightarrow> dataset_resource \<Rightarrow> dataset_resource \<Rightarrow> 'w \<Rightarrow> dataset_resource outcome \<times> 'w" where
  "dataset_create a plan cfg w =
     (let p = inject_encryption_secrets (create_api_payload plan) cfg;
          name = value_string (ds_name plan);
          (v, w) = api_at_least a 27 0 w;
          p = (if v = Inr True then drop_algorithm p else p);
          (r, w) = api_call a ''pool.dataset.create'' [GObj p] w
      in case r of
        Inl e \<Rightarrow> (fail_err ''Create dataset failed'' e, w)
      | Inr _ \<Rightarrow>
          (case get_instance a name ''Read after create failed'' ''Parse read response'' w of
             (Inl ds, w) \<Rightarrow> (Failure ds, w)
           | (Inr api, w) \<Rightarrow>
               if is_set (ds_refreservation plan) \<and>
                  (case parsed_int (dr_refres api) of Some n \<Rightarrow> n | None \<Rightarrow> 0) \<noteq> value_int64 (ds_refreservation plan)
               then
                 (case api_call a ''pool.dataset.update'' [GStr name,
                        GObj [(''refreservation'', GInt (value_int64 (ds_refreservation plan)))]] w of
                    (Inl e, w) \<Rightarrow> (fail_err ''Set refreservation after create failed'' e, w)
                  | (Inr _, w) \<Rightarrow>
                      (case get_instance a name ''Read after create failed'' ''Read after create failed'' w of
                         (Inl ds, w) \<Rightarrow> (Failure ds, w)
                       | (Inr api1, w) \<Rightarrow> (store api1 plan, w)))
               else (store api plan, w)))"

definition dataset_read :: "'w api \<Rightarrow> dataset_resource \<Rightarrow> 'w \<Rightarrow> dataset_resource outcome \<times> 'w" where
  "dataset_read a st w =
     (case api_read a ''pool.dataset.get_instance'' [GStr (value_string (ds_name st))] w of
        (Inl e, w1) \<Rightarrow> (if is_not_found e then Removed else fail_err ''Read dataset failed'' e, w1)
      | (Inr raw, w1) \<Rightarrow> (case decode_dataset raw of
            None \<Rightarrow> (parse_failure ''Parse read response'', w1)
          | Some api \<Rightarrow>
              (let m = response_to_model api st in
               (Stored (value_string (ds_id m)) (m\<lparr>ds_force := force_destroy_or_false (ds_force m)\<rparr>), w1))))"

definition dataset_update ::
  "'w api \<Rightarrow> dataset_resource \<Rightarrow> dataset_resource \<Rightarrow> 'w \<Rightarrow> dataset_resource outcome \<times> 'w" where
  "dataset_update a plan st w =
     (let p = update_api_payload plan (Some st);
          name = value_string (ds_name plan);
          (r, w) = (if 0 < length p then api_call a ''pool.dataset.update'' [GStr name, GObj p] w
                    else (Inr GNil, w))
      in case r of
        Inl e \<Rightarrow> (fail_err ''Update dataset failed'' e, w)
      | Inr _ \<Rightarrow>
          (case get_instance a name ''Read after update failed'' ''Parse update response'' w of
             (Inl ds, w) \<Rightarrow> (Failure ds, w)
           | (Inr api, w) \<Rightarrow> (store api plan, w)))"

definition null_dataset :: dataset_resource where
  "null_dataset = \<lparr>ds_id = TfNull, ds_name = TfNull, ds_type = TfNull, ds_compression = TfNull,
     ds_acltype = TfNull, ds_share_type = TfNull, ds_comments = TfNull, ds_quota = TfNull,
     ds_refquota = TfNull, ds_reservation = TfNull, ds_volsize = TfNull, ds_aclmode = TfNull,
     ds_atime = TfNull, ds_exec = TfNull, ds_readonly = TfNull, ds_sync = TfNull,
     ds_checksum = TfNull, ds_snapdir = TfNull, ds_dedup = TfNull, ds_recordsize = TfNull,
     ds_copies = TfNull, ds_ssbs = TfNull, ds_refreservation = TfNull, ds_xattr = TfNull,
     ds_encryption = TfNull, ds_inherit = TfNull, ds_algorithm = TfNull, ds_generate_key = TfNull,
     ds_passphrase = TfNull, ds_key = TfNull, ds_mountpoint = TfNull, ds_encrypted = TfNull,
     ds_key_format = TfNull, ds_locked = TfNull, ds_pool = TfNull, ds_force = TfNull\<rparr>"

definition dataset_import :: "'w api \<Rightarrow> string import_req \<Rightarrow> 'w \<Rightarrow> dataset_resource outcome \<times> 'w" where
  "dataset_import a req w =
     (case import_string req of (i, diags) \<Rightarrow>
        if diags \<noteq> [] then (Failure diags, w)
        else (case get_instance a i ''Import dataset failed'' ''Parse import response'' w of
            (Inl ds, w1) \<Rightarrow> (Failure ds, w1)
          | (Inr api, w1) \<Rightarrow>
              (let m = response_to_model api (null_dataset\<lparr>ds_name := Known i, ds_id := Known i\<rparr>) in
               (Stored (value_string (ds_id m)) (m\<lparr>ds_force := Known False\<rparr>), w1))))"

definition dataset_data_source :: "'w api \<Rightarrow> dataset_model \<Rightarrow> 'w \<Rightarrow> dataset_model outcome \<times> 'w" where
  "dataset_data_source a cfg w =
     (case get_instance a (value_string (ds_name cfg)) ''Read dataset failed'' ''Parse response'' w of
        (Inl ds, w1) \<Rightarrow> (Failure ds, w1)
      | (Inr api, w1) \<Rightarrow> (let m = response_to_model api cfg in (Stored (value_string (ds_id m)) m, w1)))"

text \<open>A row of the list: display name, identity and, when asked for, the model.\<close>

definition dataset_row ::
  "bool \<Rightarrow> gval \<Rightarrow> diagnostic list + (string \<times> string \<times> dataset_resource option)" where
  "dataset_row include_resource raw = (case decode_dataset raw of
      None \<Rightarrow> Inl [(''Parse dataset row'', err_text decode_error)]
    | Some api \<Rightarrow> Inr (dr_name api, dr_name api,
        if include_resource then
          (let m = response_to_model api null_dataset in
           Some (m\<lparr>ds_force := force_destroy_or_false (ds_force m)\<rparr>))
        else None))"

definition dataset_list ::
  "'w ops \<Rightarrow> int \<Rightarrow> bool \<Rightarrow> 'w \<Rightarrow> (diagnostic list + (string \<times> string \<times> dataset_resource option)) stream \<times> 'w" where
  "dataset_list os limit include_resource =
     stream_collection_filtered os ''pool.dataset.query''
       (GArr [GArr [GStr ''type'', GStr ''='', GStr ''FILESYSTEM'']]) limit (dataset_row include_resource)"

section \<open>Facts\<close>

lemmas payload_steps = map_of_put_when put_str_def put_int64_def put_bool_def put_enum_def put_int_def

lemma wf_api_payload [simp]: "wf_map (api_payload m)"
  by (simp add: api_payload_def Let_def wf_map_def [of "[_]"])

lemma wf_updatable_fields [simp]: "wf_map (updatable_fields m)"
  by (simp add: updatable_fields_def)

interpretation dataset: managed_object response_to_model "\<lambda>m s. update_api_payload m (Some s)"
proof
  fix a and m :: "'x dataset_model_scheme"
  show "response_to_model a (response_to_model a m) = response_to_model a m"
    by (simp add: response_to_model_def)
  show "update_api_payload m (Some m) = []"
    by (simp add: update_api_payload_def Let_def strip_same)
qed

lemma get_instance_cases:
  assumes "get_instance a n re pe w = (r, w1)"
  obtains ds where "r = Inl ds" | api where "r = Inr api"
  using assms by (cases r) auto

lemma stored_secrets:
  "ds_passphrase (response_to_model api m) = ds_passphrase m"
  "ds_key (response_to_model api m) = ds_key m"
  by (simp_all add: response_to_model_def)

text \<open>The properties whose source decides what the model shows.\<close>

definition inheritable_enums :: "(string \<times> (dataset_response \<Rightarrow> zfs_sourced)) list" where
  "inheritable_enums = [(''aclmode'', dr_aclmode), (''atime'', dr_atime), (''exec'', dr_exec),
     (''readonly'', dr_readonly), (''sync'', dr_sync), (''checksum'', dr_checksum),
     (''snapdir'', dr_snapdir), (''deduplication'', dr_dedup)]"

definition local_only :: "(string \<times> (dataset_response \<Rightarrow> zfs_sourced)) list" where
  "local_only = [(''recordsize'', dr_recordsize), (''copies'', dr_copies),
     (''special_small_block_size'', dr_ssbs), (''refreservation'', dr_refres)]"

lemma upper_inherit [simp]: "to_upper ''INHERIT'' = ''INHERIT''"
  by code_simp

lemma enum_not_explicit:
  "\<not> is_explicit z \<Longrightarrow> local_string_or_inherit z \<in> {TfNull, Known ''INHERIT''}"
  by (auto simp: local_string_or_inherit_def split: option.splits)

text \<open>What a payload holds under the keys the statements below name.\<close>

lemma api_payload_at:
  "map_of (api_payload m) ''type'' =
     (if is_set (ds_type m) then Some (GStr (to_upper (value_string (ds_type m)))) else None)"
  "map_of (api_payload m) ''acltype'' =
     (if is_set (ds_acltype m) then Some (GStr (to_upper (value_string (ds_acltype m)))) else None)"
  "map_of (api_payload m) ''share_type'' =
     (if is_set (ds_share_type m) then Some (GStr (to_upper (value_string (ds_share_type m)))) else None)"
  "map_of (api_payload m) ''aclmode'' =
     (if is_set (ds_aclmode m) then Some (GStr (to_upper (value_string (ds_aclmode m)))) else None)"
  "map_of (api_payload m) ''atime'' =
     (if is_set (ds_atime m) then Some (GStr (to_upper (value_string (ds_atime m)))) else None)"
  "map_of (api_payload m) ''exec'' =
     (if is_set (ds_exec m) then Some (GStr (to_upper (value_string (ds_exec m)))) else None)"
  "map_of (api_payload m) ''readonly'' =
     (if is_set (ds_readonly m) then Some (GStr (to_upper (value_string (ds_readonly m)))) else None)"
  "map_of (api_payload m) ''sync'' =
     (if is_set (ds_sync m) then Some (GStr (to_upper (value_string (ds_sync m)))) else None)"
  "map_of (api_payload m) ''checksum'' =
     (if is_set (ds_checksum m) then Some (GStr (to_upper (value_string (ds_checksum m)))) else None)"
  "map_of (api_payload m) ''snapdir'' =
     (if is_set (ds_snapdir m) then Some (GStr (to_upper (value_string (ds_snapdir m)))) else None)"
  "map_of (api_payload m) ''deduplication'' =
     (if is_set (ds_dedup m) then Some (GStr (to_upper (value_string (ds_dedup m)))) else None)"
  "map_of (api_payload m) ''recordsize'' =
     (if is_set (ds_recordsize m) then Some (GStr (to_upper (value_string (ds_recordsize m)))) else None)"
  "map_of (api_payload m) ''copies'' =
     (if is_set (ds_copies m) then Some (GInt (value_int64 (ds_copies m))) else None)"
  "map_of (api_payload m) ''special_small_block_size'' =
     (if is_set (ds_ssbs m) then Some (GInt (value_int64 (ds_ssbs m))) else None)"
  "map_of (api_payload m) ''refreservation'' =
     (if is_set (ds_refreservation m) then Some (GInt (value_int64 (ds_refreservation m))) else None)"
  "map_of (api_payload m) ''encryption'' =
     (if is_set (ds_encryption m) then Some (GBool (value_bool (ds_encryption m))) else None)"
  "map_of (api_payload m) ''inherit_encryption'' =
     (if is_set (ds_inherit m) then Some (GBool (value_bool (ds_inherit m))) else None)"
  by (simp_all add: api_payload_def Let_def payload_steps)

lemma read_source_aware:
  "ds_aclmode (response_to_model api m) = local_string_or_inherit (dr_aclmode api)"
  "ds_atime (response_to_model api m) = local_string_or_inherit (dr_atime api)"
  "ds_exec (response_to_model api m) = local_string_or_inherit (dr_exec api)"
  "ds_readonly (response_to_model api m) = local_string_or_inherit (dr_readonly api)"
  "ds_sync (response_to_model api m) = local_string_or_inherit (dr_sync api)"
  "ds_checksum (response_to_model api m) = local_string_or_inherit (dr_checksum api)"
  "ds_snapdir (response_to_model api m) = local_string_or_inherit (dr_snapdir api)"
  "ds_dedup (response_to_model api m) = local_string_or_inherit (dr_dedup api)"
  "ds_recordsize (response_to_model api m) = local_string (dr_recordsize api)"
  "ds_copies (response_to_model api m) = local_int (dr_copies api)"
  "ds_ssbs (response_to_model api m) = local_int (dr_ssbs api)"
  "ds_refreservation (response_to_model api m) = local_int (dr_refres api)"
  by (simp_all add: response_to_model_def)

lemma list_membership_cases:
  assumes "(k, f) \<in> set ((k0, f0) # xs)"
  obtains "k = k0" "f = f0" | "(k, f) \<in> set xs"
  using assms by auto

lemma payload_enums:
  assumes "(k, f) \<in> set inheritable_enums"
  shows "map_of (api_payload (response_to_model api m)) k =
    (if is_set (local_string_or_inherit (f api))
     then Some (GStr (to_upper (value_string (local_string_or_inherit (f api))))) else None)"
  using assms unfolding inheritable_enums_def
  by (elim list_membership_cases) (simp_all only: api_payload_at read_source_aware list.set empty_iff)

lemma payload_local_only:
  assumes "(k, f) \<in> set local_only" and "\<not> is_explicit (f api)"
  shows "map_of (api_payload (response_to_model api m)) k = None"
proof -
  have "local_string z = TfNull" "local_int z = TfNull" if "\<not> is_explicit z" for z
    using that by (auto simp: local_string_def local_int_def split: option.splits)
  with assms show ?thesis
    unfolding local_only_def
    by (elim list_membership_cases) (simp_all add: api_payload_at read_source_aware)
qed

text \<open>The keys an update never sends.\<close>

definition create_only :: "string set" where
  "create_only = {''name'', ''type'', ''encryption'', ''inherit_encryption'', ''encryption_options'',
     ''share_type'', ''acltype''}"

lemma updatable_at: "map_of (updatable_fields m) k = (if k \<in> create_only then None else map_of (api_payload m) k)"
  by (auto simp: updatable_fields_def map_of_del_all create_only_def)

lemma keep_thick_at:
  "map_of (keep_thick a b c p) k =
     (if k = ''refreservation'' \<and> map_of p ''volsize'' \<noteq> None \<and> is_unknown a \<and> is_set b \<and> is_set c \<and>
         value_int64 b = value_int64 c
      then map_of p ''volsize'' else map_of p k)"
  by (auto simp: keep_thick_def is_set_def split: option.splits)

lemma volsize_changed_updatable:
  "volsize_changed (updatable_fields m) (updatable_fields s) \<longleftrightarrow>
     map_of (api_payload m) ''volsize'' \<noteq> None \<and>
     map_of (api_payload s) ''volsize'' \<noteq> map_of (api_payload m) ''volsize''"
  by (auto simp: volsize_changed_def updatable_at create_only_def split: option.splits)

lemma may_update: "''volsize'' \<notin> create_only" "''refreservation'' \<notin> create_only"
  by (simp_all add: create_only_def)

lemma update_at:
  "map_of (update_api_payload m (Some s)) k =
     (let grown = volsize_changed (updatable_fields m) (updatable_fields s) in
      if k = ''refreservation'' \<and> grown \<and> is_unknown (ds_refreservation m) \<and>
         is_set (ds_refreservation s) \<and> is_set (ds_volsize s) \<and>
         value_int64 (ds_refreservation s) = value_int64 (ds_volsize s)
      then map_of (api_payload m) ''volsize''
      else if k \<notin> create_only \<and> (map_of (api_payload s) k \<noteq> map_of (api_payload m) k \<or> (k = ''refreservation'' \<and> grown))
      then map_of (api_payload m) k
      else None)"
proof -
  let ?P = "map_of (api_payload m)" and ?S = "map_of (api_payload s)"
  define grown where "grown = volsize_changed (updatable_fields m) (updatable_fields s)"
  let ?q = "strip_unchanged (updatable_fields m) (updatable_fields s)"
  have at: "map_of ?q k = (if k \<notin> create_only \<and> (?S k \<noteq> ?P k \<or> k = ''refreservation'' \<and> grown) then ?P k else None)" for k
    unfolding map_of_strip_unchanged [OF wf_updatable_fields] grown_def [symmetric] updatable_at
    by (cases "k \<in> create_only"; cases "?S k = ?P k"; cases "k = ''refreservation'' \<and> grown"; cases "?P k") auto
  have vol: "map_of ?q ''volsize'' = (if grown then ?P ''volsize'' else None)"
    by (simp add: at may_update grown_def volsize_changed_updatable)
  have "map_of (update_api_payload m (Some s)) k =
      map_of (keep_thick (ds_refreservation m) (ds_refreservation s) (ds_volsize s) ?q) k"
    by (simp add: update_api_payload_def Let_def)
  also have "\<dots> = (if k = ''refreservation'' \<and> grown \<and> is_unknown (ds_refreservation m) \<and>
         is_set (ds_refreservation s) \<and> is_set (ds_volsize s) \<and>
         value_int64 (ds_refreservation s) = value_int64 (ds_volsize s)
      then ?P ''volsize'' else map_of ?q k)"
    using volsize_changed_updatable [of m s] unfolding keep_thick_at vol grown_def
    by (cases "volsize_changed (updatable_fields m) (updatable_fields s)") simp_all
  finally show ?thesis unfolding at grown_def Let_def .
qed

text \<open>An answer in which every property has the same source.\<close>

definition example_response :: "string \<Rightarrow> dataset_response" where
  "example_response src = (let z = \<lparr>zs_value = Some ''1'', zs_parsed = GNumber ''1'', zs_raw = Some ''1'', zs_source = src\<rparr> in
     \<lparr>dr_name = ''tank/data'', dr_type = ''FILESYSTEM'', dr_mountpoint = ''/mnt/tank/data'', dr_encrypted = False,
       dr_locked = False, dr_pool = ''tank'', dr_root = None, dr_algorithm = None, dr_key_format = None,
       dr_compression = (''lz4'', src), dr_acltype = (''posix'', src), dr_quota = None, dr_refquota = None,
       dr_reservation = None, dr_volsize = 0, dr_aclmode = z, dr_atime = z, dr_exec = z,
       dr_readonly = z, dr_sync = z, dr_checksum = z, dr_snapdir = z, dr_dedup = z,
       dr_recordsize = z, dr_copies = z, dr_ssbs = z, dr_refres = z, dr_xattr = z, dr_comments = []\<rparr>)"

lemma example_sources:
  "dr_sync (example_response src) = \<lparr>zs_value = Some ''1'', zs_parsed = GNumber ''1'', zs_raw = Some ''1'', zs_source = src\<rparr>"
  "dr_copies (example_response src) = \<lparr>zs_value = Some ''1'', zs_parsed = GNumber ''1'', zs_raw = Some ''1'', zs_source = src\<rparr>"
  by (simp_all add: example_response_def Let_def)

text \<open>What an operation stores, for a predicate on the stored model.\<close>

definition stores_only :: "('m \<Rightarrow> bool) \<Rightarrow> 'm outcome \<Rightarrow> bool" where
  "stores_only P r = (case r of Stored i m \<Rightarrow> P m | _ \<Rightarrow> True)"

lemma stores_only_simps [simp]:
  "stores_only P (Failure ds)" "stores_only P Removed" "stores_only P (fail_err s e)"
  "stores_only P (parse_failure s)" "stores_only P (Stored i m) = P m"
  by (simp_all add: stores_only_def fail_err_def parse_failure_def)

definition keeps_secrets :: "dataset_resource \<Rightarrow> dataset_resource \<Rightarrow> bool" where
  "keeps_secrets m0 m \<longleftrightarrow> ds_passphrase m = ds_passphrase m0 \<and> ds_key m = ds_key m0"

lemma store_secrets [simp]: "stores_only (keeps_secrets m) (store api m)"
  by (simp add: store_def Let_def keeps_secrets_def stored_secrets)

lemma create_secrets: "stores_only (keeps_secrets plan) (fst (dataset_create a plan cfg w))"
  unfolding dataset_create_def Let_def by (simp split: prod.split sum.split)

lemma update_secrets: "stores_only (keeps_secrets plan) (fst (dataset_update a plan st w))"
  unfolding dataset_update_def Let_def by (simp split: prod.split sum.split)

lemma read_secrets: "stores_only (keeps_secrets st) (fst (dataset_read a st w))"
  unfolding dataset_read_def Let_def
  by (simp add: keeps_secrets_def stored_secrets split: prod.split sum.split option.split)

section \<open>Properties\<close>

text \<open>C10. An update sends a field exactly when the plan sets it, it may be updated and it differs from
  what the state would send. Two exceptions concern a volume that changes size: a configured
  reservation is sent again, and an unconfigured one that equals the old size follows the new one.\<close>

theorem dataset_update_exact:
  "map_of (update_api_payload m (Some s)) k =
     (let new = map_of (api_payload m) k; old = map_of (api_payload s) k;
          size = map_of (api_payload m) ''volsize'';
          resized = (size \<noteq> None \<and> map_of (api_payload s) ''volsize'' \<noteq> size);
          thick = (is_set (ds_refreservation s) \<and> is_set (ds_volsize s) \<and>
            value_int64 (ds_refreservation s) = value_int64 (ds_volsize s))
      in if k = ''refreservation'' \<and> resized
         then (if is_unknown (ds_refreservation m) \<and> thick then size else new)
         else if k \<in> create_only \<or> new = old then None else new)"
proof (cases "k = ''refreservation''")
  case True
  then show ?thesis
    unfolding update_at Let_def volsize_changed_updatable
    by (simp only: may_update simp_thms if_True if_False HOL.if_bool_eq_conj) (auto simp: may_update)
next
  case False
  then show ?thesis unfolding update_at Let_def by auto
qed



text \<open>C12. Refreshing any number of times with the same answer leaves what the first refresh stored, and
  applying that state unchanged sends nothing.\<close>

theorem dataset_refresh_settles:
  "(response_to_model api ^^ Suc n) m = response_to_model api m \<and>
   update_api_payload ((response_to_model api ^^ Suc n) m) (Some (response_to_model api m)) = []"
  using dataset.refresh_settles [of n api m] dataset.refresh_then_apply [of n api m] by blast

text \<open>C28. The secrets of the configuration are in the request to create the dataset and nowhere else: what
  is stored is what the plan held, which is null for a write-only attribute, and no update sends them.\<close>

theorem dataset_secrets_not_stored:
  "stores_only (keeps_secrets plan) (fst (dataset_create a plan cfg w)) \<and>
   stores_only (keeps_secrets plan) (fst (dataset_update a plan st w)) \<and>
   stores_only (keeps_secrets st) (fst (dataset_read a st w)) \<and>
   \<not> has_key (update_api_payload plan (Some st)) ''encryption_options''"
  by (simp add: create_secrets update_secrets read_secrets has_key_def update_at create_only_def Let_def)

text \<open>A create that decides about encryption also says whether it inherits it, and one with a POSIX or
  no ACL type always sends an ACL mode; everything else is what the configuration sets.\<close>

theorem dataset_create_defaults:
  "let p = api_payload m; q = create_api_payload m in
   (is_set (ds_encryption m) \<longrightarrow>
      map_of q ''inherit_encryption'' = Some (GBool (value_bool (ds_inherit m)))) \<and>
   (is_set (ds_acltype m) \<and> to_upper (value_string (ds_acltype m)) \<in> {''POSIX'', ''OFF''} \<longrightarrow>
      map_of q ''aclmode'' = Some (GStr (if is_set (ds_aclmode m) then to_upper (value_string (ds_aclmode m)) else ''DISCARD''))) \<and>
   (k \<notin> {''inherit_encryption'', ''aclmode''} \<longrightarrow> map_of q k = map_of p k)"
proof -
  have "value_bool v = False" if "\<not> is_set v" for v
    using that by (cases v) auto
  then show ?thesis
    by (auto simp: create_api_payload_def Let_def map_of_put_when has_key_def api_payload_at)
qed

theorem dataset_create_defaults_witness:
  "map_of (create_api_payload (null_dataset\<lparr>ds_encryption := Known True, ds_acltype := Known ''OFF''\<rparr>)) ''inherit_encryption'' =
     Some (GBool False) \<and>
   map_of (create_api_payload (null_dataset\<lparr>ds_encryption := Known True, ds_acltype := Known ''OFF''\<rparr>)) ''aclmode'' =
     Some (GStr ''DISCARD'')"
proof -
  have "to_upper ''OFF'' = ''OFF''" by code_simp
  then show ?thesis
    using dataset_create_defaults [of "null_dataset\<lparr>ds_encryption := Known True, ds_acltype := Known ''OFF''\<rparr>" "''name''"]
    by (simp add: Let_def null_dataset_def)
qed

end
