(* ===== verification/DatasetDelete.thy ===== *)
theory DatasetDelete
  imports Dataset
begin

text \<open>
  Deleting a dataset or zvol (src/internal/resources/dataset/delete.go): what blocks a
  non-recursive delete, the loop that waits for blockers to go away, and the checks that a
  resource makes before it destroys data.
\<close>

section \<open>What blocks a delete\<close>

definition children_query :: "string \<Rightarrow> gval list" where
  "children_query name =
     [GArr [GArr [GStr ''name'', GStr ''^'', GStr (name @ ''/'')]],
      GObj [(''select'', GArr [GStr ''name'', GStr ''type'']),
        (''extra'', GObj [(''flat'', GBool True), (''retrieve_children'', GBool False), (''properties'', GArr [])])]]"

definition snapshots_query :: "string \<Rightarrow> gval list" where
  "snapshots_query name =
     [GArr [GArr [GStr ''dataset'', GStr ''='', GStr name]], GObj [(''select'', GArr [GStr ''name''])]]"

definition decode_child :: "gval \<Rightarrow> string option" where
  "decode_child v = do {
     m \<leftarrow> as_object v;
     n \<leftarrow> as_string (field m ''name'');
     t \<leftarrow> as_string (field m ''type'');
     Some (n @ '' ('' @ t @ '')'') }"

definition decode_name :: "gval \<Rightarrow> string option" where
  "decode_name v = do { m \<leftarrow> as_object v; as_string (field m ''name'') }"

definition parse_error :: "string \<Rightarrow> go_error" where
  "parse_error m = Wrapped [Text (''parse '' @ m @ '': ''), Cause decode_error]"

definition delete_blockers ::
  "'w api \<Rightarrow> string \<Rightarrow> 'w \<Rightarrow> (go_error + string list \<times> string list) \<times> 'w" where
  "delete_blockers a name w =
     (case api_call a ''pool.dataset.query'' (children_query name) w of
        (Inl e, w1) \<Rightarrow> (Inl e, w1)
      | (Inr raw, w1) \<Rightarrow> (case as_list decode_child raw of
            None \<Rightarrow> (Inl (parse_error ''pool.dataset.query''), w1)
          | Some children \<Rightarrow>
              (case api_call a ''pool.snapshot.query'' (snapshots_query name) w1 of
                 (Inl e, w2) \<Rightarrow> (Inl e, w2)
               | (Inr raw2, w2) \<Rightarrow> (case as_list decode_name raw2 of
                     None \<Rightarrow> (Inl (parse_error ''pool.snapshot.query''), w2)
                   | Some snaps \<Rightarrow> (Inr (children, snaps), w2)))))"

section \<open>The message\<close>

definition max_listed_blockers :: nat where "max_listed_blockers = 10"

definition plural :: "nat \<Rightarrow> string \<Rightarrow> string \<Rightarrow> string" where
  "plural n one many = (if n = 1 then ''1 '' @ one else itoa (int n) @ '' '' @ many)"

text \<open>The loop over all blockers with its index: it stops at the limit.\<close>

fun listed :: "nat \<Rightarrow> nat \<Rightarrow> string list \<Rightarrow> string" where
  "listed n i [] = []"
| "listed n i (x # xs) =
     (if i = max_listed_blockers then ''  ... and '' @ itoa (int n - int max_listed_blockers) @ '' more'' @ newline
      else ''  '' @ x @ newline @ listed n (i + 1) xs)"

definition blockers_message :: "string \<Rightarrow> string \<Rightarrow> string list \<Rightarrow> string list \<Rightarrow> string" where
  "blockers_message name kind children snaps =
     (let what = (if 0 < length children then [plural (length children) ''child dataset/zvol'' ''child datasets/zvols''] else []) @
                 (if 0 < length snaps then [plural (length snaps) ''snapshot'' ''snapshots''] else []);
          all = children @ snaps
      in kind @ '' '' @ quoted name @ '' has '' @ join '' and '' what @ '', so it was not deleted:'' @ newline @
         listed (length all) 0 all @
         newline @ ''The provider deletes a '' @ kind @
         '' only when it has no child datasets, zvols or snapshots. To proceed, do one of:'' @ newline @
         ''  - Manage them in Terraform (truenas_dataset, truenas_zvol, truenas_snapshot) and make them depend on '' @
         ''this resource, by referencing its name (for example name = '' @
         quoted ''${truenas_dataset.parent.name}/child'' @ '') or with '' @
         ''depends_on, so Terraform destroys them first.'' @ newline @
         ''  - Delete the children and snapshots yourself, then run the destroy again.'' @ newline @
         ''  - Set force_destroy = true on this '' @ kind @ '' and apply that change on its own first. '' @
         ''A later destroy or replacement then deletes the '' @ kind @
         '' together with all of its child datasets, zvols and snapshots.'')"

section \<open>\<open>DeleteDataset\<close>\<close>

definition settle_timeout :: duration where "settle_timeout = 15 * second"

definition settle_poll :: duration where "settle_poll = 2 * second"

definition delete_params :: "string \<Rightarrow> bool \<Rightarrow> gval list" where
  "delete_params name recursive = [GStr name, GObj [(''recursive'', GBool recursive)]]"

text \<open>One attempt, when nothing blocks: whether the object is gone, and the last error.\<close>

definition delete_attempt ::
  "'w api \<Rightarrow> string \<Rightarrow> string list \<Rightarrow> string list \<Rightarrow> 'w \<Rightarrow> ((bool \<times> go_error option) \<times> 'w) option" where
  "delete_attempt a name children snaps w =
     (if length children = 0 \<and> length snaps = 0 then
        map_option (\<lambda>(r, w1). (case r of Inr v \<Rightarrow> (True, None) | Inl e \<Rightarrow> (is_not_found e, Some e), w1))
          (api_job a ''pool.dataset.delete'' (delete_params name False) w)
      else Some ((False, None), w))"

definition give_up :: "string \<Rightarrow> string \<Rightarrow> string list \<Rightarrow> string list \<Rightarrow> go_error option \<Rightarrow> string" where
  "give_up name kind children snaps last_err =
     (if 0 < length children \<or> 0 < length snaps then blockers_message name kind children snaps
      else case last_err of Some e \<Rightarrow> err_text e | None \<Rightarrow> [])"

definition delete_summary :: "string \<Rightarrow> string" where
  "delete_summary kind = ''Delete '' @ kind @ '' failed''"

text \<open>One round of the loop: \<open>Some\<close> diagnostics end it, \<open>None\<close> goes on after the wait.\<close>

definition delete_round ::
  "'w api \<Rightarrow> string \<Rightarrow> string \<Rightarrow> duration \<Rightarrow> 'w \<Rightarrow> (diagnostic list option \<times> 'w) option" where
  "delete_round a name kind deadline w =
     (case delete_blockers a name w of
        (Inl e, w1) \<Rightarrow> Some (Some [(delete_summary kind,
           ''checking '' @ kind @ '' '' @ quoted name @ '' for child datasets and snapshots: '' @ err_text e)], w1)
      | (Inr (children, snaps), w1) \<Rightarrow>
          (case delete_attempt a name children snaps w1 of
             None \<Rightarrow> None
           | Some ((gone, last_err), w2) \<Rightarrow>
               if gone then Some (Some [], w2)
               else (case api_now a w2 of (now, w3) \<Rightarrow>
                 if deadline < now
                 then Some (Some [(delete_summary kind, give_up name kind children snaps last_err)], w3)
                 else (case api_pause a settle_poll w3 of
                     (Some e, w4) \<Rightarrow> Some (Some [(delete_summary kind, err_text e)], w4)
                   | (None, w4) \<Rightarrow> Some (None, w4)))))"

partial_function (option) delete_loop ::
  "'w api \<Rightarrow> string \<Rightarrow> string \<Rightarrow> duration \<Rightarrow> 'w \<Rightarrow> (diagnostic list \<times> 'w) option" where
  "delete_loop a name kind deadline w =
     (case delete_round a name kind deadline w of
        None \<Rightarrow> None
      | Some (Some ds, w1) \<Rightarrow> Some (ds, w1)
      | Some (None, w1) \<Rightarrow> delete_loop a name kind deadline w1)"

definition delete_dataset ::
  "'w api \<Rightarrow> string \<Rightarrow> string \<Rightarrow> bool \<Rightarrow> 'w \<Rightarrow> (diagnostic list \<times> 'w) option" where
  "delete_dataset a name kind force w =
     (if force then
        map_option (\<lambda>(r, w1). (case r of
            Inl e \<Rightarrow> if is_not_found e then [] else [(delete_summary kind, err_text e)]
          | Inr _ \<Rightarrow> [], w1))
          (api_job a ''pool.dataset.delete'' (delete_params name True) w)
      else (case api_now a w of (now, w1) \<Rightarrow> delete_loop a name kind (now + settle_timeout) w1))"

section \<open>Data that a delete would take with it\<close>

definition listdir_params :: "string \<Rightarrow> gval list" where
  "listdir_params mp = [GStr mp, GArr [GArr [GStr ''name'', GStr ''!='', GStr ''.zfs'']],
     GObj [(''select'', GArr [GStr ''name'']), (''limit'', GInt 3)]]"

definition non_empty_contents :: "'w api \<Rightarrow> string \<Rightarrow> 'w \<Rightarrow> (go_error + string list) \<times> 'w" where
  "non_empty_contents a mp w =
     (if mp = [] then (Inr [], w)
      else (case api_call a ''filesystem.listdir'' (listdir_params mp) w of
          (Inl e, w1) \<Rightarrow> (Inl e, w1)
        | (Inr raw, w1) \<Rightarrow> (case as_list decode_name raw of
              None \<Rightarrow> (Inl (parse_error ''filesystem.listdir''), w1)
            | Some names \<Rightarrow> (Inr names, w1))))"

definition dataset_delete :: "'w api \<Rightarrow> dataset_resource \<Rightarrow> 'w \<Rightarrow> (diagnostic list \<times> 'w) option" where
  "dataset_delete a st w =
     (let force = (\<not> is_null (ds_force st) \<and> value_bool (ds_force st));
          name = value_string (ds_name st);
          (entries, w) = (if force then (Inr [], w)
            else (case delete_blockers a name w of
                (Inr ([], []), w1) \<Rightarrow> non_empty_contents a (value_string (ds_mountpoint st)) w1
              | (_, w1) \<Rightarrow> (Inr [], w1)))
      in case entries of
        Inr (e # es) \<Rightarrow> Some ([(''Delete dataset refused'',
           ''dataset '' @ quoted name @ '' is not empty (for example: '' @ join '', '' (e # es) @
           ''). Set force_destroy = true to destroy it together with its contents, or move the data first.'')], w)
      | _ \<Rightarrow> delete_dataset a name ''dataset'' force w)"

text \<open>Arithmetic on int64: \<open>base + volBlockSize / 2\<close> stays far below the largest value.\<close>

definition zvol_holds_data_size :: "int \<Rightarrow> int \<Rightarrow> bool \<Rightarrow> bool" where
  "zvol_holds_data_size logical_referenced vol_block_size encrypted =
     (let vbs = (if vol_block_size \<le> 0 then 16384 else vol_block_size);
          base = (if encrypted then 41472 else 28672)
      in base + vbs div 2 < logical_referenced)"

definition zvol_query :: "string \<Rightarrow> gval list" where
  "zvol_query name = [GArr [GArr [GStr ''name'', GStr ''='', GStr name]],
     GObj [(''extra'', GObj [(''flat'', GBool True), (''retrieve_children'', GBool False),
       (''properties'', GArr [GStr ''logicalreferenced'', GStr ''volblocksize'', GStr ''encryption''])])]]"

definition decode_zvol_row :: "gval \<Rightarrow> (int \<times> int \<times> bool) option" where
  "decode_zvol_row v = do {
     m \<leftarrow> as_object v;
     lr \<leftarrow> inner as_int64 ''parsed'' (field m ''logicalreferenced'');
     bs \<leftarrow> inner as_int64 ''parsed'' (field m ''volblocksize'');
     enc \<leftarrow> as_bool (field m ''encrypted'');
     Some (lr, bs, enc) }"

definition zvol_holds_data :: "'w api \<Rightarrow> string \<Rightarrow> 'w \<Rightarrow> (go_error + bool \<times> int) \<times> 'w" where
  "zvol_holds_data a name w =
     (case api_call a ''pool.dataset.query'' (zvol_query name) w of
        (Inl e, w1) \<Rightarrow> (Inl e, w1)
      | (Inr raw, w1) \<Rightarrow> (case as_list decode_zvol_row raw of
            Some ((lr, bs, enc) # _) \<Rightarrow> (Inr (zvol_holds_data_size lr bs enc, lr), w1)
          | _ \<Rightarrow> (Inl (errorf (''parse pool.dataset.query for '' @ name)), w1)))"

section \<open>What was sent\<close>

text \<open>
  A log in which every delete is one of \<open>name\<close>, is not recursive, and follows at once two queries whose
  answers show no child and no snapshot.
\<close>

definition no_rows :: "(gval \<Rightarrow> string option) \<Rightarrow> go_error + gval \<Rightarrow> bool" where
  "no_rows f r = (case r of Inr raw \<Rightarrow> as_list f raw = Some [] | Inl e \<Rightarrow> False)"

inductive guarded :: "string \<Rightarrow> exchanged list \<Rightarrow> bool" for name where
  guarded_Nil: "guarded name []"
| guarded_other: "guarded name l \<Longrightarrow> m \<noteq> ''pool.dataset.delete'' \<Longrightarrow> guarded name (l @ [(m, ps, r)])"
| guarded_delete: "guarded name l \<Longrightarrow> no_rows decode_child r1 \<Longrightarrow> no_rows decode_name r2 \<Longrightarrow>
    guarded name (l @ [(''pool.dataset.query'', children_query name, r1),
      (''pool.snapshot.query'', snapshots_query name, r2),
      (''pool.dataset.delete'', delete_params name False, r3)])"

text \<open>What a query for blockers leaves in the log.\<close>

lemma logged_blockers:
  assumes "delete_blockers (logged a) name (w, l) = (r, (w1, l1))"
  shows "case r of
      Inl e \<Rightarrow> guarded name l \<longrightarrow> guarded name l1
    | Inr (cs, ss) \<Rightarrow> \<exists>r1 r2. l1 = l @ [(''pool.dataset.query'', children_query name, r1),
          (''pool.snapshot.query'', snapshots_query name, r2)] \<and>
        (cs = [] \<longrightarrow> no_rows decode_child r1) \<and> (ss = [] \<longrightarrow> no_rows decode_name r2)"
proof -
  have two: "guarded name (l @ [(m, ps, r), (m', ps', r')])"
    if "guarded name l" "m \<noteq> ''pool.dataset.delete''" "m' \<noteq> ''pool.dataset.delete''" for m ps r m' ps' r'
    using guarded_other [OF guarded_other [OF that(1,2)] that(3)] by simp
  from assms show ?thesis
    by (auto simp: delete_blockers_def no_rows_def intro: guarded_other two
        split: prod.splits sum.splits option.splits)
qed

text \<open>How a non-recursive delete ends.\<close>

definition gone_answer :: "go_error + gval \<Rightarrow> bool" where
  "gone_answer r = (case r of Inr v \<Rightarrow> True | Inl e \<Rightarrow> is_not_found e)"

definition ended_well :: "diagnostic list \<Rightarrow> exchanged list \<Rightarrow> bool" where
  "ended_well ds l = (case ds of
      [] \<Rightarrow> (case rev l of (m, ps, r) # _ \<Rightarrow> m = ''pool.dataset.delete'' \<and> gone_answer r | [] \<Rightarrow> False)
    | _ \<Rightarrow> True)"

lemma logged_attempt:
  assumes "delete_attempt (logged a) name cs ss s = Some ((gone, le), s1)"
    and "guarded name l"
    and "snd s = l @ [(''pool.dataset.query'', children_query name, r1), (''pool.snapshot.query'', snapshots_query name, r2)]"
    and "cs = [] \<longrightarrow> no_rows decode_child r1" and "ss = [] \<longrightarrow> no_rows decode_name r2"
  shows "guarded name (snd s1) \<and> (gone \<longrightarrow> ended_well [] (snd s1))"
proof (cases "length cs = 0 \<and> length ss = 0")
  case True
  with assms(1) obtain r w2 where job: "api_job a ''pool.dataset.delete'' (delete_params name False) (fst s) = Some (r, w2)"
    by (auto simp: delete_attempt_def)
  with True assms(1) have "snd s1 = snd s @ [(''pool.dataset.delete'', delete_params name False, r)]"
      and "gone = gone_answer r"
    by (auto simp: delete_attempt_def noting_def gone_answer_def split: sum.splits)
  with True assms guarded_delete [OF assms(2), of r1 r2 r] show ?thesis
    by (simp add: ended_well_def)
next
  case False
  have "guarded name (snd s)"
    using guarded_other [OF guarded_other [OF assms(2), of "''pool.dataset.query''"], of "''pool.snapshot.query''"]
    by (simp add: assms(3))
  with False assms(1) show ?thesis by (auto simp: delete_attempt_def)
qed

lemma logged_round:
  assumes run: "delete_round (logged a) name kind deadline s = Some (r, s1)" and g: "guarded name (snd s)"
  shows "guarded name (snd s1) \<and> (\<forall>ds. r = Some ds \<longrightarrow> ended_well ds (snd s1))"
proof -
  obtain q s2 where q: "delete_blockers (logged a) name s = (q, s2)" by (metis surj_pair)
  note bl = logged_blockers [of a name "fst s" "snd s" q "fst s2" "snd s2"]
  show ?thesis
  proof (cases q)
    case (Inl e)
    with q run g bl show ?thesis by (auto simp: delete_round_def ended_well_def)
  next
    case (Inr x)
    then obtain cs ss where css: "q = Inr (cs, ss)" by (cases x) auto
    with q bl obtain r1 r2 where
      l: "snd s2 = snd s @ [(''pool.dataset.query'', children_query name, r1),
         (''pool.snapshot.query'', snapshots_query name, r2)]"
        "cs = [] \<longrightarrow> no_rows decode_child r1" "ss = [] \<longrightarrow> no_rows decode_name r2"
      by auto
    from run q css obtain gone last_err s3 where
      att: "delete_attempt (logged a) name cs ss s2 = Some ((gone, last_err), s3)"
      by (auto simp: delete_round_def split: option.splits)
    with logged_attempt [OF att g l] q css run show ?thesis
      by (auto simp: delete_round_def ended_well_def split: if_splits option.splits prod.splits)
  qed
qed

lemma delete_loop_guarded:
  assumes "delete_loop (logged a) name kind deadline s = Some (ds, s1)" and "guarded name (snd s)"
  shows "guarded name (snd s1) \<and> ended_well ds (snd s1)"
proof -
  define P where "P = (\<lambda>(a' :: ('a \<times> exchanged list) api) n (k :: string) (d :: duration) (s0 :: 'a \<times> exchanged list)
      (r :: diagnostic list \<times> 'a \<times> exchanged list).
    a' = logged a \<longrightarrow> guarded n (snd s0) \<longrightarrow> guarded n (snd (snd r)) \<and> ended_well (fst r) (snd (snd r)))"
  have "P (logged a) name kind deadline s (ds, s1)"
  proof (rule delete_loop.raw_induct [OF _ assms(1), where P = P])
    fix loop :: "('a \<times> exchanged list) api \<Rightarrow> string \<Rightarrow> string \<Rightarrow> duration \<Rightarrow> 'a \<times> exchanged list \<Rightarrow>
      (diagnostic list \<times> 'a \<times> exchanged list) option"
    fix a' n k d s0 r
    assume IH: "\<And>a n k d s r. loop a n k d s = Some r \<Longrightarrow> P a n k d s r"
      and run: "(case delete_round a' n k d s0 of
        None \<Rightarrow> None | Some (Some ds, w1) \<Rightarrow> Some (ds, w1) | Some (None, w1) \<Rightarrow> loop a' n k d w1) = Some r"
    show "P a' n k d s0 r"
      unfolding P_def
    proof (intro impI)
      assume a': "a' = logged a" and g: "guarded n (snd s0)"
      with run obtain x s1 where x: "delete_round (logged a) n k d s0 = Some (x, s1)"
        by (auto split: option.splits)
      from run a' x logged_round [OF x g] IH [of "logged a" n k d s1 r]
      show "guarded n (snd (snd r)) \<and> ended_well (fst r) (snd (snd r))"
        by (cases x) (auto simp: P_def)
    qed
  qed
  with assms(2) show ?thesis by (simp add: P_def)
qed

section \<open>Time\<close>

lemma time_passes_call: "time_passes a \<Longrightarrow> api_call a m ps w = (r, w1) \<Longrightarrow> clock a w \<le> clock a w1"
  unfolding time_passes_def by (metis snd_conv)

lemma blockers_clock: "time_passes a \<Longrightarrow> delete_blockers a name w = (r, w1) \<Longrightarrow> clock a w \<le> clock a w1"
proof -
  assume t: "time_passes a" and "delete_blockers a name w = (r, w1)"
  then show "clock a w \<le> clock a w1"
    by (auto simp: delete_blockers_def split: prod.splits sum.splits option.splits
        dest!: time_passes_call [OF t])
qed

lemma attempt_clock:
  assumes "time_passes a"
  shows "\<exists>x w1. delete_attempt a name cs ss w = Some (x, w1) \<and> clock a w \<le> clock a w1"
proof -
  obtain r w1 where "api_job a ''pool.dataset.delete'' (delete_params name False) w = Some (r, w1)"
      "clock a w \<le> clock a w1"
    using assms unfolding time_passes_def by blast
  then show ?thesis by (auto simp: delete_attempt_def)
qed

lemma round_clock:
  assumes t: "time_passes a"
  shows "\<exists>r w1. delete_round a name kind deadline w = Some (r, w1) \<and>
    (r = None \<longrightarrow> clock a w \<le> deadline \<and> clock a w + settle_poll \<le> clock a w1)"
proof -
  obtain q w1 where q: "delete_blockers a name w = (q, w1)" by fastforce
  show ?thesis
  proof (cases q)
    case (Inl e)
    with q show ?thesis by (simp add: delete_round_def)
  next
    case (Inr x)
    then obtain cs ss where css: "q = Inr (cs, ss)" by (cases x) auto
    obtain gone le w2 where att: "delete_attempt a name cs ss w1 = Some ((gone, le), w2)" "clock a w1 \<le> clock a w2"
      using attempt_clock [OF t, of name cs ss w1] by auto
    obtain now w3 where now: "api_now a w2 = (now, w3)" by fastforce
    obtain pe w4 where pause: "api_pause a settle_poll w3 = (pe, w4)" by fastforce
    have "clock a w \<le> now" "now \<le> clock a w3"
      using blockers_clock [OF t q] att(2) now t
      unfolding time_passes_def clock_def by (metis order_trans fst_conv snd_conv)+
    moreover have "pe = None \<Longrightarrow> clock a w3 + settle_poll \<le> clock a w4"
      using t pause unfolding time_passes_def by blast
    ultimately show ?thesis
      using q css att(1) now pause by (auto simp: delete_round_def split: option.splits)
  qed
qed

lemma delete_loop_returns:
  assumes t: "time_passes a"
  shows "\<exists>ds w1. delete_loop a name kind deadline w = Some (ds, w1)"
proof (induction "nat (deadline + 1 - clock a w)" arbitrary: w rule: less_induct)
  case less
  obtain r w1 where r: "delete_round a name kind deadline w = Some (r, w1)"
      "r = None \<longrightarrow> clock a w \<le> deadline \<and> clock a w + settle_poll \<le> clock a w1"
    using round_clock [OF t] by blast
  show ?case
  proof (cases r)
    case None
    with r(2) have "nat (deadline + 1 - clock a w1) < nat (deadline + 1 - clock a w)"
      by (simp add: settle_poll_def second_def)
    with less r(1) None show ?thesis by (subst delete_loop.simps) auto
  next
    case (Some ds)
    with r(1) show ?thesis by (subst delete_loop.simps) auto
  qed
qed

section \<open>Properties\<close>

text \<open>C1. Without \<open>force_destroy\<close> every delete sent is of this object and not recursive, and was sent right after
  the server had reported neither a child nor a snapshot; and a delete that reports no error was answered
  with success or with \<open>not found\<close>.\<close>

theorem delete_never_takes_children:
  "case delete_dataset (logged a) name kind False (w, []) of
      None \<Rightarrow> True
    | Some (ds, (w1, l)) \<Rightarrow> guarded name l \<and> ended_well ds l"
proof (cases "delete_dataset (logged a) name kind False (w, [])")
  case (Some x)
  then obtain ds s1 now s0 where "api_now (logged a) (w, []) = (now, s0)"
      "delete_loop (logged a) name kind (now + settle_timeout) s0 = Some (ds, s1)" "x = (ds, s1)"
    by (cases x) (auto simp: delete_dataset_def split: prod.splits)
  with Some delete_loop_guarded [of a name kind "now + settle_timeout" s0 ds s1] guarded_Nil [of name]
  show ?thesis by (cases s1) simp
qed simp

text \<open>C2. A delete without \<open>force_destroy\<close> ends, whatever the server answers, when job calls return and
  time passes while the loop waits.\<close>

theorem delete_dataset_returns:
  assumes "time_passes a"
  shows "\<exists>ds w1. delete_dataset a name kind False w = Some (ds, w1)"
  using delete_loop_returns [OF assms, of name kind "fst (api_now a w) + settle_timeout" "snd (api_now a w)"]
  by (cases "api_now a w") (simp add: delete_dataset_def)

text \<open>A server that never lets go: a snapshot blocks the delete for ever. The state is the time.\<close>

definition stuck_api :: "duration api" where
  "stuck_api = \<lparr>api_call = (\<lambda>m ps t. (Inr (if m = ''pool.snapshot.query''
        then GArr [GObj [(''name'', GStr ''tank/data@keep'')]] else GArr []), t)),
     api_read = (\<lambda>m ps t. (Inr GNil, t)), api_job = (\<lambda>m ps t. Some (Inr (GBool True), t)),
     api_at_least = (\<lambda>x y t. (Inr True, t)), api_now = (\<lambda>t. (t, t)), api_pause = (\<lambda>d t. (None, t + d))\<rparr>"

theorem delete_dataset_returns_witness:
  "\<exists>ds w1. delete_dataset stuck_api ''tank/data'' ''dataset'' False 0 = Some (ds, w1)"
  by (rule delete_dataset_returns) (simp add: stuck_api_def time_passes_def clock_def)

end
