(* ===== verification/Zvol.thy ===== *)
theory Zvol
  imports DatasetDelete
begin

text \<open>
  The zvol resource (src/internal/resources/zvol): model, payloads, the mapping of an answer to
  the model, the checks of configuration and plan, and the operations. It shares the
  property helpers, the update rules and the delete with datasets.
\<close>

section \<open>The model and the answer\<close>

record zvol_model =
  zv_id :: "string tf"
  zv_name :: "string tf"
  zv_volsize :: "int tf"
  zv_volblocksize :: "int tf"
  zv_compression :: "string tf"
  zv_sync :: "string tf"
  zv_dedup :: "string tf"
  zv_sparse :: "bool tf"
  zv_comments :: "string tf"
  zv_pool :: "string tf"
  zv_encrypted :: "bool tf"
  zv_encryption :: "bool tf"
  zv_inherit :: "bool tf"
  zv_algorithm :: "string tf"
  zv_generate_key :: "bool tf"
  zv_passphrase :: "string tf"
  zv_key :: "string tf"
  zv_key_format :: "string tf"
  zv_locked :: "bool tf"
  zv_checksum :: "string tf"
  zv_readonly :: "string tf"
  zv_snapdev :: "string tf"
  zv_copies :: "int tf"
  zv_reservation :: "int tf"
  zv_refreservation :: "int tf"

record zvol_resource = zvol_model +
  zv_force :: "bool tf"

record zvol_response =
  zr_name :: string
  zr_pool :: string
  zr_encrypted :: bool
  zr_locked :: bool
  zr_root :: "string option"
  zr_algorithm :: "string option"
  zr_key_format :: "string option"
  zr_compression :: "string \<times> string"
  zr_sync :: zfs_sourced
  zr_dedup :: zfs_sourced
  zr_volsize :: int
  zr_volblocksize :: int
  zr_checksum :: zfs_sourced
  zr_readonly :: zfs_sourced
  zr_snapdev :: zfs_sourced
  zr_copies :: zfs_sourced
  zr_reserv :: zfs_sourced
  zr_refreserv :: zfs_sourced
  zr_comments :: string

definition decode_zvol :: "gval \<Rightarrow> zvol_response option" where
  "decode_zvol v = do {
     m \<leftarrow> as_object v;
     name \<leftarrow> as_string (field m ''name'');
     pool \<leftarrow> as_string (field m ''pool'');
     enc \<leftarrow> as_bool (field m ''encrypted'');
     lck \<leftarrow> as_bool (field m ''locked'');
     root \<leftarrow> as_ptr as_string (field m ''encryption_root'');
     alg \<leftarrow> inner (as_ptr as_string) ''value'' (field m ''encryption_algorithm'');
     kf \<leftarrow> inner (as_ptr as_string) ''value'' (field m ''key_format'');
     cmp \<leftarrow> parsed_source (field m ''compression'');
     sync \<leftarrow> decode_zfs_sourced (field m ''sync'');
     dedup \<leftarrow> decode_zfs_sourced (field m ''deduplication'');
     vol \<leftarrow> inner as_int64 ''parsed'' (field m ''volsize'');
     vbs \<leftarrow> inner as_int64 ''parsed'' (field m ''volblocksize'');
     checksum \<leftarrow> decode_zfs_sourced (field m ''checksum'');
     ro \<leftarrow> decode_zfs_sourced (field m ''readonly'');
     snapdev \<leftarrow> decode_zfs_sourced (field m ''snapdev'');
     copies \<leftarrow> decode_zfs_sourced (field m ''copies'');
     reserv \<leftarrow> decode_zfs_sourced (field m ''reservation'');
     refreserv \<leftarrow> decode_zfs_sourced (field m ''refreservation'');
     com \<leftarrow> inner (inner as_string ''value'') ''comments'' (field m ''user_properties'');
     Some \<lparr>zr_name = name, zr_pool = pool, zr_encrypted = enc, zr_locked = lck, zr_root = root,
       zr_algorithm = alg, zr_key_format = kf, zr_compression = cmp, zr_sync = sync,
       zr_dedup = dedup, zr_volsize = vol, zr_volblocksize = vbs, zr_checksum = checksum,
       zr_readonly = ro, zr_snapdev = snapdev, zr_copies = copies, zr_reserv = reserv,
       zr_refreserv = refreserv, zr_comments = com\<rparr> }"

section \<open>Payloads\<close>

definition volblocksize_str :: "int \<Rightarrow> string" where
  "volblocksize_str b =
     (if b = 512 then ''512'' else if b = 1024 then ''1K'' else if b = 2048 then ''2K''
      else if b = 4096 then ''4K'' else if b = 8192 then ''8K'' else if b = 16384 then ''16K''
      else if b = 32768 then ''32K'' else if b = 65536 then ''64K'' else if b = 131072 then ''128K'' else [])"

definition zvol_encryption_options :: "'x zvol_model_scheme \<Rightarrow> payload" where
  "zvol_encryption_options m =
     put_bool ''generate_key'' (zv_generate_key m)
       (put_when (is_set (zv_algorithm m) \<and> value_string (zv_algorithm m) \<noteq> []) ''algorithm''
         (GStr (value_string (zv_algorithm m))) [])"

definition zvol_payload :: "'x zvol_model_scheme \<Rightarrow> payload" where
  "zvol_payload m =
     (let p = [(''name'', GStr (value_string (zv_name m))), (''type'', GStr ''VOLUME''),
               (''volsize'', GInt (value_int64 (zv_volsize m)))];
          bs = volblocksize_str (value_int64 (zv_volblocksize m));
          p = put_when (is_set (zv_volblocksize m) \<and> value_int64 (zv_volblocksize m) \<noteq> 0 \<and> bs \<noteq> [])
                ''volblocksize'' (GStr bs) p;
          p = put_when (is_set (zv_compression m)) ''compression''
                (GStr (compression_api (value_string (zv_compression m)))) p;
          p = put_enum ''sync'' (zv_sync m) p;
          p = put_enum ''deduplication'' (zv_dedup m) p;
          p = put_bool ''sparse'' (zv_sparse m) p;
          p = put_str ''comments'' (zv_comments m) p;
          p = put_enum ''checksum'' (zv_checksum m) p;
          p = put_enum ''readonly'' (zv_readonly m) p;
          p = put_enum ''snapdev'' (zv_snapdev m) p;
          p = put_int ''copies'' (zv_copies m) p;
          p = put_int ''reservation'' (zv_reservation m) p;
          p = put_int ''refreservation'' (zv_refreservation m) p;
          p = put_bool ''encryption'' (zv_encryption m) p;
          p = put_bool ''inherit_encryption'' (zv_inherit m) p;
          eo = zvol_encryption_options m
      in put_when (0 < length eo) ''encryption_options'' (GObj eo) p)"

definition zvol_updatable_fields :: "'x zvol_model_scheme \<Rightarrow> payload" where
  "zvol_updatable_fields m =
     del_all [''name'', ''type'', ''volblocksize'', ''sparse'', ''encryption'', ''inherit_encryption'',
       ''encryption_options''] (zvol_payload m)"

definition zvol_update_payload :: "'x zvol_model_scheme \<Rightarrow> 'y zvol_model_scheme option \<Rightarrow> payload" where
  "zvol_update_payload m prior =
     (let p = zvol_updatable_fields m in
      case prior of
        None \<Rightarrow> p
      | Some s \<Rightarrow> keep_thick (zv_refreservation m) (zv_refreservation s) (zv_volsize s)
                    (strip_unchanged p (zvol_updatable_fields s)))"

definition zvol_create_payload :: "'x zvol_model_scheme \<Rightarrow> payload" where
  "zvol_create_payload m =
     (let p = zvol_payload m in
      put_when (has_key p ''encryption'' \<and> \<not> has_key p ''inherit_encryption'')
        ''inherit_encryption'' (GBool False) p)"

definition zvol_inject_secrets :: "payload \<Rightarrow> 'x zvol_model_scheme \<Rightarrow> payload" where
  "zvol_inject_secrets p cfg =
     (let eo = (case map_of p ''encryption_options'' of Some (GObj m) \<Rightarrow> m | _ \<Rightarrow> []);
          eo = put_when (is_set (zv_passphrase cfg) \<and> value_string (zv_passphrase cfg) \<noteq> []) ''passphrase''
                 (GStr (value_string (zv_passphrase cfg))) eo;
          eo = put_when (is_set (zv_key cfg) \<and> value_string (zv_key cfg) \<noteq> []) ''key''
                 (GStr (value_string (zv_key cfg))) eo
      in put_when (0 < length eo) ''encryption_options'' (GObj eo) p)"

section \<open>From the answer to the model\<close>

text \<open>Unlike the dataset's, this one does not look for an absent property.\<close>

definition zvol_string_or_inherit :: "zfs_sourced \<Rightarrow> string tf" where
  "zvol_string_or_inherit z = (case zs_value z of
      Some v \<Rightarrow> if is_explicit z then Known v else Known ''INHERIT''
    | None \<Rightarrow> Known ''INHERIT'')"

definition zvol_response_to_model :: "zvol_response \<Rightarrow> 'x zvol_model_scheme \<Rightarrow> 'x zvol_model_scheme" where
  "zvol_response_to_model api m = m\<lparr>
     zv_id := Known (zr_name api),
     zv_name := Known (zr_name api),
     zv_pool := Known (zr_pool api),
     zv_encrypted := Known (zr_encrypted api),
     zv_encryption := Known (zr_encrypted api),
     zv_locked := Known (zr_locked api),
     zv_algorithm := some_string (zr_algorithm api),
     zv_key_format := some_string (zr_key_format api),
     zv_inherit := Known (zr_encrypted api \<and> zr_root api \<noteq> None \<and> zr_root api \<noteq> Some (zr_name api)),
     zv_volsize := Known (zr_volsize api),
     zv_volblocksize := Known (zr_volblocksize api),
     zv_compression := (if is_explicit_source (snd (zr_compression api))
        then preserve_compression (zv_compression m) (fst (zr_compression api))
        else preserve_case (zv_compression m) ''INHERIT''),
     zv_sync := zvol_string_or_inherit (zr_sync api),
     zv_dedup := zvol_string_or_inherit (zr_dedup api),
     zv_comments := Known (comments_value (zr_comments api)),
     zv_checksum := zvol_string_or_inherit (zr_checksum api),
     zv_readonly := zvol_string_or_inherit (zr_readonly api),
     zv_snapdev := zvol_string_or_inherit (zr_snapdev api),
     zv_copies := local_int (zr_copies api),
     zv_reservation := local_int (zr_reserv api),
     zv_refreservation := local_int (zr_refreserv api)\<rparr>"

definition sparse_from_api :: "zvol_response \<Rightarrow> bool" where
  "sparse_from_api api = (case parsed_int (zr_refreserv api) of Some n \<Rightarrow> n = 0 | None \<Rightarrow> True)"

section \<open>Checks\<close>

definition zvol_validate_config :: "'x zvol_model_scheme \<Rightarrow> diagnostic list" where
  "zvol_validate_config cfg =
     (if is_set (zv_inherit cfg) \<and> value_bool (zv_inherit cfg) \<and> is_set (zv_encryption cfg)
      then [(''Conflicting encryption configuration'',
        ''encryption cannot be set when inherit_encryption = true: the zvol inherits '' @
        ''its encryption from the parent, which determines the value. Remove encryption, '' @
        ''or set inherit_encryption = false to manage encryption on this zvol.'')]
      else []) @
     (if is_set (zv_sparse cfg) \<and> value_bool (zv_sparse cfg) \<and>
         is_set (zv_refreservation cfg) \<and> 0 < value_int64 (zv_refreservation cfg)
      then [(''Conflicting provisioning configuration'',
        ''refreservation cannot be above 0 when sparse = true: a sparse zvol has no refreservation. '' @
        ''Remove refreservation or sparse.'')]
      else [])"

definition sparse_change_diag :: "string \<Rightarrow> bool \<Rightarrow> diagnostic" where
  "sparse_change_diag name current = (''sparse cannot be changed on an existing zvol'',
     ''sparse is applied only when a zvol is created; TrueNAS cannot change it later. '' @ name @ '' was '' @
     ''created '' @ (if current then ''sparse'' else ''thick'') @ '', so keep sparse = '' @ go_bool current @
     ''. To change its provisioning in place, set refreservation (0 = '' @
     ''thin, or the number of bytes to guarantee); to recreate it with the other provisioning (its data '' @
     ''is lost), use terraform apply -replace.'')"

text \<open>The second half of \<open>ModifyPlan\<close>; the flag says that the zvol is replaced anyway.\<close>

definition current_sparse :: "'x zvol_model_scheme \<Rightarrow> bool" where
  "current_sparse st =
     (if is_null (zv_sparse st) \<or> is_unknown (zv_sparse st)
      then is_null (zv_refreservation st) \<or> value_int64 (zv_refreservation st) = 0
      else value_bool (zv_sparse st))"

definition check_sparse_change ::
  "bool \<Rightarrow> bool \<Rightarrow> bool \<Rightarrow> 'x zvol_model_scheme \<Rightarrow> 'y zvol_model_scheme \<Rightarrow> diagnostic list" where
  "check_sparse_change state_raw_null plan_raw_null replaced cfg st =
     (if state_raw_null \<or> plan_raw_null \<or> replaced then []
      else if is_null (zv_sparse cfg) \<or> is_unknown (zv_sparse cfg) then []
      else if value_bool (zv_sparse cfg) = current_sparse st then []
      else [sparse_change_diag (value_string (zv_name st)) (current_sparse st)])"

text \<open>\<open>ModifyPlan\<close> as a whole: an error of the first check ends it.\<close>

definition zvol_modify_plan ::
  "'w api \<Rightarrow> bool \<Rightarrow> bool \<Rightarrow> bool \<Rightarrow> bool \<Rightarrow> 'x zvol_model_scheme \<Rightarrow> 'y zvol_model_scheme \<Rightarrow> 'w \<Rightarrow>
     diagnostic list \<times> 'w" where
  "zvol_modify_plan a configured state_raw_null plan_raw_null replaced cfg st w =
     (case check_encryption_algorithm a configured plan_raw_null (Some (zv_algorithm cfg))
             (if state_raw_null then None else Some (zv_algorithm st)) w of
        (ds, w1) \<Rightarrow> (if ds \<noteq> [] then ds
          else check_sparse_change state_raw_null plan_raw_null replaced cfg st, w1))"

section \<open>The device node\<close>

definition device_wait_timeout :: duration where "device_wait_timeout = 30 * second"

definition device_poll_interval :: duration where "device_poll_interval = 500000000"

definition zvol_device_path :: "string \<Rightarrow> string" where
  "zvol_device_path name = ''/dev/zvol/'' @ replace_all '' '' ''+'' name"

text \<open>One round; \<open>ended\<close> is \<open>ctx.Err() != nil\<close>.\<close>

definition device_round ::
  "'w api \<Rightarrow> ('w \<Rightarrow> bool) \<Rightarrow> string \<Rightarrow> duration \<Rightarrow> 'w \<Rightarrow> bool option \<times> 'w" where
  "device_round a ended dev deadline w =
     (case api_read a ''filesystem.stat'' [GStr dev] w of
        (Inr v, w1) \<Rightarrow> (Some True, w1)
      | (Inl e, w1) \<Rightarrow>
          if ended w1 then (Some False, w1)
          else (case api_now a w1 of (now, w2) \<Rightarrow>
            if deadline < now then (Some False, w2)
            else (case api_pause a device_poll_interval w2 of
                (Some e, w3) \<Rightarrow> (Some False, w3)
              | (None, w3) \<Rightarrow> (None, w3))))"

partial_function (option) device_loop ::
  "'w api \<Rightarrow> ('w \<Rightarrow> bool) \<Rightarrow> string \<Rightarrow> duration \<Rightarrow> 'w \<Rightarrow> (bool \<times> 'w) option" where
  "device_loop a ended dev deadline w =
     (case device_round a ended dev deadline w of
        (Some ok, w1) \<Rightarrow> Some (ok, w1)
      | (None, w1) \<Rightarrow> device_loop a ended dev deadline w1)"

definition wait_for_zvol_device ::
  "'w api \<Rightarrow> ('w \<Rightarrow> bool) \<Rightarrow> string \<Rightarrow> 'w \<Rightarrow> (bool \<times> 'w) option" where
  "wait_for_zvol_device a ended name w =
     (case api_now a w of (now, w1) \<Rightarrow>
        device_loop a ended (zvol_device_path name) (now + device_wait_timeout) w1)"

section \<open>The operations\<close>

definition zvol_instance ::
  "'w api \<Rightarrow> string \<Rightarrow> string \<Rightarrow> string \<Rightarrow> 'w \<Rightarrow> (diagnostic list + zvol_response) \<times> 'w" where
  "zvol_instance a name read_err parse_err w =
     (case api_read a ''pool.dataset.get_instance'' [GStr name] w of
        (Inl e, w1) \<Rightarrow> (Inl [(read_err, err_text e)], w1)
      | (Inr raw, w1) \<Rightarrow> (case decode_zvol raw of
            None \<Rightarrow> (Inl [(parse_err, err_text decode_error)], w1)
          | Some api \<Rightarrow> (Inr api, w1)))"

definition device_warning :: "string \<Rightarrow> diagnostic" where
  "device_warning name = (''Zvol device node not ready'',
     zvol_device_path name @ '' did not appear within 30s after the zvol was created. A resource that uses the '' @
     ''device in this apply (iSCSI extent, NVMe-oF namespace, VM disk) may fail; re-run the apply.'')"

text \<open>The answer that the state is made of: read once, and again when the reservation had to be set.\<close>

definition zvol_created ::
  "'w api \<Rightarrow> 'x zvol_model_scheme \<Rightarrow> 'w \<Rightarrow> (diagnostic list + zvol_response) \<times> 'w" where
  "zvol_created a plan w =
     (let name = value_string (zv_name plan) in
      case zvol_instance a name ''Read after create failed'' ''Parse read response'' w of
        (Inl ds, w) \<Rightarrow> (Inl ds, w)
      | (Inr api, w) \<Rightarrow>
          if is_set (zv_refreservation plan) \<and>
             (case parsed_int (zr_refreserv api) of Some n \<Rightarrow> n | None \<Rightarrow> 0) \<noteq> value_int64 (zv_refreservation plan)
          then
            (case api_call a ''pool.dataset.update'' [GStr name,
                   GObj [(''refreservation'', GInt (value_int64 (zv_refreservation plan)))]] w of
               (Inl e, w) \<Rightarrow> (Inl [(''Set refreservation after create failed'', err_text e)], w)
             | (Inr _, w) \<Rightarrow> zvol_instance a name ''Read after create failed'' ''Read after create failed'' w)
          else (Inr api, w))"

definition fill_sparse :: "zvol_response \<Rightarrow> zvol_resource \<Rightarrow> zvol_resource" where
  "fill_sparse api m =
     (if is_unknown (zv_sparse m) \<or> is_null (zv_sparse m) then m\<lparr>zv_sparse := Known (sparse_from_api api)\<rparr> else m)"

definition zvol_create ::
  "'w api \<Rightarrow> ('w \<Rightarrow> bool) \<Rightarrow> zvol_resource \<Rightarrow> zvol_resource \<Rightarrow> 'w \<Rightarrow>
     ((zvol_resource outcome \<times> diagnostic list) \<times> 'w) option" where
  "zvol_create a ended plan cfg w =
     (let p = zvol_inject_secrets (zvol_create_payload plan) cfg;
          name = value_string (zv_name plan);
          (v, w) = api_at_least a 27 0 w;
          p = (if v = Inr True then drop_algorithm p else p);
          (r, w) = api_call a ''pool.dataset.create'' [GObj p] w
      in case r of
        Inl e \<Rightarrow> Some ((fail_err ''Create zvol failed'' e, []), w)
      | Inr _ \<Rightarrow>
          (case zvol_created a plan w of
             (Inl ds, w) \<Rightarrow> Some ((Failure ds, []), w)
           | (Inr api, w) \<Rightarrow>
               map_option (\<lambda>(ready, w).
                   ((let m = fill_sparse api (zvol_response_to_model api plan) in Stored (value_string (zv_id m)) m,
                     if ready then [] else [device_warning name]), w))
                 (wait_for_zvol_device a ended name w)))"

definition zvol_read :: "'w api \<Rightarrow> zvol_resource \<Rightarrow> 'w \<Rightarrow> zvol_resource outcome \<times> 'w" where
  "zvol_read a st w =
     (case api_read a ''pool.dataset.get_instance'' [GStr (value_string (zv_name st))] w of
        (Inl e, w1) \<Rightarrow> (if is_not_found e then Removed else fail_err ''Read zvol failed'' e, w1)
      | (Inr raw, w1) \<Rightarrow> (case decode_zvol raw of
            None \<Rightarrow> (parse_failure ''Parse read response'', w1)
          | Some api \<Rightarrow>
              (let m = zvol_response_to_model api st;
                   m = (if is_null (zv_sparse m) then m\<lparr>zv_sparse := Known (sparse_from_api api)\<rparr> else m);
                   m = m\<lparr>zv_force := force_destroy_or_false (zv_force m)\<rparr>
               in (Stored (value_string (zv_id m)) m, w1))))"

definition zvol_update ::
  "'w api \<Rightarrow> zvol_resource \<Rightarrow> zvol_resource \<Rightarrow> 'w \<Rightarrow> zvol_resource outcome \<times> 'w" where
  "zvol_update a plan st w =
     (let p = zvol_update_payload plan (Some st);
          name = value_string (zv_name plan);
          (r, w) = (if 0 < length p then api_call a ''pool.dataset.update'' [GStr name, GObj p] w
                    else (Inr GNil, w))
      in case r of
        Inl e \<Rightarrow> (fail_err ''Update zvol failed'' e, w)
      | Inr _ \<Rightarrow>
          (case zvol_instance a name ''Read after update failed'' ''Parse update response'' w of
             (Inl ds, w) \<Rightarrow> (Failure ds, w)
           | (Inr api, w) \<Rightarrow> (let m = zvol_response_to_model api plan in (Stored (value_string (zv_id m)) m, w))))"

definition zvol_delete :: "'w api \<Rightarrow> zvol_resource \<Rightarrow> 'w \<Rightarrow> (diagnostic list \<times> 'w) option" where
  "zvol_delete a st w =
     (let force = (\<not> is_null (zv_force st) \<and> value_bool (zv_force st));
          name = value_string (zv_name st);
          (held, w) = (if force then (Inr (False, 0), w) else zvol_holds_data a name w)
      in case held of
        Inr (True, lr) \<Rightarrow> Some ([(''Delete zvol refused'',
          ''zvol '' @ quoted name @ '' holds data ('' @ itoa lr @ '' bytes referenced). Set force_destroy = true to destroy it together '' @
          ''with its contents, or copy the data off first.'')], w)
      | _ \<Rightarrow> delete_dataset a name ''zvol'' force w)"

definition null_zvol :: zvol_resource where
  "null_zvol = \<lparr>zv_id = TfNull, zv_name = TfNull, zv_volsize = TfNull, zv_volblocksize = TfNull,
     zv_compression = TfNull, zv_sync = TfNull, zv_dedup = TfNull, zv_sparse = TfNull, zv_comments = TfNull,
     zv_pool = TfNull, zv_encrypted = TfNull, zv_encryption = TfNull, zv_inherit = TfNull,
     zv_algorithm = TfNull, zv_generate_key = TfNull, zv_passphrase = TfNull, zv_key = TfNull,
     zv_key_format = TfNull, zv_locked = TfNull, zv_checksum = TfNull, zv_readonly = TfNull,
     zv_snapdev = TfNull, zv_copies = TfNull, zv_reservation = TfNull, zv_refreservation = TfNull,
     zv_force = TfNull\<rparr>"

definition zvol_import :: "'w api \<Rightarrow> string import_req \<Rightarrow> 'w \<Rightarrow> zvol_resource outcome \<times> 'w" where
  "zvol_import a req w =
     (case import_string req of (i, diags) \<Rightarrow>
        if diags \<noteq> [] then (Failure diags, w)
        else (case zvol_instance a i ''Import zvol failed'' ''Parse import response'' w of
            (Inl ds, w1) \<Rightarrow> (Failure ds, w1)
          | (Inr api, w1) \<Rightarrow>
              (let m = zvol_response_to_model api (null_zvol\<lparr>zv_name := Known i, zv_id := Known i\<rparr>);
                   m = m\<lparr>zv_sparse := Known (sparse_from_api api), zv_force := Known False\<rparr>
               in (Stored (value_string (zv_id m)) m, w1))))"

definition zvol_data_source :: "'w api \<Rightarrow> zvol_model \<Rightarrow> 'w \<Rightarrow> zvol_model outcome \<times> 'w" where
  "zvol_data_source a cfg w =
     (case zvol_instance a (value_string (zv_name cfg)) ''Read zvol failed'' ''Parse response'' w of
        (Inl ds, w1) \<Rightarrow> (Failure ds, w1)
      | (Inr api, w1) \<Rightarrow>
          (let m = (zvol_response_to_model api cfg)\<lparr>zv_sparse := Known (sparse_from_api api)\<rparr>
           in (Stored (value_string (zv_id m)) m, w1)))"

definition zvol_row ::
  "bool \<Rightarrow> gval \<Rightarrow> diagnostic list + (string \<times> string \<times> zvol_resource option)" where
  "zvol_row include_resource raw = (case decode_zvol raw of
      None \<Rightarrow> Inl [(''Parse zvol row'', err_text decode_error)]
    | Some api \<Rightarrow> Inr (zr_name api, zr_name api,
        if include_resource then
          (let m = zvol_response_to_model api null_zvol;
               m = m\<lparr>zv_sparse := Known (sparse_from_api api)\<rparr>
           in Some (m\<lparr>zv_force := force_destroy_or_false (zv_force m)\<rparr>))
        else None))"

definition zvol_list ::
  "'w ops \<Rightarrow> int \<Rightarrow> bool \<Rightarrow> 'w \<Rightarrow> (diagnostic list + (string \<times> string \<times> zvol_resource option)) stream \<times> 'w" where
  "zvol_list os limit include_resource =
     stream_collection_filtered os ''pool.dataset.query''
       (GArr [GArr [GStr ''type'', GStr ''='', GStr ''VOLUME'']]) limit (zvol_row include_resource)"

section \<open>Facts\<close>

lemma wf_zvol_payload [simp]: "wf_map (zvol_payload m)"
  by (simp add: zvol_payload_def Let_def wf_map_def [of "_ # _"])

lemma wf_zvol_updatable [simp]: "wf_map (zvol_updatable_fields m)"
  by (simp add: zvol_updatable_fields_def)

interpretation zvol: managed_object zvol_response_to_model "\<lambda>m s. zvol_update_payload m (Some s)"
proof
  fix a and m :: "'x zvol_model_scheme"
  show "zvol_response_to_model a (zvol_response_to_model a m) = zvol_response_to_model a m"
    by (simp add: zvol_response_to_model_def)
  show "zvol_update_payload m (Some m) = []"
    by (simp add: zvol_update_payload_def Let_def strip_same)
qed

lemma zvol_payload_at_size:
  "map_of (zvol_payload m) ''volsize'' = Some (GInt (value_int64 (zv_volsize m)))"
  "map_of (zvol_payload m) ''refreservation'' =
     (if is_set (zv_refreservation m) then Some (GInt (value_int64 (zv_refreservation m))) else None)"
  by (simp_all add: zvol_payload_def Let_def payload_steps)

text \<open>Only the size and the reservation of the payload depend on those two attributes.\<close>

lemma zvol_payload_resized:
  "k \<noteq> ''volsize'' \<Longrightarrow> k \<noteq> ''refreservation'' \<Longrightarrow>
   map_of (zvol_payload (s\<lparr>zv_volsize := n, zv_refreservation := r\<rparr>)) k = map_of (zvol_payload s) k"
  by (simp add: zvol_payload_def Let_def payload_steps zvol_encryption_options_def)

definition zvol_create_only :: "string set" where
  "zvol_create_only = {''name'', ''type'', ''volblocksize'', ''sparse'', ''encryption'', ''inherit_encryption'',
     ''encryption_options''}"

lemma zvol_updatable_at:
  "map_of (zvol_updatable_fields m) k = (if k \<in> zvol_create_only then None else map_of (zvol_payload m) k)"
  by (auto simp: zvol_updatable_fields_def map_of_del_all zvol_create_only_def)

lemma zvol_may_update: "''volsize'' \<notin> zvol_create_only" "''refreservation'' \<notin> zvol_create_only"
  by (simp_all add: zvol_create_only_def)

definition is_thick :: "'x zvol_model_scheme \<Rightarrow> bool" where
  "is_thick s \<longleftrightarrow> is_set (zv_refreservation s) \<and> is_set (zv_volsize s) \<and>
     value_int64 (zv_refreservation s) = value_int64 (zv_volsize s)"

lemma zvol_stripped_at:
  fixes s :: "'x zvol_model_scheme" and n :: int
  defines "m \<equiv> s\<lparr>zv_volsize := Known n, zv_refreservation := TfUnknown\<rparr>"
  shows "map_of (strip_unchanged (zvol_updatable_fields m) (zvol_updatable_fields s)) k =
     (if k = ''volsize'' \<and> n \<noteq> value_int64 (zv_volsize s) then Some (GInt n) else None)"
proof (cases "k = ''volsize'' \<or> k = ''refreservation''")
  case True
  then show ?thesis
    by (auto simp: m_def map_of_strip_unchanged zvol_updatable_at zvol_may_update zvol_payload_at_size)
next
  case False
  then have "map_of (zvol_payload m) k = map_of (zvol_payload s) k"
    unfolding m_def by (intro zvol_payload_resized) auto
  with False show ?thesis
    by (simp add: map_of_strip_unchanged zvol_updatable_at)
qed

section \<open>Properties\<close>


end
