(* ===== verification/DiskIdent.thy ===== *)
theory DiskIdent
  imports Resource
begin

text \<open>
  How a disk may be named (src/internal/resources/pool/diskident.go): the kernel device name, the
  serial, TrueNAS's identifier or a path below /dev. The resolver is built from one disk.query
  and finds the disk a name refers to. A \<open>*diskIdentity\<close> is the position of the
  disk in the answer, so comparing pointers is comparing positions.
\<close>

section \<open>The resolver\<close>

record disk_identity =
  di_name :: string
  di_devname :: string
  di_serial :: string
  di_identifier :: string

record disk_resolver =
  rs_all :: "disk_identity list"
  rs_name :: "nat gomap"
  rs_serial :: "nat gomap"
  rs_identifier :: "nat gomap"

definition decode_disk_identity :: "gval \<Rightarrow> disk_identity option" where
  "decode_disk_identity v = do {
     m \<leftarrow> as_object v;
     n \<leftarrow> as_string (field m ''name'');
     d \<leftarrow> as_string (field m ''devname'');
     s \<leftarrow> as_string (field m ''serial'');
     i \<leftarrow> as_string (field m ''identifier'');
     Some \<lparr>di_name = n, di_devname = d, di_serial = s, di_identifier = i\<rparr> }"

definition put_key :: "string \<Rightarrow> nat \<Rightarrow> nat gomap \<Rightarrow> nat gomap" where
  "put_key k i m = (if k \<noteq> [] then put k i m else m)"

definition index_disk :: "nat \<times> disk_identity \<Rightarrow> disk_resolver \<Rightarrow> disk_resolver" where
  "index_disk e r = (case e of (i, d) \<Rightarrow>
     r\<lparr>rs_name := put_key (di_devname d) i (put_key (di_name d) i (rs_name r)),
       rs_serial := put_key (di_serial d) i (rs_serial r),
       rs_identifier := put_key (di_identifier d) i (rs_identifier r)\<rparr>)"

definition resolver_of :: "disk_identity list \<Rightarrow> disk_resolver" where
  "resolver_of ds = fold index_disk (enumerate 0 ds)
     \<lparr>rs_all = ds, rs_name = [], rs_serial = [], rs_identifier = []\<rparr>"

text \<open>A failure leaves a resolver with empty tables. (An answer that stops parsing half way would leave
  some disks in \<open>all\<close>; the model leaves none.)\<close>

definition new_disk_resolver :: "'w api \<Rightarrow> 'w \<Rightarrow> (disk_resolver \<times> go_error option) \<times> 'w" where
  "new_disk_resolver a w =
     (case api_read a ''disk.query'' [] w of
        (Inl e, w1) \<Rightarrow> ((resolver_of [], Some e), w1)
      | (Inr raw, w1) \<Rightarrow> (case as_list decode_disk_identity raw of
            None \<Rightarrow> ((resolver_of [], Some decode_error), w1)
          | Some ds \<Rightarrow> ((resolver_of ds, None), w1)))"

section \<open>Looking a name up\<close>

definition serial_from_identifier :: "string \<Rightarrow> string" where
  "serial_from_identifier i =
     (if \<not> has_prefix i ''{'' then []
      else case cut CHR ''}'' i of
          (_, _, False) \<Rightarrow> []
        | (a, rest, True) \<Rightarrow>
            (let tag = drop 1 a in
             if tag = ''serial_lunid'' then (case cut_last CHR ''_'' rest of Some (s, _) \<Rightarrow> s | None \<Rightarrow> rest)
             else if tag = ''serial'' then rest else []))"

text \<open>\<open>path.Base\<close>.\<close>

definition path_base :: "string \<Rightarrow> string" where
  "path_base p =
     (if p = [] then ''.''
      else let q = trim_right_by (\<lambda>c. c = CHR ''/'') p;
               b = (case cut_last CHR ''/'' q of Some (_, x) \<Rightarrow> x | None \<Rightarrow> q)
           in if b = [] then ''/'' else b)"

fun serial_matches :: "string \<Rightarrow> nat \<Rightarrow> disk_identity list \<Rightarrow> nat option \<Rightarrow> nat option" where
  "serial_matches seg i [] found = found"
| "serial_matches seg i (d # ds) found =
     (let s = to_upper (di_serial d) in
      if s = [] then serial_matches seg (i + 1) ds found
      else if contains_str seg s then
        (if found \<noteq> None then None else serial_matches seg (i + 1) ds (Some i))
      else serial_matches seg (i + 1) ds found)"

definition match_by_serial_substring :: "disk_resolver \<Rightarrow> string \<Rightarrow> nat option" where
  "match_by_serial_substring r segment = serial_matches (to_upper segment) 0 (rs_all r) None"

text \<open>The first form that matches wins.\<close>

definition orelse :: "'a option \<Rightarrow> 'a option \<Rightarrow> 'a option" where
  "orelse a b = (case a of Some x \<Rightarrow> Some x | None \<Rightarrow> b)"

definition lookup_disk :: "disk_resolver \<Rightarrow> string \<Rightarrow> nat option" where
  "lookup_disk r name0 =
     (let name = trim_space name0 in
      if name = [] then None
      else orelse (map_of (rs_serial r) name)
          (orelse (map_of (rs_identifier r) name)
          (orelse (map_of (rs_name r) name)
          (orelse (let s = serial_from_identifier name in if s \<noteq> [] then map_of (rs_serial r) s else None)
          (if has_prefix name ''/dev/'' then
             (let base = path_base name in
              orelse (map_of (rs_name r) base) (match_by_serial_substring r base))
           else None)))))"

definition serial_for :: "disk_resolver \<Rightarrow> string \<Rightarrow> string" where
  "serial_for r name = (case lookup_disk r name of
      Some i \<Rightarrow> if di_serial (rs_all r ! i) \<noteq> [] then di_serial (rs_all r ! i) else trim_space name
    | None \<Rightarrow> trim_space name)"

definition device_for :: "disk_resolver \<Rightarrow> string \<Rightarrow> string" where
  "device_for r name = (case lookup_disk r name of
      Some i \<Rightarrow> if di_name (rs_all r ! i) \<noteq> [] then di_name (rs_all r ! i) else trim_space name
    | None \<Rightarrow> trim_space name)"

definition same_disk :: "disk_resolver \<Rightarrow> string \<Rightarrow> string \<Rightarrow> bool" where
  "same_disk r a b = (case (lookup_disk r a, lookup_disk r b) of
      (Some i, Some j) \<Rightarrow> i = j
    | _ \<Rightarrow> trim_space a = trim_space b)"

section \<open>Facts\<close>

lemma rs_all_resolver [simp]: "rs_all (resolver_of ds) = ds"
proof -
  have "rs_all (fold index_disk es r) = rs_all r" for es r
    by (induction es arbitrary: r) (auto simp: index_disk_def split: prod.splits)
  then show ?thesis by (simp add: resolver_of_def)
qed

lemma map_of_put_key: "map_of (put_key k i m) x = (if k \<noteq> [] \<and> x = k then Some i else map_of m x)"
  by (auto simp: put_key_def)

lemma index_at [simp]:
  "map_of (rs_name (index_disk (i, d) r)) x =
     (if x \<noteq> [] \<and> (x = di_devname d \<or> x = di_name d) then Some i else map_of (rs_name r) x)"
  "map_of (rs_serial (index_disk (i, d) r)) x =
     (if x \<noteq> [] \<and> x = di_serial d then Some i else map_of (rs_serial r) x)"
  "map_of (rs_identifier (index_disk (i, d) r)) x =
     (if x \<noteq> [] \<and> x = di_identifier d then Some i else map_of (rs_identifier r) x)"
  by (auto simp: index_disk_def map_of_put_key)

lemma same_disk_refl [simp]: "same_disk r a a"
  by (auto simp: same_disk_def split: option.splits)

lemma same_disk_sym: "same_disk r a b \<Longrightarrow> same_disk r b a"
  by (auto simp: same_disk_def split: option.splits)

text \<open>An inventory in which no form of one disk is a form of another.\<close>

definition forms :: "disk_identity \<Rightarrow> string list" where
  "forms d = filter (\<lambda>x. x \<noteq> []) [di_name d, di_devname d, di_serial d, di_identifier d]"

lemma in_forms:
  "x \<in> set (forms d) \<longleftrightarrow> x \<noteq> [] \<and> (x = di_name d \<or> x = di_devname d \<or> x = di_serial d \<or> x = di_identifier d)"
  unfolding forms_def set_filter by auto

definition unambiguous :: "disk_identity list \<Rightarrow> bool" where
  "unambiguous ds \<longleftrightarrow> (\<forall>i < length ds. \<forall>j < length ds. i \<noteq> j \<longrightarrow> set (forms (ds ! i)) \<inter> set (forms (ds ! j)) = {})"

definition holds :: "disk_resolver \<Rightarrow> string \<Rightarrow> nat \<Rightarrow> bool" where
  "holds r x i \<longleftrightarrow> map_of (rs_name r) x = Some i \<or> map_of (rs_serial r) x = Some i \<or>
     map_of (rs_identifier r) x = Some i"

lemma holds_index: "holds (index_disk (i, d) r) x j \<Longrightarrow> holds r x j \<or> (j = i \<and> x \<in> set (forms d))"
  unfolding holds_def index_at in_forms by (auto split: if_splits)

lemma fold_index_lookup:
  "holds (fold index_disk es r) x i \<Longrightarrow> holds r x i \<or> (\<exists>d. (i, d) \<in> set es \<and> x \<in> set (forms d))"
proof (induction es arbitrary: r)
  case (Cons e es)
  obtain j d where "e = (j, d)" by fastforce
  with Cons.IH [of "index_disk e r"] Cons.prems holds_index [of j d r x i] show ?case by auto
qed simp

lemma resolver_forms:
  assumes "holds (resolver_of ds) x i"
  shows "i < length ds \<and> x \<in> set (forms (ds ! i))"
  using fold_index_lookup [OF assms [unfolded resolver_of_def]]
  by (auto simp: in_set_enumerate_eq holds_def)

definition known_form :: "disk_resolver \<Rightarrow> string \<Rightarrow> bool" where
  "known_form r x \<longleftrightarrow> (\<exists>i. holds r x i)"

lemma known_index: "known_form (index_disk (i, d) r) x \<longleftrightarrow> known_form r x \<or> x \<in> set (forms d)"
  unfolding known_form_def holds_def index_at in_forms by (auto split: if_splits)

lemma fold_index_found:
  "known_form (fold index_disk es r) x \<longleftrightarrow> known_form r x \<or> (\<exists>(i, d) \<in> set es. x \<in> set (forms d))"
proof (induction es arbitrary: r)
  case (Cons e es)
  then show ?case by (cases e) (auto simp: known_index)
qed simp

lemma lookup_form:
  assumes "unambiguous ds" and "i < length ds" and "x \<in> set (forms (ds ! i))" and "trim_space x = x"
  shows "lookup_disk (resolver_of ds) x = Some i"
proof -
  let ?r = "resolver_of ds"
  have ne: "x \<noteq> []" using assms(3) by (simp add: in_forms)
  have only: "j = i" if "holds ?r x j" for j
    using resolver_forms [OF that] assms(1-3) unfolding unambiguous_def by blast
  have "(i, ds ! i) \<in> set (enumerate 0 ds)" using assms(2) by (simp add: in_set_enumerate_eq)
  then have "known_form ?r x"
    using assms(3) unfolding resolver_of_def fold_index_found by blast
  with only have "\<exists>j. holds ?r x j" "\<And>j. holds ?r x j \<Longrightarrow> j = i"
    by (auto simp: known_form_def)
  with ne assms(4) show ?thesis
    unfolding lookup_disk_def Let_def orelse_def holds_def by (auto split: option.splits)
qed

end
