(* ===== verification/Pool.thy ===== *)
theory Pool
  imports DiskIdent ZfsProps
begin

text \<open>
  The pool resource (src/internal/resources/pool): topology as the API reports it and as the model
  holds it, the reconciliation of a planned topology with the state, the refusal to
  replace a pool, and the resource's operations.
\<close>

section \<open>The answer\<close>

record unavail_disk =
  ud_serial :: string
  ud_name :: string
  ud_identifier :: string

datatype pool_disk = Pool_Disk string string "pool_disk list" "unavail_disk option"

record pool_vdev =
  pv_type :: string
  pv_children :: "pool_disk list"
  pv_disk :: string
  pv_unavail :: "unavail_disk option"

record pool_response =
  pr_id :: int
  pr_name :: string
  pr_guid :: string
  pr_status :: string
  pr_healthy :: bool
  pr_path :: string
  pr_size :: int
  pr_free :: int
  pr_allocated :: int
  pr_autotrim :: bool
  pr_data :: "pool_vdev list"
  pr_log :: "pool_vdev list"
  pr_cache :: "pool_vdev list"
  pr_spare :: "pool_vdev list"

definition decode_unavail :: "gval \<Rightarrow> unavail_disk option" where
  "decode_unavail v = do {
     m \<leftarrow> as_object v;
     s \<leftarrow> as_string (field m ''serial'');
     n \<leftarrow> as_string (field m ''name'');
     i \<leftarrow> as_string (field m ''identifier'');
     Some \<lparr>ud_serial = s, ud_name = n, ud_identifier = i\<rparr> }"

lemma field_member_size: "field m k = GArr xs \<Longrightarrow> x \<in> set xs \<Longrightarrow> size x < size (GObj m)"
proof -
  assume "field m k = GArr xs" and x: "x \<in> set xs"
  then have "(k, GArr xs) \<in> set m" by (auto simp: field_def split: option.splits dest: map_of_SomeD)
  then have "size (GArr xs) < size (GObj m)"
    by (induction m) (auto simp: size_list_conv_sum_list)
  moreover have "size x < size (GArr xs)"
    using x by (induction xs) auto
  ultimately show ?thesis by simp
qed

lemma map_opt_cong [fundef_cong]:
  "xs = ys \<Longrightarrow> (\<And>x. x \<in> set ys \<Longrightarrow> f x = g x) \<Longrightarrow> map_opt f xs = map_opt g ys"
  by (induction xs arbitrary: ys) (auto intro: arg_cong2 [where f = Option.bind])

function decode_pool_disk :: "gval \<Rightarrow> pool_disk option" where
  "decode_pool_disk v = (case v of
      GNil \<Rightarrow> Some (Pool_Disk [] [] [] None)
    | GObj m \<Rightarrow>
        (case (as_string (field m ''disk''), as_string (field m ''type''), as_ptr decode_unavail (field m ''unavail_disk'')) of
           (Some d, Some t, Some u) \<Rightarrow>
             (case field m ''children'' of
                GArr xs \<Rightarrow> (case map_opt decode_pool_disk xs of
                    Some cs \<Rightarrow> Some (Pool_Disk d t cs u) | None \<Rightarrow> None)
              | GNil \<Rightarrow> Some (Pool_Disk d t [] u)
              | _ \<Rightarrow> None)
         | _ \<Rightarrow> None)
    | _ \<Rightarrow> None)"
  by pat_completeness auto
termination
  by (relation "measure size") (auto dest: field_member_size)

declare decode_pool_disk.simps [simp del]

definition decode_vdev :: "gval \<Rightarrow> pool_vdev option" where
  "decode_vdev v = do {
     m \<leftarrow> as_object v;
     t \<leftarrow> as_string (field m ''type'');
     cs \<leftarrow> as_list decode_pool_disk (field m ''children'');
     d \<leftarrow> as_string (field m ''disk'');
     u \<leftarrow> as_ptr decode_unavail (field m ''unavail_disk'');
     Some \<lparr>pv_type = t, pv_children = cs, pv_disk = d, pv_unavail = u\<rparr> }"

text \<open>\<open>autotrimParsed\<close> reads a bool or one of four words; a missing member leaves false.\<close>

definition decode_autotrim :: "gval \<Rightarrow> bool option" where
  "decode_autotrim v = (case v of
      GBool b \<Rightarrow> Some b
    | GStr s \<Rightarrow> (let w = to_lower s in
        if w \<in> {''on'', ''true''} then Some True else if w \<in> {''off'', ''false''} then Some False else None)
    | _ \<Rightarrow> None)"

definition autotrim_member :: "gval \<Rightarrow> bool option" where
  "autotrim_member v = do {
     m \<leftarrow> as_object v;
     if has_key m ''parsed'' then decode_autotrim (field m ''parsed'') else Some False }"

definition decode_pool :: "gval \<Rightarrow> pool_response option" where
  "decode_pool v = do {
     m \<leftarrow> as_object v;
     i \<leftarrow> as_int64 (field m ''id'');
     name \<leftarrow> as_string (field m ''name'');
     guid \<leftarrow> as_string (field m ''guid'');
     status \<leftarrow> as_string (field m ''status'');
     healthy \<leftarrow> as_bool (field m ''healthy'');
     p \<leftarrow> as_string (field m ''path'');
     sz \<leftarrow> as_int64 (field m ''size'');
     fr \<leftarrow> as_int64 (field m ''free'');
     al \<leftarrow> as_int64 (field m ''allocated'');
     trim \<leftarrow> autotrim_member (field m ''autotrim'');
     topo \<leftarrow> as_object (field m ''topology'');
     data \<leftarrow> as_list decode_vdev (field topo ''data'');
     lg \<leftarrow> as_list decode_vdev (field topo ''log'');
     cache \<leftarrow> as_list decode_vdev (field topo ''cache'');
     spare \<leftarrow> as_list decode_vdev (field topo ''spare'');
     Some \<lparr>pr_id = i, pr_name = name, pr_guid = guid, pr_status = status, pr_healthy = healthy,
       pr_path = p, pr_size = sz, pr_free = fr, pr_allocated = al, pr_autotrim = trim,
       pr_data = data, pr_log = lg, pr_cache = cache, pr_spare = spare\<rparr> }"

section \<open>The model\<close>

record vdev_model =
  vm_type :: "string tf"
  vm_disks :: "string tf list tf"

record topology_model =
  tm_data :: "vdev_model list tf"
  tm_log :: "vdev_model list tf"
  tm_cache :: "string tf list tf"
  tm_spare :: "string tf list tf"

record pool_model =
  pl_id :: "int tf"
  pl_name :: "string tf"
  pl_topology :: topology_model
  pl_autotrim :: "bool tf"
  pl_dedup :: "string tf"
  pl_checksum :: "string tf"
  pl_guid :: "string tf"
  pl_status :: "string tf"
  pl_healthy :: "bool tf"
  pl_path :: "string tf"
  pl_size :: "int tf"
  pl_free :: "int tf"
  pl_allocated :: "int tf"

section \<open>Reading a topology\<close>

definition disk_name :: "string \<Rightarrow> unavail_disk option \<Rightarrow> string" where
  "disk_name disk unavail =
     (if disk \<noteq> [] then disk
      else case unavail of
          None \<Rightarrow> []
        | Some u \<Rightarrow>
            if ud_serial u \<noteq> [] then ud_serial u
            else if ud_name u \<noteq> [] then ud_name u
            else if ud_identifier u \<noteq> [] then ud_identifier u else [])"

fun child_disk :: "pool_disk \<Rightarrow> string" where
  "child_disk (Pool_Disk d t [] u) = (if d \<noteq> [] then d else disk_name d u)"
| "child_disk (Pool_Disk d t (c # cs) u) = (if d \<noteq> [] then d else child_disk c)"

definition vdev_disks :: "pool_vdev \<Rightarrow> string list" where
  "vdev_disks v =
     (if length (pv_children v) = 0 then
        (let name = disk_name (pv_disk v) (pv_unavail v) in if name \<noteq> [] then [name] else [])
      else map child_disk (pv_children v))"

definition normalize_vdev_type :: "string \<Rightarrow> string" where
  "normalize_vdev_type t = (let up = to_upper (trim_space t) in if up = ''DISK'' then ''STRIPE'' else up)"

definition vdev_type :: "pool_vdev \<Rightarrow> string" where
  "vdev_type v = normalize_vdev_type (pv_type v)"

text \<open>A flat list has one name per vdev; a vdev without a disk leaves the empty string.\<close>

definition vdev_list :: "pool_vdev list \<Rightarrow> vdev_model list tf" where
  "vdev_list vs = Known (map (\<lambda>v. \<lparr>vm_type = Known (vdev_type v), vm_disks = Known (map Known (vdev_disks v))\<rparr>) vs)"

definition flat_list :: "pool_vdev list \<Rightarrow> string tf list tf" where
  "flat_list vs = Known (map (\<lambda>v. Known (case vdev_disks v of d # _ \<Rightarrow> d | [] \<Rightarrow> [])) vs)"

definition build_topology :: "pool_response \<Rightarrow> topology_model" where
  "build_topology api =
     \<lparr>tm_data = vdev_list (pr_data api), tm_log = vdev_list (pr_log api),
      tm_cache = flat_list (pr_cache api), tm_spare = flat_list (pr_spare api)\<rparr>"

definition pool_response_to_model :: "pool_response \<Rightarrow> pool_model \<Rightarrow> pool_model" where
  "pool_response_to_model api m = m\<lparr>
     pl_id := Known (pr_id api), pl_name := Known (pr_name api), pl_guid := Known (pr_guid api),
     pl_status := Known (pr_status api), pl_healthy := Known (pr_healthy api), pl_path := Known (pr_path api),
     pl_size := Known (pr_size api), pl_free := Known (pr_free api), pl_allocated := Known (pr_allocated api),
     pl_autotrim := Known (pr_autotrim api), pl_topology := build_topology api\<rparr>"

definition pick :: "'a list tf \<Rightarrow> 'a list tf \<Rightarrow> 'a list tf" where
  "pick p a = (if is_unknown p then a else p)"

definition apply_planned_topology :: "topology_model \<Rightarrow> topology_model \<Rightarrow> topology_model" where
  "apply_planned_topology planned from_api =
     \<lparr>tm_data = pick (tm_data planned) (tm_data from_api), tm_log = pick (tm_log planned) (tm_log from_api),
      tm_cache = pick (tm_cache planned) (tm_cache from_api), tm_spare = pick (tm_spare planned) (tm_spare from_api)\<rparr>"

definition autotrim_str :: "bool \<Rightarrow> string" where
  "autotrim_str on = (if on then ''ON'' else ''OFF'')"

section \<open>Reconciling a plan with the state\<close>

text \<open>The loop over positions: a planned name takes the state's when both are the same disk.\<close>

fun reconcile_disks :: "disk_resolver \<Rightarrow> string list \<Rightarrow> string list \<Rightarrow> string list" where
  "reconcile_disks r [] ss = []"
| "reconcile_disks r (p # ps) [] = p # ps"
| "reconcile_disks r (p # ps) (s # ss) = (if same_disk r p s then s else p) # reconcile_disks r ps ss"

text \<open>One data or log vdev; \<open>None\<close>: the state has no vdev at this position.\<close>

definition reconcile_vdev :: "disk_resolver \<Rightarrow> vdev_model \<Rightarrow> vdev_model option \<Rightarrow> diagnostic + vdev_model" where
  "reconcile_vdev r p s =
     (case (case s of None \<Rightarrow> Inr [] | Some sv \<Rightarrow> elements_as (vm_disks sv)) of
        Inl d \<Rightarrow> Inl d
      | Inr state_disks \<Rightarrow>
          (let state_type = (case s of None \<Rightarrow> [] | Some sv \<Rightarrow> value_string (vm_type sv));
               ty = (if normalize_vdev_type (value_string (vm_type p)) = state_type then Known state_type else vm_type p)
           in case elements_as (vm_disks p) of
                Inl d \<Rightarrow> Inl d
              | Inr plan_disks \<Rightarrow>
                  Inr \<lparr>vm_type = ty, vm_disks = (if is_null (vm_disks p) then TfNull
                      else Known (map Known (reconcile_disks r plan_disks state_disks)))\<rparr>))"

fun reconcile_vdevs :: "disk_resolver \<Rightarrow> vdev_model list \<Rightarrow> vdev_model list \<Rightarrow> diagnostic + vdev_model list" where
  "reconcile_vdevs r [] ss = Inr []"
| "reconcile_vdevs r (p # ps) ss =
     (case reconcile_vdev r p (case ss of [] \<Rightarrow> None | s # _ \<Rightarrow> Some s) of
        Inl d \<Rightarrow> Inl d
      | Inr v \<Rightarrow> (case reconcile_vdevs r ps (drop 1 ss) of Inl d \<Rightarrow> Inl d | Inr vs \<Rightarrow> Inr (v # vs)))"

definition known_or_nil :: "'a list tf \<Rightarrow> 'a list" where
  "known_or_nil l = (case l of Known xs \<Rightarrow> xs | _ \<Rightarrow> [])"

definition reconcile_vdev_list ::
  "disk_resolver \<Rightarrow> vdev_model list tf \<Rightarrow> vdev_model list tf \<Rightarrow> diagnostic + vdev_model list tf" where
  "reconcile_vdev_list r plan st = (case plan of
      Known ps \<Rightarrow> (case reconcile_vdevs r ps (known_or_nil st) of Inl d \<Rightarrow> Inl d | Inr vs \<Rightarrow> Inr (Known vs))
    | _ \<Rightarrow> Inr plan)"

definition reconcile_disk_list ::
  "disk_resolver \<Rightarrow> string tf list tf \<Rightarrow> string tf list tf \<Rightarrow> diagnostic + string tf list tf" where
  "reconcile_disk_list r plan st = (case plan of
      Known _ \<Rightarrow>
        (case (elements_as plan, elements_as (if is_unknown st then TfNull else st)) of
           (Inr ps, Inr ss) \<Rightarrow> Inr (Known (map Known (reconcile_disks r ps ss)))
         | _ \<Rightarrow> Inl conversion_error)
    | _ \<Rightarrow> Inr plan)"

definition reconcile_plan_topology ::
  "disk_resolver \<Rightarrow> topology_model \<Rightarrow> topology_model \<Rightarrow> diagnostic + topology_model" where
  "reconcile_plan_topology r plan st =
     (case (reconcile_vdev_list r (tm_data plan) (tm_data st), reconcile_vdev_list r (tm_log plan) (tm_log st),
            reconcile_disk_list r (tm_cache plan) (tm_cache st), reconcile_disk_list r (tm_spare plan) (tm_spare st)) of
        (Inr d, Inr l, Inr c, Inr s) \<Rightarrow> Inr \<lparr>tm_data = d, tm_log = l, tm_cache = c, tm_spare = s\<rparr>
      | _ \<Rightarrow> Inl conversion_error)"

definition topology_changed :: "topology_model \<Rightarrow> topology_model \<Rightarrow> bool" where
  "topology_changed planned st \<longleftrightarrow>
     tm_data planned \<noteq> tm_data st \<or> tm_log planned \<noteq> tm_log st \<or>
     tm_cache planned \<noteq> tm_cache st \<or> tm_spare planned \<noteq> tm_spare st"

text \<open>The message of \<open>topology_diag\<close> holds an em dash, three bytes of UTF-8.\<close>

definition rename_diag :: "string \<Rightarrow> string \<Rightarrow> diagnostic" where
  "rename_diag old new = (''Pool cannot be renamed in place'',
     ''This resource's pool is named '' @ quoted old @ '' but the configuration now asks for '' @ quoted new @
     ''. Renaming a ZFS pool cannot be done without destroying and recreating it, which would '' @
     ''erase all of its data, so this provider will not do it automatically. Rename the pool '' @
     ''outside Terraform if you truly intend to, or revert the name in configuration. To '' @
     ''deliberately destroy this pool, use `terraform destroy`.'')"

definition topology_diag :: diagnostic where
  "topology_diag = (''Pool topology cannot be changed in place'',
     ''The configured pool topology differs from the pool's actual topology in a way that is not '' @
     ''a harmless disk-name difference (a real change of vdevs or member disks). Applying it '' @
     ''would require destroying and recreating the pool, erasing all of its data, so this '' @
     ''provider refuses rather than plan that.'' @ newline @ newline @
     ''If a disk failed or a spare stepped in, no configuration change is needed '' @
     [CHR 0xE2, CHR 0x80, CHR 0x94] @ '' the pool '' @
     ''reconciles automatically. To actually change the topology (grow the pool, replace a '' @
     ''disk, add/remove a cache/log/spare), do it in the TrueNAS UI or with `zpool`, then run '' @
     ''`terraform apply -refresh-only` to reconcile Terraform state. To deliberately destroy '' @
     ''and rebuild the pool, use `terraform destroy` (or `terraform apply -replace`).'')"

definition pool_refusals :: "pool_model \<Rightarrow> topology_model \<Rightarrow> pool_model \<Rightarrow> diagnostic list" where
  "pool_refusals plan new_topo st =
     (if pl_name plan \<noteq> pl_name st
      then [rename_diag (value_string (pl_name st)) (value_string (pl_name plan))] else []) @
     (if topology_changed new_topo (pl_topology st) then [topology_diag] else [])"

text \<open>\<open>ModifyPlan\<close>: the diagnostics and the plan that goes on. Without a state there is nothing to
  reconcile.\<close>

definition pool_modify_plan ::
  "'w api \<Rightarrow> bool \<Rightarrow> pool_model option \<Rightarrow> pool_model option \<Rightarrow> 'w \<Rightarrow> (diagnostic list \<times> pool_model option) \<times> 'w" where
  "pool_modify_plan a configured plan st w = (case plan of
      None \<Rightarrow> (([], None), w)
    | Some p \<Rightarrow>
        if \<not> configured then (([], Some p), w)
        else (case st of
            None \<Rightarrow> (([], Some p), w)
          | Some s \<Rightarrow>
              (case new_disk_resolver a w of ((r, _), w1) \<Rightarrow>
                (case reconcile_plan_topology r (pl_topology p) (pl_topology s) of
                   Inl d \<Rightarrow> (([d], Some p), w1)
                 | Inr t \<Rightarrow> ((pool_refusals p t s, Some (p\<lparr>pl_topology := t\<rparr>)), w1)))))"

section \<open>The payload\<close>

definition strings_val :: "string list \<Rightarrow> gval" where "strings_val xs = GArr (map GStr xs)"

definition devices :: "disk_resolver \<Rightarrow> string list \<Rightarrow> string list" where
  "devices r = map (device_for r)"

fun vdev_items :: "disk_resolver \<Rightarrow> vdev_model list \<Rightarrow> diagnostic + gval list" where
  "vdev_items r [] = Inr []"
| "vdev_items r (v # vs) = (case (elements_as (vm_disks v), vdev_items r vs) of
      (Inr ds, Inr rest) \<Rightarrow>
        Inr (GObj [(''type'', GStr (normalize_vdev_type (value_string (vm_type v)))),
                   (''disks'', strings_val (devices r ds))] # rest)
    | _ \<Rightarrow> Inl conversion_error)"

definition vdev_payload :: "disk_resolver \<Rightarrow> vdev_model list tf \<Rightarrow> diagnostic + gval list" where
  "vdev_payload r l = vdev_items r (known_or_nil l)"

definition disk_list :: "string tf list tf \<Rightarrow> diagnostic + string list" where
  "disk_list l = (if is_null l \<or> is_unknown l then Inr [] else elements_as l)"

definition pool_payload :: "disk_resolver \<Rightarrow> pool_model \<Rightarrow> diagnostic + payload" where
  "pool_payload r m =
     (let t = pl_topology m in
      case (vdev_payload r (tm_data t), vdev_payload r (tm_log t), disk_list (tm_cache t), disk_list (tm_spare t)) of
        (Inr data, Inr lg, Inr cache, Inr spare) \<Rightarrow>
          (let p = [(''name'', GStr (value_string (pl_name m))),
                 (''topology'', GObj [(''data'', GArr data), (''log'', GArr lg),
                   (''cache'', GArr (map (\<lambda>d. GObj [(''type'', GStr ''STRIPE''), (''disks'', strings_val [d])]) (devices r cache))),
                   (''spares'', strings_val (devices r spare))])];
               p = put_enum ''deduplication'' (pl_dedup m) p
           in Inr (put_enum ''checksum'' (pl_checksum m) p))
      | _ \<Rightarrow> Inl conversion_error)"

section \<open>Root dataset properties\<close>

definition local_root_string :: "string option \<Rightarrow> string \<Rightarrow> string tf" where
  "local_root_string v source = (case v of
      Some s \<Rightarrow> if source = ''LOCAL'' then Known s else TfNull
    | None \<Rightarrow> TfNull)"

definition decode_value_source :: "gval \<Rightarrow> (string option \<times> string) option" where
  "decode_value_source v = do {
     m \<leftarrow> as_object v;
     x \<leftarrow> as_ptr as_string (field m ''value'');
     s \<leftarrow> as_string (field m ''source'');
     Some (x, s) }"

definition root_props :: "gval \<Rightarrow> (string tf \<times> string tf) option" where
  "root_props v = do {
     m \<leftarrow> as_object v;
     (dv, dsrc) \<leftarrow> decode_value_source (field m ''deduplication'');
     (cv, csrc) \<leftarrow> decode_value_source (field m ''checksum'');
     Some (local_root_string dv dsrc, local_root_string cv csrc) }"

text \<open>A failure is a warning and leaves the model as it is.\<close>

definition apply_root_props ::
  "'w api \<Rightarrow> string \<Rightarrow> pool_model \<Rightarrow> 'w \<Rightarrow> (pool_model \<times> diagnostic list) \<times> 'w" where
  "apply_root_props a pool_name m w =
     (case api_read a ''pool.dataset.get_instance'' [GStr pool_name] w of
        (Inl e, w1) \<Rightarrow> ((m, [(''Could not read pool root-dataset properties'',
           ''deduplication/checksum for pool '' @ quoted pool_name @ '' could not be read: '' @ err_text e)]), w1)
      | (Inr raw, w1) \<Rightarrow> (case root_props raw of
            None \<Rightarrow> ((m, [(''Could not parse pool root-dataset properties'', err_text decode_error)]), w1)
          | Some (d, c) \<Rightarrow> ((m\<lparr>pl_dedup := d, pl_checksum := c\<rparr>, []), w1)))"

section \<open>The operations\<close>

type_synonym pool_result = "pool_model outcome \<times> diagnostic list"

definition store_pool :: "pool_model \<times> diagnostic list \<Rightarrow> pool_result" where
  "store_pool mw = (Stored (itoa (value_int64 (pl_id (fst mw)))) (fst mw), snd mw)"

definition pool_instance ::
  "'w api \<Rightarrow> int \<Rightarrow> 'w \<Rightarrow> (diagnostic + pool_response) \<times> 'w" where
  "pool_instance a i w =
     (case api_read a ''pool.get_instance'' [GInt i] w of
        (Inl e, w1) \<Rightarrow> (Inl (''Read-back after pool create failed'', err_text e), w1)
      | (Inr raw, w1) \<Rightarrow> (case decode_pool raw of
            None \<Rightarrow> (Inl (''Parse get_instance response'', err_text decode_error), w1)
          | Some api \<Rightarrow> (Inr api, w1)))"

text \<open>\<open>autotrim\<close> is set after the pool exists, and the pool read again; the second answer replaces the first.\<close>

definition pool_autotrim ::
  "'w api \<Rightarrow> pool_model \<Rightarrow> pool_response \<Rightarrow> 'w \<Rightarrow> ((diagnostic + pool_response) \<times> 'w) option" where
  "pool_autotrim a plan api w =
     (if is_set (pl_autotrim plan) then
        (case api_job a ''pool.update'' [GInt (pr_id api),
               GObj [(''autotrim'', GStr (autotrim_str (value_bool (pl_autotrim plan))))]] w of
           None \<Rightarrow> None
         | Some (Inl e, w1) \<Rightarrow> Some (Inl (''Set autotrim after pool create failed'', err_text e), w1)
         | Some (Inr _, w1) \<Rightarrow> Some (pool_instance a (pr_id api) w1))
      else Some (Inr api, w))"

definition pool_create :: "'w api \<Rightarrow> pool_model \<Rightarrow> 'w \<Rightarrow> (pool_result \<times> 'w) option" where
  "pool_create a plan w =
     (case new_disk_resolver a w of ((r, _), w1) \<Rightarrow>
       (case pool_payload r plan of
          Inl d \<Rightarrow> Some ((Failure [d], []), w1)
        | Inr p \<Rightarrow>
            (case api_job a ''pool.create'' [GObj p] w1 of
               None \<Rightarrow> None
             | Some (Inl e, w2) \<Rightarrow> Some ((fail_err ''Create pool failed'' e, []), w2)
             | Some (Inr raw, w2) \<Rightarrow>
                 (case decode_pool raw of
                    None \<Rightarrow> Some ((parse_failure ''Parse create response'', []), w2)
                  | Some api \<Rightarrow>
                      (case pool_autotrim a plan api w2 of
                         None \<Rightarrow> None
                       | Some (Inl d, w3) \<Rightarrow> Some ((Failure [d], []), w3)
                       | Some (Inr api1, w3) \<Rightarrow>
                           (let m = pool_response_to_model api1 plan;
                                m = m\<lparr>pl_topology := apply_planned_topology (pl_topology plan) (pl_topology m)\<rparr>;
                                (mw, w4) = apply_root_props a (value_string (pl_name m)) m w3
                            in Some (store_pool mw, w4)))))))"

definition pool_read :: "'w api \<Rightarrow> pool_model \<Rightarrow> 'w \<Rightarrow> pool_result \<times> 'w" where
  "pool_read a st w =
     (case api_read a ''pool.get_instance'' [GInt (value_int64 (pl_id st))] w of
        (Inl e, w1) \<Rightarrow> ((if is_not_found e then Removed else fail_err ''Read pool failed'' e, []), w1)
      | (Inr raw, w1) \<Rightarrow> (case decode_pool raw of
            None \<Rightarrow> ((parse_failure ''Parse response'', []), w1)
          | Some api \<Rightarrow>
              (case new_disk_resolver a w1 of (_, w2) \<Rightarrow>
                (let m = pool_response_to_model api st;
                     (mw, w3) = apply_root_props a (value_string (pl_name m)) m w2
                 in (store_pool mw, w3)))))"

definition pool_update :: "'w api \<Rightarrow> pool_model \<Rightarrow> 'w \<Rightarrow> (pool_model outcome \<times> 'w) option" where
  "pool_update a plan w =
     (case api_job a ''pool.update'' [GInt (value_int64 (pl_id plan)),
            GObj [(''autotrim'', GStr (autotrim_str (value_bool (pl_autotrim plan))))]] w of
        None \<Rightarrow> None
      | Some (Inl e, w1) \<Rightarrow> Some (fail_err ''Update pool failed'' e, w1)
      | Some (Inr _, w1) \<Rightarrow>
          (let root = put_enum ''checksum'' (pl_checksum plan) (put_enum ''deduplication'' (pl_dedup plan) []);
               (r, w2) = (if 0 < length root
                 then api_call a ''pool.dataset.update'' [GStr (value_string (pl_name plan)), GObj root] w1
                 else (Inr GNil, w1))
           in case r of
             Inl e \<Rightarrow> Some (fail_err ''Update pool root-dataset properties failed'' e, w2)
           | Inr _ \<Rightarrow> Some (Stored (itoa (value_int64 (pl_id plan))) plan, w2)))"

definition pool_delete :: "'w api \<Rightarrow> pool_model \<Rightarrow> 'w \<Rightarrow> (diagnostic list \<times> 'w) option" where
  "pool_delete a st w =
     map_option (\<lambda>(r, w1). (case r of
         Inl e \<Rightarrow> if is_not_found e then [] else [(''Delete pool failed'', err_text e)]
       | Inr _ \<Rightarrow> [], w1))
       (api_job a ''pool.export'' [GInt (value_int64 (pl_id st)),
          GObj [(''cascade'', GBool True), (''destroy'', GBool True)]] w)"

definition null_pool :: pool_model where
  "null_pool = \<lparr>pl_id = TfNull, pl_name = TfNull,
     pl_topology = \<lparr>tm_data = TfNull, tm_log = TfNull, tm_cache = TfNull, tm_spare = TfNull\<rparr>,
     pl_autotrim = TfNull, pl_dedup = TfNull, pl_checksum = TfNull, pl_guid = TfNull, pl_status = TfNull,
     pl_healthy = TfNull, pl_path = TfNull, pl_size = TfNull, pl_free = TfNull, pl_allocated = TfNull\<rparr>"

text \<open>What an import looks for: the query filter and the text of the error.\<close>

definition import_lookup :: "int import_req \<Rightarrow> diagnostic list + gval \<times> string" where
  "import_lookup req =
     (if ir_id req \<noteq> [] then
        (case atoi (ir_id req) of
           (i, None) \<Rightarrow> Inr (GArr [GArr [GStr ''id'', GStr ''='', GInt i]], ir_id req)
         | _ \<Rightarrow> Inr (GArr [GArr [GStr ''name'', GStr ''='', GStr (ir_id req)]], ir_id req))
      else (case import_int64 req of
          (i, []) \<Rightarrow> Inr (GArr [GArr [GStr ''id'', GStr ''='', GInt i]], itoa i)
        | (_, ds) \<Rightarrow> Inl ds))"

definition pool_import :: "'w api \<Rightarrow> int import_req \<Rightarrow> 'w \<Rightarrow> pool_result \<times> 'w" where
  "pool_import a req w = (case import_lookup req of
      Inl ds \<Rightarrow> ((Failure ds, []), w)
    | Inr (qf, lookup) \<Rightarrow>
        (case api_read a ''pool.query'' [qf] w of
           (Inl e, w1) \<Rightarrow> ((fail_err ''Import pool failed'' e, []), w1)
         | (Inr raw, w1) \<Rightarrow> (case as_list decode_pool raw of
               None \<Rightarrow> ((parse_failure ''Parse import response'', []), w1)
             | Some [] \<Rightarrow> ((Failure [(''Pool not found'',
                 ''no pool with id or name '' @ quoted lookup @ '' found on TrueNAS'')], []), w1)
             | Some (api # _) \<Rightarrow>
                 (case new_disk_resolver a w1 of (_, w2) \<Rightarrow>
                   (let m = pool_response_to_model api null_pool;
                        (mw, w3) = apply_root_props a (value_string (pl_name m)) m w2
                    in (store_pool mw, w3))))))"

definition pool_row :: "bool \<Rightarrow> gval \<Rightarrow> diagnostic list + (string \<times> string \<times> pool_model option)" where
  "pool_row include_resource raw = (case decode_pool raw of
      None \<Rightarrow> Inl [(''Parse pool row'', err_text decode_error)]
    | Some api \<Rightarrow> Inr (pr_name api, itoa (pr_id api),
        if include_resource then Some (pool_response_to_model api null_pool) else None))"

definition pool_list ::
  "'w api \<Rightarrow> 'w ops \<Rightarrow> int \<Rightarrow> bool \<Rightarrow> 'w \<Rightarrow> (diagnostic list + (string \<times> string \<times> pool_model option)) stream \<times> 'w" where
  "pool_list a os limit include_resource w =
     (case new_disk_resolver a w of (_, w1) \<Rightarrow>
       stream_collection os ''pool.query'' limit (pool_row include_resource) w1)"

text \<open>The data source differs from the resource in asking for a name and in ignoring a failure to read the
  root dataset. Its topology, an object that could be null, is here always an answer's.\<close>

definition pool_data_source :: "'w api \<Rightarrow> pool_model \<Rightarrow> 'w \<Rightarrow> (diagnostic list + pool_model) \<times> 'w" where
  "pool_data_source a cfg w =
     (let name = value_string (pl_name cfg) in
      case api_read a ''pool.query'' [GArr [GArr [GStr ''name'', GStr ''='', GStr name]]] w of
        (Inl e, w1) \<Rightarrow> (Inl [(''Read pool failed'', err_text e)], w1)
      | (Inr raw, w1) \<Rightarrow> (case as_list decode_pool raw of
            None \<Rightarrow> (Inl [(''Parse response'', err_text decode_error)], w1)
          | Some [] \<Rightarrow> (Inl [(''Pool not found'',
              ''no pool named '' @ quoted name @ '' found on TrueNAS'')], w1)
          | Some (api # _) \<Rightarrow>
              (case new_disk_resolver a w1 of (_, w2) \<Rightarrow>
                (let m = pool_response_to_model api cfg;
                     (r, w3) = api_read a ''pool.dataset.get_instance'' [GStr (value_string (pl_name m))] w2
                 in (case r of
                       Inl _ \<Rightarrow> (Inr m, w3)
                     | Inr props \<Rightarrow> (case root_props props of
                           None \<Rightarrow> (Inr m, w3)
                         | Some (d, c) \<Rightarrow> (Inr (m\<lparr>pl_dedup := d, pl_checksum := c\<rparr>), w3)))))))"

section \<open>Facts\<close>

text \<open>A topology whose values are all known, from plain lists: a vdev is its type and its disks.\<close>

type_synonym plain_vdev = "string \<times> string list"
type_synonym plain_topology = "plain_vdev list \<times> plain_vdev list \<times> string list \<times> string list"

definition known_vdevs :: "plain_vdev list \<Rightarrow> vdev_model list tf" where
  "known_vdevs vs = Known (map (\<lambda>(t, ds). \<lparr>vm_type = Known t, vm_disks = Known (map Known ds)\<rparr>) vs)"

definition known_topology :: "plain_topology \<Rightarrow> topology_model" where
  "known_topology t = (case t of (d, l, c, s) \<Rightarrow>
     \<lparr>tm_data = known_vdevs d, tm_log = known_vdevs l,
      tm_cache = Known (map Known c), tm_spare = Known (map Known s)\<rparr>)"

text \<open>What it means that a plan asks for the topology there is: the same vdevs in the same order, each
  disk named in any form that means the disk the state names.\<close>

definition same_vdev :: "disk_resolver \<Rightarrow> plain_vdev \<Rightarrow> plain_vdev \<Rightarrow> bool" where
  "same_vdev r p s \<longleftrightarrow> (fst p = fst s \<or> normalize_vdev_type (fst p) = fst s) \<and> list_all2 (same_disk r) (snd p) (snd s)"

definition same_topology :: "disk_resolver \<Rightarrow> plain_topology \<Rightarrow> plain_topology \<Rightarrow> bool" where
  "same_topology r p s = (case (p, s) of ((d, l, c, sp), (d', l', c', sp')) \<Rightarrow>
     list_all2 (same_vdev r) d d' \<and> list_all2 (same_vdev r) l l' \<and>
     list_all2 (same_disk r) c c' \<and> list_all2 (same_disk r) sp sp')"

lemma map_known_inject [simp]: "map Known xs = map Known ys \<longleftrightarrow> xs = ys"
  by (auto simp: inj_map_eq_map inj_on_def)

lemma reconcile_disks_eq: "reconcile_disks r ps ss = ss \<longleftrightarrow> list_all2 (same_disk r) ps ss"
proof (induction r ps ss rule: reconcile_disks.induct)
  case (1 r ss)
  then show ?case by auto
qed auto

definition reconciled_vdev :: "disk_resolver \<Rightarrow> plain_vdev \<Rightarrow> plain_vdev \<Rightarrow> plain_vdev" where
  "reconciled_vdev r p s = (if normalize_vdev_type (fst p) = fst s then fst s else fst p, reconcile_disks r (snd p) (snd s))"

fun reconciled_vdevs :: "disk_resolver \<Rightarrow> plain_vdev list \<Rightarrow> plain_vdev list \<Rightarrow> plain_vdev list" where
  "reconciled_vdevs r [] ss = []"
| "reconciled_vdevs r (p # ps) [] = reconciled_vdev r p ([], []) # reconciled_vdevs r ps []"
| "reconciled_vdevs r (p # ps) (s # ss) = reconciled_vdev r p s # reconciled_vdevs r ps ss"

lemma reconciled_vdev_eq: "reconciled_vdev r p s = s \<longleftrightarrow> same_vdev r p s"
  by (cases s) (auto simp: reconciled_vdev_def same_vdev_def reconcile_disks_eq)

lemma reconciled_vdevs_eq: "reconciled_vdevs r ps ss = ss \<longleftrightarrow> list_all2 (same_vdev r) ps ss"
proof (induction r ps ss rule: reconciled_vdevs.induct)
  case (1 r ss)
  then show ?case by auto
qed (auto simp: reconciled_vdev_eq)

abbreviation vdev_of :: "plain_vdev \<Rightarrow> vdev_model" where
  "vdev_of v \<equiv> \<lparr>vm_type = Known (fst v), vm_disks = Known (map Known (snd v))\<rparr>"

lemma reconcile_vdev_known: "reconcile_vdev r (vdev_of p) (Some (vdev_of s)) = Inr (vdev_of (reconciled_vdev r p s))"
  by (simp add: reconcile_vdev_def reconciled_vdev_def)

lemma reconcile_vdev_new: "reconcile_vdev r (vdev_of p) None = Inr (vdev_of (reconciled_vdev r p ([], [])))"
  by (simp add: reconcile_vdev_def reconciled_vdev_def)

lemma reconcile_vdevs_known:
  "reconcile_vdevs r (map vdev_of ps) (map vdev_of ss) = Inr (map vdev_of (reconciled_vdevs r ps ss))"
  by (induction r ps ss rule: reconciled_vdevs.induct)
    (simp_all add: reconcile_vdev_known reconcile_vdev_new)

lemma known_vdevs_eq: "known_vdevs vs = Known (map vdev_of vs)"
  by (simp add: known_vdevs_def case_prod_beta)

lemma known_vdevs_inject [simp]: "known_vdevs a = known_vdevs b \<longleftrightarrow> a = b"
proof -
  have "inj vdev_of" by (auto simp: inj_def prod_eq_iff)
  then show ?thesis by (simp add: known_vdevs_eq inj_map_eq_map)
qed

lemma known_topology_inject [simp]: "known_topology a = known_topology b \<longleftrightarrow> a = b"
  by (cases a; cases b) (auto simp: known_topology_def)

definition reconciled :: "disk_resolver \<Rightarrow> plain_topology \<Rightarrow> plain_topology \<Rightarrow> plain_topology" where
  "reconciled r p s = (case (p, s) of ((d, l, c, sp), (d', l', c', sp')) \<Rightarrow>
     (reconciled_vdevs r d d', reconciled_vdevs r l l', reconcile_disks r c c', reconcile_disks r sp sp'))"

lemma reconciled_eq: "reconciled r p s = s \<longleftrightarrow> same_topology r p s"
  by (cases p; cases s) (auto simp: reconciled_def same_topology_def reconciled_vdevs_eq reconcile_disks_eq)

lemma reconcile_known:
  "reconcile_plan_topology r (known_topology p) (known_topology s) = Inr (known_topology (reconciled r p s))"
  by (cases p; cases s)
    (simp add: reconcile_plan_topology_def known_topology_def reconciled_def known_vdevs_eq known_or_nil_def
      reconcile_vdev_list_def reconcile_vdevs_known reconcile_disk_list_def)

lemma changed_known: "topology_changed (known_topology a) (known_topology b) \<longleftrightarrow> a \<noteq> b"
proof -
  have "topology_changed x y \<longleftrightarrow> x \<noteq> y" for x y :: topology_model
    by (cases x; cases y) (auto simp: topology_changed_def)
  then show ?thesis by simp
qed

text \<open>C13. Planning over an existing pool raises no error exactly when the name is the state's and the topology is
  the same, and then the plan that goes on has the state's topology, name for name; any other plan is
  refused, a rename and a change of topology each with a diagnostic of its own.\<close>

theorem pool_plan_accepted_exactly:
  "pool_modify_plan a True (Some (p\<lparr>pl_topology := known_topology tp\<rparr>)) (Some (s\<lparr>pl_topology := known_topology ts\<rparr>)) w =
     (let ((r, _), w1) = new_disk_resolver a w in
      if pl_name p = pl_name s \<and> same_topology r tp ts
      then (([], Some (p\<lparr>pl_topology := known_topology ts\<rparr>)), w1)
      else (((if pl_name p = pl_name s then []
              else [rename_diag (value_string (pl_name s)) (value_string (pl_name p))]) @
             (if same_topology r tp ts then [] else [topology_diag]),
             Some (p\<lparr>pl_topology := known_topology (reconciled r tp ts)\<rparr>)), w1))"
  by (auto simp: pool_modify_plan_def reconcile_known pool_refusals_def changed_known reconciled_eq Let_def
      split: prod.splits)

text \<open>Reading an answer gives known values throughout.\<close>

definition read_vdevs :: "pool_vdev list \<Rightarrow> plain_vdev list" where
  "read_vdevs = map (\<lambda>v. (vdev_type v, vdev_disks v))"

definition read_flat :: "pool_vdev list \<Rightarrow> string list" where
  "read_flat = map (\<lambda>v. case vdev_disks v of d # _ \<Rightarrow> d | [] \<Rightarrow> [])"

definition read_topology :: "pool_response \<Rightarrow> plain_topology" where
  "read_topology api = (read_vdevs (pr_data api), read_vdevs (pr_log api), read_flat (pr_cache api), read_flat (pr_spare api))"

lemma build_topology_known: "build_topology api = known_topology (read_topology api)"
  by (simp add: build_topology_def known_topology_def read_topology_def vdev_list_def flat_list_def
      known_vdevs_def read_vdevs_def read_flat_def comp_def)

text \<open>A hot spare that steps in, or a replacement under way, wraps a member in a vdev whose first child is that
  member; a disk that is pulled keeps its serial in the unavailable record. Neither changes what a refresh
  stores, whichever member it is and however often it happens.\<close>

definition wrapped :: "string \<Rightarrow> pool_disk list \<Rightarrow> unavail_disk option \<Rightarrow> pool_disk \<Rightarrow> pool_disk" where
  "wrapped t others u c = Pool_Disk [] t (c # others) u"

inductive repaired :: "pool_disk \<Rightarrow> pool_disk \<Rightarrow> bool" where
  keep: "repaired c c"
| wrap: "repaired c c' \<Longrightarrow> repaired c (wrapped t others u c')"
| pulled: "ud_serial x = d \<Longrightarrow> d \<noteq> [] \<Longrightarrow> repaired (Pool_Disk d t [] u) (Pool_Disk [] t' [] (Some x))"

lemma repaired_child: "repaired c c' \<Longrightarrow> child_disk c' = child_disk c"
  by (induction rule: repaired.induct) (auto simp: wrapped_def disk_name_def)

lemma repaired_disks:
  assumes "list_all2 repaired (pv_children v) cs"
  shows "vdev_disks (v\<lparr>pv_children := cs\<rparr>) = vdev_disks v"
proof -
  have len: "length cs = length (pv_children v)" using assms by (simp add: list_all2_lengthD)
  have "map child_disk cs = map child_disk (pv_children v)"
    using assms by (induction rule: list_all2_induct) (auto simp: repaired_child)
  with len show ?thesis by (simp add: vdev_disks_def)
qed

inductive repaired_vdev :: "pool_vdev \<Rightarrow> pool_vdev \<Rightarrow> bool" where
  "list_all2 repaired (pv_children v) cs \<Longrightarrow> repaired_vdev v (v\<lparr>pv_children := cs\<rparr>)"

lemma repaired_vdevs:
  assumes "list_all2 repaired_vdev vs vs'"
  shows "read_vdevs vs' = read_vdevs vs" and "read_flat vs' = read_flat vs"
  using assms
  by (induction rule: list_all2_induct)
    (auto simp: read_vdevs_def read_flat_def vdev_type_def repaired_disks elim!: repaired_vdev.cases)


definition mirror_pool :: pool_response where
  "mirror_pool = \<lparr>pr_id = 3, pr_name = ''tank'', pr_guid = ''77'', pr_status = ''ONLINE'', pr_healthy = True,
     pr_path = ''/mnt/tank'', pr_size = 100, pr_free = 60, pr_allocated = 40, pr_autotrim = False,
     pr_data = [\<lparr>pv_type = ''MIRROR'', pv_children = [Pool_Disk ''sda'' ''DISK'' [] None, Pool_Disk ''sdb'' ''DISK'' [] None],
        pv_disk = [], pv_unavail = None\<rparr>],
     pr_log = [], pr_cache = [], pr_spare = []\<rparr>"


text \<open>In an inventory where no name stands for two disks, every non-empty form of a disk (kernel name, device
  name, serial, identifier) resolves to that disk, two names are the same disk exactly when they are
  forms of one, and what a create sends is the kernel name.\<close>

theorem disk_forms_resolve:
  assumes "unambiguous ds" and "i < length ds" and "j < length ds"
    and "x \<in> set (forms (ds ! i))" and "y \<in> set (forms (ds ! j))"
    and "trim_space x = x" and "trim_space y = y" and "di_name (ds ! i) \<noteq> []"
  shows "same_disk (resolver_of ds) x y = (i = j) \<and> device_for (resolver_of ds) x = di_name (ds ! i)"
  using lookup_form [OF assms(1,2,4,6)] lookup_form [OF assms(1,3,5,7)] assms(8)
  by (auto simp: same_disk_def device_for_def)

definition two_disks :: "disk_identity list" where
  "two_disks = [\<lparr>di_name = ''sda'', di_devname = ''sda'', di_serial = ''S1'', di_identifier = ''{serial_lunid}S1_5000c''\<rparr>,
     \<lparr>di_name = ''sdb'', di_devname = ''sdb'', di_serial = ''S2'', di_identifier = ''{serial_lunid}S2_5000d''\<rparr>]"

theorem disk_forms_resolve_witness:
  "\<not> same_disk (resolver_of two_disks) ''S1'' ''sdb'' \<and> device_for (resolver_of two_disks) ''S1'' = ''sda'' \<and>
   same_disk (resolver_of two_disks) ''{serial_lunid}S2_5000d'' ''sdb''"
proof -
  have u: "unambiguous two_disks"
    unfolding unambiguous_def forms_def two_disks_def by (auto simp: less_Suc_eq nth_Cons')
  have f: "''S1'' \<in> set (forms (two_disks ! 0))" "''sdb'' \<in> set (forms (two_disks ! 1))"
    "''{serial_lunid}S2_5000d'' \<in> set (forms (two_disks ! 1))"
    by (simp_all add: forms_def two_disks_def)
  have t: "trim_space ''S1'' = ''S1''" "trim_space ''sdb'' = ''sdb''"
    "trim_space ''{serial_lunid}S2_5000d'' = ''{serial_lunid}S2_5000d''" by code_simp+
  have n: "0 < length two_disks" "1 < length two_disks" "di_name (two_disks ! 0) = ''sda''" "di_name (two_disks ! 1) = ''sdb''"
    by (simp_all add: two_disks_def)
  from disk_forms_resolve [OF u n(1,2) f(1,2) t(1,2)] disk_forms_resolve [OF u n(2,2) f(3,2) t(3,2)] n
  show ?thesis by simp
qed

end
