(* ===== verification/User.thy ===== *)
theory User
  imports Resource
begin

text \<open>
  The user resource (src/internal/resources/user): the model of a local account, the answer it is
  read from, what a create and an update send, the checks of a plan and the operations.
\<close>

section \<open>The answer\<close>

text \<open>The group stays undecoded: it may be an object, a number or null.\<close>

record user_response =
  ur_id :: int
  ur_uid :: int
  ur_username :: string
  ur_full_name :: string
  ur_email :: "string option"
  ur_home :: string
  ur_shell :: string
  ur_locked :: bool
  ur_password_disabled :: bool
  ur_smb :: bool
  ur_webshare :: bool
  ur_ssh_password :: bool
  ur_sshpubkey :: "string option"
  ur_sudo :: "string list"
  ur_sudo_nopasswd :: "string list"
  ur_groups :: "int list"
  ur_group :: gval
  ur_builtin :: bool
  ur_immutable :: bool
  ur_local :: bool

definition decode_user :: "gval \<Rightarrow> user_response option" where
  "decode_user v = do {
     m \<leftarrow> as_object v;
     i \<leftarrow> as_int64 (field m ''id'');
     uid \<leftarrow> as_int64 (field m ''uid'');
     name \<leftarrow> as_string (field m ''username'');
     full \<leftarrow> as_string (field m ''full_name'');
     email \<leftarrow> as_ptr as_string (field m ''email'');
     home \<leftarrow> as_string (field m ''home'');
     shell \<leftarrow> as_string (field m ''shell'');
     locked \<leftarrow> as_bool (field m ''locked'');
     nopw \<leftarrow> as_bool (field m ''password_disabled'');
     smb \<leftarrow> as_bool (field m ''smb'');
     web \<leftarrow> as_bool (field m ''webshare'');
     sshpw \<leftarrow> as_bool (field m ''ssh_password_enabled'');
     pubkey \<leftarrow> as_ptr as_string (field m ''sshpubkey'');
     sudo \<leftarrow> as_list as_string (field m ''sudo_commands'');
     sudonp \<leftarrow> as_list as_string (field m ''sudo_commands_nopasswd'');
     groups \<leftarrow> as_list as_int64 (field m ''groups'');
     builtin \<leftarrow> as_bool (field m ''builtin'');
     immutable \<leftarrow> as_bool (field m ''immutable'');
     loc \<leftarrow> as_bool (field m ''local'');
     Some \<lparr>ur_id = i, ur_uid = uid, ur_username = name, ur_full_name = full, ur_email = email, ur_home = home,
       ur_shell = shell, ur_locked = locked, ur_password_disabled = nopw, ur_smb = smb, ur_webshare = web,
       ur_ssh_password = sshpw, ur_sshpubkey = pubkey, ur_sudo = sudo, ur_sudo_nopasswd = sudonp,
       ur_groups = groups, ur_group = field m ''group'', ur_builtin = builtin, ur_immutable = immutable,
       ur_local = loc\<rparr> }"

text \<open>(id, ok) or an error; the error quotes the raw text of the field, which a decoded value does not keep.\<close>

definition decode_group_field :: "gval \<Rightarrow> go_error + int \<times> bool" where
  "decode_group_field v = (case v of
      GNil \<Rightarrow> Inr (0, False)
    | GObj m \<Rightarrow>
        (case field m ''id'' of
           GNil \<Rightarrow> Inr (0, False)
         | x \<Rightarrow> (case as_int64 x of
               Some i \<Rightarrow> Inr (i, True)
             | None \<Rightarrow> Inl (errorf ''cannot decode group.id field as integer'')))
    | _ \<Rightarrow> (case as_int64 v of
          Some i \<Rightarrow> Inr (i, True)
        | None \<Rightarrow> Inl (errorf ''cannot decode group field as object with id, bare integer, or null'')))"

definition primary_group_name :: "gval \<Rightarrow> string" where
  "primary_group_name v = (case do { m \<leftarrow> as_object v; as_string (field m ''bsdgrp_group'') } of
      None \<Rightarrow> [] | Some n \<Rightarrow> n)"

text \<open>The full object when it has an id, else a bare number.\<close>

definition decode_create_result :: "(gval \<Rightarrow> 'r option) \<Rightarrow> ('r \<Rightarrow> int) \<Rightarrow> string \<Rightarrow> gval \<Rightarrow> go_error + 'r + int" where
  "decode_create_result decode ident what raw =
     (case (case decode raw of Some api \<Rightarrow> if ident api \<noteq> 0 then Some api else None | None \<Rightarrow> None) of
        Some api \<Rightarrow> Inr (Inl api)
      | None \<Rightarrow> (case as_int64 raw of
            Some i \<Rightarrow> Inr (Inr i)
          | None \<Rightarrow> Inl (errorf (''unable to decode '' @ what @ '' result''))))"

section \<open>The model\<close>

text \<open>The attributes of the data source, which the resource has too.\<close>

record user_model =
  us_id :: "int tf"
  us_uid :: "int tf"
  us_username :: "string tf"
  us_full_name :: "string tf"
  us_email :: "string tf"
  us_home :: "string tf"
  us_shell :: "string tf"
  us_locked :: "bool tf"
  us_password_disabled :: "bool tf"
  us_smb :: "bool tf"
  us_webshare :: "bool tf"
  us_ssh_password :: "bool tf"
  us_sshpubkey :: "string tf"
  us_sudo :: "string tf list tf"
  us_sudo_nopasswd :: "string tf list tf"
  us_groups :: "int tf list tf"
  us_group :: "int tf"
  us_builtin :: "bool tf"
  us_immutable :: "bool tf"
  us_local :: "bool tf"

record user_resource = user_model +
  us_home_mode :: "string tf"
  us_group_create :: "bool tf"
  us_password :: "string tf"
  us_password_wo_version :: "int tf"

text \<open>The groups that are kept: those asked for that the server has, in the order asked for; all of the
  server's when nothing is asked for.\<close>

definition kept_groups :: "int list \<Rightarrow> int tf list tf \<Rightarrow> diagnostic list \<times> int list" where
  "kept_groups server desired =
     (if is_set desired
      then (case elements_as desired of
          Inl d \<Rightarrow> ([d], [])
        | Inr ds \<Rightarrow> ([], filter (\<lambda>g. g \<in> set server) ds))
      else ([], server))"

definition user_to_data_source ::
  "user_response \<Rightarrow> 'x user_model_scheme \<Rightarrow> diagnostic list \<times> 'x user_model_scheme" where
  "user_to_data_source api m =
     (case kept_groups (ur_groups api) (us_groups m) of (ds, gs) \<Rightarrow>
      let m1 = m\<lparr>us_id := Known (ur_id api), us_uid := Known (ur_uid api), us_username := Known (ur_username api),
            us_full_name := Known (ur_full_name api),
            us_email := Known (case ur_email api of Some e \<Rightarrow> e | None \<Rightarrow> []),
            us_home := Known (ur_home api), us_shell := Known (ur_shell api), us_locked := Known (ur_locked api),
            us_password_disabled := Known (ur_password_disabled api), us_smb := Known (ur_smb api),
            us_webshare := Known (ur_webshare api), us_ssh_password := Known (ur_ssh_password api),
            us_sshpubkey := Known (case ur_sshpubkey api of Some k \<Rightarrow> k | None \<Rightarrow> []),
            us_sudo := known_list (ur_sudo api), us_sudo_nopasswd := known_list (ur_sudo_nopasswd api),
            us_groups := known_list gs, us_builtin := Known (ur_builtin api),
            us_immutable := Known (ur_immutable api), us_local := Known (ur_local api)\<rparr>
      in case decode_group_field (ur_group api) of
           Inl e \<Rightarrow> (ds @ [(''Parse group field'', err_text e)], m1)
         | Inr (i, True) \<Rightarrow> (ds, m1\<lparr>us_group := Known i\<rparr>)
         | Inr (_, False) \<Rightarrow> (ds, m1\<lparr>us_group := TfNull\<rparr>))"

text \<open>The resource keeps what the server does not report, and derives \<open>group_create\<close> where it has none.\<close>

definition user_to_model :: "user_response \<Rightarrow> 'x user_resource_scheme \<Rightarrow> diagnostic list \<times> 'x user_resource_scheme" where
  "user_to_model api m =
     (case user_to_data_source api m of (ds, m1) \<Rightarrow>
      let m2 = (if is_null (us_group_create m1) \<or> is_unknown (us_group_create m1)
                then m1\<lparr>us_group_create := Known (primary_group_name (ur_group api) = ur_username api)\<rparr> else m1)
      in (ds, if is_unknown (us_home_mode m2) then m2\<lparr>us_home_mode := TfNull\<rparr> else m2))"

section \<open>What is sent\<close>

definition optional_user_fields :: "'x user_resource_scheme \<Rightarrow> attrs" where
  "optional_user_fields m =
     [(''full_name'', str_attr (us_full_name m)), (''email'', str_attr (us_email m)), (''home'', str_attr (us_home m)),
      (''shell'', str_attr (us_shell m)), (''locked'', bool_attr (us_locked m)),
      (''password_disabled'', bool_attr (us_password_disabled m)), (''smb'', bool_attr (us_smb m)),
      (''webshare'', bool_attr (us_webshare m)), (''ssh_password_enabled'', bool_attr (us_ssh_password m)),
      (''sshpubkey'', str_attr (us_sshpubkey m)), (''sudo_commands'', list_attr GStr (us_sudo m)),
      (''sudo_commands_nopasswd'', list_attr GStr (us_sudo_nopasswd m)), (''groups'', list_attr GInt (us_groups m)),
      (''group'', int_attr (us_group m))]"

definition null_if_empty :: "string \<Rightarrow> gval" where
  "null_if_empty s = (if s \<noteq> [] then GStr s else GNil)"

definition user_base_payload :: "'x user_resource_scheme \<Rightarrow> diagnostic + payload" where
  "user_base_payload m =
     (case (set_elements (us_sudo m), set_elements (us_sudo_nopasswd m), set_elements (us_groups m)) of
        (Inr sudo, Inr sudonp, Inr groups) \<Rightarrow>
          (let p = [(''full_name'', GStr (value_string (us_full_name m))),
                 (''email'', null_if_empty (value_string (us_email m))),
                 (''home'', GStr (value_string (us_home m))),
                 (''shell'', GStr (value_string (us_shell m))),
                 (''locked'', GBool (value_bool (us_locked m))),
                 (''password_disabled'', GBool (value_bool (us_password_disabled m))),
                 (''smb'', GBool (value_bool (us_smb m))),
                 (''webshare'', GBool (value_bool (us_webshare m))),
                 (''ssh_password_enabled'', GBool (value_bool (us_ssh_password m))),
                 (''sshpubkey'', null_if_empty (value_string (us_sshpubkey m))),
                 (''sudo_commands'', GArr (map GStr sudo)),
                 (''sudo_commands_nopasswd'', GArr (map GStr sudonp)),
                 (''groups'', GArr (map GInt groups))];
               p = put_int64 ''group'' (us_group m) p;
               p = put_str ''password'' (us_password m) p
           in Inr (put_when (is_set (us_home_mode m) \<and> value_string (us_home_mode m) \<noteq> []) ''home_mode''
                     (GStr (value_string (us_home_mode m))) p))
      | _ \<Rightarrow> Inl conversion_error)"

definition user_create_payload :: "'x user_resource_scheme \<Rightarrow> diagnostic + payload" where
  "user_create_payload m =
     map_sum id (\<lambda>p.
       let p = drop_unset (optional_user_fields m) p;
           p = put_int64 ''uid'' (us_uid m) p;
           p = put ''username'' (GStr (value_string (us_username m))) p
       in put_bool ''group_create'' (us_group_create m) p) (user_base_payload m)"

definition user_update_payload :: "'x user_resource_scheme \<Rightarrow> 'y user_resource_scheme \<Rightarrow> diagnostic + payload" where
  "user_update_payload m prior =
     map_sum id (\<lambda>p.
       let p = drop_unchanged (optional_user_fields m) (optional_user_fields prior) p
       in if us_home_mode m = us_home_mode prior then del ''home_mode'' p else p) (user_base_payload m)"

definition password_resend_needed :: "'x user_resource_scheme \<Rightarrow> 'y user_resource_scheme \<Rightarrow> bool" where
  "password_resend_needed plan prior \<longleftrightarrow>
     us_password_wo_version plan \<noteq> us_password_wo_version prior \<or>
     (value_bool (us_smb plan) \<and> \<not> value_bool (us_smb prior))"

definition gate_versioned_fields :: "'w api \<Rightarrow> payload \<Rightarrow> 'w \<Rightarrow> payload \<times> 'w" where
  "gate_versioned_fields a p w = (case api_at_least a 26 0 w of
      (Inr False, w1) \<Rightarrow> (del ''webshare'' p, w1)
    | (_, w1) \<Rightarrow> (p, w1))"

section \<open>Checks of a plan\<close>

definition webshare_diag :: diagnostic where
  "webshare_diag = (''webshare requires TrueNAS 26.0 or later'',
     ''The user webshare field does not exist on this TrueNAS release. Remove the attribute (or set it to false) or upgrade the server.'')"

definition password_diag :: diagnostic where
  "password_diag = (''A new user needs a password or password_disabled = true'',
     ''TrueNAS requires one of the two when a user is created. Set password (write-only, Terraform >= 1.11) or password_disabled = true.'')"

definition group_create_warning :: diagnostic where
  "group_create_warning = (''group_create only applies when the user is created'',
     ''Changing group_create on an existing user does not change its primary group; the new value is only recorded in state. Set 'group' to change the primary group.'')"

record user_plan_result =
  upr_errors :: "diagnostic list"
  upr_warnings :: "diagnostic list"
  upr_group_create :: "bool tf"

text \<open>The checks of a create; the group of a user who names none is created with it.\<close>

definition user_create_checks :: "'x user_resource_scheme \<Rightarrow> 'y user_resource_scheme \<Rightarrow> user_plan_result" where
  "user_create_checks cfg plan =
     \<lparr>upr_errors = (if is_null (us_password cfg) \<and>
          (is_null (us_password_disabled cfg) \<or>
           (\<not> is_unknown (us_password_disabled cfg) \<and> \<not> value_bool (us_password_disabled cfg)))
        then [password_diag] else []),
      upr_warnings = [],
      upr_group_create = (if is_null (us_group cfg) \<and> is_null (us_group_create cfg) then Known True
        else us_group_create plan)\<rparr>"

definition user_update_checks :: "'x user_resource_scheme \<Rightarrow> 'y user_resource_scheme \<Rightarrow> user_plan_result" where
  "user_update_checks st plan =
     \<lparr>upr_errors = [],
      upr_warnings = (if \<not> is_null (us_group_create st) \<and> \<not> is_null (us_group_create plan) \<and>
          \<not> is_unknown (us_group_create plan) \<and> us_group_create st \<noteq> us_group_create plan
        then [group_create_warning] else []),
      upr_group_create = us_group_create plan\<rparr>"

text \<open>\<open>ModifyPlan\<close> of a plan that is no destroy; an error of the first check ends it.\<close>

definition user_modify_plan ::
  "'w api \<Rightarrow> bool \<Rightarrow> user_resource \<Rightarrow> user_resource \<Rightarrow> user_resource option \<Rightarrow> 'w \<Rightarrow> user_plan_result \<times> 'w" where
  "user_modify_plan a configured cfg plan st w =
     (let (old, w1) = (if configured \<and> is_set (us_webshare cfg) \<and> value_bool (us_webshare cfg)
            then (case api_at_least a 26 0 w of (v, w2) \<Rightarrow> (v = Inr False, w2)) else (False, w))
      in if old then (\<lparr>upr_errors = [webshare_diag], upr_warnings = [], upr_group_create = us_group_create plan\<rparr>, w1)
         else (case st of None \<Rightarrow> user_create_checks cfg plan | Some s \<Rightarrow> user_update_checks s plan, w1))"

section \<open>The operations\<close>

definition store_user :: "user_response \<Rightarrow> user_resource \<Rightarrow> user_resource outcome" where
  "store_user api m = (case user_to_model api m of (ds, m1) \<Rightarrow>
     if ds \<noteq> [] then Failure ds else Stored (itoa (value_int64 (us_id m1))) m1)"

definition user_instance :: "'w api \<Rightarrow> int \<Rightarrow> string \<Rightarrow> string \<Rightarrow> 'w \<Rightarrow> (diagnostic list + user_response) \<times> 'w" where
  "user_instance a i read_err parse_err w =
     (case api_read a ''user.get_instance'' [GInt i] w of
        (Inl e, w1) \<Rightarrow> (Inl [(read_err, err_text e)], w1)
      | (Inr raw, w1) \<Rightarrow> (case decode_user raw of
            None \<Rightarrow> (Inl [(parse_err, err_text decode_error)], w1)
          | Some api \<Rightarrow> (Inr api, w1)))"

definition user_create :: "'w api \<Rightarrow> user_resource \<Rightarrow> user_resource \<Rightarrow> 'w \<Rightarrow> user_resource outcome \<times> 'w" where
  "user_create a plan0 cfg w =
     (let plan = plan0\<lparr>us_password := us_password cfg\<rparr> in
      case user_create_payload plan of
        Inl d \<Rightarrow> (Failure [d], w)
      | Inr p0 \<Rightarrow>
          (case gate_versioned_fields a p0 w of (p, w) \<Rightarrow>
           case api_call a ''user.create'' [GObj p] w of
             (Inl e, w) \<Rightarrow> (fail_err ''Create user failed'' e, w)
           | (Inr raw, w) \<Rightarrow>
               (case decode_create_result decode_user ur_id ''user.create'' raw of
                  Inl e \<Rightarrow> (fail_err ''Parse create response'' e, w)
                | Inr (Inl api) \<Rightarrow> (store_user api plan, w)
                | Inr (Inr i) \<Rightarrow>
                    (case user_instance a i ''Read-back after create failed'' ''Parse get_instance response'' w of
                       (Inl ds, w) \<Rightarrow> (Failure ds, w)
                     | (Inr api, w) \<Rightarrow> (store_user api plan, w)))))"

definition user_read :: "'w api \<Rightarrow> user_resource \<Rightarrow> 'w \<Rightarrow> user_resource outcome \<times> 'w" where
  "user_read a st w =
     (case api_read a ''user.get_instance'' [GInt (value_int64 (us_id st))] w of
        (Inl e, w1) \<Rightarrow> (if is_not_found e then Removed else fail_err ''Read user failed'' e, w1)
      | (Inr raw, w1) \<Rightarrow> (case decode_user raw of
            None \<Rightarrow> (parse_failure ''Parse response'', w1)
          | Some api \<Rightarrow> (store_user api st, w1)))"

text \<open>The plan an update works with: it has the state's id, and the password where it has to be sent.\<close>

definition with_password :: "user_resource \<Rightarrow> user_resource \<Rightarrow> user_resource \<Rightarrow> user_resource" where
  "with_password plan0 cfg st =
     (let plan = plan0\<lparr>us_id := us_id st\<rparr>
      in if password_resend_needed plan st then plan\<lparr>us_password := us_password cfg\<rparr> else plan)"

definition user_update ::
  "'w api \<Rightarrow> user_resource \<Rightarrow> user_resource \<Rightarrow> user_resource \<Rightarrow> 'w \<Rightarrow> user_resource outcome \<times> 'w" where
  "user_update a plan0 cfg st w =
     (let plan = with_password plan0 cfg st;
          i = value_int64 (us_id plan)
      in case user_update_payload plan st of
        Inl d \<Rightarrow> (Failure [d], w)
      | Inr p0 \<Rightarrow>
          (case gate_versioned_fields a p0 w of (p, w) \<Rightarrow>
           case api_call a ''user.update'' [GInt i, GObj p] w of
             (Inl e, w) \<Rightarrow> (fail_err ''Update user failed'' e, w)
           | (Inr _, w) \<Rightarrow>
               (case user_instance a i ''Read-back after update failed'' ''Parse get_instance response'' w of
                  (Inl ds, w) \<Rightarrow> (Failure ds, w)
                | (Inr api, w) \<Rightarrow> (store_user api plan, w))))"

definition user_delete :: "'w api \<Rightarrow> user_resource \<Rightarrow> 'w \<Rightarrow> diagnostic list \<times> 'w" where
  "user_delete a st w = (case api_call a ''user.delete'' [GInt (value_int64 (us_id st))] w of
      (Inl e, w1) \<Rightarrow> (if is_not_found e then [] else [(''Delete user failed'', err_text e)], w1)
    | (Inr _, w1) \<Rightarrow> ([], w1))"

section \<open>Import, data source and list\<close>

text \<open>Printing in base 8, as \<open>strconv.FormatInt\<close> does.\<close>

fun oct_digits :: "nat \<Rightarrow> string" where
  "oct_digits n = (if n < 8 then [digit_char n] else oct_digits (n div 8) @ [digit_char (n mod 8)])"

declare oct_digits.simps [simp del]

definition decode_row_id :: "gval \<Rightarrow> int option" where
  "decode_row_id v = do { m \<leftarrow> as_object v; as_int64 (field m ''id'') }"

definition select_id :: gval where
  "select_id = GObj [(''select'', GArr [GStr ''id''])]"

text \<open>The group that the server adds to every SMB user is taken out of an import.\<close>

definition drop_builtin_users :: "'w api \<Rightarrow> user_response \<Rightarrow> 'x user_resource_scheme \<Rightarrow> 'w \<Rightarrow>
     (diagnostic list + 'x user_resource_scheme) \<times> 'w" where
  "drop_builtin_users a api m w =
     (if ur_smb api \<and> 0 < length (ur_groups api) then
        (case api_read a ''group.query'' [GArr [GArr [GStr ''group'', GStr ''='', GStr ''builtin_users''],
               GArr [GStr ''local'', GStr ''='', GBool True]], select_id] w of
           (Inl e, w1) \<Rightarrow> (Inl [(''Look up builtin_users group failed'', err_text e)], w1)
         | (Inr raw, w1) \<Rightarrow> (case as_list decode_row_id raw of
               None \<Rightarrow> (Inl [(''Parse group.query response'', err_text decode_error)], w1)
             | Some [b] \<Rightarrow> (Inr (m\<lparr>us_groups := known_list (filter (\<lambda>g. g \<noteq> b) (ur_groups api))\<rparr>), w1)
             | Some _ \<Rightarrow> (Inr m, w1)))
      else (Inr m, w))"

definition home_mode_warning :: "string \<Rightarrow> go_error \<Rightarrow> diagnostic" where
  "home_mode_warning home e = (''Could not read home directory mode'',
     ''filesystem.stat '' @ home @ '' failed, so home_mode is left unset in state: '' @ err_text e)"

definition import_adjust :: "'w api \<Rightarrow> user_response \<Rightarrow> 'x user_resource_scheme \<Rightarrow> 'w \<Rightarrow>
     (diagnostic list + 'x user_resource_scheme \<times> diagnostic list) \<times> 'w" where
  "import_adjust a api m0 w = (case drop_builtin_users a api m0 w of
      (Inl ds, w1) \<Rightarrow> (Inl ds, w1)
    | (Inr m, w1) \<Rightarrow>
        if has_prefix (ur_home api) ''/mnt/'' then
          (case api_read a ''filesystem.stat'' [GStr (ur_home api)] w1 of
             (Inl e, w2) \<Rightarrow> (Inr (m, [home_mode_warning (ur_home api) e]), w2)
           | (Inr raw, w2) \<Rightarrow> (case do { o1 \<leftarrow> as_object raw; as_int64 (field o1 ''mode'') } of
                 None \<Rightarrow> (Inl [(''Parse filesystem.stat response'', err_text decode_error)], w2)
               | Some md \<Rightarrow> (Inr (m\<lparr>us_home_mode := Known (oct_digits (nat (md mod 512)))\<rparr>, []), w2)))
        else (Inr (m, []), w1))"

definition null_user :: user_resource where
  "null_user = \<lparr>us_id = TfNull, us_uid = TfNull, us_username = TfNull, us_full_name = TfNull, us_email = TfNull,
     us_home = TfNull, us_shell = TfNull, us_locked = TfNull, us_password_disabled = TfNull, us_smb = TfNull,
     us_webshare = TfNull, us_ssh_password = TfNull, us_sshpubkey = TfNull, us_sudo = TfNull,
     us_sudo_nopasswd = TfNull, us_groups = TfNull, us_group = TfNull, us_builtin = TfNull,
     us_immutable = TfNull, us_local = TfNull, us_home_mode = TfNull, us_group_create = TfNull,
     us_password = TfNull, us_password_wo_version = TfNull\<rparr>"

definition user_import :: "'w api \<Rightarrow> int import_req \<Rightarrow> 'w \<Rightarrow> (user_resource outcome \<times> diagnostic list) \<times> 'w" where
  "user_import a req w = (case import_int64 req of (i, diags) \<Rightarrow>
     if diags \<noteq> [] then ((Failure diags, []), w)
     else (case user_instance a i ''Import user failed'' ''Parse import response'' w of
         (Inl ds, w) \<Rightarrow> ((Failure ds, []), w)
       | (Inr api, w) \<Rightarrow> (case user_to_model api null_user of (ds, m) \<Rightarrow>
           if ds \<noteq> [] then ((Failure ds, []), w)
           else (case import_adjust a api m w of
               (Inl ds, w) \<Rightarrow> ((Failure ds, []), w)
             | (Inr (m, warns), w) \<Rightarrow> ((Stored (itoa i) m, warns), w)))))"

definition user_data_source :: "'w api \<Rightarrow> user_model \<Rightarrow> 'w \<Rightarrow> (diagnostic list + user_model) \<times> 'w" where
  "user_data_source a cfg w =
     (case api_read a ''user.query'' [GArr [GArr [GStr ''username'', GStr ''='', GStr (value_string (us_username cfg))]]] w of
        (Inl e, w1) \<Rightarrow> (Inl [(''Query users failed'', err_text e)], w1)
      | (Inr raw, w1) \<Rightarrow> (case as_list decode_user raw of
            None \<Rightarrow> (Inl [(''Parse query response'', err_text decode_error)], w1)
          | Some [] \<Rightarrow> (Inl [(''User not found'',
              ''No user named '' @ quoted (value_string (us_username cfg)) @ '' was found.'')], w1)
          | Some (api # _) \<Rightarrow> (case user_to_data_source api cfg of (ds, m) \<Rightarrow>
              if ds \<noteq> [] then (Inl ds, w1) else (Inr m, w1))))"

text \<open>A row that parses has its name and identity even when its group does not.\<close>

definition user_row :: "bool \<Rightarrow> gval \<Rightarrow> diagnostic list \<times> (string \<times> string \<times> user_resource option) option" where
  "user_row include_resource raw = (case decode_user raw of
      None \<Rightarrow> ([(''Parse user row'', err_text decode_error)], None)
    | Some api \<Rightarrow>
        if include_resource then (case user_to_model api null_user of (ds, m) \<Rightarrow>
          (ds, Some (ur_username api, itoa (ur_id api), Some m)))
        else ([], Some (ur_username api, itoa (ur_id api), None)))"

definition user_list ::
  "'w ops \<Rightarrow> int \<Rightarrow> bool \<Rightarrow> 'w \<Rightarrow> (diagnostic list \<times> (string \<times> string \<times> user_resource option) option) stream \<times> 'w" where
  "user_list os limit include_resource = stream_collection os ''user.query'' limit (user_row include_resource)"

section \<open>Facts\<close>

lemma wf_optional_user_fields [simp]: "wf_map (optional_user_fields m)"
  by (simp add: optional_user_fields_def wf_map_def)

text \<open>The value an attribute is sent as: an empty e-mail address or key is sent as null.\<close>

definition user_sent :: "string \<Rightarrow> gval tf \<Rightarrow> gval" where
  "user_sent k v = (case v of
      Known g \<Rightarrow> if (k = ''email'' \<or> k = ''sshpubkey'') \<and> g = GStr [] then GNil else g
    | _ \<Rightarrow> GNil)"

definition user_secret_fields :: "'x user_resource_scheme \<Rightarrow> payload" where
  "user_secret_fields m = put_when (is_set (us_home_mode m) \<and> value_string (us_home_mode m) \<noteq> []) ''home_mode''
     (GStr (value_string (us_home_mode m))) (put_str ''password'' (us_password m) [])"

lemma known_sent:
  "is_set s \<Longrightarrow> user_sent k (str_attr s) = (if k = ''email'' \<or> k = ''sshpubkey'' then null_if_empty (value_string s) else GStr (value_string s))"
  "is_set b \<Longrightarrow> user_sent k (bool_attr b) = GBool (value_bool b)"
  "is_set i \<Longrightarrow> user_sent k (int_attr i) = GInt (value_int64 i)"
  by (auto simp: is_set_iff user_sent_def null_if_empty_def)

lemma list_sent:
  "is_set l \<Longrightarrow> set_elements l = Inr xs \<Longrightarrow> user_sent k (list_attr f l) = GArr (map f xs)"
  by (auto simp: set_elements_Inr user_sent_def)

lemma base_payload_lists:
  assumes "user_base_payload m = Inr p"
  obtains sudo sudonp groups where "set_elements (us_sudo m) = Inr sudo" "set_elements (us_sudo_nopasswd m) = Inr sudonp"
    "set_elements (us_groups m) = Inr groups"
  using assms by (auto simp: user_base_payload_def split: sum.splits)

text \<open>A payload holds every set attribute as it is sent, and the two write-only ones.\<close>

lemma base_payload_set:
  assumes "user_base_payload m = Inr p" and "map_of (optional_user_fields m) k = Some v" and "is_set v"
  shows "map_of p k = Some (user_sent k v)"
proof -
  from assms(1) obtain sudo sudonp groups where l: "set_elements (us_sudo m) = Inr sudo"
    "set_elements (us_sudo_nopasswd m) = Inr sudonp" "set_elements (us_groups m) = Inr groups"
    by (rule base_payload_lists)
  note p = assms(1) [unfolded user_base_payload_def l, simplified, symmetric]
  from assms(2) have "(k, v) \<in> set (optional_user_fields m)" by (rule map_of_SomeD)
  with assms(3) l show ?thesis
    unfolding optional_user_fields_def p list.set insert_iff empty_iff prod.inject
    by (elim disjE) (simp_all add: Let_def payload_simps known_sent list_sent)
qed

lemma base_payload_other:
  assumes "user_base_payload m = Inr p" and "map_of (optional_user_fields m) k = None"
  shows "map_of p k = map_of (user_secret_fields m) k"
proof -
  from assms(1) obtain sudo sudonp groups where l: "set_elements (us_sudo m) = Inr sudo"
    "set_elements (us_sudo_nopasswd m) = Inr sudonp" "set_elements (us_groups m) = Inr groups"
    by (rule base_payload_lists)
  note p = assms(1) [unfolded user_base_payload_def l, simplified, symmetric]
  from assms(2) show ?thesis
    unfolding map_of_eq_None_iff optional_user_fields_def p user_secret_fields_def
    by (simp add: Let_def payload_simps)
qed

lemma base_payload_ok: "(\<exists>p. user_base_payload m = Inr p) \<longleftrightarrow>
    (\<exists>a b c. set_elements (us_sudo m) = Inr a \<and> set_elements (us_sudo_nopasswd m) = Inr b \<and> set_elements (us_groups m) = Inr c)"
  by (auto simp: user_base_payload_def Let_def split: sum.splits)

lemma secret_fields_at:
  "map_of (user_secret_fields m) k =
     (if k = ''home_mode'' \<and> is_set (us_home_mode m) \<and> value_string (us_home_mode m) \<noteq> [] then Some (GStr (value_string (us_home_mode m)))
      else if k = ''password'' \<and> is_set (us_password m) then Some (GStr (value_string (us_password m))) else None)"
  by (simp add: user_secret_fields_def payload_simps)

lemma update_payload_at:
  assumes "user_update_payload m st = Inr p"
  shows "map_of p k = (case map_of (optional_user_fields m) k of
       Some v \<Rightarrow> if is_set v \<and> map_of (optional_user_fields st) k \<noteq> Some v then Some (user_sent k v) else None
     | None \<Rightarrow> if k = ''home_mode'' \<and> us_home_mode m = us_home_mode st then None else map_of (user_secret_fields m) k)"
proof -
  from assms obtain p0 where b: "user_base_payload m = Inr p0"
    and p: "p = (let q = drop_unchanged (optional_user_fields m) (optional_user_fields st) p0
       in if us_home_mode m = us_home_mode st then del ''home_mode'' q else q)"
    by (cases "user_base_payload m") (auto simp: user_update_payload_def)
  have h: "map_of (optional_user_fields m) ''home_mode'' = None" by (simp add: optional_user_fields_def)
  show ?thesis
    by (cases "map_of (optional_user_fields m) k")
      (auto simp: p Let_def map_of_drop_unchanged base_payload_other [OF b] base_payload_set [OF b] h)
qed

text \<open>C15. Exactly what an update sends: every set attribute whose value is not the state's, with its value, and no
  other. A list left to the server is never sent, an empty list that was configured is; the password
  goes along when the update was given one, the home directory's mode when it changed. It fails only on
  a list with a null or unknown element.\<close>

theorem user_update_exact:
  "case user_update_payload m st of
     Inl d \<Rightarrow> \<not> (\<exists>a b c. set_elements (us_sudo m) = Inr a \<and> set_elements (us_sudo_nopasswd m) = Inr b \<and> set_elements (us_groups m) = Inr c)
   | Inr p \<Rightarrow> map_of p = (\<lambda>k. case map_of (optional_user_fields m) k of
       Some v \<Rightarrow> if is_set v \<and> map_of (optional_user_fields st) k \<noteq> Some v then Some (user_sent k v) else None
     | None \<Rightarrow>
         if k = ''home_mode'' \<and> is_set (us_home_mode m) \<and> value_string (us_home_mode m) \<noteq> [] \<and> us_home_mode m \<noteq> us_home_mode st
         then Some (GStr (value_string (us_home_mode m)))
         else if k = ''password'' \<and> is_set (us_password m) then Some (GStr (value_string (us_password m))) else None)"
proof (cases "user_update_payload m st")
  case (Inl d)
  then have "\<nexists>p. user_base_payload m = Inr p" by (auto simp: user_update_payload_def)
  with Inl show ?thesis unfolding base_payload_ok by simp
next
  case (Inr p)
  show ?thesis
    unfolding Inr sum.case by (rule ext) (auto simp: update_payload_at [OF Inr] secret_fields_at split: option.splits)
qed

text \<open>The webshare attribute is kept from a server that does not know it, and a password from every update
  that does not need it, whatever the plan and the configuration hold; \<open>w0\<close> is the world in which the
  version is asked for.\<close>

definition update_arguments_fit ::
  "user_resource \<Rightarrow> user_resource \<Rightarrow> user_resource \<Rightarrow> bool \<Rightarrow> exchanged \<Rightarrow> bool" where
  "update_arguments_fit plan cfg st old e = (case e of (m, ps, r) \<Rightarrow>
     (if m = ''user.update''
      then (case ps of
          [i, GObj p] \<Rightarrow> i = GInt (value_int64 (us_id st)) \<and>
            map_of p ''password'' = (if password_resend_needed plan st \<and> is_set (us_password cfg)
              then Some (GStr (value_string (us_password cfg))) else None) \<and>
            (if old then map_of p ''webshare'' = None else True)
        | _ \<Rightarrow> False)
      else m = ''user.get_instance''))"

lemma update_payload_password:
  "user_update_payload m st = Inr p \<Longrightarrow>
     map_of p ''password'' = (if is_set (us_password m) then Some (GStr (value_string (us_password m))) else None)"
  by (simp add: update_payload_at secret_fields_at optional_user_fields_def)

lemma gate_at:
  "gate_versioned_fields a p w = (q, w1) \<Longrightarrow>
     map_of q k = (if k = ''webshare'' \<and> fst (api_at_least a 26 0 w) = Inr False then None else map_of p k)"
  by (auto simp: gate_versioned_fields_def split: sum.splits prod.splits bool.splits)

theorem user_update_arguments:
  "list_all (update_arguments_fit plan cfg st (fst (api_at_least a 26 0 w) = Inr False))
     (snd (snd (user_update (logged a) (plan\<lparr>us_password := TfNull\<rparr>) cfg st (w, []))))"
proof -
  let ?plan = "with_password (plan\<lparr>us_password := TfNull\<rparr>) cfg st"
  have plan: "us_id ?plan = us_id st"
    "us_password ?plan = (if password_resend_needed plan st then us_password cfg else TfNull)"
    by (simp_all add: with_password_def password_resend_needed_def Let_def)
  have arg: "update_arguments_fit plan cfg st (fst (api_at_least a 26 0 w) = Inr False)
      (''user.update'', [GInt (value_int64 (us_id st)), GObj q], r)"
    if "user_update_payload ?plan st = Inr p" "gate_versioned_fields (logged a) p (w, []) = (q, s)" for p q r s
    using update_payload_password [OF that(1)] gate_at [OF that(2)]
    by (auto simp: update_arguments_fit_def plan quietly_def split: prod.splits)
  have read: "update_arguments_fit plan cfg st old (''user.get_instance'', ps, r)" for old ps r
    by (simp add: update_arguments_fit_def)
  have quiet: "snd s = l" if "gate_versioned_fields (logged a) p (w, l) = (q, s)" for p q s l
    using that by (auto simp: gate_versioned_fields_def quietly_def split: prod.splits sum.splits bool.splits)
  show ?thesis
  proof (cases "user_update_payload ?plan st")
    case (Inl d)
    then show ?thesis by (simp add: user_update_def Let_def)
  next
    case (Inr p)
    obtain q s where g: "gate_versioned_fields (logged a) p (w, []) = (q, s)" by (metis surj_pair)
    from Inr g quiet [OF g] arg [OF Inr g] read show ?thesis
      by (simp add: user_update_def Let_def user_instance_def plan(1) split: prod.splits sum.splits option.splits)
  qed
qed

section \<open>Refreshing\<close>

text \<open>The framework nulls the write-only password before a state is compared or sent.\<close>

definition user_stored :: "user_response \<Rightarrow> user_resource \<Rightarrow> user_resource" where
  "user_stored api m = snd (user_to_model api m)"

definition user_resent :: "user_resource \<Rightarrow> user_resource \<Rightarrow> payload" where
  "user_resent m st = (case user_update_payload (m\<lparr>us_password := TfNull\<rparr>) st of Inr p \<Rightarrow> p | Inl _ \<Rightarrow> [])"

lemma kept_again: "kept_groups gs (known_list (snd (kept_groups gs l))) = ([], snd (kept_groups gs l))"
  by (auto simp: kept_groups_def split: sum.splits intro!: filter_True)

lemma read_user_again: "user_to_data_source api (snd (user_to_data_source api m)) =
    (case decode_group_field (ur_group api) of Inl e \<Rightarrow> [(''Parse group field'', err_text e)] | Inr _ \<Rightarrow> [],
     snd (user_to_data_source api m))"
proof -
  obtain ds gs where k: "kept_groups (ur_groups api) (us_groups m) = (ds, gs)" by fastforce
  then have "kept_groups (ur_groups api) (known_list gs) = ([], gs)" using kept_again by (metis snd_conv)
  with k show ?thesis
    by (simp add: user_to_data_source_def Let_def split: sum.splits prod.splits bool.splits)
qed

interpretation user: managed_object user_stored user_resent
proof
  fix api :: user_response and m :: user_resource
  obtain ds m1 where r: "user_to_data_source api m = (ds, m1)" by fastforce
  have k: "user_to_data_source api (m1\<lparr>us_group_create := g, us_home_mode := h\<rparr>) =
      (fst (user_to_data_source api m1), (snd (user_to_data_source api m1))\<lparr>us_group_create := g, us_home_mode := h\<rparr>)" for g h
    by (simp add: user_to_data_source_def Let_def split: prod.splits sum.splits bool.splits)
  show "user_stored api (user_stored api m) = user_stored api m"
    using read_user_again [of api m] k unfolding r user_stored_def user_to_model_def
    by (cases m1) (auto simp: Let_def split: prod.splits)
next
  fix m :: user_resource
  show "user_resent m m = []"
  proof (cases "user_update_payload (m\<lparr>us_password := TfNull\<rparr>) m")
    case (Inr p)
    have "map_of p k = None" for k
    proof (cases "map_of (optional_user_fields m) k")
      case None
      with update_payload_at [OF Inr, of k] show ?thesis
        by (simp add: secret_fields_at optional_user_fields_def)
    next
      case (Some v)
      with update_payload_at [OF Inr, of k] show ?thesis by (simp add: optional_user_fields_def)
    qed
    with Inr show ?thesis by (simp add: user_resent_def gomap_empty_iff)
  qed (simp add: user_resent_def)
qed

text \<open>Refreshing any number of times stores what the first refresh stored, and applying the stored state as the
  plan sends nothing.\<close>

theorem user_refresh_settles:
  "(user_stored api ^^ Suc n) m = user_stored api m \<and>
   user_resent ((user_stored api ^^ Suc n) m) (user_stored api m) = []"
  by (rule conjI [OF user.refresh_settles user.refresh_then_apply])

text \<open>An SMB user that was created from a configuration and is imported again has the groups of the configuration:
  the one the server added is taken out, whatever its id and its position.\<close>

theorem user_import_groups:
  assumes "api_read a ''group.query'' [GArr [GArr [GStr ''group'', GStr ''='', GStr ''builtin_users''],
      GArr [GStr ''local'', GStr ''='', GBool True]], select_id] w = (Inr raw, w1)"
    and "as_list decode_row_id raw = Some [b]" and "ur_smb api"
    and "ur_groups api = xs @ [b] @ ys" and "b \<notin> set (xs @ ys)" and "\<not> has_prefix (ur_home api) ''/mnt/''"
  shows "\<exists>m1. import_adjust a api m w = (Inr (m1, []), w1) \<and> us_groups m1 = known_list (xs @ ys)"
proof -
  have "filter (\<lambda>g. g \<noteq> b) zs = zs" if "b \<notin> set zs" for zs
    by (rule filter_True) (use that in auto)
  with assms(5) have "filter (\<lambda>g. g \<noteq> b) (xs @ [b] @ ys) = xs @ ys" by simp
  with assms show ?thesis by (simp add: import_adjust_def drop_builtin_users_def)
qed

end
