(* ===== verification/Group.thy ===== *)
theory Group
  imports User
begin

text \<open>
  The group resource (src/internal/resources/group): a local group and its members. The server lists
  the users whose primary group it is among the members, although a group update cannot
  remove them; they stay out of the state unless the configuration names them.
\<close>

section \<open>Answer and model\<close>

record group_response =
  gr_id :: int
  gr_gid :: int
  gr_group :: string
  gr_name :: string
  gr_smb :: bool
  gr_users :: "int list"
  gr_sudo :: "string list"
  gr_sudo_nopasswd :: "string list"
  gr_builtin :: bool
  gr_immutable :: bool
  gr_local :: bool

definition decode_group :: "gval \<Rightarrow> group_response option" where
  "decode_group v = do {
     m \<leftarrow> as_object v;
     i \<leftarrow> as_int64 (field m ''id'');
     gid \<leftarrow> as_int64 (field m ''gid'');
     g \<leftarrow> as_string (field m ''group'');
     name \<leftarrow> as_string (field m ''name'');
     smb \<leftarrow> as_bool (field m ''smb'');
     users \<leftarrow> as_list as_int64 (field m ''users'');
     sudo \<leftarrow> as_list as_string (field m ''sudo_commands'');
     sudonp \<leftarrow> as_list as_string (field m ''sudo_commands_nopasswd'');
     builtin \<leftarrow> as_bool (field m ''builtin'');
     immutable \<leftarrow> as_bool (field m ''immutable'');
     loc \<leftarrow> as_bool (field m ''local'');
     Some \<lparr>gr_id = i, gr_gid = gid, gr_group = g, gr_name = name, gr_smb = smb, gr_users = users, gr_sudo = sudo,
       gr_sudo_nopasswd = sudonp, gr_builtin = builtin, gr_immutable = immutable, gr_local = loc\<rparr> }"

record group_model =
  gm_id :: "int tf"
  gm_gid :: "int tf"
  gm_name :: "string tf"
  gm_smb :: "bool tf"
  gm_users :: "int tf list tf"
  gm_sudo :: "string tf list tf"
  gm_sudo_nopasswd :: "string tf list tf"
  gm_builtin :: "bool tf"
  gm_immutable :: "bool tf"
  gm_local :: "bool tf"

text \<open>The set of primary members is the list of their ids; where it is not asked for it is empty.\<close>

definition drop_primary_members :: "int list \<Rightarrow> int list \<Rightarrow> int list \<Rightarrow> int list" where
  "drop_primary_members server desired primary = filter (\<lambda>u. u \<in> set desired \<or> u \<notin> set primary) server"

definition group_to_model :: "group_response \<Rightarrow> int list \<Rightarrow> group_model \<Rightarrow> diagnostic list \<times> group_model" where
  "group_to_model api primary m =
     (let (ds, desired) = (case set_elements (gm_users m) of Inl d \<Rightarrow> ([d], []) | Inr us \<Rightarrow> ([], us)) in
      (ds, m\<lparr>gm_id := Known (gr_id api), gm_gid := Known (gr_gid api), gm_name := Known (gr_group api),
         gm_smb := Known (gr_smb api), gm_users := known_list (drop_primary_members (gr_users api) desired primary),
         gm_sudo := known_list (gr_sudo api), gm_sudo_nopasswd := known_list (gr_sudo_nopasswd api),
         gm_builtin := Known (gr_builtin api), gm_immutable := Known (gr_immutable api),
         gm_local := Known (gr_local api)\<rparr>))"

section \<open>What is sent\<close>

definition optional_group_fields :: "group_model \<Rightarrow> attrs" where
  "optional_group_fields m =
     [(''smb'', bool_attr (gm_smb m)), (''sudo_commands'', list_attr GStr (gm_sudo m)),
      (''sudo_commands_nopasswd'', list_attr GStr (gm_sudo_nopasswd m)), (''users'', list_attr GInt (gm_users m))]"

definition group_base_payload :: "group_model \<Rightarrow> diagnostic + payload" where
  "group_base_payload m =
     (case (set_elements (gm_sudo m), set_elements (gm_sudo_nopasswd m), set_elements (gm_users m)) of
        (Inr sudo, Inr sudonp, Inr users) \<Rightarrow>
          Inr [(''smb'', GBool (value_bool (gm_smb m))), (''sudo_commands'', GArr (map GStr sudo)),
               (''sudo_commands_nopasswd'', GArr (map GStr sudonp)), (''users'', GArr (map GInt users))]
      | _ \<Rightarrow> Inl conversion_error)"

definition group_create_payload :: "group_model \<Rightarrow> diagnostic + payload" where
  "group_create_payload m =
     map_sum id (\<lambda>p. put ''name'' (GStr (value_string (gm_name m)))
       (put_int64 ''gid'' (gm_gid m) (drop_unset (optional_group_fields m) p))) (group_base_payload m)"

definition group_update_payload :: "group_model \<Rightarrow> group_model \<Rightarrow> diagnostic + payload" where
  "group_update_payload m prior =
     map_sum id (drop_unchanged (optional_group_fields m) (optional_group_fields prior)) (group_base_payload m)"

section \<open>The operations\<close>

definition primary_members :: "'w api \<Rightarrow> int \<Rightarrow> 'w \<Rightarrow> (go_error + int list) \<times> 'w" where
  "primary_members a i w =
     (case api_read a ''user.query'' [GArr [GArr [GStr ''group.id'', GStr ''='', GInt i]], select_id] w of
        (Inl e, w1) \<Rightarrow> (Inl e, w1)
      | (Inr raw, w1) \<Rightarrow> (case as_list decode_row_id raw of
            None \<Rightarrow> (Inl (errorf ''parse user.query response: json: cannot unmarshal''), w1)
          | Some ids \<Rightarrow> (Inr ids, w1)))"

text \<open>The end of every operation: the primary members are asked for, and the state is stored.\<close>

definition store_group :: "'w api \<Rightarrow> group_response \<Rightarrow> group_model \<Rightarrow> 'w \<Rightarrow> group_model outcome \<times> 'w" where
  "store_group a api m w = (case primary_members a (gr_id api) w of
      (Inl e, w1) \<Rightarrow> (fail_err ''Read primary-group members failed'' e, w1)
    | (Inr primary, w1) \<Rightarrow> (case group_to_model api primary m of (ds, m1) \<Rightarrow>
        (if ds \<noteq> [] then Failure ds else Stored (itoa (value_int64 (gm_id m1))) m1, w1)))"

definition group_instance :: "'w api \<Rightarrow> int \<Rightarrow> string \<Rightarrow> string \<Rightarrow> 'w \<Rightarrow> (diagnostic list + group_response) \<times> 'w" where
  "group_instance a i read_err parse_err w =
     (case api_read a ''group.get_instance'' [GInt i] w of
        (Inl e, w1) \<Rightarrow> (Inl [(read_err, err_text e)], w1)
      | (Inr raw, w1) \<Rightarrow> (case decode_group raw of
            None \<Rightarrow> (Inl [(parse_err, err_text decode_error)], w1)
          | Some api \<Rightarrow> (Inr api, w1)))"

definition group_create :: "'w api \<Rightarrow> group_model \<Rightarrow> 'w \<Rightarrow> group_model outcome \<times> 'w" where
  "group_create a plan w = (case group_create_payload plan of
      Inl d \<Rightarrow> (Failure [d], w)
    | Inr p \<Rightarrow>
        (case api_call a ''group.create'' [GObj p] w of
           (Inl e, w) \<Rightarrow> (fail_err ''Create group failed'' e, w)
         | (Inr raw, w) \<Rightarrow>
             (case decode_create_result decode_group gr_id ''group.create'' raw of
                Inl e \<Rightarrow> (fail_err ''Parse create response'' e, w)
              | Inr (Inl api) \<Rightarrow> store_group a api plan w
              | Inr (Inr i) \<Rightarrow>
                  (case group_instance a i ''Read-back after create failed'' ''Parse get_instance response'' w of
                     (Inl ds, w) \<Rightarrow> (Failure ds, w)
                   | (Inr api, w) \<Rightarrow> store_group a api plan w))))"

definition group_read :: "'w api \<Rightarrow> group_model \<Rightarrow> 'w \<Rightarrow> group_model outcome \<times> 'w" where
  "group_read a st w =
     (case api_read a ''group.get_instance'' [GInt (value_int64 (gm_id st))] w of
        (Inl e, w1) \<Rightarrow> (if is_not_found e then Removed else fail_err ''Read group failed'' e, w1)
      | (Inr raw, w1) \<Rightarrow> (case decode_group raw of
            None \<Rightarrow> (parse_failure ''Parse response'', w1)
          | Some api \<Rightarrow> store_group a api st w1))"

definition group_update :: "'w api \<Rightarrow> group_model \<Rightarrow> group_model \<Rightarrow> 'w \<Rightarrow> group_model outcome \<times> 'w" where
  "group_update a plan0 st w =
     (let plan = plan0\<lparr>gm_id := gm_id st\<rparr>; i = value_int64 (gm_id plan) in
      case group_update_payload plan st of
        Inl d \<Rightarrow> (Failure [d], w)
      | Inr p \<Rightarrow>
          (case api_call a ''group.update'' [GInt i, GObj p] w of
             (Inl e, w) \<Rightarrow> (fail_err ''Update group failed'' e, w)
           | (Inr _, w) \<Rightarrow>
               (case group_instance a i ''Read-back after update failed'' ''Parse get_instance response'' w of
                  (Inl ds, w) \<Rightarrow> (Failure ds, w)
                | (Inr api, w) \<Rightarrow> store_group a api plan w)))"

definition group_delete :: "'w api \<Rightarrow> group_model \<Rightarrow> 'w \<Rightarrow> diagnostic list \<times> 'w" where
  "group_delete a st w = (case api_call a ''group.delete'' [GInt (value_int64 (gm_id st))] w of
      (Inl e, w1) \<Rightarrow> (if is_not_found e then [] else [(''Delete group failed'', err_text e)], w1)
    | (Inr _, w1) \<Rightarrow> ([], w1))"

definition null_group :: group_model where
  "null_group = \<lparr>gm_id = TfNull, gm_gid = TfNull, gm_name = TfNull, gm_smb = TfNull, gm_users = TfNull,
     gm_sudo = TfNull, gm_sudo_nopasswd = TfNull, gm_builtin = TfNull, gm_immutable = TfNull, gm_local = TfNull\<rparr>"

definition group_import :: "'w api \<Rightarrow> int import_req \<Rightarrow> 'w \<Rightarrow> group_model outcome \<times> 'w" where
  "group_import a req w = (case import_int64 req of (i, diags) \<Rightarrow>
     if diags \<noteq> [] then (Failure diags, w)
     else (case group_instance a i ''Import group failed'' ''Parse import response'' w of
         (Inl ds, w) \<Rightarrow> (Failure ds, w)
       | (Inr api, w) \<Rightarrow> (case store_group a api null_group w of
             (Stored _ m, w) \<Rightarrow> (Stored (itoa i) m, w)
           | r \<Rightarrow> r)))"

definition group_data_source :: "'w api \<Rightarrow> group_model \<Rightarrow> 'w \<Rightarrow> (diagnostic list + group_model) \<times> 'w" where
  "group_data_source a cfg w =
     (case api_read a ''group.query'' [GArr [GArr [GStr ''group'', GStr ''='', GStr (value_string (gm_name cfg))]]] w of
        (Inl e, w1) \<Rightarrow> (Inl [(''Query groups failed'', err_text e)], w1)
      | (Inr raw, w1) \<Rightarrow> (case as_list decode_group raw of
            None \<Rightarrow> (Inl [(''Parse query response'', err_text decode_error)], w1)
          | Some [] \<Rightarrow> (Inl [(''Group not found'',
              ''No group named '' @ quoted (value_string (gm_name cfg)) @ '' was found.'')], w1)
          | Some (api # _) \<Rightarrow> (case group_to_model api [] cfg of (ds, m) \<Rightarrow>
              if ds \<noteq> [] then (Inl ds, w1) else (Inr m, w1))))"

definition group_row :: "bool \<Rightarrow> gval \<Rightarrow> diagnostic list + (string \<times> string \<times> group_model option)" where
  "group_row include_resource raw = (case decode_group raw of
      None \<Rightarrow> Inl [(''Parse group row'', err_text decode_error)]
    | Some api \<Rightarrow> Inr (gr_group api, itoa (gr_id api),
        if include_resource then Some (snd (group_to_model api [] null_group)) else None))"

definition group_list ::
  "'w ops \<Rightarrow> int \<Rightarrow> bool \<Rightarrow> 'w \<Rightarrow> (diagnostic list + (string \<times> string \<times> group_model option)) stream \<times> 'w" where
  "group_list os limit include_resource = stream_collection os ''group.query'' limit (group_row include_resource)"

section \<open>Facts\<close>

lemma wf_optional_group_fields [simp]: "wf_map (optional_group_fields m)"
  by (simp add: optional_group_fields_def wf_map_def)

lemma group_payload_lists:
  assumes "group_base_payload m = Inr p"
  obtains sudo sudonp users where "set_elements (gm_sudo m) = Inr sudo" "set_elements (gm_sudo_nopasswd m) = Inr sudonp"
    "set_elements (gm_users m) = Inr users"
  using assms by (auto simp: group_base_payload_def split: sum.splits)

text \<open>What one attribute of a group is sent as: itself.\<close>

lemma group_payload_set:
  assumes "group_base_payload m = Inr p" and "map_of (optional_group_fields m) k = Some v" and "is_set v"
  shows "map_of p k = Some (value_or GNil v)"
proof -
  from assms(1) obtain sudo sudonp users where l: "set_elements (gm_sudo m) = Inr sudo"
    "set_elements (gm_sudo_nopasswd m) = Inr sudonp" "set_elements (gm_users m) = Inr users"
    by (rule group_payload_lists)
  note p = assms(1) [unfolded group_base_payload_def l, simplified, symmetric]
  from assms(2) have "(k, v) \<in> set (optional_group_fields m)" by (rule map_of_SomeD)
  with assms(3) l show ?thesis
    unfolding optional_group_fields_def p list.set insert_iff empty_iff prod.inject
    by (elim disjE) (simp_all add: attr_value list_attr_value)
qed

lemma group_payload_other:
  assumes "group_base_payload m = Inr p" and "map_of (optional_group_fields m) k = None"
  shows "map_of p k = None"
  using assms
  by (auto simp: group_base_payload_def optional_group_fields_def split: sum.splits if_splits)

text \<open>A group update sends exactly the attributes that are set and differ from the state, with their values.\<close>

theorem group_update_exact:
  "case group_update_payload m st of
     Inl d \<Rightarrow> d = conversion_error
   | Inr p \<Rightarrow> map_of p = (\<lambda>k. case map_of (optional_group_fields m) k of
       Some v \<Rightarrow> if is_set v \<and> map_of (optional_group_fields st) k \<noteq> Some v then Some (value_or GNil v) else None
     | None \<Rightarrow> None)"
proof (cases "group_base_payload m")
  case (Inl d)
  then show ?thesis by (auto simp: group_update_payload_def group_base_payload_def split: sum.splits)
next
  case (Inr p)
  then show ?thesis
    by (auto simp: group_update_payload_def map_of_drop_unchanged group_payload_other [OF Inr] group_payload_set [OF Inr]
        split: option.splits)
qed

definition group_stored :: "group_response \<times> int list \<Rightarrow> group_model \<Rightarrow> group_model" where
  "group_stored ap m = snd (group_to_model (fst ap) (snd ap) m)"

definition group_resent :: "group_model \<Rightarrow> group_model \<Rightarrow> payload" where
  "group_resent m st = (case group_update_payload m st of Inr p \<Rightarrow> p | Inl _ \<Rightarrow> [])"

lemma drop_primary_again:
  "drop_primary_members server (drop_primary_members server desired primary) primary = drop_primary_members server desired primary"
  unfolding drop_primary_members_def by (rule filter_cong) auto

interpretation group: managed_object group_stored group_resent
proof
  fix ap :: "group_response \<times> int list" and m
  show "group_stored ap (group_stored ap m) = group_stored ap m"
    by (cases m) (simp add: group_stored_def group_to_model_def Let_def drop_primary_again split: sum.splits)
next
  fix m :: group_model
  show "group_resent m m = []"
    using group_update_exact [of m m]
    by (auto simp: group_resent_def gomap_empty_iff split: sum.splits option.splits)
qed

text \<open>C18. A refreshed group never plans a change of its members: reading it again stores the same list, primary
  members stay out unless the state names them, and applying the stored state sends nothing.\<close>

theorem group_refresh_settles:
  "(group_stored ap ^^ Suc n) m = group_stored ap m \<and>
   group_resent ((group_stored ap ^^ Suc n) m) (group_stored ap m) = [] \<and>
   (case (set_elements (gm_users m), set_elements (gm_users (group_stored ap m))) of
      (Inr desired, Inr users) \<Rightarrow> users = filter (\<lambda>u. if u \<in> set (snd ap) then u \<in> set desired else True) (gr_users (fst ap))
    | (Inl _, Inr users) \<Rightarrow> users = filter (\<lambda>u. u \<notin> set (snd ap)) (gr_users (fst ap))
    | _ \<Rightarrow> False)"
  unfolding group.refresh_settles
  using group.refresh_then_apply [of n ap m, unfolded group.refresh_settles]
  by (auto simp: group_stored_def group_to_model_def drop_primary_members_def split: sum.splits intro!: filter_cong)

end
