(* ===== verification/FilesystemAcl.thy ===== *)
theory FilesystemAcl
  imports Resource "HOL-Library.Char_ord" "HOL-Library.List_Lexorder"
begin

text \<open>
  The filesystem ACL resource (src/internal/resources/filesystem_acl): when two texts are the same
  access control list, and the operations that rest on it. The parser and printer of JSON and the
  reading of a number literal as a float64 are parameters (\<open>encoding/json\<close>, \<open>strconv\<close>); each float64 has
  one representation as an \<open>f64\<close>.
\<close>

section \<open>Documents\<close>

record acl_text =
  at_parse :: "string \<Rightarrow> gval option"
  at_print :: "gval \<Rightarrow> string"
  at_num :: "string \<Rightarrow> f64"

text \<open>\<open>json.Unmarshal\<close> into \<open>any\<close>: numbers become float64.\<close>

fun to_any :: "(string \<Rightarrow> f64) \<Rightarrow> gval \<Rightarrow> gval"
  and to_any_list :: "(string \<Rightarrow> f64) \<Rightarrow> gval list \<Rightarrow> gval list"
  and to_any_entries :: "(string \<Rightarrow> f64) \<Rightarrow> (string \<times> gval) list \<Rightarrow> (string \<times> gval) list" where
  "to_any f (GNumber s) = GFloat (f s)"
| "to_any f (GArr xs) = GArr (to_any_list f xs)"
| "to_any f (GObj m) = GObj (to_any_entries f m)"
| "to_any f v = v"
| "to_any_list f [] = []"
| "to_any_list f (x # xs) = to_any f x # to_any_list f xs"
| "to_any_entries f [] = []"
| "to_any_entries f ((k, v) # m) = (k, to_any f v) # to_any_entries f m"

text \<open>\<open>json.Marshal\<close> sorts the keys of a map, so two values have the same text exactly when they are the same
  with sorted keys.\<close>

definition by_key :: "(string \<times> 'v) list \<Rightarrow> (string \<times> 'v) list" where
  "by_key m = map (\<lambda>k. (k, the (map_of m k))) (sort (remdups (map fst m)))"

fun canon :: "gval \<Rightarrow> gval" and canon_list :: "gval list \<Rightarrow> gval list"
  and canon_entries :: "(string \<times> gval) list \<Rightarrow> (string \<times> gval) list" where
  "canon (GArr xs) = GArr (canon_list xs)"
| "canon (GObj m) = GObj (by_key (canon_entries m))"
| "canon v = v"
| "canon_list [] = []"
| "canon_list (x # xs) = canon x # canon_list xs"
| "canon_entries [] = []"
| "canon_entries ((k, v) # m) = (k, canon v) # canon_entries m"

section \<open>Entries\<close>

text \<open>\<open>[]map[string]any\<close>, where the slice and each map may be nil.\<close>

type_synonym acl = "gval gomap option list option"

definition as_entry :: "gval \<Rightarrow> gval gomap option option" where
  "as_entry v = (case v of GNil \<Rightarrow> Some None | GObj m \<Rightarrow> Some (Some m) | _ \<Rightarrow> None)"

definition as_entries :: "gval \<Rightarrow> acl option" where
  "as_entries v = (case v of GNil \<Rightarrow> Some None | GArr xs \<Rightarrow> map_option Some (map_opt as_entry xs) | _ \<Rightarrow> None)"

definition entries_val :: "acl \<Rightarrow> gval" where
  "entries_val a = (case a of None \<Rightarrow> GNil | Some es \<Rightarrow> GArr (map (\<lambda>e. case e of None \<Rightarrow> GNil | Some m \<Rightarrow> GObj m) es))"

definition is_minus_one :: "gval \<Rightarrow> bool" where
  "is_minus_one v = (case v of GFloat (F_Fin m e) \<Rightarrow> f64_rat m e = -1 | _ \<Rightarrow> False)"

definition strip_entry :: "gval gomap \<Rightarrow> gval gomap" where
  "strip_entry m =
     (let m1 = (case map_of m ''id'' of
            Some v \<Rightarrow> if v = GNil \<or> is_minus_one v then del ''id'' m else m
          | None \<Rightarrow> m)
      in if map_of m1 ''who'' = Some GNil then del ''who'' m1 else m1)"

text \<open>A raw document: no text at all (also an absent field), a text that does not parse, or a value.\<close>

datatype raw_json = Empty | Malformed | Doc gval

definition text_doc :: "acl_text \<Rightarrow> string \<Rightarrow> raw_json" where
  "text_doc tx s = (if s = [] then Empty else case at_parse tx s of Some v \<Rightarrow> Doc v | None \<Rightarrow> Malformed)"

definition entries_normalized :: "acl_text \<Rightarrow> raw_json \<Rightarrow> go_error + acl" where
  "entries_normalized tx v = (case v of
      Empty \<Rightarrow> Inl (errorf ''empty ACL entries JSON'')
    | Malformed \<Rightarrow> Inl decode_error
    | Doc d \<Rightarrow> (case as_entries (to_any (at_num tx) d) of
          None \<Rightarrow> Inl decode_error
        | Some a \<Rightarrow> Inr (map_option (map (map_option strip_entry)) a)))"

definition drop_false :: "string \<Rightarrow> gval gomap \<Rightarrow> gval gomap" where
  "drop_false bag m = (case map_of m bag of
      Some (GObj b) \<Rightarrow>
        if has_key b ''BASIC'' then m else put bag (GObj (filter (\<lambda>(k, v). v \<noteq> GBool False) b)) m
    | _ \<Rightarrow> m)"

definition normalize_entry :: "gval gomap \<Rightarrow> gval gomap" where
  "normalize_entry m = drop_false ''flags'' (drop_false ''perms'' m)"

definition normalize_entries :: "acl_text \<Rightarrow> raw_json \<Rightarrow> go_error + acl" where
  "normalize_entries tx v = map_sum id (map_option (map (map_option normalize_entry))) (entries_normalized tx v)"

section \<open>Names\<close>

definition who_lookup :: "gval gomap \<Rightarrow> (string \<times> string \<times> string \<times> string) option" where
  "who_lookup e = (case map_of e ''tag'' of
      Some (GStr t) \<Rightarrow>
        if t = ''USER'' then Some (''user.query'', ''username'', ''uid'', ''user'')
        else if t = ''GROUP'' then Some (''group.query'', ''group'', ''gid'', ''group'')
        else None
    | _ \<Rightarrow> None)"

text \<open>The name that has to be looked up, if any: there is one, and no id to take precedence.\<close>

definition pending_who :: "gval gomap \<Rightarrow> string option" where
  "pending_who e = (case map_of e ''who'' of
      Some (GStr who) \<Rightarrow>
        if who = [] then None
        else (case map_of e ''id'' of
            None \<Rightarrow> Some who
          | Some v \<Rightarrow> if v = GNil \<or> is_minus_one v then Some who else None)
    | _ \<Rightarrow> None)"

definition entry_error :: "nat \<Rightarrow> string \<Rightarrow> go_error" where
  "entry_error i s = errorf (''entry '' @ itoa (int i) @ '': '' @ s)"

text \<open>The id in the first row of an answer.\<close>

definition row_number :: "acl_text \<Rightarrow> string \<Rightarrow> gval option \<Rightarrow> f64 option" where
  "row_number tx key row = (case row of
      Some (GObj m) \<Rightarrow> (case map_of m key of Some (GFloat f) \<Rightarrow> Some f | _ \<Rightarrow> None)
    | _ \<Rightarrow> None)"

definition resolve_entry ::
  "acl_text \<Rightarrow> 'w api \<Rightarrow> nat \<Rightarrow> gval gomap \<Rightarrow> 'w \<Rightarrow> (go_error + gval gomap) \<times> 'w" where
  "resolve_entry tx a i e w =
     (case (pending_who e, who_lookup e) of
        (Some who, Some (m, fld, key, kind)) \<Rightarrow>
          (case api_read a m [GArr [GArr [GStr fld, GStr ''='', GStr who]]] w of
             (Inl err, w1) \<Rightarrow> (Inl (Wrapped [Text (''entry '' @ itoa (int i) @ '': look up '' @ kind @ '' '' @ quoted who @ '': ''), Cause err]), w1)
           | (Inr raw, w1) \<Rightarrow> (case as_entries (to_any (at_num tx) raw) of
                 None \<Rightarrow> (Inl (entry_error i (''parse '' @ m @ '' result: '' @ err_text decode_error)), w1)
               | Some rows \<Rightarrow> (case (case rows of Some (r # rs) \<Rightarrow> Some r | _ \<Rightarrow> None) of
                     None \<Rightarrow> (Inl (entry_error i (kind @ '' '' @ quoted who @ '' does not exist'')), w1)
                   | Some row \<Rightarrow> (case row_number tx key (map_option GObj row) of
                         None \<Rightarrow> (Inl (entry_error i (kind @ '' '' @ quoted who @ '' has no '' @ key)), w1)
                       | Some f \<Rightarrow> (Inr (del ''who'' (put ''id'' (GFloat f) e)), w1)))))
      | _ \<Rightarrow> (Inr e, w))"

fun resolve_list ::
  "acl_text \<Rightarrow> 'w api \<Rightarrow> nat \<Rightarrow> gval gomap option list \<Rightarrow> 'w \<Rightarrow> (go_error + gval gomap option list) \<times> 'w" where
  "resolve_list tx a i [] w = (Inr [], w)"
| "resolve_list tx a i (None # es) w = (case resolve_list tx a (i + 1) es w of (r, w1) \<Rightarrow> (map_sum id (Cons None) r, w1))"
| "resolve_list tx a i (Some e # es) w = (case resolve_entry tx a i e w of
      (Inl err, w1) \<Rightarrow> (Inl err, w1)
    | (Inr e1, w1) \<Rightarrow> (case resolve_list tx a (i + 1) es w1 of (r, w2) \<Rightarrow> (map_sum id (Cons (Some e1)) r, w2)))"

definition resolve_who :: "acl_text \<Rightarrow> 'w api \<Rightarrow> acl \<Rightarrow> 'w \<Rightarrow> (go_error + acl) \<times> 'w" where
  "resolve_who tx a es w = (case es of
      None \<Rightarrow> (Inr None, w)
    | Some xs \<Rightarrow> (case resolve_list tx a 0 xs w of (r, w1) \<Rightarrow> (map_sum id Some r, w1)))"

section \<open>Comparing\<close>

definition same_text :: "acl \<Rightarrow> acl \<Rightarrow> bool" where
  "same_text a b \<longleftrightarrow> canon (entries_val a) = canon (entries_val b)"

definition side :: "string \<Rightarrow> go_error \<Rightarrow> go_error" where
  "side which e = Wrapped [Text (''invalid ACL entries JSON in '' @ which @ '': ''), Cause e]"

definition entries_differ :: "acl_text \<Rightarrow> 'w api \<Rightarrow> raw_json \<Rightarrow> raw_json \<Rightarrow> 'w \<Rightarrow> (go_error + bool) \<times> 'w" where
  "entries_differ tx a want got w = (case normalize_entries tx want of
      Inl e \<Rightarrow> (Inl (side ''configuration or state'' e), w)
    | Inr wn \<Rightarrow> (case resolve_who tx a wn w of
        (Inl e, w1) \<Rightarrow> (Inl e, w1)
      | (Inr wr, w1) \<Rightarrow> (case normalize_entries tx got of
          Inl e \<Rightarrow> (Inl (side ''API response'' e), w1)
        | Inr gn \<Rightarrow> (case resolve_who tx a gn w1 of
            (Inl e, w2) \<Rightarrow> (Inl e, w2)
          | (Inr gr, w2) \<Rightarrow> (Inr (\<not> same_text wr gr), w2)))))"

definition canonical_entries_json :: "acl_text \<Rightarrow> raw_json \<Rightarrow> diagnostic + string" where
  "canonical_entries_json tx v = (case entries_normalized tx v of
      Inl e \<Rightarrow> Inl (''Invalid ACL entries JSON in API response'', err_text e)
    | Inr a \<Rightarrow> Inr (at_print tx (canon (entries_val a))))"

section \<open>The model and the operations\<close>

record acl_response =
  ar_path :: string
  ar_uid :: int
  ar_gid :: int
  ar_acltype :: string
  ar_acl :: raw_json

definition decode_acl :: "gval \<Rightarrow> acl_response option" where
  "decode_acl v = do {
     m \<leftarrow> as_object v;
     p \<leftarrow> as_string (field m ''path'');
     u \<leftarrow> as_int64 (field m ''uid'');
     g \<leftarrow> as_int64 (field m ''gid'');
     t \<leftarrow> as_string (field m ''acltype'');
     Some \<lparr>ar_path = p, ar_uid = u, ar_gid = g, ar_acltype = t,
       ar_acl = (case map_of m ''acl'' of None \<Rightarrow> Empty | Some d \<Rightarrow> Doc d)\<rparr> }"

record acl_source =
  fa_id :: "string tf"
  fa_path :: "string tf"
  fa_acltype :: "string tf"
  fa_entries :: "string tf"
  fa_uid :: "int tf"
  fa_gid :: "int tf"

record acl_model = acl_source +
  fa_recursive :: "bool tf"
  fa_traverse :: "bool tf"

definition acl_to_model :: "acl_response \<Rightarrow> 'x acl_source_scheme \<Rightarrow> 'x acl_source_scheme" where
  "acl_to_model api m = m\<lparr>fa_id := Known (ar_path api), fa_path := Known (ar_path api),
     fa_acltype := Known (ar_acltype api), fa_uid := Known (ar_uid api), fa_gid := Known (ar_gid api)\<rparr>"

text \<open>The list itself is sent as the text that was configured; a text that is no JSON cannot be sent.\<close>

definition setacl_payload :: "gval \<Rightarrow> acl_model \<Rightarrow> payload" where
  "setacl_payload dacl m =
     put_int64 ''gid'' (fa_gid m) (put_int64 ''uid'' (fa_uid m)
       [(''path'', GStr (value_string (fa_path m))), (''dacl'', dacl),
        (''options'', GObj [(''recursive'', GBool (is_set (fa_recursive m) \<and> value_bool (fa_recursive m))),
           (''traverse'', GBool (is_set (fa_traverse m) \<and> value_bool (fa_traverse m))),
           (''stripacl'', GBool False)])])"

definition delete_acl_payload :: "string \<Rightarrow> payload" where
  "delete_acl_payload p = [(''path'', GStr p), (''dacl'', GArr []), (''options'', GObj [(''stripacl'', GBool True)])]"

definition in_call :: "string \<Rightarrow> go_error \<Rightarrow> go_error" where
  "in_call what e = Wrapped [Text (what @ '': ''), Cause e]"

definition apply_acl ::
  "acl_text \<Rightarrow> 'w api \<Rightarrow> acl_model \<Rightarrow> acl_model \<Rightarrow> 'w \<Rightarrow> ((go_error + acl_response) \<times> 'w) option" where
  "apply_acl tx a m cfg w =
     (case text_doc tx (value_string (fa_entries m)) of
        Doc dacl \<Rightarrow>
          map_option (\<lambda>(r, w1). (case r of
              Inl e \<Rightarrow> Inl (in_call ''filesystem.setacl'' e)
            | Inr raw \<Rightarrow> (case decode_acl raw of
                None \<Rightarrow> Inl (in_call ''parse filesystem.setacl job result'' decode_error)
              | Some api \<Rightarrow> Inr api), w1))
            (api_job a ''filesystem.setacl''
              [GObj (setacl_payload dacl (m\<lparr>fa_recursive := fa_recursive cfg, fa_traverse := fa_traverse cfg\<rparr>))] w)
      | _ \<Rightarrow> Some (Inl (in_call ''filesystem.setacl'' (errorf ''json: error calling MarshalJSON'')), w))"

definition get_acl :: "'w api \<Rightarrow> string \<Rightarrow> 'w \<Rightarrow> (go_error + acl_response) \<times> 'w" where
  "get_acl a p w = (case api_read a ''filesystem.getacl'' [GStr p] w of
      (Inl e, w1) \<Rightarrow> (Inl (in_call ''filesystem.getacl'' e), w1)
    | (Inr raw, w1) \<Rightarrow> (case decode_acl raw of
          None \<Rightarrow> (Inl (in_call ''parse filesystem.getacl response'' decode_error), w1)
        | Some api \<Rightarrow> (Inr api, w1)))"

text \<open>\<open>ModifyPlan\<close>: the entries that the plan goes on with; the flags say that there is a client, and that both
  a state and a plan exist. A comparison that fails leaves the plan as configured.\<close>

definition keep_equivalent_entries ::
  "acl_text \<Rightarrow> 'w api \<Rightarrow> bool \<Rightarrow> bool \<Rightarrow> string tf \<Rightarrow> string tf \<Rightarrow> string tf \<Rightarrow> 'w \<Rightarrow> string tf \<times> 'w" where
  "keep_equivalent_entries tx a configured both cfg prior plan w =
     (if \<not> configured \<or> \<not> both \<or> \<not> is_set cfg \<or> \<not> is_set prior \<or> value_string cfg = value_string prior then (plan, w)
      else (case entries_differ tx a (text_doc tx (value_string cfg)) (text_doc tx (value_string prior)) w of
          (Inr False, w1) \<Rightarrow> (prior, w1)
        | (_, w1) \<Rightarrow> (plan, w1)))"

definition store_acl :: "acl_model \<Rightarrow> acl_model outcome" where
  "store_acl m = Stored (value_string (fa_id m)) m"

definition acl_create ::
  "acl_text \<Rightarrow> 'w api \<Rightarrow> acl_model \<Rightarrow> acl_model \<Rightarrow> 'w \<Rightarrow> (acl_model outcome \<times> 'w) option" where
  "acl_create tx a plan cfg w =
     map_option (\<lambda>(r, w1). (case r of
         Inl e \<Rightarrow> fail_err ''Create filesystem ACL failed'' e
       | Inr api \<Rightarrow> store_acl (acl_to_model api plan), w1))
       (apply_acl tx a plan cfg w)"

definition acl_read :: "acl_text \<Rightarrow> 'w api \<Rightarrow> acl_model \<Rightarrow> 'w \<Rightarrow> acl_model outcome \<times> 'w" where
  "acl_read tx a st w =
     (case api_read a ''filesystem.getacl'' [GStr (value_string (fa_path st))] w of
        (Inl e, w1) \<Rightarrow> (if is_not_found e then Removed else fail_err ''Read filesystem ACL failed'' e, w1)
      | (Inr raw, w1) \<Rightarrow> (case decode_acl raw of
            None \<Rightarrow> (parse_failure ''Parse filesystem.getacl response'', w1)
          | Some api \<Rightarrow>
              (let m = acl_to_model api st in
               case entries_differ tx a (text_doc tx (value_string (fa_entries m))) (ar_acl api) w1 of
                 (Inl e, w2) \<Rightarrow> (fail_err ''Compare ACL entries failed'' e, w2)
               | (Inr False, w2) \<Rightarrow> (store_acl m, w2)
               | (Inr True, w2) \<Rightarrow> (case canonical_entries_json tx (ar_acl api) of
                     Inl d \<Rightarrow> (Failure [d], w2)
                   | Inr t \<Rightarrow> (store_acl (m\<lparr>fa_entries := Known t\<rparr>), w2)))))"

definition acl_update ::
  "acl_text \<Rightarrow> 'w api \<Rightarrow> acl_model \<Rightarrow> acl_model \<Rightarrow> acl_model \<Rightarrow> 'w \<Rightarrow> (acl_model outcome \<times> 'w) option" where
  "acl_update tx a plan st cfg w =
     (case entries_differ tx a (text_doc tx (value_string (fa_entries plan))) (text_doc tx (value_string (fa_entries st))) w of
        (Inl e, w1) \<Rightarrow> Some (fail_err ''Compare ACL entries failed'' e, w1)
      | (Inr differ, w1) \<Rightarrow>
          map_option (\<lambda>(r, w2). (case r of
              Inl e \<Rightarrow> fail_err ''Update filesystem ACL failed'' e
            | Inr api \<Rightarrow> store_acl (acl_to_model api plan), w2))
            (if differ \<or> fa_uid plan \<noteq> fa_uid st \<or> fa_gid plan \<noteq> fa_gid st then apply_acl tx a plan cfg w1
             else Some (get_acl a (value_string (fa_path plan)) w1)))"

definition delete_warning :: "string \<Rightarrow> diagnostic" where
  "delete_warning p = (''Filesystem ACL stripped to a trivial, mode-derived ACL'',
     ''truenas_filesystem_acl for '' @ quoted p @ '' was destroyed by calling filesystem.setacl with '' @
     ''options.stripacl=true, which converts the path's ACL to a trivial one fully '' @
     ''expressible as a UNIX mode (verified live: filesystem.getacl reports '' @ quoted ''trivial'' @ '': '' @
     ''true afterward on both NFS4 and POSIX1E). The path's mode/uid/gid are NOT reverted '' @
     ''or removed - only the ACL's non-trivial entries are gone.'')"

text \<open>(errors, warnings).\<close>

definition acl_delete :: "'w api \<Rightarrow> acl_model \<Rightarrow> 'w \<Rightarrow> ((diagnostic list \<times> diagnostic list) \<times> 'w) option" where
  "acl_delete a st w =
     (let p = value_string (fa_path st) in
      map_option (\<lambda>(r, w1). (case r of
          Inl e \<Rightarrow> if is_not_found e then ([], []) else ([(''Delete filesystem ACL failed'', err_text e)], [])
        | Inr _ \<Rightarrow> ([], [delete_warning p]), w1))
        (api_job a ''filesystem.setacl'' [GObj (delete_acl_payload p)] w))"

definition null_acl :: acl_model where
  "null_acl = \<lparr>fa_id = TfNull, fa_path = TfNull, fa_acltype = TfNull, fa_entries = TfNull, fa_uid = TfNull,
     fa_gid = TfNull, fa_recursive = TfNull, fa_traverse = TfNull\<rparr>"

definition acl_import :: "acl_text \<Rightarrow> 'w api \<Rightarrow> string import_req \<Rightarrow> 'w \<Rightarrow> acl_model outcome \<times> 'w" where
  "acl_import tx a req w = (case import_string req of (i, diags) \<Rightarrow>
     if diags \<noteq> [] then (Failure diags, w)
     else (case api_read a ''filesystem.getacl'' [GStr i] w of
         (Inl e, w1) \<Rightarrow> (fail_err ''Import filesystem ACL failed'' e, w1)
       | (Inr raw, w1) \<Rightarrow> (case decode_acl raw of
             None \<Rightarrow> (parse_failure ''Parse filesystem.getacl response'', w1)
           | Some api \<Rightarrow> (case canonical_entries_json tx (ar_acl api) of
                 Inl d \<Rightarrow> (Failure [d], w1)
               | Inr t \<Rightarrow> (store_acl ((acl_to_model api null_acl)\<lparr>fa_entries := Known t\<rparr>), w1)))))"

definition acl_data_source :: "acl_text \<Rightarrow> 'w api \<Rightarrow> acl_source \<Rightarrow> 'w \<Rightarrow> (diagnostic list + acl_source) \<times> 'w" where
  "acl_data_source tx a cfg w =
     (case api_read a ''filesystem.getacl'' [GStr (value_string (fa_path cfg))] w of
        (Inl e, w1) \<Rightarrow> (Inl [(''Read filesystem ACL failed'', err_text e)], w1)
      | (Inr raw, w1) \<Rightarrow> (case decode_acl raw of
            None \<Rightarrow> (Inl [(''Parse filesystem.getacl response'', err_text decode_error)], w1)
          | Some api \<Rightarrow> (case canonical_entries_json tx (ar_acl api) of
                Inl d \<Rightarrow> (Inl [d], w1)
              | Inr t \<Rightarrow> (Inr ((acl_to_model api cfg)\<lparr>fa_entries := Known t\<rparr>), w1))))"

section \<open>Facts\<close>

lemma by_key_map_of: "map_of (by_key m) = map_of m"
proof
  fix k
  have "map_of (map (\<lambda>k. (k, f k)) ks) k = (if k \<in> set ks then Some (f k) else None)" for f :: "string \<Rightarrow> 'a" and ks
    by (induction ks) auto
  moreover have "k \<in> fst ` set m \<longleftrightarrow> map_of m k \<noteq> None" by (simp add: map_of_eq_None_iff)
  ultimately show "map_of (by_key m) k = map_of m k" by (auto simp: by_key_def)
qed

lemma by_key_inject: "by_key m = by_key m' \<longleftrightarrow> map_of m = map_of m'"
proof
  assume eq: "map_of m = map_of m'"
  then have "fst ` set m = fst ` set m'" by (metis dom_map_of_conv_image_fst)
  then have "sort (remdups (map fst m)) = sort (remdups (map fst m'))"
    by (metis list.set_map set_remdups sorted_list_of_set_sort_remdups sorted_list_of_set_eq_Nil_iff
        sorted_sort_id remdups_remdups sorted_sort set_sort distinct_remdups distinct_sort sorted_distinct_set_unique)
  with eq show "by_key m = by_key m'" by (simp add: by_key_def)
qed (metis by_key_map_of)

lemma map_of_canon: "map_of (canon_entries m) k = map_option canon (map_of m k)"
  by (induction m rule: canon_canon_list_canon_entries.induct(3)
      [where P = "\<lambda>_. True" and Q = "\<lambda>_. True"]) auto

lemma canon_obj: "canon (GObj m) = canon (GObj m') \<longleftrightarrow> (\<forall>k. map_option canon (map_of m k) = map_option canon (map_of m' k))"
  by (simp add: by_key_inject map_of_canon fun_eq_iff)

lemma canon_list_map: "canon_list xs = map canon xs"
  by (induction xs) auto

text \<open>What an entry means, read off without any normal form: an id that is null or -1 and a name that is null
  say nothing; a bag of permissions or flags means the members it grants, unless it uses the
  shorthand BASIC; every other member means its value, whatever the order of keys.\<close>

datatype meaning = Plain gval | Granted "string \<Rightarrow> gval option"

definition bag_meaning :: "gval \<Rightarrow> meaning" where
  "bag_meaning v = (case v of
      GObj b \<Rightarrow> if map_of b ''BASIC'' \<noteq> None then Plain (canon v)
        else Granted (\<lambda>k. case map_of b k of
            None \<Rightarrow> None | Some x \<Rightarrow> if x = GBool False then None else Some (canon x))
    | _ \<Rightarrow> Plain (canon v))"

definition entry_meaning :: "gval gomap \<Rightarrow> string \<Rightarrow> meaning option" where
  "entry_meaning e k = (case map_of e k of
      None \<Rightarrow> None
    | Some v \<Rightarrow>
        if k = ''id'' \<and> (v = GNil \<or> is_minus_one v) then None
        else if k = ''who'' \<and> v = GNil then None
        else if k = ''perms'' \<or> k = ''flags'' then Some (bag_meaning v)
        else Some (Plain (canon v)))"

lemma strip_entry_at:
  "map_of (strip_entry e) k = (case map_of e k of
      None \<Rightarrow> None
    | Some v \<Rightarrow> if k = ''id'' \<and> (v = GNil \<or> is_minus_one v) then None
        else if k = ''who'' \<and> v = GNil then None else Some v)"
  by (auto simp: strip_entry_def Let_def split: option.splits)

definition dropped :: "gval \<Rightarrow> gval" where
  "dropped v = (case v of
      GObj b \<Rightarrow> if map_of b ''BASIC'' \<noteq> None then v else GObj (filter (\<lambda>(k, v). v \<noteq> GBool False) b)
    | _ \<Rightarrow> v)"

lemma drop_false_at: "map_of (drop_false bag m) k = (if k = bag then map_option dropped (map_of m k) else map_of m k)"
  by (auto simp: drop_false_def dropped_def has_key_def split: option.splits gval.splits)

lemma normalize_entry_at:
  "map_of (normalize_entry e) k = (if k = ''perms'' \<or> k = ''flags'' then map_option dropped (map_of e k) else map_of e k)"
  by (auto simp: normalize_entry_def drop_false_at)

lemma map_of_filter_value:
  "wf_map b \<Longrightarrow> map_of (filter (\<lambda>(k, v). P v) b) k = (case map_of b k of Some v \<Rightarrow> if P v then Some v else None | None \<Rightarrow> None)"
  by (induction b) (auto simp: wf_map_def map_of_eq_None_iff split: option.splits)

text \<open>Every bag of an entry has distinct keys, since it was a map.\<close>

definition wf_bags :: "gval gomap \<Rightarrow> bool" where
  "wf_bags e \<longleftrightarrow> list_all (\<lambda>k. case map_of e k of Some (GObj b) \<Rightarrow> wf_map b | _ \<Rightarrow> True) [''perms'', ''flags'']"

lemma dropped_same:
  assumes "\<And>b. x = GObj b \<Longrightarrow> wf_map b" and "\<And>b. y = GObj b \<Longrightarrow> wf_map b"
  shows "canon (dropped x) = canon (dropped y) \<longleftrightarrow> bag_meaning x = bag_meaning y"
proof -
  have g: "Granted (\<lambda>k. case map_of b k of None \<Rightarrow> None | Some x \<Rightarrow> if x = GBool False then None else Some (canon x)) =
      Granted (\<lambda>k. map_option canon (map_of (filter (\<lambda>(k, v). v \<noteq> GBool False) b) k))" if "wf_map b" for b
    using that by (auto simp: map_of_filter_value split: option.splits)
  have nob: "map_of (filter (\<lambda>(k, v). v \<noteq> GBool False) b) ''BASIC'' = None" if "map_of b ''BASIC'' = None" for b
    using that by (auto simp: map_of_eq_None_iff)
  have ne: "canon (GObj a) \<noteq> canon (GObj (filter (\<lambda>(k, v). v \<noteq> GBool False) b))"
    if "map_of a ''BASIC'' \<noteq> None" "map_of b ''BASIC'' = None" for a b
    using that nob [of b] unfolding canon_obj by (metis option.map_disc_iff)
  show ?thesis
  proof (cases x; cases y)
    fix a b assume xy: "x = GObj a" "y = GObj b"
    with assms have wf: "wf_map a" "wf_map b" by blast+
    show ?thesis
      using ne [of a b] ne [of b a] wf
      by (auto simp: xy dropped_def bag_meaning_def g canon_obj fun_eq_iff simp del: canon.simps) metis
  qed (auto simp: dropped_def bag_meaning_def g assms)
qed

lemma same_entry:
  assumes "wf_bags e" and "wf_bags e'"
  shows "canon (GObj (normalize_entry (strip_entry e))) = canon (GObj (normalize_entry (strip_entry e'))) \<longleftrightarrow>
    entry_meaning e = entry_meaning e'"
proof -
  have wf: "wf_map b" if "map_of f k = Some (GObj b)" "k = ''perms'' \<or> k = ''flags''" "wf_bags f" for f k b
    using that by (auto simp: wf_bags_def)
  have one: "map_option canon (map_of (normalize_entry (strip_entry e)) k) =
      map_option canon (map_of (normalize_entry (strip_entry e')) k) \<longleftrightarrow> entry_meaning e k = entry_meaning e' k" for k
  proof (cases "k = ''perms'' \<or> k = ''flags''")
    case True
    with wf [of e k] wf [of e' k] assms show ?thesis
      by (auto simp: normalize_entry_at strip_entry_at entry_meaning_def dropped_same split: option.splits)
  next
    case False
    then show ?thesis
      by (auto simp: normalize_entry_at strip_entry_at entry_meaning_def split: option.splits)
  qed
  show ?thesis unfolding canon_obj fun_eq_iff one ..
qed

text \<open>An access control list as it is compared: nil, or the meanings of its entries in order.\<close>

definition wf_acl :: "acl \<Rightarrow> bool" where
  "wf_acl a = (case a of None \<Rightarrow> True | Some es \<Rightarrow> list_all (\<lambda>e. case e of None \<Rightarrow> True | Some m \<Rightarrow> wf_bags m) es)"

definition acl_meaning :: "acl \<Rightarrow> (string \<Rightarrow> meaning option) option list option" where
  "acl_meaning = map_option (map (map_option entry_meaning))"

definition normal_acl :: "acl \<Rightarrow> acl" where
  "normal_acl = map_option (map (map_option (normalize_entry \<circ> strip_entry)))"

lemma same_text_meaning:
  assumes "wf_acl a" and "wf_acl b"
  shows "same_text (normal_acl a) (normal_acl b) \<longleftrightarrow> acl_meaning a = acl_meaning b"
proof -
  define item :: "gval gomap option \<Rightarrow> gval" where
    "item = (\<lambda>e. canon (case map_option (normalize_entry \<circ> strip_entry) e of None \<Rightarrow> GNil | Some m \<Rightarrow> GObj m))"
  have item: "item e = item e' \<longleftrightarrow> map_option entry_meaning e = map_option entry_meaning e'"
    if "case e of None \<Rightarrow> True | Some m \<Rightarrow> wf_bags m" "case e' of None \<Rightarrow> True | Some m \<Rightarrow> wf_bags m" for e e'
    using that by (auto simp: item_def same_entry simp del: canon.simps(2) split: option.splits)
      (simp_all)
  have items: "map item es = map item es' \<longleftrightarrow> map (map_option entry_meaning) es = map (map_option entry_meaning) es'"
    if "wf_acl (Some es)" "wf_acl (Some es')" for es es'
    using that
  proof (induction es arbitrary: es')
    case (Cons e es)
    then show ?case by (cases es') (auto simp: wf_acl_def item)
  qed (auto simp: wf_acl_def)
  have "canon (entries_val (normal_acl (Some es))) = GArr (map item es)" for es
    by (simp add: entries_val_def normal_acl_def canon_list_map item_def comp_def)
  with assms items show ?thesis
    by (cases a; cases b) (auto simp: same_text_def acl_meaning_def, auto simp: entries_val_def normal_acl_def)
qed

section \<open>Names that are looked up\<close>

text \<open>A directory that the server answers from, without changing: the number of each user and group it knows.\<close>

definition directory :: "acl_text \<Rightarrow> 'w api \<Rightarrow> (string \<Rightarrow> string \<Rightarrow> f64 option) \<Rightarrow> bool" where
  "directory tx a dir \<longleftrightarrow>
     (\<forall>(m, fld, key) \<in> {(''user.query'', ''username'', ''uid''), (''group.query'', ''group'', ''gid'')}. \<forall>who f w.
        dir key who = Some f \<longrightarrow>
        (\<exists>raw row rows. api_read a m [GArr [GArr [GStr fld, GStr ''='', GStr who]]] w = (Inr raw, w) \<and>
           as_entries (to_any (at_num tx) raw) = Some (Some (Some row # rows)) \<and> map_of row key = Some (GFloat f)))"

text \<open>The number an entry stands for, when it gives a name instead.\<close>

definition named_id :: "(string \<Rightarrow> string \<Rightarrow> f64 option) \<Rightarrow> gval gomap \<Rightarrow> f64 option option" where
  "named_id dir e = (case (pending_who e, who_lookup e) of
      (Some who, Some (m, fld, key, kind)) \<Rightarrow> Some (dir key who)
    | _ \<Rightarrow> None)"

definition named :: "(string \<Rightarrow> string \<Rightarrow> f64 option) \<Rightarrow> gval gomap \<Rightarrow> gval gomap" where
  "named dir e = (case named_id dir e of
      Some (Some f) \<Rightarrow> del ''who'' (put ''id'' (GFloat f) e) | _ \<Rightarrow> e)"

definition names_known :: "(string \<Rightarrow> string \<Rightarrow> f64 option) \<Rightarrow> acl \<Rightarrow> bool" where
  "names_known dir a = (case a of None \<Rightarrow> True | Some es \<Rightarrow>
     list_all (\<lambda>e. case e of None \<Rightarrow> True | Some m \<Rightarrow> (case named_id dir m of
        None \<Rightarrow> True | Some None \<Rightarrow> False | Some (Some f) \<Rightarrow> \<not> is_minus_one (GFloat f))) es)"

definition named_acl :: "(string \<Rightarrow> string \<Rightarrow> f64 option) \<Rightarrow> acl \<Rightarrow> acl" where
  "named_acl dir = map_option (map (map_option (named dir)))"

lemma pending_normal: "pending_who (normalize_entry (strip_entry e)) = pending_who e"
  by (simp add: pending_who_def normalize_entry_at strip_entry_at split: option.splits gval.splits)

lemma lookup_normal: "who_lookup (normalize_entry (strip_entry e)) = who_lookup e"
  by (simp add: who_lookup_def normalize_entry_at strip_entry_at split: option.splits)

lemma who_lookup_cases:
  "who_lookup e = Some (m, fld, key, kind) \<Longrightarrow>
     (m, fld, key) \<in> {(''user.query'', ''username'', ''uid''), (''group.query'', ''group'', ''gid'')}"
  by (auto simp: who_lookup_def split: option.splits gval.splits if_splits)

lemma resolve_entry_named:
  assumes "directory tx a dir" and "case named_id dir e of None \<Rightarrow> True | Some None \<Rightarrow> False | Some (Some f) \<Rightarrow> \<not> is_minus_one (GFloat f)"
  shows "\<exists>e1. resolve_entry tx a i (normalize_entry (strip_entry e)) w = (Inr e1, w) \<and>
    map_of e1 = map_of (normalize_entry (strip_entry (named dir e)))"
proof (cases "named_id dir e")
  case None
  then have "resolve_entry tx a i (normalize_entry (strip_entry e)) w = (Inr (normalize_entry (strip_entry e)), w)"
    by (auto simp: resolve_entry_def pending_normal lookup_normal named_id_def split: option.splits prod.splits)
  with None show ?thesis by (auto simp: named_def)
next
  case (Some r)
  with assms(2) obtain f where r: "r = Some f" and f: "\<not> is_minus_one (GFloat f)" by (cases r) auto
  from Some r obtain who m fld key kind where p: "pending_who e = Some who" "who_lookup e = Some (m, fld, key, kind)"
    "dir key who = Some f" by (auto simp: named_id_def split: option.splits)
  from assms(1) who_lookup_cases [OF p(2)] p(3) obtain raw row rows where q:
    "api_read a m [GArr [GArr [GStr fld, GStr ''='', GStr who]]] w = (Inr raw, w)"
    "as_entries (to_any (at_num tx) raw) = Some (Some (Some row # rows))" "map_of row key = Some (GFloat f)"
    unfolding directory_def by blast
  have "resolve_entry tx a i (normalize_entry (strip_entry e)) w =
      (Inr (del ''who'' (put ''id'' (GFloat f) (normalize_entry (strip_entry e)))), w)"
    by (simp add: resolve_entry_def pending_normal lookup_normal p q row_number_def)
  moreover have "map_of (del ''who'' (put ''id'' (GFloat f) (normalize_entry (strip_entry e)))) =
      map_of (normalize_entry (strip_entry (named dir e)))"
    using Some r f by (auto simp: fun_eq_iff named_def normalize_entry_at strip_entry_at split: option.splits)
  ultimately show ?thesis by blast
qed

lemma resolve_list_named:
  assumes "directory tx a dir" and "names_known dir (Some es)"
  shows "\<exists>xs. resolve_list tx a i (map (map_option (normalize_entry \<circ> strip_entry)) es) w = (Inr xs, w) \<and>
    canon (entries_val (Some xs)) = canon (entries_val (normal_acl (named_acl dir (Some es))))"
  using assms(2)
proof (induction es arbitrary: i)
  case Nil
  then show ?case by (simp add: entries_val_def normal_acl_def named_acl_def)
next
  case (Cons e es)
  then have "names_known dir (Some es)" by (simp add: names_known_def)
  from Cons.IH [OF this, of "i + 1"] obtain xs where
    xs: "resolve_list tx a (i + 1) (map (map_option (normalize_entry \<circ> strip_entry)) es) w = (Inr xs, w)"
    "canon (entries_val (Some xs)) = canon (entries_val (normal_acl (named_acl dir (Some es))))" by blast
  show ?case
  proof (cases e)
    case None
    with xs show ?thesis by (simp add: entries_val_def normal_acl_def named_acl_def comp_def)
  next
    case (Some m)
    with Cons.prems have "case named_id dir m of None \<Rightarrow> True | Some None \<Rightarrow> False | Some (Some f) \<Rightarrow> \<not> is_minus_one (GFloat f)"
      by (simp add: names_known_def)
    from resolve_entry_named [OF assms(1) this, of i w] obtain e1 where
      e1: "resolve_entry tx a i (normalize_entry (strip_entry m)) w = (Inr e1, w)"
      "map_of e1 = map_of (normalize_entry (strip_entry (named dir m)))" by blast
    from e1(2) have "canon (GObj e1) = canon (GObj (normalize_entry (strip_entry (named dir m))))"
      by (simp only: canon_obj) simp
    with xs e1(1) Some show ?thesis
      by (simp add: entries_val_def normal_acl_def named_acl_def comp_def del: canon.simps(2))
  qed
qed

lemma resolve_who_named:
  assumes "directory tx a dir" and "names_known dir x"
  shows "\<exists>y. resolve_who tx a (normal_acl x) w = (Inr y, w) \<and>
    canon (entries_val y) = canon (entries_val (normal_acl (named_acl dir x)))"
proof (cases x)
  case None
  then show ?thesis by (simp add: resolve_who_def normal_acl_def named_acl_def)
next
  case (Some es)
  with resolve_list_named [OF assms(1), of es 0 w] assms(2) show ?thesis
    by (auto simp: resolve_who_def normal_acl_def)
qed

lemma wf_named_bags [simp]: "wf_bags (named dir m) = wf_bags m"
  by (simp add: named_def wf_bags_def split: option.splits)

lemma wf_named: "wf_acl x \<Longrightarrow> wf_acl (named_acl dir x)"
  by (auto simp: wf_acl_def named_acl_def list_all_iff split: option.splits)

lemma entries_differ_meaning:
  assumes "directory tx a dir"
    and "as_entries (to_any (at_num tx) d) = Some x" and "as_entries (to_any (at_num tx) d') = Some y"
    and "names_known dir x" and "names_known dir y" and "wf_acl x" and "wf_acl y"
  shows "entries_differ tx a (Doc d) (Doc d') w =
    (Inr (acl_meaning (named_acl dir x) \<noteq> acl_meaning (named_acl dir y)), w)"
proof -
  have n: "normalize_entries tx (Doc d) = Inr (normal_acl x)" "normalize_entries tx (Doc d') = Inr (normal_acl y)"
    using assms(2,3)
    by (auto simp: normalize_entries_def entries_normalized_def normal_acl_def map_option.compositionality
        option.map_comp comp_def intro!: map_option_cong)
  from resolve_who_named [OF assms(1,4), of w] obtain x1 where
    x1: "resolve_who tx a (normal_acl x) w = (Inr x1, w)" "canon (entries_val x1) = canon (entries_val (normal_acl (named_acl dir x)))"
    by blast
  from resolve_who_named [OF assms(1,5), of w] obtain y1 where
    y1: "resolve_who tx a (normal_acl y) w = (Inr y1, w)" "canon (entries_val y1) = canon (entries_val (normal_acl (named_acl dir y)))"
    by blast
  have "same_text x1 y1 = (acl_meaning (named_acl dir x) = acl_meaning (named_acl dir y))"
    using same_text_meaning [OF wf_named [OF assms(6)] wf_named [OF assms(7)], of dir dir] x1(2) y1(2)
    by (simp add: same_text_def)
  with n x1(1) y1(1) show ?thesis by (simp add: entries_differ_def)
qed

text \<open>C17. Two texts are the same list exactly when their entries mean the same in order, names counted as the
  numbers they stand for: spelling out a default id, an absent name, the order of keys or a denied
  permission makes no difference, and anything else does. Planning over such a respelling keeps the
  text of the state, and an update calls setacl only when the meaning or the owner changed.\<close>

theorem acl_applied_by_meaning:
  assumes "directory tx a dir"
    and "as_entries (to_any (at_num tx) d) = Some x" and "as_entries (to_any (at_num tx) d') = Some y"
    and "names_known dir x" and "names_known dir y" and "wf_acl x" and "wf_acl y"
    and "text_doc tx (value_string (fa_entries plan)) = Doc d" and "text_doc tx (value_string (fa_entries st)) = Doc d'"
  defines "same \<equiv> acl_meaning (named_acl dir x) = acl_meaning (named_acl dir y)"
  shows "fst (entries_differ tx a (Doc d) (Doc d') w) = Inr (\<not> same) \<and>
    acl_update tx a plan st cfg w =
      map_option (\<lambda>(r, w1). (case r of
          Inl e \<Rightarrow> fail_err ''Update filesystem ACL failed'' e
        | Inr api \<Rightarrow> store_acl (acl_to_model api plan), w1))
        (if same \<and> fa_uid plan = fa_uid st \<and> fa_gid plan = fa_gid st
         then Some (get_acl a (value_string (fa_path plan)) w) else apply_acl tx a plan cfg w) \<and>
    fst (keep_equivalent_entries tx a True True (fa_entries plan) (fa_entries st) (fa_entries plan) w) =
      (if same \<and> is_set (fa_entries plan) \<and> is_set (fa_entries st) then fa_entries st else fa_entries plan)"
proof -
  note diff = entries_differ_meaning [OF assms(1-7), folded same_def]
  have "fa_entries plan = fa_entries st"
    if "is_set (fa_entries plan)" "is_set (fa_entries st)" "value_string (fa_entries plan) = value_string (fa_entries st)"
    using that by (auto simp: is_set_iff)
  then show ?thesis
    using assms(8,9) by (simp add: acl_update_def diff keep_equivalent_entries_def)
qed

definition demo_text :: acl_text where
  "demo_text = \<lparr>
     at_parse = (\<lambda>s. if s = ''by name''
       then Some (GArr [GObj [(''tag'', GStr ''USER''), (''who'', GStr ''bob''), (''perms'', GObj [(''READ'', GBool True)])]])
       else Some (GArr [GObj [(''perms'', GObj [(''WRITE'', GBool False), (''READ'', GBool True)]),
              (''id'', GNumber ''1000''), (''who'', GNil), (''tag'', GStr ''USER'')]])),
     at_print = (\<lambda>v. ''by id''), at_num = (\<lambda>s. F_Fin 1000 0)\<rparr>"

definition demo_api :: "unit api" where
  "demo_api = \<lparr>api_call = (\<lambda>m ps w. (Inr GNil, w)),
     api_read = (\<lambda>m ps w. (Inr (GArr [GObj [(''uid'', GNumber ''1000'')]]), w)),
     api_job = (\<lambda>m ps w. Some (Inr GNil, w)), api_at_least = (\<lambda>x y w. (Inr True, w)),
     api_now = (\<lambda>w. (0, w)), api_pause = (\<lambda>d w. (None, w))\<rparr>"

definition demo_directory :: "string \<Rightarrow> string \<Rightarrow> f64 option" where
  "demo_directory key who = (if key = ''uid'' \<and> who = ''bob'' then Some (F_Fin 1000 0) else None)"

theorem acl_applied_by_meaning_witness:
  "fst (keep_equivalent_entries demo_text demo_api True True (Known ''by name'') (Known ''by id'') (Known ''by name'') ()) =
     Known ''by id''"
proof -
  define plan where "plan = null_acl\<lparr>fa_entries := Known ''by name''\<rparr>"
  define st where "st = null_acl\<lparr>fa_entries := Known ''by id''\<rparr>"
  define perms where "perms = [(''READ'', GBool True)]"
  define e where "e = [(''tag'', GStr ''USER''), (''who'', GStr ''bob''), (''perms'', GObj [(''READ'', GBool True)])]"
  define e' where "e' = [(''perms'', GObj [(''WRITE'', GBool False), (''READ'', GBool True)]),
              (''id'', GFloat (F_Fin 1000 0)), (''who'', GNil), (''tag'', GStr ''USER'')]"
  define d where "d = GArr [GObj [(''tag'', GStr ''USER''), (''who'', GStr ''bob''), (''perms'', GObj [(''READ'', GBool True)])]]"
  define d' where "d' = GArr [GObj [(''perms'', GObj [(''WRITE'', GBool False), (''READ'', GBool True)]),
              (''id'', GNumber ''1000''), (''who'', GNil), (''tag'', GStr ''USER'')]]"
  have dir: "directory demo_text demo_api demo_directory"
    by (auto simp: directory_def demo_directory_def demo_api_def demo_text_def as_entries_def as_entry_def)
  have x: "as_entries (to_any (at_num demo_text) d) = Some (Some [Some e])"
    "as_entries (to_any (at_num demo_text) d') = Some (Some [Some e'])"
    by (simp_all add: d_def d'_def e_def e'_def as_entries_def as_entry_def demo_text_def)
  have n: "named_id demo_directory e = Some (Some (F_Fin 1000 0))" "named_id demo_directory e' = None"
    by (simp_all add: named_id_def pending_who_def who_lookup_def demo_directory_def e_def e'_def)
  have k: "names_known demo_directory (Some [Some e])" "names_known demo_directory (Some [Some e'])"
    by (simp_all add: names_known_def n is_minus_one_def f64_rat_def)
  have k': "wf_acl (Some [Some e])" "wf_acl (Some [Some e'])"
    by (simp_all add: wf_acl_def wf_bags_def wf_map_def e_def e'_def)
  have t: "text_doc demo_text (value_string (fa_entries plan)) = Doc d" "text_doc demo_text (value_string (fa_entries st)) = Doc d'"
    by (simp_all add: text_doc_def demo_text_def plan_def st_def d_def d'_def)
  have m: "named demo_directory e = del ''who'' (put ''id'' (GFloat (F_Fin 1000 0)) e)" "named demo_directory e' = e'"
    by (simp_all add: named_def n)
  have "entry_meaning (named demo_directory e) k = entry_meaning (named demo_directory e') k" for k
    unfolding m by (simp add: entry_meaning_def e_def e'_def is_minus_one_def f64_rat_def bag_meaning_def fun_eq_iff)
  then have "entry_meaning (named demo_directory e) = entry_meaning (named demo_directory e')" by (rule ext)
  then have "acl_meaning (named_acl demo_directory (Some [Some e])) = acl_meaning (named_acl demo_directory (Some [Some e']))"
    by (simp add: acl_meaning_def named_acl_def)
  with acl_applied_by_meaning [OF dir x k k' t, of "()" null_acl] show ?thesis
    by (simp add: plan_def st_def)
qed

end
