(* ===== verification/Smb.thy ===== *)
theory Smb
  imports Resource PlanMod "HOL-Library.Char_ord" "HOL-Library.List_Lexorder"
begin

text \<open>
  The SMB share resource (src/internal/resources/smb): the options each purpose accepts, the flat
  attributes of old configurations that stand for options of a LEGACY_SHARE, the checks that
  keep a configured value from being dropped, the plan and the operations.
\<close>

section \<open>Options and purposes\<close>

record smb_options =
  op_recyclebin :: "bool tf"
  op_path_suffix :: "string tf"
  op_hostsallow :: "string tf list tf"
  op_hostsdeny :: "string tf list tf"
  op_guestok :: "bool tf"
  op_streams :: "bool tf"
  op_durablehandle :: "bool tf"
  op_shadowcopy :: "bool tf"
  op_fsrvp :: "bool tf"
  op_home :: "bool tf"
  op_acl :: "bool tf"
  op_afp :: "bool tf"
  op_timemachine :: "bool tf"
  op_timemachine_quota :: "int tf"
  op_aapl :: "bool tf"
  op_vuid :: "string tf"
  op_auxsmbconf :: "string tf"
  op_auto_snapshot :: "bool tf"
  op_auto_dataset :: "bool tf"
  op_naming :: "string tf"
  op_grace_period :: "int tf"
  op_auto_quota :: "int tf"
  op_remote_path :: "string tf list tf"

text \<open>The fields in schema order with their wire keys.\<close>

definition option_fields :: "smb_options \<Rightarrow> attrs" where
  "option_fields opt =
     [(''recyclebin'', bool_attr (op_recyclebin opt)),
      (''path_suffix'', str_attr (op_path_suffix opt)),
      (''hostsallow'', list_attr GStr (op_hostsallow opt)),
      (''hostsdeny'', list_attr GStr (op_hostsdeny opt)),
      (''guestok'', bool_attr (op_guestok opt)),
      (''streams'', bool_attr (op_streams opt)),
      (''durablehandle'', bool_attr (op_durablehandle opt)),
      (''shadowcopy'', bool_attr (op_shadowcopy opt)),
      (''fsrvp'', bool_attr (op_fsrvp opt)),
      (''home'', bool_attr (op_home opt)),
      (''acl'', bool_attr (op_acl opt)),
      (''afp'', bool_attr (op_afp opt)),
      (''timemachine'', bool_attr (op_timemachine opt)),
      (''timemachine_quota'', int_attr (op_timemachine_quota opt)),
      (''aapl_name_mangling'', bool_attr (op_aapl opt)),
      (''vuid'', str_attr (op_vuid opt)),
      (''auxsmbconf'', str_attr (op_auxsmbconf opt)),
      (''auto_snapshot'', bool_attr (op_auto_snapshot opt)),
      (''auto_dataset_creation'', bool_attr (op_auto_dataset opt)),
      (''dataset_naming_schema'', str_attr (op_naming opt)),
      (''grace_period'', int_attr (op_grace_period opt)),
      (''auto_quota'', int_attr (op_auto_quota opt)),
      (''remote_path'', list_attr GStr (op_remote_path opt))]"

text \<open>The wire options have a pointer per field; a nil pointer is written as the null attribute that
  \<open>optionsToObject\<close> makes of it.\<close>

definition pointer :: "(gval \<Rightarrow> 'a option) \<Rightarrow> gval \<Rightarrow> 'a tf option" where
  "pointer f v = map_option (\<lambda>p. case p of None \<Rightarrow> TfNull | Some x \<Rightarrow> Known x) (as_ptr f v)"

definition list_pointer :: "gval \<Rightarrow> string tf list tf option" where
  "list_pointer v = map_option (\<lambda>p. case p of None \<Rightarrow> TfNull | Some xs \<Rightarrow> known_list xs) (as_ptr (as_list as_string) v)"

definition decode_smb_options :: "gval \<Rightarrow> smb_options option" where
  "decode_smb_options v = do {
     m \<leftarrow> as_object v;
     x0 \<leftarrow> pointer as_bool (field m ''recyclebin'');
     x1 \<leftarrow> pointer as_string (field m ''path_suffix'');
     x2 \<leftarrow> list_pointer (field m ''hostsallow'');
     x3 \<leftarrow> list_pointer (field m ''hostsdeny'');
     x4 \<leftarrow> pointer as_bool (field m ''guestok'');
     x5 \<leftarrow> pointer as_bool (field m ''streams'');
     x6 \<leftarrow> pointer as_bool (field m ''durablehandle'');
     x7 \<leftarrow> pointer as_bool (field m ''shadowcopy'');
     x8 \<leftarrow> pointer as_bool (field m ''fsrvp'');
     x9 \<leftarrow> pointer as_bool (field m ''home'');
     x10 \<leftarrow> pointer as_bool (field m ''acl'');
     x11 \<leftarrow> pointer as_bool (field m ''afp'');
     x12 \<leftarrow> pointer as_bool (field m ''timemachine'');
     x13 \<leftarrow> pointer as_int64 (field m ''timemachine_quota'');
     x14 \<leftarrow> pointer as_bool (field m ''aapl_name_mangling'');
     x15 \<leftarrow> pointer as_string (field m ''vuid'');
     x16 \<leftarrow> pointer as_string (field m ''auxsmbconf'');
     x17 \<leftarrow> pointer as_bool (field m ''auto_snapshot'');
     x18 \<leftarrow> pointer as_bool (field m ''auto_dataset_creation'');
     x19 \<leftarrow> pointer as_string (field m ''dataset_naming_schema'');
     x20 \<leftarrow> pointer as_int64 (field m ''grace_period'');
     x21 \<leftarrow> pointer as_int64 (field m ''auto_quota'');
     x22 \<leftarrow> list_pointer (field m ''remote_path'');
     Some \<lparr>op_recyclebin = x0, op_path_suffix = x1, op_hostsallow = x2, op_hostsdeny = x3, op_guestok = x4, op_streams = x5, op_durablehandle = x6, op_shadowcopy = x7, op_fsrvp = x8, op_home = x9, op_acl = x10, op_afp = x11, op_timemachine = x12, op_timemachine_quota = x13, op_aapl = x14, op_vuid = x15, op_auxsmbconf = x16, op_auto_snapshot = x17, op_auto_dataset = x18, op_naming = x19, op_grace_period = x20, op_auto_quota = x21, op_remote_path = x22\<rparr> }"

definition legacy_share_purpose :: string where "legacy_share_purpose = ''LEGACY_SHARE''"

definition valid_smb_purposes :: "string list" where
  "valid_smb_purposes = [''DEFAULT_SHARE'', ''LEGACY_SHARE'', ''TIMEMACHINE_SHARE'', ''MULTIPROTOCOL_SHARE'',
     ''TIME_LOCKED_SHARE'', ''PRIVATE_DATASETS_SHARE'', ''EXTERNAL_SHARE'', ''VEEAM_REPOSITORY_SHARE'', ''FCP_SHARE'']"

definition smb_option_fields_by_purpose :: "(string \<times> string list) list" where
  "smb_option_fields_by_purpose =
     [(''LEGACY_SHARE'', [''recyclebin'', ''path_suffix'', ''hostsallow'', ''hostsdeny'', ''guestok'', ''streams'',
        ''durablehandle'', ''shadowcopy'', ''fsrvp'', ''home'', ''acl'', ''afp'', ''timemachine'',
        ''timemachine_quota'', ''aapl_name_mangling'', ''vuid'', ''auxsmbconf'']),
      (''DEFAULT_SHARE'', [''aapl_name_mangling'', ''hostsallow'', ''hostsdeny'']),
      (''MULTIPROTOCOL_SHARE'', [''aapl_name_mangling'', ''hostsallow'', ''hostsdeny'']),
      (''FCP_SHARE'', [''aapl_name_mangling'', ''hostsallow'', ''hostsdeny'']),
      (''VEEAM_REPOSITORY_SHARE'', [''hostsallow'', ''hostsdeny'']),
      (''TIMEMACHINE_SHARE'', [''timemachine_quota'', ''auto_snapshot'', ''auto_dataset_creation'',
        ''dataset_naming_schema'', ''vuid'', ''hostsallow'', ''hostsdeny'']),
      (''TIME_LOCKED_SHARE'', [''grace_period'', ''aapl_name_mangling'', ''hostsallow'', ''hostsdeny'']),
      (''PRIVATE_DATASETS_SHARE'', [''dataset_naming_schema'', ''auto_quota'', ''aapl_name_mangling'',
        ''hostsallow'', ''hostsdeny'']),
      (''EXTERNAL_SHARE'', [''remote_path''])]"

definition valid_options :: "string \<Rightarrow> string list" where
  "valid_options purpose = (case map_of smb_option_fields_by_purpose purpose of Some ks \<Rightarrow> ks | None \<Rightarrow> [])"

section \<open>The model\<close>

record smb_audit =
  au_enable :: "bool tf"
  au_watch :: "string tf list tf"
  au_ignore :: "string tf list tf"

record smb_model =
  sm_id :: "int tf"
  sm_path :: "string tf"
  sm_name :: "string tf"
  sm_comment :: "string tf"
  sm_ro :: "bool tf"
  sm_browsable :: "bool tf"
  sm_recyclebin :: "bool tf"
  sm_guestok :: "bool tf"
  sm_hostsallow :: "string tf list tf"
  sm_hostsdeny :: "string tf list tf"
  sm_abe :: "bool tf"
  sm_acl :: "bool tf"
  sm_durablehandle :: "bool tf"
  sm_streams :: "bool tf"
  sm_timemachine :: "bool tf"
  sm_timemachine_quota :: "int tf"
  sm_enabled :: "bool tf"
  sm_home :: "bool tf"
  sm_purpose :: "string tf"
  sm_options :: "smb_options tf"
  sm_audit :: "smb_audit tf"
  sm_vuid :: "string tf"
  sm_locked :: "bool tf"

record smb_response =
  sr_id :: int
  sr_path :: string
  sr_name :: string
  sr_comment :: string
  sr_readonly :: bool
  sr_browsable :: bool
  sr_abe :: bool
  sr_enabled :: bool
  sr_purpose :: string
  sr_locked :: "bool option"
  sr_options :: "smb_options option"
  sr_audit :: "(bool \<times> string list \<times> string list) option"

definition decode_smb_audit :: "gval \<Rightarrow> (bool \<times> string list \<times> string list) option" where
  "decode_smb_audit v = do {
     m \<leftarrow> as_object v;
     e \<leftarrow> as_bool (field m ''enable'');
     w \<leftarrow> as_list as_string (field m ''watch_list'');
     i \<leftarrow> as_list as_string (field m ''ignore_list'');
     Some (e, w, i) }"

definition decode_smb :: "gval \<Rightarrow> smb_response option" where
  "decode_smb v = do {
     m \<leftarrow> as_object v;
     i \<leftarrow> as_int64 (field m ''id'');
     p \<leftarrow> as_string (field m ''path'');
     n \<leftarrow> as_string (field m ''name'');
     c \<leftarrow> as_string (field m ''comment'');
     ro \<leftarrow> as_bool (field m ''readonly'');
     b \<leftarrow> as_bool (field m ''browsable'');
     abe \<leftarrow> as_bool (field m ''access_based_share_enumeration'');
     e \<leftarrow> as_bool (field m ''enabled'');
     pu \<leftarrow> as_string (field m ''purpose'');
     l \<leftarrow> as_ptr as_bool (field m ''locked'');
     opts \<leftarrow> as_ptr decode_smb_options (field m ''options'');
     au \<leftarrow> as_ptr decode_smb_audit (field m ''audit'');
     Some \<lparr>sr_id = i, sr_path = p, sr_name = n, sr_comment = c, sr_readonly = ro, sr_browsable = b, sr_abe = abe,
       sr_enabled = e, sr_purpose = pu, sr_locked = l, sr_options = opts, sr_audit = au\<rparr> }"

definition options_to_object :: "smb_options option \<Rightarrow> smb_options tf" where
  "options_to_object opts = (case opts of None \<Rightarrow> TfNull | Some opt \<Rightarrow> Known opt)"

definition bool_or_false :: "bool tf \<Rightarrow> bool tf" where "bool_or_false p = Known (value_bool p)"
definition int64_or_zero :: "int tf \<Rightarrow> int tf" where "int64_or_zero p = Known (value_int64 p)"
definition str_or_empty :: "string tf \<Rightarrow> string tf" where "str_or_empty p = Known (value_string p)"
definition str_list_or_empty :: "string tf list tf \<Rightarrow> string tf list tf" where
  "str_list_or_empty p = (if is_null p then known_list [] else p)"

definition smb_to_model :: "smb_response \<Rightarrow> smb_model \<Rightarrow> smb_model" where
  "smb_to_model api m =
     (let m1 = m\<lparr>sm_id := Known (sr_id api), sm_path := Known (sr_path api), sm_name := Known (sr_name api),
            sm_comment := Known (sr_comment api), sm_ro := Known (sr_readonly api),
            sm_browsable := Known (sr_browsable api), sm_abe := Known (sr_abe api),
            sm_enabled := Known (sr_enabled api), sm_purpose := Known (sr_purpose api),
            sm_locked := Known (case sr_locked api of Some l \<Rightarrow> l | None \<Rightarrow> False),
            sm_options := options_to_object (sr_options api)\<rparr>;
          m2 = (case (if sr_purpose api = legacy_share_purpose then sr_options api else None) of
              Some opt \<Rightarrow> m1\<lparr>sm_recyclebin := bool_or_false (op_recyclebin opt), sm_guestok := bool_or_false (op_guestok opt),
                sm_acl := bool_or_false (op_acl opt), sm_durablehandle := bool_or_false (op_durablehandle opt),
                sm_streams := bool_or_false (op_streams opt), sm_timemachine := bool_or_false (op_timemachine opt),
                sm_timemachine_quota := int64_or_zero (op_timemachine_quota opt), sm_home := bool_or_false (op_home opt),
                sm_vuid := str_or_empty (op_vuid opt), sm_hostsallow := str_list_or_empty (op_hostsallow opt),
                sm_hostsdeny := str_list_or_empty (op_hostsdeny opt)\<rparr>
            | None \<Rightarrow> m1\<lparr>sm_recyclebin := Known False, sm_guestok := Known False, sm_acl := Known False,
                sm_durablehandle := Known False, sm_streams := Known False, sm_timemachine := Known False,
                sm_timemachine_quota := Known 0, sm_home := Known False, sm_vuid := Known [],
                sm_hostsallow := known_list [], sm_hostsdeny := known_list []\<rparr>);
          (e, watch, ignore) = (case sr_audit api of Some a \<Rightarrow> a | None \<Rightarrow> (False, [], []))
      in m2\<lparr>sm_audit := Known \<lparr>au_enable = Known e, au_watch = known_list watch, au_ignore = known_list ignore\<rparr>\<rparr>)"

section \<open>What is sent\<close>

text \<open>A purpose that is not set, or not known, is LEGACY_SHARE.\<close>

definition resolve_effective_purpose :: "smb_model \<Rightarrow> string" where
  "resolve_effective_purpose m =
     (if is_set (sm_purpose m) \<and> value_string (sm_purpose m) \<in> set valid_smb_purposes then value_string (sm_purpose m)
      else legacy_share_purpose)"

definition flat_legacy_attrs :: "smb_model \<Rightarrow> attrs" where
  "flat_legacy_attrs m =
     [(''recyclebin'', bool_attr (sm_recyclebin m)),
      (''guestok'', bool_attr (sm_guestok m)),
      (''hostsallow'', list_attr GStr (sm_hostsallow m)),
      (''hostsdeny'', list_attr GStr (sm_hostsdeny m)),
      (''acl'', bool_attr (sm_acl m)),
      (''durablehandle'', bool_attr (sm_durablehandle m)),
      (''streams'', bool_attr (sm_streams m)),
      (''timemachine'', bool_attr (sm_timemachine m)),
      (''timemachine_quota'', int_attr (sm_timemachine_quota m)),
      (''home'', bool_attr (sm_home m))]"

text \<open>The setters: an option is sent when the purpose accepts it and it is set; a flat attribute only fills an
  option that is not there yet.\<close>

definition put_option :: "string list \<Rightarrow> string \<times> gval tf \<Rightarrow> payload \<Rightarrow> payload" where
  "put_option valid kv p = (case kv of (k, v) \<Rightarrow> put_when (k \<in> set valid \<and> is_set v) k (value_or GNil v) p)"

definition put_fallback :: "string list \<Rightarrow> string \<times> gval tf \<Rightarrow> payload \<Rightarrow> payload" where
  "put_fallback valid kv p = (if has_key p (fst kv) then p else put_option valid kv p)"

definition smb_options_payload :: "smb_model \<Rightarrow> payload" where
  "smb_options_payload m =
     (let purpose = resolve_effective_purpose m;
          valid = valid_options purpose;
          p = [(''purpose'', GStr purpose)];
          p = (if is_set (sm_options m)
               then fold (put_option valid) (case sm_options m of Known opt \<Rightarrow> option_fields opt | _ \<Rightarrow> []) p else p)
      in if purpose = legacy_share_purpose then fold (put_fallback valid) (flat_legacy_attrs m) p else p)"

text \<open>The lists that are converted: one with a null or unknown element is an error. (The list of an option that
  is not sent is not converted.)\<close>

definition good_list :: "string tf list tf \<Rightarrow> bool" where
  "good_list l = (case set_elements l of Inr _ \<Rightarrow> True | Inl _ \<Rightarrow> False)"

definition options_lists_good :: "smb_model \<Rightarrow> bool" where
  "options_lists_good m =
     (let valid = valid_options (resolve_effective_purpose m);
          legacy = (resolve_effective_purpose m = legacy_share_purpose);
          good = (\<lambda>k opt flat. k \<notin> set valid \<or> (if is_set opt then good_list opt else \<not> legacy \<or> good_list flat))
      in case sm_options m of
           Known opt \<Rightarrow> good ''hostsallow'' (op_hostsallow opt) (sm_hostsallow m) \<and>
             good ''hostsdeny'' (op_hostsdeny opt) (sm_hostsdeny m) \<and> good ''remote_path'' (op_remote_path opt) TfNull
         | _ \<Rightarrow> good ''hostsallow'' TfNull (sm_hostsallow m) \<and> good ''hostsdeny'' TfNull (sm_hostsdeny m))"

definition audit_payload :: "smb_audit \<Rightarrow> payload" where
  "audit_payload a =
     put_when (is_set (au_ignore a)) ''ignore_list'' (value_or GNil (list_attr GStr (au_ignore a)))
       (put_when (is_set (au_watch a)) ''watch_list'' (value_or GNil (list_attr GStr (au_watch a)))
         (put_bool ''enable'' (au_enable a) []))"

definition smb_payload :: "smb_model \<Rightarrow> diagnostic + payload" where
  "smb_payload m =
     (let audit_good = (case sm_audit m of Known a \<Rightarrow> good_list (au_watch a) \<and> good_list (au_ignore a) | _ \<Rightarrow> True) in
      if options_lists_good m \<and> audit_good then
        (let p = [(''path'', GStr (value_string (sm_path m))), (''name'', GStr (value_string (sm_name m))),
               (''purpose'', GStr (resolve_effective_purpose m))];
             p = put_str ''comment'' (sm_comment m) p;
             p = put_bool ''enabled'' (sm_enabled m) p;
             p = put_bool ''browsable'' (sm_browsable m) p;
             p = put_bool ''readonly'' (sm_ro m) p;
             p = put_bool ''access_based_share_enumeration'' (sm_abe m) p;
             p = put ''options'' (GObj (smb_options_payload m)) p
         in Inr (case sm_audit m of Known a \<Rightarrow> put ''audit'' (GObj (audit_payload a)) p | _ \<Rightarrow> p))
      else Inl conversion_error)"

section \<open>Checks of a configuration\<close>

definition set_option_keys :: "smb_options \<Rightarrow> string list" where
  "set_option_keys opt = map fst (filter (\<lambda>(k, v). is_set v) (option_fields opt))"

definition invalid_option_keys :: "smb_model \<Rightarrow> string \<times> string list" where
  "invalid_option_keys m =
     (let purpose = resolve_effective_purpose m in
      if is_unknown (sm_purpose m) \<or> is_null (sm_options m) \<or> is_unknown (sm_options m) then (purpose, [])
      else (purpose, case sm_options m of
          Known opt \<Rightarrow> filter (\<lambda>k. k \<notin> set (valid_options purpose)) (set_option_keys opt) | _ \<Rightarrow> []))"

definition configured_flat_legacy_keys :: "smb_model \<Rightarrow> string list" where
  "configured_flat_legacy_keys m = map fst (filter (\<lambda>(k, v). \<not> is_null v) (flat_legacy_attrs m))"

definition sorted_valid_options :: "string \<Rightarrow> string list" where
  "sorted_valid_options purpose = sort (valid_options purpose)"

definition invalid_option_diag :: "string \<Rightarrow> string \<Rightarrow> diagnostic" where
  "invalid_option_diag purpose key = (''Option not valid for this purpose'',
     ''options.'' @ key @ '' is not valid for purpose '' @ quoted purpose @ '' and would be silently ignored on apply. '' @
     ''Remove it, or change purpose. Valid options for '' @ purpose @ '': '' @
     join '', '' (sorted_valid_options purpose) @ ''.'')"

definition flat_only_legacy_diag :: "string \<Rightarrow> string \<Rightarrow> diagnostic" where
  "flat_only_legacy_diag purpose key = (''Attribute only valid for LEGACY_SHARE'',
     key @ '' is a LEGACY_SHARE attribute and is not applied for purpose '' @ quoted purpose @
     ''; it would be silently ignored. '' @
     (if key \<in> set (valid_options purpose)
      then ''Set options.'' @ key @ '' instead, or set purpose = '' @ quoted legacy_share_purpose @ ''.''
      else ''Remove it, or set purpose = '' @ quoted legacy_share_purpose @ ''.''))"

definition set_twice_diag :: "string \<Rightarrow> diagnostic" where
  "set_twice_diag key = (''Attribute set twice'',
     key @ '' and options.'' @ key @ '' are the same share setting; set only one of them.'')"

definition smb_validate_config :: "smb_model \<Rightarrow> diagnostic list" where
  "smb_validate_config cfg =
     (let (purpose, bad) = invalid_option_keys cfg;
          flat = configured_flat_legacy_keys cfg
      in map (invalid_option_diag purpose) bad @
         (if is_unknown (sm_purpose cfg) then []
          else if purpose \<noteq> legacy_share_purpose then map (flat_only_legacy_diag purpose) flat
          else (case sm_options cfg of
              Known opt \<Rightarrow> map set_twice_diag (filter (\<lambda>k. k \<in> set (set_option_keys opt)) flat)
            | _ \<Rightarrow> [])))"

section \<open>The plan\<close>

definition over :: "'a tf \<Rightarrow> 'a tf \<Rightarrow> 'a tf" where
  "over v old = (if is_set v then v else old)"

definition overlay_flat_on_options :: "smb_model \<Rightarrow> smb_options \<Rightarrow> smb_options" where
  "overlay_flat_on_options m o0 = o0\<lparr>
     op_recyclebin := over (sm_recyclebin m) (op_recyclebin o0),
     op_guestok := over (sm_guestok m) (op_guestok o0),
     op_hostsallow := over (sm_hostsallow m) (op_hostsallow o0),
     op_hostsdeny := over (sm_hostsdeny m) (op_hostsdeny o0),
     op_acl := over (sm_acl m) (op_acl o0),
     op_durablehandle := over (sm_durablehandle m) (op_durablehandle o0),
     op_streams := over (sm_streams m) (op_streams o0),
     op_timemachine := over (sm_timemachine m) (op_timemachine o0),
     op_timemachine_quota := over (sm_timemachine_quota m) (op_timemachine_quota o0),
     op_home := over (sm_home m) (op_home o0)\<rparr>"

text \<open>A flat attribute that the configuration owned and dropped goes back to the server's default.\<close>

definition unset :: "(string \<Rightarrow> bool) \<Rightarrow> smb_model \<Rightarrow> string \<Rightarrow> bool" where
  "unset should cfg key \<longleftrightarrow> (case map_of (flat_legacy_attrs cfg) key of Some v \<Rightarrow> is_null v | None \<Rightarrow> False) \<and> should key"

definition reset_unset_flat_legacy :: "(string \<Rightarrow> bool) \<Rightarrow> smb_model \<Rightarrow> smb_model \<Rightarrow> smb_model" where
  "reset_unset_flat_legacy should cfg m = m\<lparr>
     sm_recyclebin := (if unset should cfg ''recyclebin'' then Known False else sm_recyclebin m),
     sm_guestok := (if unset should cfg ''guestok'' then Known False else sm_guestok m),
     sm_hostsallow := (if unset should cfg ''hostsallow'' then known_list [] else sm_hostsallow m),
     sm_hostsdeny := (if unset should cfg ''hostsdeny'' then known_list [] else sm_hostsdeny m),
     sm_acl := (if unset should cfg ''acl'' then Known True else sm_acl m),
     sm_durablehandle := (if unset should cfg ''durablehandle'' then Known True else sm_durablehandle m),
     sm_streams := (if unset should cfg ''streams'' then Known True else sm_streams m),
     sm_timemachine := (if unset should cfg ''timemachine'' then Known False else sm_timemachine m),
     sm_timemachine_quota := (if unset should cfg ''timemachine_quota'' then Known 0 else sm_timemachine_quota m),
     sm_home := (if unset should cfg ''home'' then Known False else sm_home m)\<rparr>"

text \<open>The keys that are reset, in order.\<close>

definition reset_keys :: "(string \<Rightarrow> bool) \<Rightarrow> smb_model \<Rightarrow> string list" where
  "reset_keys should cfg = filter (unset should cfg) (map fst (flat_legacy_attrs cfg))"

text \<open>\<open>ModifyPlan\<close> over an existing share: the plan that goes on and the private state of the response.\<close>

definition smb_modify_plan ::
  "priv_state option \<Rightarrow> priv_state option \<Rightarrow> smb_model \<Rightarrow> smb_model \<Rightarrow> smb_model \<Rightarrow> smb_model \<times> priv_state option" where
  "smb_modify_plan inp out cfg st plan =
     (let purpose = resolve_effective_purpose plan in
      if purpose \<noteq> value_string (sm_purpose st) then
        ((if is_null (sm_options cfg) then plan\<lparr>sm_options := TfUnknown\<rparr> else plan)\<lparr>sm_vuid := TfUnknown\<rparr>, out)
      else if purpose \<noteq> legacy_share_purpose \<or> \<not> is_null (sm_options cfg) then (plan, out)
      else (case sm_options plan of
          Known opt \<Rightarrow>
            (let out = fold (\<lambda>k pr. set_managed pr k) (configured_flat_legacy_keys cfg) out;
                 plan = reset_unset_flat_legacy (is_managed inp) cfg plan;
                 out = fold (\<lambda>k pr. clear_managed pr k) (reset_keys (is_managed inp) cfg) out
             in (plan\<lparr>sm_options := Known (overlay_flat_on_options plan opt)\<rparr>, out))
        | _ \<Rightarrow> (plan, out)))"

section \<open>The operations\<close>

definition smb_managed_attrs :: "string list" where
  "smb_managed_attrs = [''comment'', ''ro'', ''browsable'', ''abe'', ''enabled'', ''audit'', ''recyclebin'', ''guestok'',
     ''hostsallow'', ''hostsdeny'', ''acl'', ''durablehandle'', ''streams'', ''timemachine'', ''timemachine_quota'', ''home'']"

definition store_smb :: "smb_response \<Rightarrow> smb_model \<Rightarrow> smb_model outcome" where
  "store_smb api m = (let m1 = smb_to_model api m in Stored (itoa (value_int64 (sm_id m1))) m1)"

definition smb_instance :: "'w api \<Rightarrow> int \<Rightarrow> string \<Rightarrow> string \<Rightarrow> 'w \<Rightarrow> (diagnostic list + smb_response) \<times> 'w" where
  "smb_instance a i read_err parse_err w =
     (case api_read a ''sharing.smb.get_instance'' [GInt i] w of
        (Inl e, w1) \<Rightarrow> (Inl [(read_err, err_text e)], w1)
      | (Inr raw, w1) \<Rightarrow> (case decode_smb raw of
            None \<Rightarrow> (Inl [(parse_err, err_text decode_error)], w1)
          | Some api \<Rightarrow> (Inr api, w1)))"

text \<open>A create also records which attributes the configuration owns.\<close>

definition smb_create ::
  "'w api \<Rightarrow> raw \<Rightarrow> priv_state option \<Rightarrow> smb_model \<Rightarrow> 'w \<Rightarrow> (smb_model outcome \<times> priv_state option) \<times> 'w" where
  "smb_create a raw_cfg pr plan w = (case smb_payload plan of
      Inl d \<Rightarrow> ((Failure [d], pr), w)
    | Inr p \<Rightarrow>
        (case api_call a ''sharing.smb.create'' [GObj p] w of
           (Inl e, w) \<Rightarrow> ((fail_err ''Create SMB share failed'' e, pr), w)
         | (Inr raw, w) \<Rightarrow> (case decode_smb raw of
               None \<Rightarrow> ((parse_failure ''Parse create response'', pr), w)
             | Some created \<Rightarrow>
                 (case smb_instance a (sr_id created) ''Read-back after create failed'' ''Parse get_instance response'' w of
                    (Inl ds, w) \<Rightarrow> ((Failure ds, pr), w)
                  | (Inr api, w) \<Rightarrow> ((store_smb api plan, record_managed raw_cfg pr smb_managed_attrs), w)))))"

definition smb_read :: "'w api \<Rightarrow> smb_model \<Rightarrow> 'w \<Rightarrow> smb_model outcome \<times> 'w" where
  "smb_read a st w =
     (case api_read a ''sharing.smb.get_instance'' [GInt (value_int64 (sm_id st))] w of
        (Inl e, w1) \<Rightarrow> (if is_not_found e then Removed else fail_err ''Read SMB share failed'' e, w1)
      | (Inr raw, w1) \<Rightarrow> (case decode_smb raw of
            None \<Rightarrow> (parse_failure ''Parse response'', w1)
          | Some api \<Rightarrow> (store_smb api st, w1)))"

definition smb_update :: "'w api \<Rightarrow> smb_model \<Rightarrow> smb_model \<Rightarrow> 'w \<Rightarrow> smb_model outcome \<times> 'w" where
  "smb_update a plan0 st w =
     (let plan = plan0\<lparr>sm_id := sm_id st\<rparr>; i = value_int64 (sm_id plan) in
      case smb_payload plan of
        Inl d \<Rightarrow> (Failure [d], w)
      | Inr p \<Rightarrow>
          (case api_call a ''sharing.smb.update'' [GInt i, GObj p] w of
             (Inl e, w) \<Rightarrow> (fail_err ''Update SMB share failed'' e, w)
           | (Inr _, w) \<Rightarrow>
               (case smb_instance a i ''Read-back after update failed'' ''Parse get_instance response'' w of
                  (Inl ds, w) \<Rightarrow> (Failure ds, w)
                | (Inr api, w) \<Rightarrow> (store_smb api plan, w))))"

definition smb_delete :: "'w api \<Rightarrow> smb_model \<Rightarrow> 'w \<Rightarrow> (diagnostic list \<times> 'w) option" where
  "smb_delete a st w =
     map_option (\<lambda>(r, w1). (case r of
         Inl e \<Rightarrow> if is_not_found e then [] else [(''Delete SMB share failed'', err_text e)]
       | Inr _ \<Rightarrow> [], w1))
       (api_job a ''sharing.smb.delete'' [GInt (value_int64 (sm_id st))] w)"

definition null_smb :: smb_model where
  "null_smb = \<lparr>sm_id = TfNull, sm_path = TfNull, sm_name = TfNull, sm_comment = TfNull, sm_ro = TfNull,
     sm_browsable = TfNull, sm_recyclebin = TfNull, sm_guestok = TfNull, sm_hostsallow = TfNull,
     sm_hostsdeny = TfNull, sm_abe = TfNull, sm_acl = TfNull, sm_durablehandle = TfNull, sm_streams = TfNull,
     sm_timemachine = TfNull, sm_timemachine_quota = TfNull, sm_enabled = TfNull, sm_home = TfNull,
     sm_purpose = TfNull, sm_options = TfNull, sm_audit = TfNull, sm_vuid = TfNull, sm_locked = TfNull\<rparr>"

definition smb_import :: "'w api \<Rightarrow> int import_req \<Rightarrow> 'w \<Rightarrow> smb_model outcome \<times> 'w" where
  "smb_import a req w = (case import_int64 req of (i, diags) \<Rightarrow>
     if diags \<noteq> [] then (Failure diags, w)
     else (case smb_instance a i ''Import SMB share failed'' ''Parse import response'' w of
         (Inl ds, w1) \<Rightarrow> (Failure ds, w1)
       | (Inr api, w1) \<Rightarrow> (Stored (itoa i) (smb_to_model api null_smb), w1)))"

text \<open>The data source keeps the name as it is configured.\<close>

definition smb_data_source :: "'w api \<Rightarrow> smb_model \<Rightarrow> 'w \<Rightarrow> (diagnostic list + smb_model) \<times> 'w" where
  "smb_data_source a cfg w =
     (case api_read a ''sharing.smb.query'' [GArr [GArr [GStr ''name'', GStr ''C='', GStr (value_string (sm_name cfg))]]] w of
        (Inl e, w1) \<Rightarrow> (Inl [(''Query SMB shares failed'', err_text e)], w1)
      | (Inr raw, w1) \<Rightarrow> (case as_list decode_smb raw of
            None \<Rightarrow> (Inl [(''Parse query response'', err_text decode_error)], w1)
          | Some [] \<Rightarrow> (Inl [(''SMB share not found'',
              ''No SMB share named '' @ quoted (value_string (sm_name cfg)) @ '' was found.'')], w1)
          | Some (api # _) \<Rightarrow> (Inr ((smb_to_model api cfg)\<lparr>sm_name := sm_name cfg\<rparr>), w1)))"

definition smb_row :: "bool \<Rightarrow> gval \<Rightarrow> diagnostic list + (string \<times> string \<times> smb_model option)" where
  "smb_row include_resource raw = (case decode_smb raw of
      None \<Rightarrow> Inl [(''Parse SMB share row'', err_text decode_error)]
    | Some api \<Rightarrow> Inr (sr_name api, itoa (sr_id api),
        if include_resource then Some (smb_to_model api null_smb) else None))"

definition smb_list ::
  "'w ops \<Rightarrow> int \<Rightarrow> bool \<Rightarrow> 'w \<Rightarrow> (diagnostic list + (string \<times> string \<times> smb_model option)) stream \<times> 'w" where
  "smb_list os limit include_resource = stream_collection os ''sharing.smb.query'' limit (smb_row include_resource)"

section \<open>Facts\<close>

lemma wf_option_fields [simp]: "wf_map (option_fields opt)"
  by (simp add: option_fields_def wf_map_def)

lemma wf_flat_legacy_attrs [simp]: "wf_map (flat_legacy_attrs m)"
  by (simp add: flat_legacy_attrs_def wf_map_def)

lemma wf_map_Cons: "wf_map ((k, v) # fs) \<longleftrightarrow> map_of fs k = None \<and> wf_map fs"
  by (simp add: wf_map_def map_of_eq_None_iff)

lemma put_option_at:
  "map_of (put_option valid (k, v) p) j = (if j = k \<and> j \<in> set valid \<and> is_set v then Some (value_or GNil v) else map_of p j)"
  by (auto simp: put_option_def map_of_put_when)

lemma put_fallback_at:
  "map_of (put_fallback valid (k, v) p) j =
     (if j = k \<and> map_of p j = None \<and> j \<in> set valid \<and> is_set v then Some (value_or GNil v) else map_of p j)"
  by (auto simp: put_fallback_def put_option_at has_key_def)

lemma fold_put_option:
  "wf_map fs \<Longrightarrow> map_of (fold (put_option valid) fs p) j = (case map_of fs j of
     Some v \<Rightarrow> if j \<in> set valid \<and> is_set v then Some (value_or GNil v) else map_of p j
   | None \<Rightarrow> map_of p j)"
proof (induction fs arbitrary: p)
  case (Cons kv fs)
  obtain k v where kv: "kv = (k, v)" by fastforce
  with Cons.prems have "map_of fs k = None" "wf_map fs" by (simp_all add: wf_map_Cons)
  with Cons.IH [of "put_option valid (k, v) p"] show ?case
    by (simp add: kv put_option_at split: option.splits)
qed simp

lemma fold_put_fallback:
  "wf_map fs \<Longrightarrow> map_of (fold (put_fallback valid) fs p) j = (case map_of fs j of
     Some v \<Rightarrow> if map_of p j = None \<and> j \<in> set valid \<and> is_set v then Some (value_or GNil v) else map_of p j
   | None \<Rightarrow> map_of p j)"
proof (induction fs arbitrary: p)
  case (Cons kv fs)
  obtain k v where kv: "kv = (k, v)" by fastforce
  with Cons.prems have "map_of fs k = None" "wf_map fs" by (simp_all add: wf_map_Cons)
  with Cons.IH [of "put_fallback valid (k, v) p"] show ?case
    by (simp add: kv put_fallback_at split: option.splits)
qed simp

lemma no_purpose_field [simp]:
  "map_of (option_fields opt) ''purpose'' = None" "map_of (flat_legacy_attrs m) ''purpose'' = None"
  by (simp_all add: option_fields_def flat_legacy_attrs_def)

definition typed_fields :: "smb_model \<Rightarrow> attrs" where
  "typed_fields m = (case sm_options m of Known opt \<Rightarrow> option_fields opt | _ \<Rightarrow> [])"

lemma wf_typed_fields [simp]: "wf_map (typed_fields m)"
  by (simp add: typed_fields_def split: tf.splits)

text \<open>The options that are sent: the typed option when it is set, else for a LEGACY_SHARE the flat attribute, each
  only where the purpose accepts it.\<close>

lemma options_payload_at:
  "map_of (smb_options_payload m) k =
     (if k = ''purpose'' then Some (GStr (resolve_effective_purpose m))
      else if k \<notin> set (valid_options (resolve_effective_purpose m)) then None
      else (case map_of (typed_fields m) k of
          Some v \<Rightarrow> if is_set v then Some (value_or GNil v) else
            (if resolve_effective_purpose m = legacy_share_purpose
             then (case map_of (flat_legacy_attrs m) k of Some f \<Rightarrow> if is_set f then Some (value_or GNil f) else None | None \<Rightarrow> None)
             else None)
        | None \<Rightarrow>
            (if resolve_effective_purpose m = legacy_share_purpose
             then (case map_of (flat_legacy_attrs m) k of Some f \<Rightarrow> if is_set f then Some (value_or GNil f) else None | None \<Rightarrow> None)
             else None)))"
proof -
  have t: "(if is_set (sm_options m)
      then fold (put_option vs) (case sm_options m of Known opt \<Rightarrow> option_fields opt | _ \<Rightarrow> []) p else p) =
      fold (put_option vs) (typed_fields m) p" for vs p
    by (simp add: typed_fields_def split: tf.splits)
  have n: "map_of (typed_fields m) ''purpose'' = None" by (simp add: typed_fields_def split: tf.splits)
  show ?thesis
    unfolding smb_options_payload_def Let_def t
    by (auto simp: fold_put_option fold_put_fallback n split: option.splits)
qed

lemma flat_keys_legacy: "map_of (flat_legacy_attrs m) k = Some v \<Longrightarrow> k \<in> set (valid_options legacy_share_purpose)"
  by (auto simp: flat_legacy_attrs_def valid_options_def smb_option_fields_by_purpose_def legacy_share_purpose_def
      split: if_splits)

text \<open>C19. Nothing that is configured is dropped in silence: what passes the check of the configuration is sent, every
  typed option and every flat attribute with its value, and no option is sent that the purpose does
  not accept.\<close>

theorem smb_nothing_dropped:
  "list_all (\<lambda>kv. fst kv \<in> {''purpose''} \<union> set (valid_options (resolve_effective_purpose m))) (smb_options_payload m) \<and>
   (if smb_validate_config m = [] \<and> \<not> is_unknown (sm_purpose m)
    then list_all (\<lambda>(k, v). if is_set v then map_of (smb_options_payload m) k = Some (value_or GNil v) else True)
           (typed_fields m @ flat_legacy_attrs m)
    else True)"
proof (intro conjI)
  show "list_all (\<lambda>kv. fst kv \<in> {''purpose''} \<union> set (valid_options (resolve_effective_purpose m))) (smb_options_payload m)"
    unfolding list_all_iff
  proof
    fix kv assume "kv \<in> set (smb_options_payload m)"
    then have "map_of (smb_options_payload m) (fst kv) \<noteq> None" by (metis imageI map_of_eq_None_iff)
    then show "fst kv \<in> {''purpose''} \<union> set (valid_options (resolve_effective_purpose m))"
      unfolding options_payload_at by (auto split: if_splits)
  qed
  let ?p = "resolve_effective_purpose m"
  have typed: "map_of (smb_options_payload m) k = Some (value_or GNil v)"
    if ok: "smb_validate_config m = []" "\<not> is_unknown (sm_purpose m)" and k: "(k, v) \<in> set (typed_fields m)" and v: "is_set v" for k v
  proof -
    from k obtain opt where opt: "sm_options m = Known opt" and kv: "(k, v) \<in> set (option_fields opt)"
      by (cases "sm_options m") (auto simp: typed_fields_def)
    from kv v have "k \<in> set (set_option_keys opt)" by (force simp: set_option_keys_def)
    with ok opt have "k \<in> set (valid_options ?p)"
      by (auto simp: smb_validate_config_def invalid_option_keys_def Let_def filter_empty_conv)
    moreover from k have m: "map_of (typed_fields m) k = Some v" using wf_typed_fields by (simp add: wf_map_def)
    moreover have "k \<noteq> ''purpose''" using kv by (auto simp: option_fields_def)
    ultimately show ?thesis using v by (simp add: options_payload_at)
  qed
  have flat: "map_of (smb_options_payload m) k = Some (value_or GNil v)"
    if ok: "smb_validate_config m = []" "\<not> is_unknown (sm_purpose m)" and k: "(k, v) \<in> set (flat_legacy_attrs m)" and v: "is_set v" for k v
  proof -
    from k have m: "map_of (flat_legacy_attrs m) k = Some v" using wf_flat_legacy_attrs by (simp add: wf_map_def)
    from k v have c: "k \<in> set (configured_flat_legacy_keys m)"
      by (force simp: configured_flat_legacy_keys_def is_set_def)
    with ok have l: "?p = legacy_share_purpose"
      by (auto simp: smb_validate_config_def invalid_option_keys_def Let_def split: if_splits)
    have "(case map_of (typed_fields m) k of Some x \<Rightarrow> \<not> is_set x | None \<Rightarrow> True)"
    proof (cases "map_of (typed_fields m) k")
      case (Some x)
      then obtain opt where opt: "sm_options m = Known opt" and kx: "(k, x) \<in> set (option_fields opt)"
        by (cases "sm_options m") (auto simp: typed_fields_def dest: map_of_SomeD)
      have "k \<notin> set (set_option_keys opt)"
        using ok c l opt
        by (auto simp: smb_validate_config_def invalid_option_keys_def Let_def filter_empty_conv split: prod.splits)
      with kx have "\<not> is_set x" by (force simp: set_option_keys_def)
      with Some show ?thesis by simp
    qed simp
    moreover have "k \<noteq> ''purpose''" using m by auto
    moreover have "k \<in> set (valid_options ?p)" using flat_keys_legacy [OF m] l by simp
    ultimately show ?thesis using m v l by (simp add: options_payload_at split: option.splits)
  qed
  show "if smb_validate_config m = [] \<and> \<not> is_unknown (sm_purpose m)
    then list_all (\<lambda>(k, v). if is_set v then map_of (smb_options_payload m) k = Some (value_or GNil v) else True)
           (typed_fields m @ flat_legacy_attrs m)
    else True"
    using typed flat by (auto simp: list_all_iff)
qed

text \<open>The flat attributes of a planned share.\<close>

definition planned_flat :: "(string \<Rightarrow> bool) \<Rightarrow> smb_model \<Rightarrow> smb_model \<Rightarrow> string \<times> gval tf \<Rightarrow> gval tf" where
  "planned_flat should cfg plan kv =
     (if unset should cfg (fst kv)
      then Known (if fst kv \<in> {''acl'', ''durablehandle'', ''streams''} then GBool True
                  else if fst kv \<in> {''hostsallow'', ''hostsdeny''} then GArr []
                  else if fst kv = ''timemachine_quota'' then GInt 0 else GBool False)
      else snd kv)"

lemma reset_fields:
  "flat_legacy_attrs (reset_unset_flat_legacy should cfg plan) =
     map (\<lambda>kv. (fst kv, planned_flat should cfg plan kv)) (flat_legacy_attrs plan)"
  by (simp add: flat_legacy_attrs_def reset_unset_flat_legacy_def planned_flat_def)

lemma overlay_typed:
  assumes "map_of (flat_legacy_attrs m) k = Some v"
  shows "map_of (option_fields (overlay_flat_on_options m opt)) k =
    Some (if is_set v then v else the (map_of (option_fields opt) k))"
proof -
  from assms have "(k, v) \<in> set (flat_legacy_attrs m)" by (rule map_of_SomeD)
  then show ?thesis
    unfolding flat_legacy_attrs_def list.set insert_iff empty_iff prod.inject
    by (elim disjE) (simp_all add: option_fields_def overlay_flat_on_options_def over_def)
qed

lemma overlay_flat [simp]: "flat_legacy_attrs (m\<lparr>sm_options := x\<rparr>) = flat_legacy_attrs m"
  by (simp add: flat_legacy_attrs_def)

lemma reset_purpose [simp]: "resolve_effective_purpose (m\<lparr>sm_options := x\<rparr>) = resolve_effective_purpose m"
  "resolve_effective_purpose (reset_unset_flat_legacy should cfg m) = resolve_effective_purpose m"
  by (simp_all add: resolve_effective_purpose_def reset_unset_flat_legacy_def)

text \<open>A flat attribute that changes reaches the server: after planning over an existing LEGACY_SHARE whose options
  are not configured, every flat attribute that is set is sent with its own value although the options
  are pinned from the state, and one that the configuration owned and dropped is sent with the
  server's default.\<close>

theorem smb_flat_attributes_win:
  "(case smb_modify_plan inp out cfg st plan of (plan1, _) \<Rightarrow>
     if resolve_effective_purpose plan = legacy_share_purpose \<and> value_string (sm_purpose st) = legacy_share_purpose \<and>
        is_null (sm_options cfg) \<and> is_set (sm_options plan)
     then list_all (\<lambda>(k, v). let w = planned_flat (is_managed inp) cfg plan (k, v) in
            if is_set w then map_of (smb_options_payload plan1) k = Some (value_or GNil w) else True)
          (flat_legacy_attrs plan)
     else True)"
proof (cases "resolve_effective_purpose plan = legacy_share_purpose \<and> value_string (sm_purpose st) = legacy_share_purpose \<and>
        is_null (sm_options cfg) \<and> is_set (sm_options plan)")
  case True
  then obtain opt where opt: "sm_options plan = Known opt" by (auto simp: is_set_iff)
  let ?m = "reset_unset_flat_legacy (is_managed inp) cfg plan"
  let ?plan1 = "?m\<lparr>sm_options := Known (overlay_flat_on_options ?m opt)\<rparr>"
  have p1: "fst (smb_modify_plan inp out cfg st plan) = ?plan1"
    using True opt by (simp add: smb_modify_plan_def Let_def)
  have "map_of (smb_options_payload ?plan1) k = Some (value_or GNil (planned_flat (is_managed inp) cfg plan (k, v)))"
    if k: "(k, v) \<in> set (flat_legacy_attrs plan)" and w: "is_set (planned_flat (is_managed inp) cfg plan (k, v))" for k v
  proof -
    have "(k, planned_flat (is_managed inp) cfg plan (k, v)) \<in> set (flat_legacy_attrs ?m)"
      unfolding reset_fields using k by force
    then have f: "map_of (flat_legacy_attrs ?m) k = Some (planned_flat (is_managed inp) cfg plan (k, v))"
      using wf_flat_legacy_attrs by (simp add: wf_map_def)
    from overlay_typed [OF f, of opt] w
    have t: "map_of (typed_fields ?plan1) k = Some (planned_flat (is_managed inp) cfg plan (k, v))"
      by (simp add: typed_fields_def)
    have "k \<noteq> ''purpose''" using f by auto
    moreover have "k \<in> set (valid_options legacy_share_purpose)" by (rule flat_keys_legacy [OF f])
    ultimately show ?thesis using t w True by (simp add: options_payload_at)
  qed
  with True p1 show ?thesis by (auto simp: list_all_iff Let_def split: prod.splits)
qed (auto split: prod.splits)

end
