(* ===== verification/Regex.thy ===== *)
theory Regex
  imports Prelude
begin

text \<open>
  The regular expressions of Go's package regexp as far as the provider writes them: classes of
  characters, sequence, alternative and repetition, anchored at both ends. Matching is executable;
  \<open>rx_lang\<close> gives the texts an expression stands for, and the two agree.
\<close>

section \<open>Expressions and matching\<close>

datatype rx = Nothing | Empty | Cls "char list" | Seq rx rx | Alt rx rx | Star rx

fun lit :: "string \<Rightarrow> rx" where
  "lit [] = Empty"
| "lit (c # cs) = Seq (Cls [c]) (lit cs)"

fun one_of :: "string list \<Rightarrow> rx" where
  "one_of [] = Nothing"
| "one_of [w] = lit w"
| "one_of (w # ws) = Alt (lit w) (one_of ws)"

definition opt :: "rx \<Rightarrow> rx" where "opt r = Alt Empty r"

definition plus1 :: "rx \<Rightarrow> rx" where "plus1 r = Seq r (Star r)"

fun seqs :: "rx list \<Rightarrow> rx" where
  "seqs [] = Empty"
| "seqs [r] = r"
| "seqs (r # rs) = Seq r (seqs rs)"

fun alts :: "rx list \<Rightarrow> rx" where
  "alts [] = Nothing"
| "alts [r] = r"
| "alts (r # rs) = Alt r (alts rs)"

fun accepts_empty :: "rx \<Rightarrow> bool" where
  "accepts_empty Nothing = False"
| "accepts_empty Empty = True"
| "accepts_empty (Cls cs) = False"
| "accepts_empty (Seq r q) = (accepts_empty r \<and> accepts_empty q)"
| "accepts_empty (Alt r q) = (accepts_empty r \<or> accepts_empty q)"
| "accepts_empty (Star r) = True"

text \<open>What is left to match after a character.\<close>

fun after :: "char \<Rightarrow> rx \<Rightarrow> rx" where
  "after c Nothing = Nothing"
| "after c Empty = Nothing"
| "after c (Cls cs) = (if c \<in> set cs then Empty else Nothing)"
| "after c (Seq r q) =
     (let rest = (if after c r = Nothing then Nothing else Seq (after c r) q) in
      if accepts_empty r then (if rest = Nothing then after c q else Alt rest (after c q)) else rest)"
| "after c (Alt r q) = (if after c r = Nothing then after c q else
     if after c q = Nothing then after c r else Alt (after c r) (after c q))"
| "after c (Star r) = (if after c r = Nothing then Nothing else Seq (after c r) (Star r))"

definition matches :: "rx \<Rightarrow> string \<Rightarrow> bool" where
  "matches r s = accepts_empty (fold after s r)"

section \<open>Languages\<close>

inductive_set repeated :: "string set \<Rightarrow> string set" for L :: "string set" where
  none: "[] \<in> repeated L"
| more: "u \<in> L \<Longrightarrow> v \<in> repeated L \<Longrightarrow> u @ v \<in> repeated L"

fun rx_lang :: "rx \<Rightarrow> string set" where
  "rx_lang Nothing = {}"
| "rx_lang Empty = {[]}"
| "rx_lang (Cls cs) = {[c] | c. c \<in> set cs}"
| "rx_lang (Seq r q) = {u @ v | u v. u \<in> rx_lang r \<and> v \<in> rx_lang q}"
| "rx_lang (Alt r q) = rx_lang r \<union> rx_lang q"
| "rx_lang (Star r) = repeated (rx_lang r)"

lemma accepts_empty_iff: "accepts_empty r \<longleftrightarrow> [] \<in> rx_lang r"
  by (induction r) (auto intro: repeated.none)

lemma repeated_Cons:
  "c # s \<in> repeated L \<longleftrightarrow> (\<exists>u v. s = u @ v \<and> c # u \<in> L \<and> v \<in> repeated L)"
proof
  assume "c # s \<in> repeated L"
  then show "\<exists>u v. s = u @ v \<and> c # u \<in> L \<and> v \<in> repeated L"
    by (induction "c # s" arbitrary: s) (auto simp: append_eq_Cons_conv)
next
  assume "\<exists>u v. s = u @ v \<and> c # u \<in> L \<and> v \<in> repeated L"
  then show "c # s \<in> repeated L" by (metis append_Cons repeated.more)
qed

lemma after_lang: "s \<in> rx_lang (after c r) \<longleftrightarrow> c # s \<in> rx_lang r"
proof (induction r arbitrary: s)
  case (Seq r q)
  have "s \<in> rx_lang (after c (Seq r q)) \<longleftrightarrow>
      (\<exists>u v. s = u @ v \<and> u \<in> rx_lang (after c r) \<and> v \<in> rx_lang q) \<or> (accepts_empty r \<and> s \<in> rx_lang (after c q))"
    by (auto simp: Let_def)
  also have "\<dots> \<longleftrightarrow> c # s \<in> rx_lang (Seq r q)"
    by (auto simp: Seq accepts_empty_iff append_eq_Cons_conv Cons_eq_append_conv)
  finally show ?case .
next
  case (Alt r q)
  have "s \<in> rx_lang (after c (Alt r q)) \<longleftrightarrow> s \<in> rx_lang (after c r) \<or> s \<in> rx_lang (after c q)"
    by auto
  with Alt show ?case by simp
next
  case (Star r)
  have "s \<in> rx_lang (after c (Star r)) \<longleftrightarrow>
      (\<exists>u v. s = u @ v \<and> u \<in> rx_lang (after c r) \<and> v \<in> repeated (rx_lang r))"
    by auto
  with Star show ?case by (simp add: repeated_Cons)
qed auto

text \<open>Matching finds exactly the texts the expression stands for.\<close>

lemma matches_iff: "matches r s \<longleftrightarrow> s \<in> rx_lang r"
proof -
  have "accepts_empty (fold after s r) \<longleftrightarrow> s \<in> rx_lang r"
    by (induction s arbitrary: r) (simp_all add: accepts_empty_iff after_lang)
  then show ?thesis by (simp add: matches_def)
qed

section \<open>The languages of the derived forms\<close>

lemma lang_lit [simp]: "rx_lang (lit w) = {w}"
  by (induction w) auto

lemma lang_one_of [simp]: "rx_lang (one_of ws) = set ws"
  by (induction ws rule: one_of.induct) auto

lemma lang_opt [simp]: "rx_lang (opt r) = insert [] (rx_lang r)"
  by (auto simp: opt_def)

lemma repeated_chars: "s \<in> repeated {[c] | c. c \<in> C} \<longleftrightarrow> set s \<subseteq> C"
proof (induction s)
  case (Cons c s)
  then show ?case by (auto simp: repeated_Cons)
qed (auto intro: repeated.none)

lemma lang_star_cls [simp]: "rx_lang (Star (Cls cs)) = {s. set s \<subseteq> set cs}"
  using repeated_chars [of _ "set cs"] by auto

lemma lang_plus1_cls [simp]: "rx_lang (plus1 (Cls cs)) = {s. s \<noteq> [] \<and> set s \<subseteq> set cs}"
proof (rule set_eqI)
  fix s
  have "s \<in> rx_lang (plus1 (Cls cs)) \<longleftrightarrow> (\<exists>c v. s = [c] @ v \<and> c \<in> set cs \<and> set v \<subseteq> set cs)"
    unfolding plus1_def rx_lang.simps(4) lang_star_cls unfolding rx_lang.simps by blast
  then show "s \<in> rx_lang (plus1 (Cls cs)) \<longleftrightarrow> s \<in> {s. s \<noteq> [] \<and> set s \<subseteq> set cs}"
    by (cases s) auto
qed

end
