(* ===== verification/Yaml11.thy ===== *)
theory Yaml11
  imports Regex Kinds Values
begin

text \<open>
  Compose files as TrueNAS reads them (src/internal/normalize/yaml11.go): a YAML 1.1 document becomes
  a document with numbers kept as literals. The parser of gopkg.in/yaml.v3 is a parameter: the
  nodes it makes are a heap, since an alias points to the node it repeats. What the code does
  with float64 values is a parameter too.
\<close>

section \<open>Nodes\<close>

datatype ykind = DocumentNode | SequenceNode | MappingNode | ScalarNode | AliasNode | UnknownKind

datatype ystyle = TaggedStyle | DoubleQuotedStyle | SingleQuotedStyle | LiteralStyle | FoldedStyle | FlowStyle

record ynode =
  y_kind :: ykind
  y_style :: "ystyle list"
  y_tag :: string
  y_value :: string
  y_content :: "nat list"
  y_alias :: "nat option"
  y_line :: int

type_synonym yheap = "nat \<Rightarrow> ynode"

text \<open>What one call of \<open>dec.Decode\<close> gives: the nodes and the document's node, the end of the text, or
  an error.\<close>

datatype yaml_next = YamlDoc yheap nat | YamlEof | YamlErr string

text \<open>\<open>strconv.ParseFloat\<close>, the conversion of an int, \<open>total*60 + x\<close>, the product with the sign, and
  \<open>strconv.FormatFloat\<close> with the verb g.\<close>

record 'f yaml_lib =
  yl_next :: "string \<Rightarrow> nat \<Rightarrow> yaml_next"
  yl_parse_float :: "string \<Rightarrow> 'f option"
  yl_of_int :: "int \<Rightarrow> 'f"
  yl_times60_plus :: "'f \<Rightarrow> 'f \<Rightarrow> 'f"
  yl_with_sign :: "bool \<Rightarrow> 'f \<Rightarrow> 'f"
  yl_format :: "'f \<Rightarrow> string"

section \<open>Plain scalars\<close>

definition digit_range :: "nat \<Rightarrow> char list" where
  "digit_range n = map digit_char [0..<n]"

definition sign_rx :: rx where "sign_rx = opt (Cls ''-+'')"

definition bool_words :: "string list" where
  "bool_words = [''yes'', ''Yes'', ''YES'', ''no'', ''No'', ''NO'', ''true'', ''True'', ''TRUE'', ''false'', ''False'', ''FALSE'',
     ''on'', ''On'', ''ON'', ''off'', ''Off'', ''OFF'']"

definition true_words :: "string list" where
  "true_words = [''yes'', ''Yes'', ''YES'', ''true'', ''True'', ''TRUE'', ''on'', ''On'', ''ON'']"

definition null_words :: "string list" where
  "null_words = [''~'', ''null'', ''Null'', ''NULL'', []]"

definition hex_chars :: "char list" where
  "hex_chars = digit_range 10 @ ''abcdefABCDEF''"

text \<open>\<open>(?::[0-5]?[0-9])+\<close>, shared by the two base-60 forms.\<close>

definition minutes_rx :: rx where
  "minutes_rx = plus1 (seqs [Cls '':'', opt (Cls (digit_range 6)), Cls (digit_range 10)])"

definition yaml11_int :: rx where
  "yaml11_int = alts [
     seqs [sign_rx, lit ''0b'', plus1 (Cls ''01_'')],
     seqs [sign_rx, lit ''0'', plus1 (Cls (CHR ''_'' # digit_range 8))],
     seqs [sign_rx, Alt (lit ''0'') (Seq (Cls (tl (digit_range 10))) (Star (Cls (CHR ''_'' # digit_range 10))))],
     seqs [sign_rx, lit ''0x'', plus1 (Cls (CHR ''_'' # hex_chars))],
     seqs [sign_rx, Cls (tl (digit_range 10)), Star (Cls (CHR ''_'' # digit_range 10)), minutes_rx]]"

definition exponent_rx :: rx where
  "exponent_rx = opt (seqs [Cls ''eE'', Cls ''-+'', plus1 (Cls (digit_range 10))])"

definition yaml11_float :: rx where
  "yaml11_float = alts [
     seqs [sign_rx, Cls (digit_range 10), Star (Cls (CHR ''_'' # digit_range 10)), lit ''.'',
       Star (Cls (CHR ''_'' # digit_range 10)), exponent_rx],
     seqs [lit ''.'', plus1 (Cls (CHR ''_'' # digit_range 10)), exponent_rx],
     seqs [sign_rx, Cls (digit_range 10), Star (Cls (CHR ''_'' # digit_range 10)), minutes_rx, lit ''.'',
       Star (Cls (CHR ''_'' # digit_range 10))],
     seqs [sign_rx, lit ''.'', one_of [''inf'', ''Inf'', ''INF'']],
     seqs [lit ''.'', one_of [''nan'', ''NaN'', ''NAN'']]]"

text \<open>\<open>big.Int.SetString\<close> in a base of at most 36: an optional sign and at least one digit.\<close>

definition letter_val :: "char \<Rightarrow> nat option" where
  "letter_val c =
     (if is_digit c then Some (digit_val c)
      else if is_lower c then Some (ord_of c - 97 + 10)
      else if is_upper c then Some (ord_of c - 65 + 10) else None)"

fun digits_in :: "nat \<Rightarrow> nat \<Rightarrow> string \<Rightarrow> nat option" where
  "digits_in base n [] = Some n"
| "digits_in base n (c # cs) = (case letter_val c of
      None \<Rightarrow> None
    | Some d \<Rightarrow> if d < base then digits_in base (n * base + d) cs else None)"

definition signed :: "bool \<Rightarrow> int \<Rightarrow> int" where
  "signed neg n = (if neg then - n else n)"

definition big_int :: "nat \<Rightarrow> string \<Rightarrow> int option" where
  "big_int base s = (case strip_sign s of (neg, t) \<Rightarrow>
     if t = [] then None else map_option (\<lambda>n. signed neg (int n)) (digits_in base 0 t))"

fun base60 :: "int \<Rightarrow> string list \<Rightarrow> int option" where
  "base60 n [] = Some n"
| "base60 n (d # ds) = (case atoi d of (x, None) \<Rightarrow> base60 (n * 60 + x) ds | _ \<Rightarrow> None)"

definition no_underscores :: "string \<Rightarrow> string" where
  "no_underscores s = filter (\<lambda>c. c \<noteq> CHR ''_'') s"

definition invalid_text :: "string \<Rightarrow> string \<Rightarrow> string" where
  "invalid_text s what = quoted s @ '' is not a valid YAML 1.1 '' @ what"

definition unsigned_int :: "string \<Rightarrow> int option" where
  "unsigned_int v =
     (if v = ''0'' then Some 0
      else if has_prefix v ''0b'' then big_int 2 (drop 2 v)
      else if has_prefix v ''0x'' then big_int 16 (drop 2 v)
      else if has_prefix v ''0'' then big_int 8 (drop 1 v)
      else if CHR '':'' \<in> set v then base60 0 (split_on CHR '':'' v)
      else big_int 10 v)"

definition yaml11_parse_int :: "string \<Rightarrow> string + gval" where
  "yaml11_parse_int s = (case strip_sign (no_underscores s) of (neg, v) \<Rightarrow>
     (case unsigned_int v of
        None \<Rightarrow> Inl (invalid_text s ''integer'')
      | Some i \<Rightarrow> Inr (GNumber (itoa (signed neg i)))))"

fun float60 :: "'f yaml_lib \<Rightarrow> 'f \<Rightarrow> string list \<Rightarrow> 'f option" where
  "float60 L t [] = Some t"
| "float60 L t [p] = (case yl_parse_float L p of Some x \<Rightarrow> Some (yl_times60_plus L t x) | None \<Rightarrow> None)"
| "float60 L t (p # ps) = (case atoi p of
      (x, None) \<Rightarrow> float60 L (yl_times60_plus L t (yl_of_int L x)) ps | _ \<Rightarrow> None)"

definition yaml11_parse_float :: "'f yaml_lib \<Rightarrow> string \<Rightarrow> string + gval" where
  "yaml11_parse_float L s = (case strip_sign (to_lower (no_underscores s)) of (neg, v) \<Rightarrow>
     if v = ''.inf'' then Inr (GFloat (F_Inf neg))
     else if v = ''.nan'' then Inr (GFloat F_NaN)
     else (case (if CHR '':'' \<in> set v then float60 L (yl_of_int L 0) (split_on CHR '':'' v) else yl_parse_float L v) of
         None \<Rightarrow> Inl (invalid_text s ''float'')
       | Some f \<Rightarrow> Inr (GNumber (yl_format L (yl_with_sign L neg f)))))"

definition yaml11_plain :: "'f yaml_lib \<Rightarrow> string \<Rightarrow> string + gval" where
  "yaml11_plain L s =
     (if matches (one_of null_words) s then Inr GNil
      else if matches (one_of bool_words) s then Inr (GBool (matches (one_of true_words) s))
      else if matches yaml11_int s then yaml11_parse_int s
      else if matches yaml11_float s then yaml11_parse_float L s
      else Inr (GStr s))"

fun yaml11_tag_matches :: "string \<Rightarrow> gval \<Rightarrow> bool" where
  "yaml11_tag_matches tag (GBool b) = (tag = ''!!bool'')"
| "yaml11_tag_matches tag GNil = (tag = ''!!null'')"
| "yaml11_tag_matches tag (GNumber n) =
     (tag = ''!!float'' \<or> (tag = ''!!int'' \<and> \<not> (CHR ''.'' \<in> set n \<or> CHR ''e'' \<in> set n \<or> CHR ''E'' \<in> set n)))"
| "yaml11_tag_matches tag (GFloat f) = (tag = ''!!float'')"
| "yaml11_tag_matches tag _ = False"

definition at_line :: "ynode \<Rightarrow> string \<Rightarrow> string" where
  "at_line n e = ''line '' @ itoa (y_line n) @ '': '' @ e"

definition yaml11_scalar :: "'f yaml_lib \<Rightarrow> ynode \<Rightarrow> string + gval" where
  "yaml11_scalar L n = (let s = y_value n in
     if TaggedStyle \<in> set (y_style n) then
       (if y_tag n \<in> {''!!str'', ''!'', ''tag:yaml.org,2002:str''} then Inr (GStr s)
        else if y_tag n \<in> {''!!int'', ''!!float'', ''!!bool'', ''!!null''} then
          (case yaml11_plain L s of
             Inl e \<Rightarrow> Inl e
           | Inr v \<Rightarrow> if yaml11_tag_matches (y_tag n) v then Inr v
               else Inl (at_line n (quoted s @ '' is not a valid '' @ y_tag n)))
        else Inr (GStr s))
     else if set (y_style n) \<inter> {DoubleQuotedStyle, SingleQuotedStyle, LiteralStyle, FoldedStyle} \<noteq> {}
     then Inr (GStr s)
     else yaml11_plain L s)"

section \<open>The conversion\<close>

text \<open>
  The converter counts down a budget and stops below depth 1000, since aliases may make a short document
  large or endless. \<open>None\<close> is a conversion that does not return: following the aliases of a merge
  key has no bound of its own. A step takes the budget and returns the budget that is left.
\<close>

type_synonym 'a conv = "int \<Rightarrow> ((string + 'a) \<times> int) option"

definition yret :: "'a \<Rightarrow> 'a conv" where "yret v = (\<lambda>b. Some (Inr v, b))"

definition yraise :: "string \<Rightarrow> 'a conv" where "yraise e = (\<lambda>b. Some (Inl e, b))"

definition ybind :: "'a conv \<Rightarrow> ('a \<Rightarrow> 'b conv) \<Rightarrow> 'b conv" where
  "ybind m f = (\<lambda>b. case m b of
      None \<Rightarrow> None
    | Some (Inl e, b1) \<Rightarrow> Some (Inl e, b1)
    | Some (Inr v, b1) \<Rightarrow> f v b1)"

definition ylift :: "string + 'a \<Rightarrow> 'a conv" where
  "ylift r = (case r of Inl e \<Rightarrow> yraise e | Inr v \<Rightarrow> yret v)"

definition too_large :: string where
  "too_large = ''YAML document is too large or too deeply nested after alias expansion''"

definition spend :: "unit conv" where
  "spend = (\<lambda>b. if b - 1 < 0 then Some (Inl too_large, b - 1) else Some (Inr (), b - 1))"

partial_function (option) deref :: "yheap \<Rightarrow> nat \<Rightarrow> nat option" where
  "deref h n = (if y_kind (h n) = AliasNode
     then (case y_alias (h n) of Some t \<Rightarrow> deref h t | None \<Rightarrow> Some n) else Some n)"

definition is_merge_key :: "ynode \<Rightarrow> bool" where
  "is_merge_key n \<longleftrightarrow> y_kind n = ScalarNode \<and> y_value n = ''<<'' \<and>
     set (y_style n) \<inter> {DoubleQuotedStyle, SingleQuotedStyle} = {}"

definition key_text :: "gval \<Rightarrow> string option" where
  "key_text v = (case v of
      GStr k \<Rightarrow> Some k | GBool b \<Rightarrow> Some (go_bool b) | GNil \<Rightarrow> Some ''null'' | GNumber n \<Rightarrow> Some n
    | GFloat (F_Inf False) \<Rightarrow> Some ''Infinity'' | GFloat (F_Inf True) \<Rightarrow> Some ''-Infinity''
    | GFloat _ \<Rightarrow> Some ''NaN'' | _ \<Rightarrow> None)"

definition add_missing :: "gval gomap \<Rightarrow> gval gomap \<Rightarrow> gval gomap" where
  "add_missing mm out = fold (\<lambda>(k, v) m. if has_key m k then m else put k v m) mm out"

text \<open>The first argument counts the depths that are left; the parts of a mapping are its keys and values
  in turn, and the nodes under its merge keys.\<close>

function convert :: "'f yaml_lib \<Rightarrow> yheap \<Rightarrow> nat \<Rightarrow> nat \<Rightarrow> gval conv"
  and convert_items :: "'f yaml_lib \<Rightarrow> yheap \<Rightarrow> nat \<Rightarrow> nat list \<Rightarrow> gval list conv"
  and convert_entries :: "'f yaml_lib \<Rightarrow> yheap \<Rightarrow> nat \<Rightarrow> nat list \<Rightarrow> gval gomap \<Rightarrow> nat list \<Rightarrow> (gval gomap \<times> nat list) conv"
  and merge_sources :: "'f yaml_lib \<Rightarrow> yheap \<Rightarrow> nat \<Rightarrow> nat \<Rightarrow> nat list \<Rightarrow> gval gomap \<Rightarrow> gval gomap conv"
  and convert_merges :: "'f yaml_lib \<Rightarrow> yheap \<Rightarrow> nat \<Rightarrow> nat list \<Rightarrow> gval gomap \<Rightarrow> gval gomap conv"
where
  "convert L h 0 n = ybind spend (\<lambda>_. yraise too_large)"
| "convert L h (Suc r) n = ybind spend (\<lambda>_. (case y_kind (h n) of
      DocumentNode \<Rightarrow> (case y_content (h n) of [] \<Rightarrow> yret GNil | c # _ \<Rightarrow> convert L h r c)
    | AliasNode \<Rightarrow> (case y_alias (h n) of
          None \<Rightarrow> yraise (at_line (h n) ''unknown alias'') | Some t \<Rightarrow> convert L h r t)
    | ScalarNode \<Rightarrow> ylift (yaml11_scalar L (h n))
    | SequenceNode \<Rightarrow> ybind (convert_items L h r (y_content (h n))) (\<lambda>vs. yret (GArr vs))
    | MappingNode \<Rightarrow>
        ybind (convert_entries L h r (y_content (h n)) [] []) (\<lambda>(out, merges).
        ybind (convert_merges L h r merges out) (\<lambda>m. yret (GObj m)))
    | UnknownKind \<Rightarrow> yraise (at_line (h n) ''unsupported YAML node'')))"
| "convert_items L h r [] = yret []"
| "convert_items L h r (n # ns) =
     ybind (convert L h r n) (\<lambda>v. ybind (convert_items L h r ns) (\<lambda>vs. yret (v # vs)))"
| "convert_entries L h r (kn # vn # rest) out merges =
     (if is_merge_key (h kn) then convert_entries L h r rest out (merges @ [vn])
      else ybind (convert L h r kn) (\<lambda>k. case key_text k of
          None \<Rightarrow> yraise (at_line (h kn) ''mapping keys must be scalars'')
        | Some key \<Rightarrow> ybind (convert L h r vn) (\<lambda>v. convert_entries L h r rest (put key v out) merges)))"
| "convert_entries L h r [n] out merges = yret (out, merges)"
| "convert_entries L h r [] out merges = yret (out, merges)"
| "merge_sources L h r m (s # ss) out = ybind (convert L h r s) (\<lambda>v. case v of
      GObj mm \<Rightarrow> merge_sources L h r m ss (add_missing mm out)
    | _ \<Rightarrow> yraise (at_line (h m) ''a merge key (<<) needs a mapping or a list of mappings''))"
| "merge_sources L h r m [] out = yret out"
| "convert_merges L h r (m # ms) out = (case deref h m of
      None \<Rightarrow> (\<lambda>_. None)
    | Some t \<Rightarrow> ybind (merge_sources L h r m (if y_kind (h t) = SequenceNode then y_content (h t) else [m]) out)
        (\<lambda>out. convert_merges L h r ms out))"
| "convert_merges L h r [] out = yret out"
  by pat_completeness auto
termination
  by (relation "inv_image (less_than <*lex*> less_than <*lex*> less_than)
       (\<lambda>x. case x of
          Inl (Inl (L, h, r, n)) \<Rightarrow> (r, 0 :: nat, 0 :: nat)
        | Inl (Inr (L, h, r, ns)) \<Rightarrow> (r, 1, length ns)
        | Inr (Inl (L, h, r, ns, out, ms)) \<Rightarrow> (r, 1, length ns)
        | Inr (Inr (Inl (L, h, r, m, ss, out))) \<Rightarrow> (r, 1, length ss)
        | Inr (Inr (Inr (L, h, r, ms, out))) \<Rightarrow> (r, 2, length ms))") auto

definition yaml11_budget :: int where "yaml11_budget = 1000000"

definition decode_yaml11 :: "'f yaml_lib \<Rightarrow> string \<Rightarrow> (string + gval) option" where
  "decode_yaml11 L s = (case yl_next L s 0 of
      YamlEof \<Rightarrow> Some (Inr GNil)
    | YamlErr e \<Rightarrow> Some (Inl e)
    | YamlDoc h n \<Rightarrow> (case yl_next L s 1 of
          YamlErr e \<Rightarrow> Some (Inl e)
        | YamlDoc _ _ \<Rightarrow> Some (Inl ''expected a single YAML document, found more than one'')
        | YamlEof \<Rightarrow> map_option fst (convert L h 1001 n yaml11_budget)))"

text \<open>\<open>EqualYAML11\<close> and the check of a value; \<open>decode\<close> stands for \<open>DecodeJSON\<close>.\<close>

definition decode_yaml_or_json :: "(string \<Rightarrow> gval option) \<Rightarrow> 'f yaml_lib \<Rightarrow> string \<Rightarrow> (string + gval) option" where
  "decode_yaml_or_json decode L s = (case decode s of Some v \<Rightarrow> Some (Inr v) | None \<Rightarrow> decode_yaml11 L s)"

definition equal_yaml11 ::
  "(string \<Rightarrow> gval option) \<Rightarrow> (string \<Rightarrow> bigf option) \<Rightarrow> 'f yaml_lib \<Rightarrow> string \<Rightarrow> string \<Rightarrow> bool option" where
  "equal_yaml11 decode lt L a b =
     (if a = b then Some True
      else (case (decode_yaml_or_json decode L a, decode_yaml_or_json decode L b) of
          (Some (Inr x), Some (Inr y)) \<Rightarrow> Some (equal_documents lt x y False)
        | (Some _, Some _) \<Rightarrow> Some False
        | _ \<Rightarrow> None))"

definition validate_yaml :: "(string \<Rightarrow> gval option) \<Rightarrow> 'f yaml_lib \<Rightarrow> string \<Rightarrow> string option option" where
  "validate_yaml decode L s = map_option
     (\<lambda>r. case r of Inl e \<Rightarrow> Some (''not a valid YAML document: '' @ e) | Inr _ \<Rightarrow> None) (decode_yaml_or_json decode L s)"


section \<open>What a conversion costs\<close>

text \<open>\<open>costs m Q\<close>: when the step succeeds on a budget that is not negative, neither is what it leaves, and \<open>Q\<close>
  holds of its result and what it spent.\<close>

definition costs :: "'a conv \<Rightarrow> ('a \<Rightarrow> int \<Rightarrow> bool) \<Rightarrow> bool" where
  "costs m Q \<longleftrightarrow> (\<forall>b v b1. 0 \<le> b \<longrightarrow> m b = Some (Inr v, b1) \<longrightarrow> 0 \<le> b1 \<and> b1 \<le> b \<and> Q v (b - b1))"

lemma costs_ret [intro]: "Q v 0 \<Longrightarrow> costs (yret v) Q"
  by (simp add: costs_def yret_def)

lemma costs_raise [intro]: "costs (yraise e) Q"
  by (simp add: costs_def yraise_def)

lemma costs_lift: "(\<And>v. r = Inr v \<Longrightarrow> Q v 0) \<Longrightarrow> costs (ylift r) Q"
  by (cases r) (auto simp: ylift_def)

lemma costs_none [intro]: "costs (\<lambda>_. None) Q"
  by (simp add: costs_def)

lemma spend_Inr: "spend b = Some (Inr v, b1) \<longleftrightarrow> b1 = b - 1 \<and> 0 \<le> b1"
  by (auto simp: spend_def)

lemma costs_spend: "Q () 1 \<Longrightarrow> costs spend Q"
  by (simp add: costs_def spend_Inr)

lemma ybind_Inr:
  assumes "ybind m f b = Some (Inr w, b2)"
  obtains v b1 where "m b = Some (Inr v, b1)" and "f v b1 = Some (Inr w, b2)"
proof (cases "m b")
  case (Some p)
  with assms that show ?thesis by (cases p; cases "fst p") (simp_all add: ybind_def)
qed (use assms in \<open>simp add: ybind_def\<close>)

lemma costs_weaken: "costs m P \<Longrightarrow> (\<And>v k. 0 \<le> k \<Longrightarrow> P v k \<Longrightarrow> Q v k) \<Longrightarrow> costs m Q"
  unfolding costs_def by (metis diff_ge_0_iff_ge)

lemma costs_bind:
  assumes "costs m P" and "\<And>v k. 0 \<le> k \<Longrightarrow> P v k \<Longrightarrow> costs (f v) (\<lambda>w j. Q w (k + j))"
  shows "costs (ybind m f) Q"
  unfolding costs_def
proof (intro allI impI)
  fix b w b2
  assume b: "0 \<le> b" and r: "ybind m f b = Some (Inr w, b2)"
  from r obtain v b1 where m: "m b = Some (Inr v, b1)" and f: "f v b1 = Some (Inr w, b2)"
    by (rule ybind_Inr)
  from assms(1) b m have 1: "0 \<le> b1" "b1 \<le> b" "P v (b - b1)" unfolding costs_def by blast+
  with assms(2) [of "b - b1" v] have "costs (f v) (\<lambda>w j. Q w (b - b1 + j))" by simp
  with 1 f have "0 \<le> b2 \<and> b2 \<le> b1 \<and> Q w (b - b1 + (b1 - b2))" unfolding costs_def by blast
  with 1 show "0 \<le> b2 \<and> b2 \<le> b \<and> Q w (b - b2)" by simp
qed

fun nodes :: "gval \<Rightarrow> nat" and nodes_list :: "gval list \<Rightarrow> nat" and nodes_entries :: "gval gomap \<Rightarrow> nat" where
  "nodes (GArr vs) = Suc (nodes_list vs)"
| "nodes (GObj m) = Suc (nodes_entries m)"
| "nodes _ = 1"
| "nodes_list [] = 0"
| "nodes_list (v # vs) = nodes v + nodes_list vs"
| "nodes_entries [] = 0"
| "nodes_entries ((k, v) # m) = Suc (nodes v) + nodes_entries m"

lemma nodes_pos: "1 \<le> nodes v"
  by (cases v) auto

lemma nodes_put: "nodes_entries (put k v m) \<le> Suc (nodes v) + nodes_entries m"
  by (induction m) auto

lemma wf_entries_put: "wf_val v \<Longrightarrow> wf_entries m \<Longrightarrow> wf_entries (put k v m)"
  by (induction m) auto

definition wf_object :: "gval gomap \<Rightarrow> bool" where
  "wf_object m \<longleftrightarrow> wf_map m \<and> wf_entries m"

lemma wf_object_Nil [simp]: "wf_object []"
  by (simp add: wf_object_def)

lemma wf_object_put [intro]: "wf_val v \<Longrightarrow> wf_object m \<Longrightarrow> wf_object (put k v m)"
  by (auto simp: wf_object_def wf_entries_put)

lemma add_missing_Nil [simp]: "add_missing [] out = out"
  by (simp add: add_missing_def)

lemma add_missing_Cons [simp]:
  "add_missing ((k, v) # mm) out = add_missing mm (if has_key out k then out else put k v out)"
  by (simp add: add_missing_def)

lemma add_missing_wf: "wf_entries mm \<Longrightarrow> wf_object out \<Longrightarrow> wf_object (add_missing mm out)"
proof (induction mm arbitrary: out)
  case (Cons e mm)
  obtain k v where e: "e = (k, v)" by (cases e)
  with Cons.prems have "wf_object (put k v out)" "wf_entries mm" by auto
  with Cons show ?case unfolding e by simp
qed simp

lemma add_missing_nodes: "nodes_entries (add_missing mm out) \<le> nodes_entries mm + nodes_entries out"
proof (induction mm arbitrary: out)
  case (Cons e mm)
  obtain k v where e: "e = (k, v)" by (cases e)
  show ?case
    using Cons [of out] Cons [of "put k v out"] nodes_put [of k v out] unfolding e by simp
qed simp

lemma map_of_add_missing:
  "wf_map mm \<Longrightarrow> map_of (add_missing mm out) k = (case map_of out k of Some v \<Rightarrow> Some v | None \<Rightarrow> map_of mm k)"
proof (induction mm arbitrary: out)
  case (Cons e mm)
  obtain k' v where e: "e = (k', v)" by (cases e)
  from Cons.prems have "map_of mm k' = None" and wf: "wf_map mm"
    unfolding e by (auto simp: wf_map_def map_of_eq_None_iff)
  then show ?case unfolding e
    by (auto simp: Cons.IH [OF wf] has_key_def split: option.splits)
qed (simp split: option.splits)

text \<open>The parts of a conversion: what they return is well formed and has at most as many nodes as were spent.\<close>

abbreviation value_paid :: "gval \<Rightarrow> int \<Rightarrow> bool" where
  "value_paid v k \<equiv> wf_val v \<and> int (nodes v) \<le> k"

abbreviation object_paid :: "gval gomap \<Rightarrow> gval gomap \<Rightarrow> int \<Rightarrow> bool" where
  "object_paid out m k \<equiv> wf_object m \<and> int (nodes_entries m) \<le> int (nodes_entries out) + k"

lemma scalar_nodes: "yaml11_scalar L n = Inr v \<Longrightarrow> wf_val v \<and> nodes v = 1"
  by (auto simp: yaml11_scalar_def yaml11_plain_def yaml11_parse_int_def yaml11_parse_float_def Let_def
      split: if_splits sum.splits option.splits prod.splits)

lemma convert_costs:
  "costs (convert L h r n) value_paid"
  "costs (convert_items L h r ns) (\<lambda>vs k. wf_vals vs \<and> int (nodes_list vs) \<le> k)"
  "wf_object out \<Longrightarrow> costs (convert_entries L h r ns out ms) (\<lambda>r. object_paid out (fst r))"
  "wf_object out \<Longrightarrow> costs (merge_sources L h r m ss out) (object_paid out)"
  "wf_object out \<Longrightarrow> costs (convert_merges L h r ms out) (object_paid out)"
proof (induction L h r n and L h r ns and L h r ns out ms and L h r m ss out and L h r ms out
    rule: convert_convert_items_convert_entries_merge_sources_convert_merges.induct)
  case (2 L h r n)
  let ?P = "\<lambda>v k. value_paid v (1 + k)"
  have "costs (case y_kind (h n) of
      DocumentNode \<Rightarrow> (case y_content (h n) of [] \<Rightarrow> yret GNil | c # _ \<Rightarrow> convert L h r c)
    | AliasNode \<Rightarrow> (case y_alias (h n) of
          None \<Rightarrow> yraise (at_line (h n) ''unknown alias'') | Some t \<Rightarrow> convert L h r t)
    | ScalarNode \<Rightarrow> ylift (yaml11_scalar L (h n))
    | SequenceNode \<Rightarrow> ybind (convert_items L h r (y_content (h n))) (\<lambda>vs. yret (GArr vs))
    | MappingNode \<Rightarrow>
        ybind (convert_entries L h r (y_content (h n)) [] []) (\<lambda>(out, merges).
        ybind (convert_merges L h r merges out) (\<lambda>m. yret (GObj m)))
    | UnknownKind \<Rightarrow> yraise (at_line (h n) ''unsupported YAML node'')) ?P"
  proof (cases "y_kind (h n)")
    case DocumentNode
    then show ?thesis
      by (cases "y_content (h n)") (auto intro!: costs_weaken [OF "2.IH"(1)])
  next
    case SequenceNode
    have "costs (ybind (convert_items L h r (y_content (h n))) (\<lambda>vs. yret (GArr vs))) ?P"
      by (intro costs_bind [OF "2.IH"(2)] costs_ret) (auto simp: SequenceNode)
    with SequenceNode show ?thesis by simp
  next
    case MappingNode
    have *: "costs (ybind (convert_merges L h r merges out) (\<lambda>m. yret (GObj m)))
        (\<lambda>w j. value_paid w (1 + (k + j)))"
      if "object_paid [] out k" for out merges k
      using that by (intro costs_bind [OF "2.IH"(4)] costs_ret) (auto simp: wf_object_def MappingNode)
    from MappingNode show ?thesis
      by (auto intro!: costs_bind [OF "2.IH"(3)] * simp: split_beta)
  next
    case ScalarNode
    then show ?thesis by (auto intro!: costs_lift dest: scalar_nodes)
  next
    case AliasNode
    then show ?thesis
      by (cases "y_alias (h n)") (auto intro!: costs_weaken [OF "2.IH"(5)])
  qed auto
  then show ?case by (auto intro!: costs_bind [where P = "\<lambda>_ k. k = 1"] costs_spend)
next
  case (1 L h n)
  show ?case by (auto intro!: costs_bind [where P = "\<lambda>_ _. True"] costs_spend)
next
  case (4 L h r n ns)
  show ?case
    by (simp, intro costs_bind [OF "4.IH"(1)] costs_bind [OF "4.IH"(2)] costs_ret) auto
next
  case (5 L h r kn vn rest out ms)
  show ?case
  proof (cases "is_merge_key (h kn)")
    case False
    have rest: "costs (convert_entries L h r rest (put key v out) ms) (\<lambda>w j. object_paid out (fst w) (k + (i + j)))"
      if "key_text kv = Some key" "value_paid kv k" "value_paid v i" for kv key k v i
    proof (rule costs_weaken)
      show "costs (convert_entries L h r rest (put key v out) ms) (\<lambda>r. object_paid (put key v out) (fst r))"
        using "5.IH"(4) [OF False that(1)] that "5.prems" by auto
    qed (use that nodes_put [of key v out] nodes_pos [of kv] in auto)
    have "costs (case key_text kv of None \<Rightarrow> yraise (at_line (h kn) ''mapping keys must be scalars'')
        | Some key \<Rightarrow> ybind (convert L h r vn) (\<lambda>v. convert_entries L h r rest (put key v out) ms))
        (\<lambda>w j. object_paid out (fst w) (k + j))" if "value_paid kv k" for kv k
      using that by (cases "key_text kv") (auto intro!: costs_bind [OF "5.IH"(3) [OF False]] rest)
    with False show ?thesis by (auto intro!: costs_bind [OF "5.IH"(2)])
  qed (use 5 in simp)
next
  case (8 L h r m s ss out)
  have rest: "costs (merge_sources L h r m ss (add_missing mm out)) (\<lambda>w j. object_paid out w (k + j))"
    if "value_paid (GObj mm) k" for mm k
    using that "8.prems" add_missing_nodes [of mm out]
    by (intro costs_weaken [OF "8.IH"(2)]) (auto intro: add_missing_wf)
  have "costs (case v of GObj mm \<Rightarrow> merge_sources L h r m ss (add_missing mm out)
      | _ \<Rightarrow> yraise (at_line (h m) ''a merge key (<<) needs a mapping or a list of mappings''))
      (\<lambda>w j. object_paid out w (k + j))" if "value_paid v k" for v k
    using that rest by (cases v) auto
  then show ?case by (auto intro!: costs_bind [OF "8.IH"(1)])
next
  case (10 L h r m ms out)
  show ?case
  proof (cases "deref h m")
    case (Some t)
    have "costs (convert_merges L h r ms out') (\<lambda>w j. object_paid out w (k + j))" if "object_paid out out' k" for out' k
      using that by (intro costs_weaken [OF "10.IH"(2) [OF Some]]) auto
    then have "costs (ybind (merge_sources L h r m (if y_kind (h t) = SequenceNode then y_content (h t) else [m]) out)
        (\<lambda>out. convert_merges L h r ms out)) (object_paid out)"
      using "10.prems" by (intro costs_bind [OF "10.IH"(1) [OF Some]])
    with Some show ?thesis by simp
  qed auto
qed auto

section \<open>A conversion returns\<close>

text \<open>In the nodes of a parsed text an alias points to the node that has the anchor, never to another alias.\<close>

definition plain_aliases :: "yheap \<Rightarrow> bool" where
  "plain_aliases h \<longleftrightarrow> (\<forall>n t. y_alias (h n) = Some t \<longrightarrow> y_kind (h t) \<noteq> AliasNode)"

definition returns :: "'a conv \<Rightarrow> bool" where
  "returns m \<longleftrightarrow> (\<forall>b. m b \<noteq> None)"

lemma returns_steps [intro, simp]: "returns (yret v)" "returns (yraise e)" "returns spend" "returns (ylift r)"
  by (auto simp: returns_def yret_def yraise_def spend_def ylift_def split: sum.splits)

lemma returns_bind [intro]: "returns m \<Longrightarrow> (\<And>v. returns (f v)) \<Longrightarrow> returns (ybind m f)"
  by (fastforce simp: returns_def ybind_def split: option.splits sum.splits)

lemma deref_returns:
  assumes "plain_aliases h"
  shows "deref h n \<noteq> None"
proof (cases "y_alias (h n)")
  case (Some t)
  with assms have "y_kind (h t) \<noteq> AliasNode" by (auto simp: plain_aliases_def)
  then have "deref h t = Some t" by (simp add: deref.simps)
  with Some show ?thesis by (simp add: deref.simps [of h n])
qed (simp add: deref.simps)

lemma convert_returns:
  "plain_aliases h \<Longrightarrow> returns (convert L h r n)"
  "plain_aliases h \<Longrightarrow> returns (convert_items L h r ns)"
  "plain_aliases h \<Longrightarrow> returns (convert_entries L h r ns out ms)"
  "plain_aliases h \<Longrightarrow> returns (merge_sources L h r m ss out)"
  "plain_aliases h \<Longrightarrow> returns (convert_merges L h r ms out)"
proof (induction L h r n and L h r ns and L h r ns out ms and L h r m ss out and L h r ms out
    rule: convert_convert_items_convert_entries_merge_sources_convert_merges.induct)
  case (2 L h r n)
  show ?case
  proof (cases "y_kind (h n)")
    case SequenceNode
    have "returns (ybind (convert_items L h r (y_content (h n))) (\<lambda>vs. yret (GArr vs)))"
      by (rule returns_bind) (simp_all only: "2.IH"(2) [OF SequenceNode "2.prems"] returns_steps)
    with SequenceNode show ?thesis by auto
  next
    case MappingNode
    have "returns (ybind (convert_entries L h r (y_content (h n)) [] []) (\<lambda>(out, merges).
        ybind (convert_merges L h r merges out) (\<lambda>m. yret (GObj m))))"
    proof (rule returns_bind)
      fix p :: "gval gomap \<times> nat list"
      show "returns (case p of (out, merges) \<Rightarrow> ybind (convert_merges L h r merges out) (\<lambda>m. yret (GObj m)))"
        using "2.IH"(4) [OF MappingNode "2.prems"] by (cases p) auto
    qed (rule "2.IH"(3) [OF MappingNode "2.prems"])
    with MappingNode show ?thesis by auto
  qed (use 2 in \<open>auto split: list.splits option.splits\<close>)
next
  case (10 L h r m ms out)
  then obtain t where t: "deref h m = Some t" using deref_returns [of h m] by auto
  have "returns (ybind (merge_sources L h r m (if y_kind (h t) = SequenceNode then y_content (h t) else [m]) out)
      (\<lambda>out. convert_merges L h r ms out))"
    by (rule returns_bind [OF "10.IH"(1) [OF t "10.prems"] "10.IH"(2) [OF t "10.prems"]])
  with t show ?case by simp
next
  case (5 L h r kn vn rest out ms)
  have "returns (case key_text k of None \<Rightarrow> yraise (at_line (h kn) ''mapping keys must be scalars'')
      | Some key \<Rightarrow> ybind (convert L h r vn) (\<lambda>v. convert_entries L h r rest (put key v out) ms))"
    if "\<not> is_merge_key (h kn)" for k
    using that 5 by (auto split: option.split)
  with 5 show ?case by auto
next
  case (8 L h r m s ss out)
  then show ?case by (auto split: gval.split)
qed auto

text \<open>C25. Whatever document is given, even one whose aliases repeat or contain themselves, the decoder returns:
  an error, or a document with distinct keys and no more than a million nodes.\<close>

theorem yaml_decode_bounded:
  assumes "case yl_next L s 0 of YamlDoc h n \<Rightarrow> plain_aliases h | _ \<Rightarrow> True"
  shows "case decode_yaml11 L s of
      None \<Rightarrow> False | Some (Inl _) \<Rightarrow> True | Some (Inr v) \<Rightarrow> wf_val v \<and> nodes v \<le> 1000000"
proof (cases "yl_next L s 0")
  case (YamlDoc h n)
  with assms have "convert L h 1001 n yaml11_budget \<noteq> None"
    using convert_returns(1) [of h L 1001 n] by (auto simp: returns_def)
  then obtain r b where c: "convert L h 1001 n yaml11_budget = Some (r, b)" by (metis option.exhaust surj_pair)
  have "wf_val v \<and> nodes v \<le> 1000000" if "r = Inr v" for v
  proof -
    from convert_costs(1) [of L h 1001 n] c that
    have "0 \<le> b" "value_paid v (yaml11_budget - b)"
      unfolding costs_def yaml11_budget_def by (metis zero_le_numeral)+
    then show ?thesis unfolding yaml11_budget_def by linarith
  qed
  with c YamlDoc show ?thesis
    by (cases r) (simp_all add: decode_yaml11_def split: yaml_next.splits)
qed (simp_all add: decode_yaml11_def)

text \<open>A list whose only item is an alias of the list itself.\<close>

definition endless :: "unit yaml_lib" where
  "endless = \<lparr>yl_next = (\<lambda>s i. if i = 0 then YamlDoc (\<lambda>n.
       if n = 0 then \<lparr>y_kind = DocumentNode, y_style = [], y_tag = [], y_value = [], y_content = [1], y_alias = None, y_line = 1\<rparr>
       else if n = 1 then \<lparr>y_kind = SequenceNode, y_style = [], y_tag = [], y_value = [], y_content = [2], y_alias = None, y_line = 1\<rparr>
       else \<lparr>y_kind = AliasNode, y_style = [], y_tag = [], y_value = [], y_content = [], y_alias = Some 1, y_line = 1\<rparr>) 0
       else YamlEof),
     yl_parse_float = (\<lambda>_. None), yl_of_int = (\<lambda>_. ()), yl_times60_plus = (\<lambda>_ _. ()), yl_with_sign = (\<lambda>_ _. ()),
     yl_format = (\<lambda>_. [])\<rparr>"

lemma yaml_decode_bounded_witness:
  "case decode_yaml11 endless ''&a [*a]'' of
      None \<Rightarrow> False | Some (Inl _) \<Rightarrow> True | Some (Inr v) \<Rightarrow> wf_val v \<and> nodes v \<le> 1000000"
  by (rule yaml_decode_bounded) (simp add: endless_def plain_aliases_def)

end
