(* ===== verification/YamlNumbers.thy ===== *)
theory YamlNumbers
  imports Yaml11 SemEq
begin

text \<open>
  What the integers of a YAML 1.1 document mean (src/internal/normalize/yaml11.go): a description of the
  five forms the resolver accepts, with the value of each, against which the parser is checked.
  The comparison of two documents is shown to be an equivalence.
\<close>

section \<open>Positional notation\<close>

definition positional :: "nat \<Rightarrow> string \<Rightarrow> nat" where
  "positional base s = foldl (\<lambda>n c. n * base + the (letter_val c)) 0 s"

definition digit_below :: "nat \<Rightarrow> char \<Rightarrow> bool" where
  "digit_below base c \<longleftrightarrow> (case letter_val c of Some d \<Rightarrow> d < base | None \<Rightarrow> False)"

lemma digits_in_foldl:
  "list_all (digit_below base) s \<Longrightarrow> digits_in base n s = Some (foldl (\<lambda>n c. n * base + the (letter_val c)) n s)"
  by (induction s arbitrary: n) (auto simp: digit_below_def split: option.splits)

lemma digit_range_iff: "n \<le> 10 \<Longrightarrow> c \<in> set (digit_range n) \<longleftrightarrow> is_digit c \<and> digit_val c < n"
  by (auto simp: digit_range_def image_iff) (metis atLeastLessThan_iff digit_char_val zero_le)

lemma digit_below_range: "n \<le> 10 \<Longrightarrow> c \<in> set (digit_range n) \<Longrightarrow> digit_below n c"
  by (auto simp: digit_below_def digit_range_iff letter_val_def)

lemma hex_chars_below: "list_all (digit_below 16) hex_chars"
  by code_simp

lemma digit_letter: "is_digit c \<Longrightarrow> the (letter_val c) = digit_val c"
  by (simp add: letter_val_def)

lemma foldl_grows: "(n :: nat) \<le> foldl (\<lambda>n c. n * 10 + f c) n s"
proof (induction s arbitrary: n)
  case (Cons c s)
  have "n \<le> n * 10 + f c" by simp
  also have "\<dots> \<le> foldl (\<lambda>n c. n * 10 + f c) (n * 10 + f c) s" by (rule Cons.IH)
  finally show ?case by simp
qed simp

text \<open>\<open>strconv.ParseUint\<close> and \<open>strconv.Atoi\<close> on digits.\<close>

lemma parse_uint_digits:
  "list_all is_digit s \<Longrightarrow> n \<le> hi \<Longrightarrow> parse_uint_loop 10 hi n s =
     (let v = foldl (\<lambda>n c. n * 10 + the (letter_val c)) n s in if v \<le> hi then Inr v else Inl RangeErr)"
proof (induction s arbitrary: n)
  case (Cons c s)
  let ?m = "n * 10 + digit_val c"
  from Cons.prems have c: "is_digit c" "digit_val c < 10" by (auto simp: digit_val_less)
  show ?case
  proof (cases "?m \<le> hi")
    case True
    with Cons c show ?thesis by (simp add: digit_letter Let_def)
  next
    case False
    with foldl_grows [of ?m "\<lambda>c. the (letter_val c)" s] c Cons.prems show ?thesis
      by (simp add: digit_letter Let_def)
  qed
qed simp

lemma atoi_digits:
  assumes "list_all is_digit s" and "s \<noteq> []"
  shows "atoi s = (if int (positional 10 s) \<le> max_int64 then (int (positional 10 s), None) else (max_int64, Some RangeErr))"
proof -
  have "strip_sign s = (False, s)" using assms by (intro strip_sign_digits) (simp_all add: list_all_iff)
  then show ?thesis
    using assms parse_uint_digits [of s 0 "2 ^ 64 - 1"]
    by (simp add: atoi_def parse_uint_def positional_def Let_def max_int64_def)
qed

section \<open>The forms of an integer\<close>

datatype int_form = BinF string | OctF string | ZeroF | DecF string | HexF string | SexF string "string list"

primrec int_body :: "int_form \<Rightarrow> string" where
  "int_body (BinF u) = ''0b'' @ u"
| "int_body (OctF u) = ''0'' @ u"
| "int_body ZeroF = ''0''"
| "int_body (DecF u) = u"
| "int_body (HexF u) = ''0x'' @ u"
| "int_body (SexF u ms) = u @ concat (map (Cons CHR '':'') ms)"

definition leading :: "string \<Rightarrow> bool" where
  "leading u \<longleftrightarrow> u \<noteq> [] \<and> hd u \<in> set (tl (digit_range 10)) \<and> set (tl u) \<subseteq> set (CHR ''_'' # digit_range 10)"

definition minute :: "string \<Rightarrow> bool" where
  "minute m \<longleftrightarrow> matches (Seq (opt (Cls (digit_range 6))) (Cls (digit_range 10))) m"

primrec int_shape :: "int_form \<Rightarrow> bool" where
  "int_shape (BinF u) = (u \<noteq> [] \<and> set u \<subseteq> set ''01_'')"
| "int_shape (OctF u) = (u \<noteq> [] \<and> set u \<subseteq> set (CHR ''_'' # digit_range 8))"
| "int_shape ZeroF = True"
| "int_shape (DecF u) = leading u"
| "int_shape (HexF u) = (u \<noteq> [] \<and> set u \<subseteq> set (CHR ''_'' # hex_chars))"
| "int_shape (SexF u ms) = (leading u \<and> ms \<noteq> [] \<and> list_all minute ms)"

text \<open>The value, and when the parser reads it: a prefix needs a digit after it, and the leading part of a
  base-60 number is read as an int.\<close>

primrec int_value :: "int_form \<Rightarrow> nat" where
  "int_value (BinF u) = positional 2 (no_underscores u)"
| "int_value (OctF u) = positional 8 (no_underscores u)"
| "int_value ZeroF = 0"
| "int_value (DecF u) = positional 10 (no_underscores u)"
| "int_value (HexF u) = positional 16 (no_underscores u)"
| "int_value (SexF u ms) = foldl (\<lambda>n m. n * 60 + positional 10 m) (positional 10 (no_underscores u)) ms"

primrec int_readable :: "int_form \<Rightarrow> bool" where
  "int_readable (BinF u) = (no_underscores u \<noteq> [])"
| "int_readable (OctF u) = True"
| "int_readable ZeroF = True"
| "int_readable (DecF u) = True"
| "int_readable (HexF u) = (no_underscores u \<noteq> [])"
| "int_readable (SexF u ms) = (int (positional 10 (no_underscores u)) \<le> max_int64)"

definition is_sign :: "string \<Rightarrow> bool" where
  "is_sign sg \<longleftrightarrow> sg = [] \<or> sg = ''+'' \<or> sg = ''-''"

lemma repeated_concat: "s \<in> repeated L \<longleftrightarrow> (\<exists>us. s = concat us \<and> set us \<subseteq> L)"
proof
  assume "s \<in> repeated L"
  then show "\<exists>us. s = concat us \<and> set us \<subseteq> L"
  proof induction
    case none
    show ?case by (intro exI [of _ "[]"]) simp
  next
    case (more u v)
    then obtain us where "v = concat us" "set us \<subseteq> L" by blast
    with more(1) show ?case by (intro exI [of _ "u # us"]) simp
  qed
next
  assume "\<exists>us. s = concat us \<and> set us \<subseteq> L"
  then obtain us where "s = concat us" "set us \<subseteq> L" by blast
  then show "s \<in> repeated L" by (induction us arbitrary: s) (auto intro: repeated.intros)
qed

lemma lang_first: "rx_lang (Seq (Cls [c]) r) = Cons c ` rx_lang r"
  by (auto simp: image_iff)

lemma first_of_repeated:
  "(\<exists>u us. s = u @ concat us \<and> u \<in> L \<and> set us \<subseteq> L) \<longleftrightarrow> (\<exists>us. us \<noteq> [] \<and> s = concat us \<and> set us \<subseteq> L)"
proof
  assume "\<exists>us. us \<noteq> [] \<and> s = concat us \<and> set us \<subseteq> L"
  then obtain us where "us \<noteq> []" "s = concat us" "set us \<subseteq> L" by blast
  then show "\<exists>u us. s = u @ concat us \<and> u \<in> L \<and> set us \<subseteq> L" by (cases us) auto
next
  assume "\<exists>u us. s = u @ concat us \<and> u \<in> L \<and> set us \<subseteq> L"
  then obtain u us where "s = u @ concat us" "u \<in> L" "set us \<subseteq> L" by blast
  then show "\<exists>us. us \<noteq> [] \<and> s = concat us \<and> set us \<subseteq> L" by (intro exI [of _ "u # us"]) simp
qed

lemma lang_minutes: "s \<in> rx_lang minutes_rx \<longleftrightarrow> (\<exists>ms. ms \<noteq> [] \<and> list_all minute ms \<and> s = concat (map (Cons CHR '':'') ms))"
proof -
  let ?L = "Cons CHR '':'' ` Collect minute"
  have L: "rx_lang (seqs [Cls '':'', opt (Cls (digit_range 6)), Cls (digit_range 10)]) = ?L"
    unfolding seqs.simps lang_first minute_def [abs_def] matches_iff Collect_mem_eq ..
  have all: "set us \<subseteq> ?L \<longleftrightarrow> (\<exists>ms. us = map (Cons CHR '':'') ms \<and> list_all minute ms)" for us
  proof
    assume "set us \<subseteq> ?L"
    then show "\<exists>ms. us = map (Cons CHR '':'') ms \<and> list_all minute ms"
    proof (induction us)
      case (Cons u us)
      then obtain m ms where "u = CHR '':'' # m" "minute m" "us = map (Cons CHR '':'') ms" "list_all minute ms" by auto
      then show ?case by (intro exI [of _ "m # ms"]) simp
    qed simp
  qed (auto simp: list_all_iff)
  have "s \<in> rx_lang minutes_rx \<longleftrightarrow> (\<exists>u us. s = u @ concat us \<and> u \<in> ?L \<and> set us \<subseteq> ?L)"
    unfolding minutes_rx_def plus1_def rx_lang.simps(4,6) L repeated_concat by auto
  also have "\<dots> \<longleftrightarrow> (\<exists>us. us \<noteq> [] \<and> s = concat us \<and> set us \<subseteq> ?L)"
    by (rule first_of_repeated)
  also have "\<dots> \<longleftrightarrow> (\<exists>ms. ms \<noteq> [] \<and> list_all minute ms \<and> s = concat (map (Cons CHR '':'') ms))"
    unfolding all by auto
  finally show ?thesis .
qed

lemma lang_sign: "sg \<in> rx_lang sign_rx \<longleftrightarrow> is_sign sg"
  by (auto simp: sign_rx_def is_sign_def)

lemma lang_Seq: "s \<in> rx_lang (Seq r q) \<longleftrightarrow> (\<exists>u v. s = u @ v \<and> u \<in> rx_lang r \<and> v \<in> rx_lang q)"
  by simp

lemma lang_char: "u \<in> rx_lang (Seq (Cls cs) r) \<longleftrightarrow> (\<exists>c v. u = c # v \<and> c \<in> set cs \<and> v \<in> rx_lang r)"
proof -
  have "u \<in> rx_lang (Seq (Cls cs) r) \<longleftrightarrow> (\<exists>c v. u = [c] @ v \<and> c \<in> set cs \<and> v \<in> rx_lang r)"
    unfolding lang_Seq rx_lang.simps(3) by blast
  then show ?thesis by simp
qed

lemma lang_leading:
  "u \<in> rx_lang (Seq (Cls (tl (digit_range 10))) (Star (Cls (CHR ''_'' # digit_range 10)))) \<longleftrightarrow> leading u"
  unfolding lang_char lang_star_cls leading_def by (cases u) simp_all

lemma ex_int_form:
  "(\<exists>f. P f) \<longleftrightarrow> (\<exists>u. P (BinF u)) \<or> (\<exists>u. P (OctF u)) \<or> P ZeroF \<or> (\<exists>u. P (DecF u)) \<or> (\<exists>u. P (HexF u)) \<or>
     (\<exists>u ms. P (SexF u ms))"
  by (metis int_form.exhaust)

text \<open>The resolver takes exactly the texts of these forms for integers.\<close>

lemma matches_int: "matches yaml11_int s \<longleftrightarrow> (\<exists>sg f. is_sign sg \<and> int_shape f \<and> s = sg @ int_body f)"
proof -
  let ?in = "\<lambda>f. \<exists>sg. is_sign sg \<and> int_shape f \<and> s = sg @ int_body f"
  have p: "s \<in> rx_lang (seqs [sign_rx, lit p, plus1 (Cls cs)]) \<longleftrightarrow> (\<exists>v sg. is_sign sg \<and> (v \<noteq> [] \<and> set v \<subseteq> set cs) \<and> s = sg @ p @ v)" for p cs
    by (simp only: seqs.simps lang_Seq lang_sign lang_lit lang_plus1_cls singleton_iff mem_Collect_eq) blast
  have 2: "s \<in> rx_lang (seqs [sign_rx, Alt (lit ''0'') (Seq (Cls (tl (digit_range 10))) (Star (Cls (CHR ''_'' # digit_range 10))))])
      \<longleftrightarrow> ?in ZeroF \<or> (\<exists>u. ?in (DecF u))"
    by (simp only: seqs.simps lang_Seq [of _ sign_rx] lang_sign rx_lang.simps(5) Un_iff lang_leading lang_lit singleton_iff
        int_shape.simps int_body.simps) blast
  have 3: "s \<in> rx_lang (seqs [sign_rx, Cls (tl (digit_range 10)), Star (Cls (CHR ''_'' # digit_range 10)), minutes_rx])
      \<longleftrightarrow> (\<exists>u ms. ?in (SexF u ms))"
  proof -
    have "v \<in> rx_lang (Seq (Cls (tl (digit_range 10))) (Seq (Star (Cls (CHR ''_'' # digit_range 10))) minutes_rx))
        \<longleftrightarrow> (\<exists>a b. v = a @ b \<and> leading a \<and> b \<in> rx_lang minutes_rx)" for v
      unfolding lang_leading [symmetric] lang_Seq by (metis append.assoc)
    then show ?thesis
      by (simp only: seqs.simps lang_Seq [of _ sign_rx] lang_sign lang_minutes int_shape.simps int_body.simps) blast
  qed
  have "(\<exists>sg f. is_sign sg \<and> int_shape f \<and> s = sg @ int_body f) \<longleftrightarrow> (\<exists>f. ?in f)" by blast
  also have "\<dots> \<longleftrightarrow> (\<exists>u. ?in (BinF u)) \<or> (\<exists>u. ?in (OctF u)) \<or> (?in ZeroF \<or> (\<exists>u. ?in (DecF u))) \<or> (\<exists>u. ?in (HexF u)) \<or>
      (\<exists>u ms. ?in (SexF u ms))"
    unfolding ex_int_form [of ?in] by argo
  also have "\<dots> \<longleftrightarrow> matches yaml11_int s"
    unfolding matches_iff yaml11_int_def alts.simps rx_lang.simps(5) Un_iff 2 3 p int_shape.simps(1,2,5) int_body.simps(1,2,5) ..
  finally show ?thesis ..
qed

section \<open>Reading an integer\<close>

lemma digit_ranges:
  "digit_range 10 = ''0123456789''" "digit_range 8 = ''01234567''" "digit_range 6 = ''012345''"
  by code_simp+

lemma digit_in_range: "is_digit c \<longleftrightarrow> c \<in> set ''0123456789''"
  using digit_range_iff [of 10 c] digit_val_less [of c] unfolding digit_ranges by blast

lemma leading_digits:
  assumes "leading u"
  obtains c v where "u = c # v" "is_digit c" "c \<noteq> CHR ''0''" "list_all is_digit (no_underscores u)"
proof -
  from assms obtain c v where u: "u = c # v" "c \<in> set ''123456789''" "set v \<subseteq> set ''_0123456789''"
    unfolding leading_def digit_ranges by (cases u) auto
  then have d: "is_digit c" "c \<noteq> CHR ''0''" unfolding digit_in_range by auto
  have "x = CHR ''_'' \<or> is_digit x" if "x \<in> set v" for x
    using u(3) that unfolding digit_in_range subset_iff by simp
  with d have "list_all is_digit (no_underscores u)"
    using u(1) unfolding list_all_iff no_underscores_def by auto
  with d show ?thesis using u(1) that by blast
qed

lemma int_body_head: "int_shape f \<Longrightarrow> \<exists>c t. int_body f = c # t \<and> is_digit c"
proof (cases f)
  case (DecF u)
  assume "int_shape f"
  with DecF show ?thesis by (auto elim: leading_digits)
next
  case (SexF u ms)
  assume "int_shape f"
  with SexF show ?thesis by (auto elim: leading_digits)
qed (simp_all add: digit_in_range digit_ranges)

lemma no_underscores_simps [simp]:
  "no_underscores [] = []" "no_underscores (u @ v) = no_underscores u @ no_underscores v"
  "no_underscores (c # s) = (if c = CHR ''_'' then no_underscores s else c # no_underscores s)"
  by (simp_all add: no_underscores_def)

lemma digit_not_special: "is_digit c \<Longrightarrow> c \<noteq> CHR ''_'' \<and> c \<noteq> CHR ''+'' \<and> c \<noteq> CHR ''-'' \<and> c \<noteq> CHR '':'' \<and> c \<noteq> CHR ''b'' \<and> c \<noteq> CHR ''x''"
  by (auto simp: is_digit_def ord_of_def)

lemma strip_signed:
  assumes "is_sign sg" and "int_shape f"
  shows "strip_sign (no_underscores (sg @ int_body f)) = (sg = ''-'', no_underscores (int_body f))"
proof -
  obtain c t where "int_body f = c # t" "is_digit c" using int_body_head [OF assms(2)] by blast
  with assms(1) digit_not_special [of c] show ?thesis by (auto simp: is_sign_def strip_sign_def)
qed

lemma plain_is_int:
  assumes "is_sign sg" and "int_shape f"
  shows "yaml11_plain L (sg @ int_body f) = yaml11_parse_int (sg @ int_body f)"
proof -
  obtain c t where c: "int_body f = c # t" "is_digit c" using int_body_head [OF assms(2)] by blast
  have "sg @ c # t \<notin> set null_words \<union> set bool_words"
    using assms(1) c(2) by (auto simp: is_sign_def null_words_def bool_words_def is_digit_def ord_of_def)
  moreover have "matches yaml11_int (sg @ int_body f)" unfolding matches_int using assms by blast
  ultimately show ?thesis unfolding c by (simp add: yaml11_plain_def matches_iff)
qed

lemma big_int_digits:
  assumes "list_all (digit_below base) u" and "\<And>c v. u = c # v \<Longrightarrow> c \<noteq> CHR ''+'' \<and> c \<noteq> CHR ''-''"
  shows "big_int base u = (if u = [] then None else Some (int (positional base u)))"
proof (cases u)
  case (Cons c v)
  with assms(2) have "strip_sign u = (False, u)" by (simp add: strip_sign_def)
  with Cons digits_in_foldl [OF assms(1), of 0] show ?thesis
    by (simp add: big_int_def signed_def positional_def)
qed (simp add: big_int_def strip_sign_def)

lemma digit_below_char: "digit_below base c \<Longrightarrow> c \<noteq> CHR ''+'' \<and> c \<noteq> CHR ''-'' \<and> c \<noteq> CHR '':''"
  by (auto simp: digit_below_def letter_val_def is_digit_def is_lower_def is_upper_def ord_of_def)

lemma big_int_below: "list_all (digit_below base) u \<Longrightarrow> big_int base u = (if u = [] then None else Some (int (positional base u)))"
  by (rule big_int_digits) (use digit_below_char in auto)

lemma below_no_underscores:
  "set u \<subseteq> set (CHR ''_'' # cs) \<Longrightarrow> list_all (digit_below base) cs \<Longrightarrow> list_all (digit_below base) (no_underscores u)"
  by (auto simp: list_all_iff no_underscores_def)

lemma digit_below_10: "is_digit c \<Longrightarrow> digit_below 10 c"
  by (simp add: digit_below_def letter_val_def digit_val_less)

lemma minute_digits: "minute m \<Longrightarrow> list_all is_digit m \<and> m \<noteq> [] \<and> positional 10 m \<le> 99"
  by (auto simp: minute_def matches_iff digit_range_iff positional_def letter_val_def)

lemma base60_minutes:
  "list_all minute ms \<Longrightarrow> base60 (int n) ms = Some (int (foldl (\<lambda>n m. n * 60 + positional 10 m) n ms))"
proof (induction ms arbitrary: n)
  case (Cons m ms)
  then have "list_all is_digit m" "m \<noteq> []" "positional 10 m \<le> 99" by (auto dest: minute_digits)
  then have "atoi m = (int (positional 10 m), None)" by (simp add: atoi_digits max_int64_def)
  with Cons.IH [of "n * 60 + positional 10 m"] Cons.prems show ?case by simp
qed simp

lemma split_minutes:
  "CHR '':'' \<notin> set u \<Longrightarrow> list_all minute ms \<Longrightarrow> split_on CHR '':'' (u @ concat (map (Cons CHR '':'') ms)) = u # ms"
proof (induction ms arbitrary: u)
  case (Cons m ms)
  then have "CHR '':'' \<notin> set m" using minute_digits [of m] digit_not_special by (auto simp: list_all_iff)
  with Cons show ?case by (simp add: split_on_append)
qed (simp add: split_on_none)

lemma below_2: "list_all (digit_below 2) ''01''" by code_simp
lemma below_8: "list_all (digit_below 8) ''01234567''" by code_simp

lemma unsigned_int_value:
  assumes "int_shape f"
  shows "unsigned_int (no_underscores (int_body f)) = (if int_readable f then Some (int (int_value f)) else None)"
proof (cases f)
  case (BinF u)
  with assms have "list_all (digit_below 2) (no_underscores u)"
    by (intro below_no_underscores [OF _ below_2]) auto
  with BinF show ?thesis by (simp add: unsigned_int_def has_prefix_def big_int_below)
next
  case (OctF u)
  with assms have l: "list_all (digit_below 8) (no_underscores u)"
    by (intro below_no_underscores [OF _ below_8]) (simp add: digit_ranges)
  then have "\<not> has_prefix (CHR ''0'' # no_underscores u) ''0b''" "\<not> has_prefix (CHR ''0'' # no_underscores u) ''0x''"
    by (cases "no_underscores u"; auto simp: has_prefix_def digit_below_def letter_val_def is_digit_def is_lower_def ord_of_def)+
  with OctF l show ?thesis
    by (cases "no_underscores u") (simp_all add: unsigned_int_def has_prefix_def big_int_below positional_def)
next
  case (DecF u)
  with assms obtain c v where u: "u = c # v" "is_digit c" "c \<noteq> CHR ''0''" "list_all is_digit (no_underscores u)"
    by (auto elim: leading_digits)
  then have "CHR '':'' \<notin> set (no_underscores u)" "list_all (digit_below 10) (no_underscores u)" "no_underscores u = c # no_underscores v"
    using digit_not_special digit_below_10 by (auto simp: list_all_iff)
  with DecF u(3) show ?thesis by (simp add: unsigned_int_def has_prefix_def big_int_below)
next
  case (HexF u)
  with assms have "list_all (digit_below 16) (no_underscores u)"
    by (intro below_no_underscores [OF _ hex_chars_below]) auto
  with HexF show ?thesis by (simp add: unsigned_int_def has_prefix_def big_int_below)
next
  case (SexF u ms)
  with assms obtain c v where u: "u = c # v" "is_digit c" "c \<noteq> CHR ''0''" "list_all is_digit (no_underscores u)"
    by (auto elim: leading_digits)
  let ?ms = "concat (map (Cons CHR '':'') ms)"
  have ms: "list_all minute ms" "ms \<noteq> []" using assms SexF by simp_all
  have "no_underscores m = m" if "minute m" for m
    using minute_digits [OF that] digit_not_special by (auto simp: list_all_iff no_underscores_def intro!: filter_True)
  with ms(1) have n: "no_underscores ?ms = ?ms" by (induction ms) auto
  have c: "no_underscores u = c # no_underscores v" "CHR '':'' \<notin> set (no_underscores u)"
    using u digit_not_special by (auto simp: list_all_iff)
  have "CHR '':'' \<in> set ?ms" using ms(2) by (cases ms) auto
  then have "unsigned_int (no_underscores (int_body f)) = base60 0 (no_underscores u # ms)"
    using SexF c u(3) n split_minutes [OF c(2) ms(1)] by (simp add: unsigned_int_def has_prefix_def)
  also have "\<dots> = (if int_readable f then Some (int (int_value f)) else None)"
    using SexF u(4) c base60_minutes [OF ms(1), of "positional 10 (no_underscores u)"] by (simp add: atoi_digits)
  finally show ?thesis .
qed (simp add: unsigned_int_def)

text \<open>C42. A plain scalar that has one of the integer forms of YAML 1.1 (\<open>0b101\<close>, \<open>0755\<close>, \<open>1_000\<close>, \<open>0x1F\<close>,
  \<open>1:30:00\<close>, with a sign or without) decodes to the number it stands for in that base; the only ones refused
  are a bare prefix and a base-60 number whose leading part exceeds an int.\<close>

theorem yaml_integers:
  assumes "is_sign sg" and "int_shape f"
  shows "yaml11_plain L (sg @ int_body f) =
     (if int_readable f then Inr (GNumber (itoa (signed (sg = ''-'') (int (int_value f)))))
      else Inl (invalid_text (sg @ int_body f) ''integer''))"
  unfolding plain_is_int [OF assms] yaml11_parse_int_def strip_signed [OF assms] prod.case
  by (simp add: unsigned_int_value [OF assms(2)])

lemma yaml_integers_witness:
  "yaml11_plain endless (''-'' @ int_body (SexF ''1_0'' [''30'', ''5''])) = Inr (GNumber (itoa (-37805)))"
proof -
  let ?f = "SexF ''1_0'' [''30'', ''5'']"
  have "is_sign ''-''" "int_shape ?f" by code_simp+
  moreover have "int_readable ?f" "int_value ?f = 37805"
    by (simp_all add: positional_def letter_val_def is_digit_def digit_val_def ord_of_def max_int64_def)
  ultimately show ?thesis using yaml_integers [of "''-''" ?f endless] by (simp add: signed_def)
qed


section \<open>Comparing documents\<close>

lemma decoded_yaml_wf: "decode_yaml11 L s = Some (Inr v) \<Longrightarrow> wf_val v"
proof (cases "yl_next L s 0")
  case (YamlDoc h n)
  assume "decode_yaml11 L s = Some (Inr v)"
  with YamlDoc obtain b where "convert L h 1001 n yaml11_budget = Some (Inr v, b)"
    by (simp add: decode_yaml11_def split: yaml_next.splits) (metis prod.collapse)
  with convert_costs(1) [of L h 1001 n] show "wf_val v"
    unfolding costs_def yaml11_budget_def by (metis zero_le_numeral)
qed (auto simp: decode_yaml11_def)

definition same_yaml :: "json_lib \<Rightarrow> 'f yaml_lib \<Rightarrow> string \<Rightarrow> string \<Rightarrow> bool" where
  "same_yaml jl L a b \<longleftrightarrow> json_ok jl \<and> equal_yaml11 (jl_decode jl) (jl_lit jl) L a b = Some True"

lemma same_yaml_iff:
  "same_yaml jl L a b \<longleftrightarrow> json_ok jl \<and> (a = b \<or> (\<exists>x y. decode_yaml_or_json (jl_decode jl) L a = Some (Inr x) \<and>
     decode_yaml_or_json (jl_decode jl) L b = Some (Inr y) \<and> wf_val x \<and> wf_val y \<and> equal_documents (jl_lit jl) x y False))"
proof -
  have "wf_val v" if "json_ok jl" "decode_yaml_or_json (jl_decode jl) L s = Some (Inr v)" for s v
    using that by (auto simp: json_ok_def decode_yaml_or_json_def dest: decoded_yaml_wf split: option.splits)
  then show ?thesis
    by (auto simp: same_yaml_def equal_yaml11_def split: option.splits sum.splits)
qed

interpretation yaml_documents: partial_equivalence "same_yaml jl L" for jl L
proof
  fix a b
  assume "same_yaml jl L a b"
  then show "same_yaml jl L b a"
    unfolding same_yaml_iff equal_documents_def by (blast intro: equal_tree_sym)
next
  fix a b c
  assume "same_yaml jl L a b" "same_yaml jl L b c"
  then show "same_yaml jl L a c"
    unfolding same_yaml_iff equal_documents_def
    by (elim conjE disjE exE; simp?) (metis Inr_inject equal_tree_trans option.inject)+
qed

end
