(* ===== verification/Compose.thy ===== *)
theory Compose
  imports YamlNumbers Overlay
begin

text \<open>
  The documents of an app (src/internal/resources/app/compose.go and values.go): the Compose file of a
  custom app and the values of a catalog app, each compared with what the server holds, and the
  overlay with secrets that is merged in before sending. Printing YAML and JSON
  (\<open>yaml.Marshal\<close>, \<open>json.Marshal\<close>) and reading a number as a float64 are parameters.
\<close>

record 'f doc_lib =
  dl_json :: json_lib
  dl_yaml :: "'f yaml_lib"
  dl_float :: "string \<Rightarrow> f64 option"
  dl_print_yaml :: "gval \<Rightarrow> string option"
  dl_print_json :: "gval \<Rightarrow> string"

section \<open>Merging and projecting documents\<close>

text \<open>\<open>deepMerge\<close>; a value that is not an object on both sides is replaced.\<close>

fun deep_merge :: "gval gomap \<Rightarrow> gval gomap \<Rightarrow> gval gomap"
  and merge_value :: "gval option \<Rightarrow> gval \<Rightarrow> gval" where
  "deep_merge base [] = base"
| "deep_merge base ((k, ov) # overlay) = deep_merge (put k (merge_value (map_of base k) ov) base) overlay"
| "merge_value (Some (GObj bm)) (GObj om) = GObj (deep_merge bm om)"
| "merge_value _ ov = ov"

text \<open>\<open>projectComposeKeys\<close> is the same loop as the one of package writeonly.\<close>

definition project_compose_keys :: "gval gomap \<Rightarrow> gval gomap \<Rightarrow> gval gomap" where
  "project_compose_keys live base = project_map live base"

text \<open>\<open>projectMap\<close> and \<open>projectValue\<close> of values.go, which also descend into the items of lists.\<close>

fun project_value :: "gval \<Rightarrow> gval \<Rightarrow> gval"
  and project_shape :: "gval gomap \<Rightarrow> gval gomap \<Rightarrow> gval gomap"
  and project_items :: "gval list \<Rightarrow> gval list \<Rightarrow> gval list" where
  "project_value sv (GObj u) = (case sv of GObj sm \<Rightarrow> GObj (project_shape sm u) | _ \<Rightarrow> sv)"
| "project_value sv (GArr u) = (case sv of GArr sl \<Rightarrow> GArr (project_items sl u) | _ \<Rightarrow> sv)"
| "project_value sv user = sv"
| "project_shape server [] = []"
| "project_shape server ((k, uv) # shape) = (case map_of server k of
      None \<Rightarrow> project_shape server shape
    | Some sv \<Rightarrow> (k, project_value sv uv) # project_shape server shape)"
| "project_items [] us = []"
| "project_items (s # ss) [] = s # ss"
| "project_items (s # ss) (u # us) = project_value s u # project_items ss us"

text \<open>\<open>yamlNumbers\<close>: a literal becomes an int64, or a float64, or stays.\<close>

fun yaml_numbers :: "(string \<Rightarrow> f64 option) \<Rightarrow> gval \<Rightarrow> gval"
  and yaml_numbers_map :: "(string \<Rightarrow> f64 option) \<Rightarrow> gval gomap \<Rightarrow> gval gomap"
  and yaml_numbers_list :: "(string \<Rightarrow> f64 option) \<Rightarrow> gval list \<Rightarrow> gval list" where
  "yaml_numbers pf (GObj m) = GObj (yaml_numbers_map pf m)"
| "yaml_numbers pf (GArr xs) = GArr (yaml_numbers_list pf xs)"
| "yaml_numbers pf (GNumber n) = (case atoi n of
      (i, None) \<Rightarrow> GInt i
    | _ \<Rightarrow> (case pf n of Some f \<Rightarrow> GFloat f | None \<Rightarrow> GNumber n))"
| "yaml_numbers pf v = v"
| "yaml_numbers_map pf [] = []"
| "yaml_numbers_map pf ((k, v) # m) = (k, yaml_numbers pf v) # yaml_numbers_map pf m"
| "yaml_numbers_list pf [] = []"
| "yaml_numbers_list pf (x # xs) = yaml_numbers pf x # yaml_numbers_list pf xs"

text \<open>\<open>json.Unmarshal\<close> into an \<open>any\<close> reads every number as a float64; one out of range is an error.\<close>

fun json_floats :: "(string \<Rightarrow> f64 option) \<Rightarrow> gval \<Rightarrow> gval option"
  and json_floats_map :: "(string \<Rightarrow> f64 option) \<Rightarrow> gval gomap \<Rightarrow> gval gomap option"
  and json_floats_list :: "(string \<Rightarrow> f64 option) \<Rightarrow> gval list \<Rightarrow> gval list option" where
  "json_floats pf (GObj m) = map_option GObj (json_floats_map pf m)"
| "json_floats pf (GArr xs) = map_option GArr (json_floats_list pf xs)"
| "json_floats pf (GNumber n) = map_option GFloat (pf n)"
| "json_floats pf v = Some v"
| "json_floats_map pf [] = Some []"
| "json_floats_map pf ((k, v) # m) = do { x \<leftarrow> json_floats pf v; r \<leftarrow> json_floats_map pf m; Some ((k, x) # r) }"
| "json_floats_list pf [] = Some []"
| "json_floats_list pf (v # vs) = do { x \<leftarrow> json_floats pf v; r \<leftarrow> json_floats_list pf vs; Some (x # r) }"

section \<open>Compose files\<close>

text \<open>\<open>decodeYAMLExact\<close>; \<open>None\<close> is a decoder that does not return.\<close>

definition decode_yaml_exact :: "'f doc_lib \<Rightarrow> string \<Rightarrow> (string + gval) option" where
  "decode_yaml_exact D s = map_option (\<lambda>r. case r of
      Inl e \<Rightarrow> Inl e
    | Inr v \<Rightarrow> if v = GNil then Inl ''empty document'' else Inr v) (decode_yaml11 (dl_yaml D) s)"

definition same_document :: "'f doc_lib \<Rightarrow> gval \<Rightarrow> gval \<Rightarrow> bool" where
  "same_document D x y = equal_documents (jl_lit (dl_json D)) x y False"

definition not_compose :: "string \<Rightarrow> string" where
  "not_compose what = ''app.config did not return a '' @ what @ ''; the previous Compose state has been preserved''"

text \<open>\<open>reconcileComposeConfig\<close>: the text to store and whether the two documents are the same. The answer of
  app.config is a document already, so decoding it does not fail.\<close>

definition reconcile_compose :: "'f doc_lib \<Rightarrow> string \<Rightarrow> gval \<Rightarrow> (string + string \<times> bool) option" where
  "reconcile_compose D previous live = (case live of
      GObj m \<Rightarrow>
        (case map_of m ''services'' of
           Some (GObj _) \<Rightarrow>
             (case decode_yaml_exact D previous of
                None \<Rightarrow> None
              | Some r \<Rightarrow>
                  if (case r of Inr user \<Rightarrow> same_document D user live | Inl _ \<Rightarrow> False) then Some (Inr (previous, True))
                  else (case Option.bind (json_floats (dl_float D) live) (dl_print_yaml D) of
                      Some out \<Rightarrow> Some (Inr (out, False))
                    | None \<Rightarrow> Some (Inr (dl_print_json D live, False))))
         | _ \<Rightarrow> Some (Inl (not_compose ''Compose object with a services mapping'')))
    | _ \<Rightarrow> Some (Inl (not_compose ''Compose object'')))"

definition reconcile_projected :: "'f doc_lib \<Rightarrow> string \<Rightarrow> gval \<Rightarrow> (string + string \<times> bool) option" where
  "reconcile_projected D previous live = (case live of
      GObj m \<Rightarrow>
        (case decode_yaml_exact D previous of
           None \<Rightarrow> None
         | Some (Inr (GObj base)) \<Rightarrow>
             (let projected = GObj (project_compose_keys m base) in
              if same_document D (GObj base) projected then Some (Inr (previous, True))
              else (case dl_print_yaml D (yaml_numbers (dl_float D) projected) of
                  None \<Rightarrow> Some (Inr (previous, False))
                | Some out \<Rightarrow> Some (Inr (out, False))))
         | Some _ \<Rightarrow> Some (Inr (previous, True)))
    | _ \<Rightarrow> Some (Inl (not_compose ''Compose object'')))"

definition merge_compose_overlay :: "'f doc_lib \<Rightarrow> string \<Rightarrow> string \<Rightarrow> (string + string) option" where
  "merge_compose_overlay D base_yaml overlay =
     (let base_text = (if base_yaml = [] then ''{}'' else base_yaml) in
      case decode_yaml_exact D base_text of
        None \<Rightarrow> None
      | Some (Inl e) \<Rightarrow> Some (Inl e)
      | Some (Inr base) \<Rightarrow>
          (case decode_yaml_exact D overlay of
             None \<Rightarrow> None
           | Some (Inl e) \<Rightarrow> Some (Inl e)
           | Some (Inr ov) \<Rightarrow>
               (case (base, ov) of
                  (GObj bm, GObj om) \<Rightarrow>
                    (case dl_print_yaml D (yaml_numbers (dl_float D) (GObj (deep_merge bm om))) of
                       None \<Rightarrow> Some (Inl ''yaml: cannot marshal'')
                     | Some out \<Rightarrow> Some (Inr out))
                | _ \<Rightarrow> Some (Inr base_text))))"

section \<open>Values of catalog apps\<close>

text \<open>\<open>projectConfigOntoUserShape\<close>. Here both documents were read with float64 numbers.\<close>

definition user_shape :: "'f doc_lib \<Rightarrow> string \<Rightarrow> gval gomap option" where
  "user_shape D s = Option.bind (Option.bind (jl_decode (dl_json D) s) (json_floats (dl_float D))) as_object"

definition project_config :: "'f doc_lib \<Rightarrow> string \<Rightarrow> gval gomap \<Rightarrow> string" where
  "project_config D user_values live = (case user_shape D user_values of
      None \<Rightarrow> user_values
    | Some shape \<Rightarrow>
        (let projected = project_shape live shape in
         if same_document D (GObj shape) (GObj projected) then user_values
         else dl_print_json D (GObj projected)))"

section \<open>Leaves of documents\<close>

text \<open>The value at a path of keys, where it is not an object; and the paths that a document reaches: those of
  its nodes, and those that go on below a leaf.\<close>

fun get_leaf :: "gval \<Rightarrow> string list \<Rightarrow> gval option" where
  "get_leaf (GObj m) [] = None"
| "get_leaf (GObj m) (k # p) = (case map_of m k of None \<Rightarrow> None | Some v \<Rightarrow> get_leaf v p)"
| "get_leaf v [] = Some v"
| "get_leaf v (k # p) = None"

fun reaches :: "gval \<Rightarrow> string list \<Rightarrow> bool" where
  "reaches (GObj m) (k # p) = (case map_of m k of None \<Rightarrow> False | Some v \<Rightarrow> reaches v p)"
| "reaches v p = True"

lemma get_leaf_scalar: "(\<And>m. v \<noteq> GObj m) \<Longrightarrow> get_leaf v (k # p) = None"
  by (cases v) auto

lemma unreached: "\<not> reaches v p \<Longrightarrow> get_leaf v p = None"
proof (induction p arbitrary: v)
  case Nil
  then show ?case by (cases v) auto
next
  case (Cons k p)
  then show ?case by (cases v) (auto split: option.splits)
qed

lemma map_of_project_map:
  "map_of (project_map live shape) k = (case map_of shape k of
     None \<Rightarrow> None | Some sv \<Rightarrow> map_option (\<lambda>lv. project_val lv sv) (map_of live k))"
  by (induction shape) (auto split: option.splits)

lemma project_val_object: "(\<And>m. lv \<noteq> GObj m) \<Longrightarrow> project_val lv sv = lv"
  by (cases sv; cases lv) auto

text \<open>A projection has exactly the leaves of the live document that the shape reaches.\<close>

lemma leaf_project: "get_leaf (project_val lv sv) p = (if reaches sv p then get_leaf lv p else None)"
proof (induction p arbitrary: lv sv)
  case Nil
  then show ?case by (cases sv; cases lv) auto
next
  case (Cons k p)
  show ?case
  proof (cases sv)
    case (GObj sm)
    then show ?thesis by (cases lv) (auto simp: map_of_project_map Cons split: option.splits)
  qed auto
qed

lemma map_of_deep_merge:
  "wf_map ov \<Longrightarrow> map_of (deep_merge base ov) k = (case map_of ov k of
     None \<Rightarrow> map_of base k | Some v \<Rightarrow> Some (merge_value (map_of base k) v))"
proof (induction ov arbitrary: base)
  case (Cons e ov)
  obtain j v where e: "e = (j, v)" by (cases e)
  from Cons.prems have "map_of ov j = None" and wf: "wf_map ov"
    unfolding e by (auto simp: wf_map_def map_of_eq_None_iff)
  then show ?case unfolding e by (auto simp: Cons.IH [OF wf] split: option.splits)
qed simp

text \<open>A merged document has the leaves of the overlay, and those of the base that the overlay does not reach.\<close>

lemma leaf_merge:
  "wf_val v \<Longrightarrow> get_leaf (merge_value b v) p =
     (if reaches v p then get_leaf v p else case b of None \<Rightarrow> None | Some bv \<Rightarrow> get_leaf bv p)"
proof (induction p arbitrary: b v)
  case Nil
  show ?case
    by (cases "(b, v)" rule: merge_value.cases; cases v) auto
next
  case (Cons k p)
  show ?case
  proof (cases v)
    case (GObj om)
    show ?thesis
    proof (cases "\<exists>bm. b = Some (GObj bm)")
      case True
      then obtain bm where b: "b = Some (GObj bm)" by blast
      have "wf_val w" if "map_of om k = Some w" for w
        using Cons.prems GObj that by (auto simp: wf_entries_iff dest: map_of_SomeD)
      with Cons.IH Cons.prems GObj b show ?thesis
        by (auto simp: map_of_deep_merge split: option.splits)
    next
      case False
      then have "merge_value b v = v" unfolding GObj by (cases "(b, GObj om)" rule: merge_value.cases) auto
      moreover have "(case b of None \<Rightarrow> None | Some bv \<Rightarrow> get_leaf bv (k # p)) = None"
        using False by (auto split: option.splits intro: get_leaf_scalar)
      moreover have "\<not> reaches v (k # p) \<Longrightarrow> get_leaf v (k # p) = None" by (rule unreached)
      ultimately show ?thesis by simp
    qed
  qed (cases b; simp; cases "the b"; simp)+
qed

section \<open>Overlays that only add\<close>

text \<open>An overlay adds to a base when it holds nothing where the base has a leaf, and no leaf where the base has
  an object.\<close>

fun adds_to :: "gval gomap \<Rightarrow> gval gomap \<Rightarrow> bool"
  and adds_value :: "gval option \<Rightarrow> gval \<Rightarrow> bool" where
  "adds_to base [] = True"
| "adds_to base ((k, ov) # overlay) = (adds_value (map_of base k) ov \<and> adds_to base overlay)"
| "adds_value None ov = True"
| "adds_value (Some (GObj bm)) (GObj om) = adds_to bm om"
| "adds_value (Some _) ov = False"

lemma adds_to_iff: "adds_to base ov \<longleftrightarrow> (\<forall>(k, v) \<in> set ov. adds_value (map_of base k) v)"
  by (induction ov) auto

text \<open>What is sent with such an overlay is read back as the base itself.\<close>

lemma project_merge:
  "wf_map base \<Longrightarrow> wf_entries base \<Longrightarrow> wf_map ov \<Longrightarrow> wf_entries ov \<Longrightarrow> adds_to base ov \<Longrightarrow>
     project_map (deep_merge base ov) base = base"
proof (induction "nodes_entries base" arbitrary: base ov rule: less_induct)
  case less
  have e: "\<exists>lv. map_of (deep_merge base ov) k = Some lv \<and> project_val lv bv = bv" if "(k, bv) \<in> set base" for k bv
  proof -
    from that less.prems have b: "map_of base k = Some bv" "wf_val bv" by (auto simp: wf_map_in_map_of wf_entries_iff)
    show ?thesis
    proof (cases "map_of ov k")
      case None
      with b less.prems project_self_aux(1) [of bv bv] show ?thesis by (auto simp: map_of_deep_merge)
    next
      case (Some v)
      then have "(k, v) \<in> set ov" by (rule map_of_SomeD)
      then have "adds_value (Some bv) v" "wf_val v"
        using less.prems b by (fastforce simp: adds_to_iff wf_entries_iff)+
      then obtain bm om where o: "bv = GObj bm" "v = GObj om" "adds_to bm om" by (cases bv; cases v) auto
      have "nodes_entries bm < nodes_entries base"
        using that unfolding o by (induction base) auto
      with less.hyps [of bm om] b o \<open>wf_val v\<close> have "project_map (deep_merge bm om) bm = bm" by auto
      with Some b o less.prems show ?thesis by (simp add: map_of_deep_merge)
    qed
  qed
  have "project_map live shape = shape" if "\<forall>(k, bv) \<in> set shape. \<exists>lv. map_of live k = Some lv \<and> project_val lv bv = bv" for live shape
    using that by (induction shape) auto
  with e show ?case by blast
qed

section \<open>Values the user set\<close>

text \<open>The reference for drift: every value of the document is on the server, with the same value; what the
  server has besides does not count, except further items of a list.\<close>

fun found_on :: "(string \<Rightarrow> bigf option) \<Rightarrow> gval \<Rightarrow> gval \<Rightarrow> bool"
  and found_object :: "(string \<Rightarrow> bigf option) \<Rightarrow> gval gomap \<Rightarrow> gval gomap \<Rightarrow> bool"
  and found_items :: "(string \<Rightarrow> bigf option) \<Rightarrow> gval list \<Rightarrow> gval list \<Rightarrow> bool" where
  "found_on lt (GObj u) server = (case server of GObj m \<Rightarrow> found_object lt u m | _ \<Rightarrow> False)"
| "found_on lt (GArr us) server = (case server of GArr ss \<Rightarrow> found_items lt us ss | _ \<Rightarrow> False)"
| "found_on lt user server = scalar_equal lt user server"
| "found_object lt [] m = True"
| "found_object lt ((k, v) # u) m = ((case map_of m k of None \<Rightarrow> False | Some sv \<Rightarrow> found_on lt v sv) \<and> found_object lt u m)"
| "found_items lt [] [] = True"
| "found_items lt (u # us) (s # ss) = (found_on lt u s \<and> found_items lt us ss)"
| "found_items lt _ _ = False"

lemma found_object_iff:
  "found_object lt u m \<longleftrightarrow> (\<forall>(k, v) \<in> set u. case map_of m k of None \<Rightarrow> False | Some sv \<Rightarrow> found_on lt v sv)"
  by (induction u) auto

lemma map_of_project_shape:
  "map_of (project_shape server shape) k = (case map_of shape k of
     None \<Rightarrow> None | Some uv \<Rightarrow> map_option (\<lambda>sv. project_value sv uv) (map_of server k))"
  by (induction shape) (auto split: option.splits)

lemma project_shape_length:
  "\<forall>(k, v) \<in> set u. map_of m k \<noteq> None \<Longrightarrow> length (project_shape m u) = length u"
  by (induction u) (auto split: option.splits)

lemma found_project:
  "wf_val u \<Longrightarrow> equal_tree lt None False key u (project_value s u) = found_on lt u s"
  "wf_map w \<Longrightarrow> wf_entries w \<Longrightarrow> (\<forall>(k, v) \<in> set w. \<forall>sv. map_of m k = Some sv \<longrightarrow>
     equal_tree lt None False k v (project_value sv v) = found_on lt v sv)"
  "wf_vals us \<Longrightarrow> (length us = length (project_items ss us) \<and> equal_arr lt None False key us (project_items ss us)) =
     found_items lt us ss"
proof (induction lt u s and lt w m and lt us ss arbitrary: key and and key rule: found_on_found_object_found_items.induct)
  case (1 lt u server)
  show ?case
  proof (cases server)
    case (GObj m)
    with 1 have v: "map_of m k = Some sv \<Longrightarrow> equal_tree lt None False k v (project_value sv v) = found_on lt v sv"
      if "(k, v) \<in> set u" for k v sv using that by auto
    have "equal_obj lt None False u (project_shape m u) \<longleftrightarrow>
        (\<forall>(k, v) \<in> set u. case map_of m k of None \<Rightarrow> False | Some sv \<Rightarrow> equal_tree lt None False k v (project_value sv v))"
      using "1.prems" unfolding equal_obj_iff
      by (intro ball_cong refl) (auto simp: map_of_project_shape wf_map_in_map_of split: option.splits)
    also have "\<dots> \<longleftrightarrow> found_object lt u m"
      unfolding found_object_iff using v by (intro ball_cong refl) (auto split: option.splits)
    finally have eq: "equal_obj lt None False u (project_shape m u) \<longleftrightarrow> found_object lt u m" .
    moreover have "length (project_shape m u) = length u" if "found_object lt u m"
      using that by (intro project_shape_length) (auto simp: found_object_iff split: option.splits)
    ultimately show ?thesis using GObj by auto
  qed simp_all
next
  case (2 lt us server)
  then show ?case by (cases server) auto
qed (auto simp: scalar_equal_def wf_map_def)

section \<open>Properties\<close>

text \<open>C23. With the write-only overlay in use, a refresh stores the text it had, or the live document cut down to
  what the base text reaches: a leaf at a path the base does not reach is never stored.\<close>

theorem overlay_keys_not_stored:
  "case reconcile_projected D previous (GObj live) of
     Some (Inr (stored, same)) \<Rightarrow>
       if stored = previous then True
       else (case decode_yaml_exact D previous of
           Some (Inr base) \<Rightarrow> (\<exists>doc. dl_print_yaml D (yaml_numbers (dl_float D) doc) = Some stored \<and>
             (\<forall>p. get_leaf doc p = (if reaches base p then get_leaf (GObj live) p else None)))
         | _ \<Rightarrow> False)
   | _ \<Rightarrow> True"
proof -
  have leaf: "get_leaf (GObj (project_compose_keys live base)) p =
      (if reaches (GObj base) p then get_leaf (GObj live) p else None)" for base p
    using leaf_project [of "GObj live" "GObj base" p] by (simp add: project_compose_keys_def)
  show ?thesis
  proof (cases "\<exists>base. decode_yaml_exact D previous = Some (Inr (GObj base))")
    case True
    then obtain base where b: "decode_yaml_exact D previous = Some (Inr (GObj base))" by blast
    let ?doc = "GObj (project_compose_keys live base)"
    show ?thesis
    proof (cases "same_document D (GObj base) ?doc \<or> dl_print_yaml D (yaml_numbers (dl_float D) ?doc) = None")
      case False
      then obtain out where out: "dl_print_yaml D (yaml_numbers (dl_float D) ?doc) = Some out" by blast
      with False b have "reconcile_projected D previous (GObj live) = Some (Inr (out, False))"
        by (simp add: reconcile_projected_def Let_def)
      then show ?thesis using b out leaf [of base] by (simp only: option.case sum.case prod.case) metis
    qed (use b in \<open>auto simp: reconcile_projected_def Let_def\<close>)
  qed (auto simp: reconcile_projected_def split: option.splits sum.splits gval.splits)
qed

lemma decode_exact_wf:
  assumes "decode_yaml_exact D s = Some (Inr v)"
  shows "wf_val v"
proof -
  from assms obtain r where "decode_yaml11 (dl_yaml D) s = Some r" by (auto simp: decode_yaml_exact_def)
  with assms show ?thesis
    by (cases r) (auto simp: decode_yaml_exact_def dest: decoded_yaml_wf split: if_splits)
qed


text \<open>A key that the base gives no value counts as a leaf: what the overlay adds below it is stored.\<close>

lemma overlay_below_null:
  "get_leaf (GObj (project_compose_keys (deep_merge [(''environment'', GNil)] [(''environment'', GObj [(''KEY'', GStr ''secret'')])])
     [(''environment'', GNil)])) [''environment'', ''KEY''] = Some (GStr ''secret'')"
  by (simp add: project_compose_keys_def)

lemma json_floats_wf:
  "json_floats pf v = Some x \<Longrightarrow> wf_val v \<Longrightarrow> wf_val x"
  "json_floats_map pf m = Some r \<Longrightarrow> map fst r = map fst m \<and> (wf_entries m \<longrightarrow> wf_entries r)"
  "json_floats_list pf vs = Some xs \<Longrightarrow> wf_vals vs \<Longrightarrow> wf_vals xs"
  by (induction pf v and pf m and pf vs arbitrary: x and r and xs rule: json_floats_json_floats_map_json_floats_list.induct)
    (auto simp: wf_map_def split: Option.bind_splits)

text \<open>The values of a catalog app are kept as the user wrote them exactly when every value in them is on the
  server with the same value, whatever else the chart or the server adds; otherwise what is stored has
  the server's leaves at the paths the user set.\<close>

theorem values_kept_iff_found:
  assumes "json_ok (dl_json D)"
  shows "case user_shape D s of
      None \<Rightarrow> project_config D s live = s
    | Some u \<Rightarrow>
        (if found_on (jl_lit (dl_json D)) (GObj u) (GObj live) then project_config D s live = s
         else project_config D s live = dl_print_json D (GObj (project_shape live u)))"
proof (cases "user_shape D s")
  case (Some u)
  then obtain v x where v: "jl_decode (dl_json D) s = Some v" "json_floats (dl_float D) v = Some x" "as_object x = Some u"
    by (auto simp: user_shape_def split: Option.bind_splits)
  with assms have "wf_val v" unfolding json_ok_def by blast
  with v(2) have "wf_val x" by (blast intro: json_floats_wf(1))
  with v(3) have "wf_val (GObj u)" by (cases x) auto
  from found_project(1) [OF this, of "jl_lit (dl_json D)" "[]" "GObj live"]
  have "same_document D (GObj u) (GObj (project_shape live u)) = found_on (jl_lit (dl_json D)) (GObj u) (GObj live)"
    unfolding same_document_def equal_documents_def project_value.simps gval.case .
  then show ?thesis unfolding project_config_def Let_def Some option.case by (cases "found_on (jl_lit (dl_json D)) (GObj u) (GObj live)") simp_all
qed (simp add: project_config_def)

section \<open>A concrete pair of documents\<close>

definition quoted_node :: "string \<Rightarrow> ynode" where
  "quoted_node s = \<lparr>y_kind = ScalarNode, y_style = [DoubleQuotedStyle], y_tag = [], y_value = s, y_content = [], y_alias = None,
     y_line = 1\<rparr>"

definition pair_nodes :: "string \<Rightarrow> string \<Rightarrow> yheap" where
  "pair_nodes k v n = (if n = 0 then \<lparr>y_kind = MappingNode, y_style = [], y_tag = [], y_value = [], y_content = [1, 2],
       y_alias = None, y_line = 1\<rparr> else if n = 1 then quoted_node k else quoted_node v)"

definition pair_docs :: "unit doc_lib" where
  "pair_docs = \<lparr>dl_json = \<lparr>jl_decode = (\<lambda>s. Some (GObj [(s, GStr ''x'')])), jl_lit = (\<lambda>_. None)\<rparr>,
     dl_yaml = endless\<lparr>yl_next := \<lambda>s i. if i = 0 then YamlDoc (pair_nodes s ''x'') 0 else YamlEof\<rparr>,
     dl_float = (\<lambda>_. None), dl_print_yaml = (\<lambda>_. Some ''printed''), dl_print_json = (\<lambda>_. ''printed'')\<rparr>"

lemma pair_scalar: "n \<noteq> 0 \<Longrightarrow> 0 \<le> b \<Longrightarrow>
    convert L (pair_nodes k v) (Suc r) n (b + 1) = Some (Inr (GStr (if n = 1 then k else v)), b)"
  by (simp add: pair_nodes_def quoted_node_def yaml11_scalar_def ylift_def ybind_def spend_def yret_def)

lemma pair_nodes_simps:
  "y_kind (pair_nodes k v 0) = MappingNode" "y_content (pair_nodes k v 0) = [1, 2]"
  "\<not> is_merge_key (pair_nodes k v 1)"
  by (simp_all add: pair_nodes_def is_merge_key_def quoted_node_def)

lemma pair_converted: "0 \<le> b \<Longrightarrow> convert L (pair_nodes k v) (Suc (Suc r)) 0 (b + 3) = Some (Inr (GObj [(k, GStr v)]), b)"
  using pair_scalar [of 1 "b + 1" L k v r] pair_scalar [of 2 b L k v r]
  by (simp only: convert.simps(2) [of L _ "Suc r"] pair_nodes_simps ykind.case convert_entries.simps convert_merges.simps if_False)
    (simp add: ybind_def spend_def yret_def key_text_def add.assoc)

lemma pair_decoded: "decode_yaml_exact pair_docs s = Some (Inr (GObj [(s, GStr ''x'')]))"
proof -
  have "convert L (pair_nodes s ''x'') 1001 0 yaml11_budget = Some (Inr (GObj [(s, GStr ''x'')]), 999997)" for L :: "unit yaml_lib"
    using pair_converted [of 999997 L s "''x''" 999] by (simp add: yaml11_budget_def del: convert.simps)
  then show ?thesis by (simp add: decode_yaml_exact_def decode_yaml11_def pair_docs_def del: convert.simps)
qed


lemma values_kept_iff_found_witness:
  "project_config pair_docs ''a'' [(''a'', GStr ''x''), (''ix_volumes'', GNil)] = ''a''"
  using values_kept_iff_found [of pair_docs "''a''" "[(''a'', GStr ''x''), (''ix_volumes'', GNil)]"]
  by (simp add: json_ok_def pair_docs_def user_shape_def scalar_equal_def wf_map_def)

end
