(* ===== verification/App.thy ===== *)
theory App
  imports Compose Resource "HOL-Library.Sublist"
begin

text \<open>
  The app resource (src/internal/resources/app): a catalog app or a custom app with a Compose file. Create,
  upgrade, update, start, stop and delete are jobs; a read after a change waits until the app
  has left DEPLOYING; and an app reported as missing counts as gone only while Docker runs.
\<close>

section \<open>Answer and model\<close>

record app_response =
  ap_id :: string
  ap_name :: string
  ap_state :: string
  ap_custom :: bool
  ap_human_version :: string
  ap_version :: string
  ap_upgrade_available :: bool
  ap_meta_name :: string
  ap_meta_train :: string

definition decode_app :: "gval \<Rightarrow> app_response option" where
  "decode_app v = do {
     m \<leftarrow> as_object v;
     i \<leftarrow> as_string (field m ''id'');
     name \<leftarrow> as_string (field m ''name'');
     st \<leftarrow> as_string (field m ''state'');
     custom \<leftarrow> as_bool (field m ''custom_app'');
     human \<leftarrow> as_string (field m ''human_version'');
     version \<leftarrow> as_string (field m ''version'');
     up \<leftarrow> as_bool (field m ''upgrade_available'');
     meta \<leftarrow> as_object (field m ''metadata'');
     mname \<leftarrow> as_string (field meta ''name'');
     train \<leftarrow> as_string (field meta ''train'');
     Some \<lparr>ap_id = i, ap_name = name, ap_state = st, ap_custom = custom, ap_human_version = human, ap_version = version,
       ap_upgrade_available = up, ap_meta_name = mname, ap_meta_train = train\<rparr> }"

record app_model =
  am_id :: "string tf"
  am_name :: "string tf"
  am_catalog_app :: "string tf"
  am_train :: "string tf"
  am_version :: "string tf"
  am_values :: "string tf"
  am_custom :: "bool tf"
  am_compose :: "string tf"
  am_secrets :: "string tf"
  am_secrets_version :: "int tf"
  am_running :: "bool tf"
  am_state :: "string tf"
  am_human_version :: "string tf"
  am_upgrade_available :: "bool tf"

definition version_latest :: string where "version_latest = ''latest''"

definition uses_compose_secrets :: "app_model \<Rightarrow> bool" where
  "uses_compose_secrets m = is_set (am_secrets_version m)"

definition app_to_model :: "app_response \<Rightarrow> app_model \<Rightarrow> app_model" where
  "app_to_model api m =
     m\<lparr>am_id := Known (ap_name api), am_name := Known (ap_name api),
       am_catalog_app := (if \<not> ap_custom api \<and> ap_meta_name api \<noteq> [] then Known (ap_meta_name api) else am_catalog_app m),
       am_train := Known (ap_meta_train api),
       am_version := (if value_string (am_version m) \<noteq> version_latest then Known (ap_version api) else am_version m),
       am_custom := Known (ap_custom api), am_state := Known (ap_state api), am_human_version := Known (ap_human_version api),
       am_upgrade_available := Known (ap_upgrade_available api), am_running := Known (ap_state api = ''RUNNING'')\<rparr>"

definition needs_upgrade :: "string tf \<Rightarrow> string tf \<Rightarrow> bool" where
  "needs_upgrade plan st \<longleftrightarrow> \<not> is_null plan \<and> \<not> is_unknown plan \<and> plan \<noteq> st \<and> value_string plan \<noteq> version_latest"

text \<open>\<open>valuesMap\<close>: no values, an error, or an object; a JSON null is a nil map, which is not sent.\<close>

definition values_map :: "'f doc_lib \<Rightarrow> app_model \<Rightarrow> diagnostic + payload option" where
  "values_map D m =
     (if \<not> is_set (am_values m) \<or> value_string (am_values m) = [] then Inr None
      else (case Option.bind (jl_decode (dl_json D) (value_string (am_values m))) (json_floats (dl_float D)) of
          Some (GObj vals) \<Rightarrow> Inr (Some vals)
        | Some GNil \<Rightarrow> Inr None
        | _ \<Rightarrow> Inl (''Invalid values JSON'', err_text decode_error)))"

definition put_compose :: "app_model \<Rightarrow> payload \<Rightarrow> payload" where
  "put_compose m = put_when (is_set (am_compose m) \<and> value_string (am_compose m) \<noteq> []) ''custom_compose_config_string''
     (GStr (value_string (am_compose m)))"

definition put_values :: "'f doc_lib \<Rightarrow> app_model \<Rightarrow> payload \<Rightarrow> diagnostic + payload" where
  "put_values D m p = (case values_map D m of
      Inl d \<Rightarrow> Inl d
    | Inr None \<Rightarrow> Inr p
    | Inr (Some vals) \<Rightarrow> Inr (put ''values'' (GObj vals) p))"

definition app_create_payload :: "'f doc_lib \<Rightarrow> app_model \<Rightarrow> diagnostic + payload" where
  "app_create_payload D m = put_values D m (put_compose m (put_bool ''custom_app'' (am_custom m)
     (put_str ''version'' (am_version m) (put_str ''train'' (am_train m) (put_str ''catalog_app'' (am_catalog_app m)
       [(''app_name'', GStr (value_string (am_name m)))])))))"

definition app_update_payload :: "'f doc_lib \<Rightarrow> app_model \<Rightarrow> diagnostic + payload" where
  "app_update_payload D m = put_values D m (put_compose m [])"

text \<open>\<open>injectComposeSecrets\<close>; \<open>None\<close>: decoding a document does not return.\<close>

definition inject_secrets :: "'f doc_lib \<Rightarrow> payload \<Rightarrow> app_model \<Rightarrow> (diagnostic + payload) option" where
  "inject_secrets D p cfg =
     (if \<not> is_set (am_secrets cfg) \<or> value_string (am_secrets cfg) = [] then Some (Inr p)
      else (let base = (case map_of p ''custom_compose_config_string'' of Some (GStr s) \<Rightarrow> s | _ \<Rightarrow> []) in
        case merge_compose_overlay D base (value_string (am_secrets cfg)) of
          None \<Rightarrow> None
        | Some (Inl _) \<Rightarrow> Some (Inl (''Invalid custom_compose_config_string_wo'',
            ''the write-only Compose overlay could not be merged into custom_compose_config_string''))
        | Some (Inr merged) \<Rightarrow> Some (Inr (put ''custom_compose_config_string'' (GStr merged) p))))"

section \<open>Plan modifiers\<close>

text \<open>The second component of what the code returns is whether the attributes could be read; they always can, as
  the schema has them.\<close>

definition upgrade_planned :: "app_model \<Rightarrow> app_model \<Rightarrow> bool" where
  "upgrade_planned cfg prior =
     (if is_unknown (am_version cfg) then True else needs_upgrade (am_version cfg) (am_version prior))"

definition running_change_planned :: "app_model \<Rightarrow> app_model \<Rightarrow> bool" where
  "running_change_planned cfg prior =
     (if is_unknown (am_running cfg) then True else \<not> is_null (am_running cfg) \<and> am_running cfg \<noteq> am_running prior)"

text \<open>The plan is given by one attribute's value and by whether the resource is destroyed.\<close>

definition keep_version_derived :: "app_model \<Rightarrow> app_model \<Rightarrow> bool \<Rightarrow> 'a tf \<Rightarrow> 'a tf \<Rightarrow> 'a tf" where
  "keep_version_derived cfg prior destroy st plan =
     (if is_null st \<or> destroy \<or> \<not> is_unknown plan then plan
      else if \<not> upgrade_planned cfg prior then st else plan)"

definition keep_settled_state :: "app_model \<Rightarrow> app_model \<Rightarrow> bool \<Rightarrow> string tf \<Rightarrow> string tf \<Rightarrow> string tf" where
  "keep_settled_state cfg prior destroy st plan =
     (if is_null st \<or> destroy \<or> \<not> is_unknown plan then plan
      else if value_string st \<noteq> ''RUNNING'' \<and> value_string st \<noteq> ''STOPPED'' then plan
      else if \<not> running_change_planned cfg prior \<and> \<not> upgrade_planned cfg prior then st else plan)"

section \<open>Reading\<close>

definition app_instance :: "'w api \<Rightarrow> string \<Rightarrow> 'w \<Rightarrow> (go_error + app_response) \<times> 'w" where
  "app_instance a name w = (case api_read a ''app.get_instance'' [GStr name] w of
      (Inl e, w1) \<Rightarrow> (Inl e, w1)
    | (Inr raw, w1) \<Rightarrow> (case decode_app raw of None \<Rightarrow> (Inl decode_error, w1) | Some api \<Rightarrow> (Inr api, w1)))"

definition settle_time :: duration where "settle_time = 600 * second"

definition settle_wait :: duration where "settle_wait = 5 * second"

text \<open>One round of \<open>getInstanceSettled\<close>: it ends, or the app is still deploying and the wait is over.\<close>

definition settle_round :: "'w api \<Rightarrow> string \<Rightarrow> duration \<Rightarrow> 'w \<Rightarrow> (go_error + app_response) option \<times> 'w" where
  "settle_round a name deadline w = (case app_instance a name w of
      (Inl e, w1) \<Rightarrow> (Some (Inl e), w1)
    | (Inr api, w1) \<Rightarrow>
        if ap_state api \<noteq> ''DEPLOYING'' then (Some (Inr api), w1)
        else (case api_now a w1 of (now, w2) \<Rightarrow>
          if deadline < now then (Some (Inr api), w2)
          else (case api_pause a settle_wait w2 of
              (Some e, w3) \<Rightarrow> (Some (Inl e), w3)
            | (None, w3) \<Rightarrow> (None, w3))))"

partial_function (option) settle_loop ::
  "'w api \<Rightarrow> string \<Rightarrow> duration \<Rightarrow> 'w \<Rightarrow> ((go_error + app_response) \<times> 'w) option" where
  "settle_loop a name deadline w = (case settle_round a name deadline w of
      (Some r, w1) \<Rightarrow> Some (r, w1)
    | (None, w1) \<Rightarrow> settle_loop a name deadline w1)"

definition app_settled :: "'w api \<Rightarrow> string \<Rightarrow> 'w \<Rightarrow> ((go_error + app_response) \<times> 'w) option" where
  "app_settled a name w = (case api_now a w of (now, w1) \<Rightarrow> settle_loop a name (now + settle_time) w1)"

definition docker_status :: "'w api \<Rightarrow> 'w \<Rightarrow> (go_error + string) \<times> 'w" where
  "docker_status a w = (case api_read a ''docker.status'' [] w of
      (Inl e, w1) \<Rightarrow> (Inl e, w1)
    | (Inr raw, w1) \<Rightarrow>
        (case Option.bind (as_object raw) (\<lambda>m. as_string (field m ''status'')) of
           None \<Rightarrow> (Inl decode_error, w1)
         | Some s \<Rightarrow> (Inr s, w1)))"

definition docker_running :: string where "docker_running = ''RUNNING''"

definition docker_status_text :: "go_error + string \<Rightarrow> string" where
  "docker_status_text r = (case r of
      Inl e \<Rightarrow> ''docker.status failed: '' @ err_text e
    | Inr s \<Rightarrow> ''docker.status is '' @ s)"

section \<open>The operations\<close>

text \<open>A job, then what follows when it succeeded. \<open>None\<close> is a job that never returns.\<close>

definition after_job ::
  "'w api \<Rightarrow> string \<Rightarrow> gval list \<Rightarrow> string \<Rightarrow> ('w \<Rightarrow> ('m outcome \<times> 'w) option) \<Rightarrow> 'w \<Rightarrow> ('m outcome \<times> 'w) option" where
  "after_job a m ps summary k w = (case api_job a m ps w of
      None \<Rightarrow> None
    | Some (Inl e, w1) \<Rightarrow> Some (fail_err summary e, w1)
    | Some (Inr _, w1) \<Rightarrow> k w1)"

definition after_settled ::
  "'w api \<Rightarrow> string \<Rightarrow> (go_error \<Rightarrow> 'm outcome) \<Rightarrow> (app_response \<Rightarrow> 'w \<Rightarrow> ('m outcome \<times> 'w) option) \<Rightarrow> 'w \<Rightarrow> ('m outcome \<times> 'w) option" where
  "after_settled a name bad k w = (case app_settled a name w of
      None \<Rightarrow> None
    | Some (Inl e, w1) \<Rightarrow> Some (bad e, w1)
    | Some (Inr api, w1) \<Rightarrow> k api w1)"

definition store_app :: "app_response \<Rightarrow> app_model \<Rightarrow> 'w \<Rightarrow> (app_model outcome \<times> 'w) option" where
  "store_app api m w = (let m1 = app_to_model api m in Some (Stored (value_string (am_id m1)) m1, w))"

definition created_missing :: "string \<Rightarrow> go_error \<Rightarrow> 'm outcome" where
  "created_missing name e =
     (if is_not_found e then Failure [(''App create read-back failed'', ''app '' @ quoted name @
        '' was not found after creation (create may have failed silently): '' @ err_text e)]
      else fail_err ''Read-back failed'' e)"

definition app_create :: "'f doc_lib \<Rightarrow> 'w api \<Rightarrow> app_model \<Rightarrow> app_model \<Rightarrow> 'w \<Rightarrow> (app_model outcome \<times> 'w) option" where
  "app_create D a plan cfg w = (case app_create_payload D plan of
      Inl d \<Rightarrow> Some (Failure [d], w)
    | Inr p0 \<Rightarrow>
        (case inject_secrets D p0 cfg of
           None \<Rightarrow> None
         | Some (Inl d) \<Rightarrow> Some (Failure [d], w)
         | Some (Inr p) \<Rightarrow>
             (let name = value_string (am_name plan); back = fail_err ''Read-back failed'';
                  start = (\<lambda>api w. if am_running plan = Known True \<and> ap_state api \<noteq> ''RUNNING''
                    then after_job a ''app.start'' [GStr name] ''Failed to start app''
                      (after_settled a name back (\<lambda>api. store_app api plan)) w
                    else store_app api plan w);
                  stop = (\<lambda>api w. if am_running plan = Known False \<and> ap_state api = ''RUNNING''
                    then after_job a ''app.stop'' [GStr name] ''Failed to stop app'' (after_settled a name back start) w
                    else start api w)
              in after_job a ''app.create'' [GObj p] ''Failed to create app''
                   (after_settled a name (created_missing name) stop) w)))"

text \<open>A read leaves the state as it is with a warning, or ends as any read does.\<close>

datatype app_read_result = Kept diagnostic | Ended "app_model outcome"

definition ended :: "(app_model outcome \<times> 'w) option \<Rightarrow> (app_read_result \<times> 'w) option" where
  "ended = map_option (\<lambda>(r, w). (Ended r, w))"

definition config_raw :: "'w api \<Rightarrow> string \<Rightarrow> 'w \<Rightarrow> (go_error + gval) \<times> 'w" where
  "config_raw a name = api_read a ''app.config'' [GStr name]"

definition not_refreshed :: "string \<Rightarrow> string \<Rightarrow> diagnostic" where
  "not_refreshed name status = (''App state not refreshed'', ''TrueNAS reports app '' @ quoted name @
     '' as not found, but Docker is not running ('' @ status @ ''), so the app may still exist. The previous state is kept; refresh again once Docker is running.'')"

definition app_missing :: "'w api \<Rightarrow> string \<Rightarrow> 'w \<Rightarrow> app_read_result \<times> 'w" where
  "app_missing a name w = (case docker_status a w of (r, w1) \<Rightarrow>
     if r \<noteq> Inr docker_running then (Kept (not_refreshed name (docker_status_text r)), w1) else (Ended Removed, w1))"

definition app_read :: "'f doc_lib \<Rightarrow> 'w api \<Rightarrow> app_model \<Rightarrow> 'w \<Rightarrow> (app_read_result \<times> 'w) option" where
  "app_read D a prior w = (let asked = value_string (am_name prior) in
     case app_instance a asked w of
       (Inl e, w1) \<Rightarrow>
         if is_not_found e then Some (app_missing a asked w1) else ended (Some (fail_err ''Read app failed'' e, w1))
     | (Inr api, w1) \<Rightarrow>
         (let st = app_to_model api prior; name = value_string (am_name st); done = (\<lambda>m w. ended (Some (Stored (value_string (am_id m)) m, w))) in
          if value_bool (am_custom st) then
            (case config_raw a name w1 of
               (Inl e, w2) \<Rightarrow> ended (Some (Failure [(''Read app failed'',
                 ''could not read the live app configuration to detect Compose drift: '' @ err_text e)], w2))
             | (Inr raw, w2) \<Rightarrow>
                 (case (if uses_compose_secrets st then reconcile_projected else reconcile_compose) D (value_string (am_compose st)) raw of
                    None \<Rightarrow> None
                  | Some (Inl e) \<Rightarrow> ended (Some (Failure [(''Read app failed'', e)], w2))
                  | Some (Inr (text, same)) \<Rightarrow> done (if same then st else st\<lparr>am_compose := Known text\<rparr>) w2))
          else if \<not> is_null (am_values st) \<and> value_string (am_values st) \<noteq> [] then
            (case config_raw a name w1 of
               (Inl e, w2) \<Rightarrow> done st w2
             | (Inr raw, w2) \<Rightarrow>
                 (case Option.bind (json_floats (dl_float D) raw) as_object of
                    None \<Rightarrow> done st w2
                  | Some live \<Rightarrow> done (st\<lparr>am_values := Known (project_config D (value_string (am_values st)) live)\<rparr>) w2))
          else done st w1))"

definition sends_documents :: "app_model \<Rightarrow> app_model \<Rightarrow> bool" where
  "sends_documents plan st \<longleftrightarrow> am_values plan \<noteq> am_values st \<or> am_compose plan \<noteq> am_compose st \<or>
     am_secrets_version plan \<noteq> am_secrets_version st"

definition update_running ::
  "'w api \<Rightarrow> app_model \<Rightarrow> app_model \<Rightarrow> ('w \<Rightarrow> (app_model outcome \<times> 'w) option) \<Rightarrow> 'w \<Rightarrow> (app_model outcome \<times> 'w) option" where
  "update_running a plan st k w = (let name = value_string (am_name plan) in
     if is_set (am_running plan) \<and> am_running plan \<noteq> am_running st
     then (if value_bool (am_running plan) then after_job a ''app.start'' [GStr name] ''Failed to start app'' k w
           else after_job a ''app.stop'' [GStr name] ''Failed to stop app'' k w)
     else k w)"

definition update_documents ::
  "'f doc_lib \<Rightarrow> 'w api \<Rightarrow> app_model \<Rightarrow> app_model \<Rightarrow> app_model \<Rightarrow> ('w \<Rightarrow> (app_model outcome \<times> 'w) option) \<Rightarrow> 'w \<Rightarrow> (app_model outcome \<times> 'w) option" where
  "update_documents D a plan st cfg k w =
     (if sends_documents plan st then
        (case app_update_payload D plan of
           Inl d \<Rightarrow> Some (Failure [d], w)
         | Inr p0 \<Rightarrow>
             (case inject_secrets D p0 cfg of
                None \<Rightarrow> None
              | Some (Inl d) \<Rightarrow> Some (Failure [d], w)
              | Some (Inr p) \<Rightarrow>
                  if p \<noteq> [] then after_job a ''app.update'' [GStr (value_string (am_name plan)), GObj p] ''Failed to update app'' k w
                  else k w))
      else k w)"

definition upgrade_app :: "'w api \<Rightarrow> app_model \<Rightarrow> ('w \<Rightarrow> (app_model outcome \<times> 'w) option) \<Rightarrow> 'w \<Rightarrow> (app_model outcome \<times> 'w) option" where
  "upgrade_app a plan = after_job a ''app.upgrade''
     [GStr (value_string (am_name plan)), GObj [(''app_version'', GStr (value_string (am_version plan)))]] ''Failed to upgrade app''"

definition update_version ::
  "'w api \<Rightarrow> app_model \<Rightarrow> app_model \<Rightarrow> ('w \<Rightarrow> (app_model outcome \<times> 'w) option) \<Rightarrow> 'w \<Rightarrow> (app_model outcome \<times> 'w) option" where
  "update_version a plan st k w =
     (if needs_upgrade (am_version plan) (am_version st) then
        (if value_string (am_version st) = version_latest then
           (case app_instance a (value_string (am_name plan)) w of
              (Inl e, w1) \<Rightarrow> Some (fail_err ''Read app failed'' e, w1)
            | (Inr api, w1) \<Rightarrow> if ap_version api \<noteq> value_string (am_version plan) then upgrade_app a plan k w1 else k w1)
         else upgrade_app a plan k w)
      else k w)"

definition app_update ::
  "'f doc_lib \<Rightarrow> 'w api \<Rightarrow> app_model \<Rightarrow> app_model \<Rightarrow> app_model \<Rightarrow> 'w \<Rightarrow> (app_model outcome \<times> 'w) option" where
  "app_update D a plan st cfg =
     update_version a plan st
       (update_documents D a plan st cfg
         (update_running a plan st
           (after_settled a (value_string (am_name plan)) (fail_err ''Read-back failed'') (\<lambda>api. store_app api plan))))"

definition still_there :: "string \<Rightarrow> string \<Rightarrow> diagnostic" where
  "still_there name status = (''Failed to delete app'', ''TrueNAS reports app '' @ quoted name @
     '' as not found, but Docker is not running ('' @ status @ ''), so the app may still exist. Start Docker and run the destroy again.'')"

definition app_delete :: "'w api \<Rightarrow> app_model \<Rightarrow> 'w \<Rightarrow> (diagnostic list \<times> 'w) option" where
  "app_delete a st w = (let name = value_string (am_id st) in
     case api_job a ''app.delete'' [GStr name, GObj [(''remove_images'', GBool True), (''remove_ix_volumes'', GBool False)]] w of
       None \<Rightarrow> None
     | Some (Inr _, w1) \<Rightarrow> Some ([], w1)
     | Some (Inl e, w1) \<Rightarrow>
         if is_not_found e then
           (case docker_status a w1 of (r, w2) \<Rightarrow>
              Some (if r \<noteq> Inr docker_running then [still_there name (docker_status_text r)] else [], w2))
         else Some ([(''Failed to delete app'', err_text e)], w1))"

definition null_app :: app_model where
  "null_app = \<lparr>am_id = TfNull, am_name = TfNull, am_catalog_app = TfNull, am_train = TfNull, am_version = TfNull, am_values = TfNull,
     am_custom = TfNull, am_compose = TfNull, am_secrets = TfNull, am_secrets_version = TfNull, am_running = TfNull,
     am_state = TfNull, am_human_version = TfNull, am_upgrade_available = TfNull\<rparr>"

definition app_import :: "string import_req \<Rightarrow> app_model outcome" where
  "app_import req = (case import_string req of (i, diags) \<Rightarrow>
     if diags \<noteq> [] then Failure diags else Stored i (null_app\<lparr>am_name := Known i, am_id := Known i\<rparr>))"

definition app_row :: "bool \<Rightarrow> gval \<Rightarrow> diagnostic list + (string \<times> string \<times> app_model option)" where
  "app_row include_resource raw = (case decode_app raw of
      None \<Rightarrow> Inl [(''Parse app row'', err_text decode_error)]
    | Some api \<Rightarrow> Inr (ap_name api, ap_name api, if include_resource then Some (app_to_model api null_app) else None))"

definition app_list ::
  "'w ops \<Rightarrow> int \<Rightarrow> bool \<Rightarrow> 'w \<Rightarrow> (diagnostic list + (string \<times> string \<times> app_model option)) stream \<times> 'w" where
  "app_list os limit include_resource = stream_collection os ''app.query'' limit (app_row include_resource)"

text \<open>The data source has a model of its own, with fewer attributes; those it lacks stay null here.\<close>

definition app_to_datasource :: "app_response \<Rightarrow> app_model" where
  "app_to_datasource api =
     null_app\<lparr>am_id := Known (ap_name api), am_name := Known (ap_name api),
       am_catalog_app := (if \<not> ap_custom api \<and> ap_meta_name api \<noteq> [] then Known (ap_meta_name api) else TfNull),
       am_train := Known (ap_meta_train api), am_version := Known (ap_version api), am_custom := Known (ap_custom api),
       am_state := Known (ap_state api), am_human_version := Known (ap_human_version api),
       am_upgrade_available := Known (ap_upgrade_available api)\<rparr>"

definition app_data_source :: "'w api \<Rightarrow> string tf \<Rightarrow> 'w \<Rightarrow> (diagnostic list + app_model) \<times> 'w" where
  "app_data_source a name w =
     (case api_read a ''app.query'' [GArr [GArr [GStr ''name'', GStr ''='', GStr (value_string name)]]] w of
        (Inl e, w1) \<Rightarrow> (Inl [(''Read app failed'', err_text e)], w1)
      | (Inr raw, w1) \<Rightarrow> (case as_list decode_app raw of
            None \<Rightarrow> (Inl [(''Parse response'', err_text decode_error)], w1)
          | Some [] \<Rightarrow> (Inl [(''App not found'', ''app '' @ quoted (value_string name) @ '' not found'')], w1)
          | Some (api # _) \<Rightarrow> (Inr (app_to_datasource api), w1)))"

section \<open>Waiting for an app to settle\<close>

lemma reads_clock_instance:
  "reads_pass a \<Longrightarrow> app_instance a name w = (r, w1) \<Longrightarrow> clock a w \<le> clock a w1"
proof -
  have "snd (app_instance a name w) = snd (api_read a ''app.get_instance'' [GStr name] w)"
    by (simp add: app_instance_def split: prod.split sum.split option.split)
  then show "reads_pass a \<Longrightarrow> app_instance a name w = (r, w1) \<Longrightarrow> clock a w \<le> clock a w1"
    unfolding reads_pass_def by (metis snd_conv)
qed

lemma settle_round_clock:
  assumes t: "time_passes a" "reads_pass a" and "settle_round a name deadline w = (None, w1)"
  shows "clock a w \<le> deadline \<and> clock a w + settle_wait \<le> clock a w1"
proof -
  from assms(3) obtain api w2 where i: "app_instance a name w = (Inr api, w2)"
    by (auto simp: settle_round_def split: prod.splits sum.splits)
  obtain now w3 where n: "api_now a w2 = (now, w3)" by fastforce
  from assms(3) i n have d: "now \<le> deadline" and p: "api_pause a settle_wait w3 = (None, w1)"
    by (auto simp: settle_round_def split: if_splits option.splits prod.splits)
  from n have "clock a w2 = now" by (simp add: clock_def)
  moreover have "clock a w \<le> clock a w2" by (rule reads_clock_instance [OF t(2) i])
  moreover have "clock a w2 \<le> clock a w3" using t(1) n unfolding time_passes_def by (metis snd_conv)
  moreover have "clock a w3 + settle_wait \<le> clock a w1" using t(1) p unfolding time_passes_def by blast
  ultimately show ?thesis using d by linarith
qed

lemma settle_loop_returns:
  assumes t: "time_passes a" "reads_pass a"
  shows "settle_loop a name deadline w \<noteq> None"
proof (induction "nat (deadline + 1 - clock a w)" arbitrary: w rule: less_induct)
  case less
  obtain r w1 where r: "settle_round a name deadline w = (r, w1)" by fastforce
  show ?case
  proof (cases r)
    case None
    with settle_round_clock [OF t] r have "clock a w \<le> deadline" "clock a w + settle_wait \<le> clock a w1" by auto
    then have "nat (deadline + 1 - clock a w1) < nat (deadline + 1 - clock a w)" by (simp add: settle_wait_def second_def)
    with less r None show ?thesis by (subst settle_loop.simps) auto
  qed (use r in \<open>subst settle_loop.simps, simp\<close>)
qed

text \<open>The wait after a change ends, whatever state the server reports, and what it then reports is not an app that
  is still deploying, unless the ten minutes are over.\<close>

theorem app_settled_returns:
  assumes "time_passes a" and "reads_pass a"
  shows "\<exists>r w1. app_settled a name w = Some (r, w1)"
  using settle_loop_returns [OF assms, of name "fst (api_now a w) + settle_time" "snd (api_now a w)"]
  by (cases "api_now a w") (auto simp: app_settled_def)

text \<open>An app that deploys for ever. The state is the time.\<close>

definition deploying_api :: "duration api" where
  "deploying_api = \<lparr>api_call = (\<lambda>m ps t. (Inr GNil, t)), api_read = (\<lambda>m ps t. (Inr (GObj [(''state'', GStr ''DEPLOYING'')]), t)),
     api_job = (\<lambda>m ps t. Some (Inr GNil, t)), api_at_least = (\<lambda>x y t. (Inr True, t)), api_now = (\<lambda>t. (t, t)),
     api_pause = (\<lambda>d t. (None, t + d))\<rparr>"

lemma app_settled_returns_witness:
  "\<exists>r w1. app_settled deploying_api ''plex'' 0 = Some (r, w1)"
  by (rule app_settled_returns) (simp_all add: deploying_api_def time_passes_def reads_pass_def clock_def)

section \<open>What a plan makes the provider do\<close>

text \<open>The jobs of an update, in order. The upgrade is left out where the state says \<open>latest\<close> and the server already
  runs the version asked for.\<close>

definition upgrade_jobs :: "app_model \<Rightarrow> app_model \<Rightarrow> (string \<times> gval list) list" where
  "upgrade_jobs plan st = (if needs_upgrade (am_version plan) (am_version st)
     then [(''app.upgrade'', [GStr (value_string (am_name plan)), GObj [(''app_version'', GStr (value_string (am_version plan)))]])]
     else [])"

definition document_jobs :: "'f doc_lib \<Rightarrow> app_model \<Rightarrow> app_model \<Rightarrow> app_model \<Rightarrow> (string \<times> gval list) list" where
  "document_jobs D plan st cfg = (if \<not> sends_documents plan st then []
     else (case app_update_payload D plan of
         Inl _ \<Rightarrow> []
       | Inr p0 \<Rightarrow> (case inject_secrets D p0 cfg of
             Some (Inr p) \<Rightarrow> if p = [] then [] else [(''app.update'', [GStr (value_string (am_name plan)), GObj p])]
           | _ \<Rightarrow> [])))"

definition running_jobs :: "app_model \<Rightarrow> app_model \<Rightarrow> (string \<times> gval list) list" where
  "running_jobs plan st = (if is_set (am_running plan) \<and> am_running plan \<noteq> am_running st
     then [(if value_bool (am_running plan) then ''app.start'' else ''app.stop'', [GStr (value_string (am_name plan))])] else [])"

definition jobs_of :: "exchanged list \<Rightarrow> (string \<times> gval list) list" where
  "jobs_of l = map (\<lambda>(m, ps, r). (m, ps)) (filter (\<lambda>(m, ps, r). m \<noteq> ''app.get_instance'') l)"

lemma jobs_of_simps [simp]:
  "jobs_of [] = []" "jobs_of (l @ l') = jobs_of l @ jobs_of l'"
  "jobs_of [(m, ps, r)] = (if m = ''app.get_instance'' then [] else [(m, ps)])"
  by (simp_all add: jobs_of_def)

text \<open>\<open>does js f\<close>: running the step \<open>f\<close> adds a prefix of the jobs \<open>js\<close> to the log, and all of them when a state is stored.\<close>

definition does :: "(string \<times> gval list) list \<Rightarrow> ('w \<times> exchanged list \<Rightarrow> ('m outcome \<times> 'w \<times> exchanged list) option) \<Rightarrow> bool" where
  "does js f \<longleftrightarrow> (\<forall>s r s1. f s = Some (r, s1) \<longrightarrow>
     (\<exists>done. jobs_of (snd s1) = jobs_of (snd s) @ done \<and> prefix done js \<and> ((\<exists>i m. r = Stored i m) \<longrightarrow> done = js)))"

lemma does_prefixed: "does js f \<Longrightarrow> f s = Some (r, s1) \<Longrightarrow>
    \<exists>done. jobs_of (snd s1) = jobs_of (snd s) @ done \<and> prefix done js \<and> ((\<exists>i m. r = Stored i m) \<longrightarrow> done = js)"
  unfolding does_def by blast

lemma does_failure [simp]: "does js (\<lambda>s. Some (Failure ds, s))"
  by (simp add: does_def)

lemma does_none [simp]: "does js (\<lambda>s. None)"
  by (simp add: does_def)

lemma does_store: "does [] (store_app api m)"
  by (auto simp: does_def store_app_def Let_def)

lemma does_job:
  assumes "m \<noteq> ''app.get_instance''" and "does js k"
  shows "does ((m, ps) # js) (after_job (logged a) m ps summary k)"
  unfolding does_def
proof (intro allI impI)
  fix s r s1
  assume run: "after_job (logged a) m ps summary k s = Some (r, s1)"
  then obtain x w1 where j: "api_job a m ps (fst s) = Some (x, w1)"
    by (cases "api_job a m ps (fst s)") (auto simp: after_job_def)
  show "\<exists>done. jobs_of (snd s1) = jobs_of (snd s) @ done \<and> prefix done ((m, ps) # js) \<and>
      ((\<exists>i m'. r = Stored i m') \<longrightarrow> done = (m, ps) # js)"
  proof (cases x)
    case (Inl e)
    with run j assms(1) show ?thesis
      by (intro exI [of _ "[(m, ps)]"]) (auto simp: after_job_def noting_def fail_err_def)
  next
    case (Inr v)
    with run j have "k (w1, snd s @ [(m, ps, Inr v)]) = Some (r, s1)" by (simp add: after_job_def noting_def)
    from does_prefixed [OF assms(2) this] assms(1) show ?thesis by auto
  qed
qed

lemma quiet_settle:
  assumes "app_settled (logged a) name s = Some (r, s1)"
  shows "jobs_of (snd s1) = jobs_of (snd s)"
proof -
  have i: "jobs_of (snd s2) = jobs_of (snd s)" if "app_instance (logged a) n s = (x, s2)" for n s x s2
    using that by (auto simp: app_instance_def noting_def split: sum.splits option.splits prod.splits)
  have rd: "jobs_of (snd s2) = jobs_of (snd s)" if "settle_round (logged a) n deadline s = (x, s2)" for n deadline s x s2
    using that
    by (auto simp: settle_round_def quietly_def split: sum.splits option.splits prod.splits if_splits dest!: i)
  define P where "P = (\<lambda>(a' :: ('a \<times> exchanged list) api) (n :: string) (d :: duration) (s0 :: 'a \<times> exchanged list)
      (x :: (go_error + app_response) \<times> 'a \<times> exchanged list). a' = logged a \<longrightarrow> jobs_of (snd (snd x)) = jobs_of (snd s0))"
  have lp: "P a' n d s0 x" if "settle_loop a' n d s0 = Some x" for a' n d s0 x
  proof (rule settle_loop.raw_induct [OF _ that, where P = P])
    fix loop a' n d s0 x
    assume IH: "\<And>a' n d s0 x. loop a' n d s0 = Some x \<Longrightarrow> P a' n d s0 x"
      and run: "(case settle_round a' n d s0 of (Some r, w1) \<Rightarrow> Some (r, w1) | (None, w1) \<Rightarrow> loop a' n d w1) = Some x"
    show "P a' n d s0 x"
      unfolding P_def
    proof
      assume a': "a' = logged a"
      obtain y w1 where y: "settle_round (logged a) n d s0 = (y, w1)" by (metis surj_pair)
      with run a' IH [of a' n d w1 x] rd [OF y] show "jobs_of (snd (snd x)) = jobs_of (snd s0)"
        by (cases y) (auto simp: P_def)
    qed
  qed
  from assms obtain now w1 where "settle_loop (logged a) name (now + settle_time) w1 = Some (r, s1)" "snd w1 = snd s"
    by (auto simp: app_settled_def quietly_def split: prod.splits)
  with lp [of "logged a" name "now + settle_time" w1 "(r, s1)"] show ?thesis by (simp add: P_def)
qed

lemma does_settled:
  assumes "\<And>api. does [] (k api)" and "\<And>e i m. bad e \<noteq> Stored i m"
  shows "does [] (after_settled (logged a) name bad k)"
  unfolding does_def
proof (intro allI impI)
  fix s r s1
  assume run: "after_settled (logged a) name bad k s = Some (r, s1)"
  then obtain x w1 where x: "app_settled (logged a) name s = Some (x, w1)" by (auto simp: after_settled_def split: option.splits)
  show "\<exists>done. jobs_of (snd s1) = jobs_of (snd s) @ done \<and> prefix done [] \<and> ((\<exists>i m. r = Stored i m) \<longrightarrow> done = [])"
  proof (cases x)
    case (Inl e)
    with run x assms(2) quiet_settle [OF x] show ?thesis by (auto simp: after_settled_def)
  next
    case (Inr api)
    with run x have "k api w1 = Some (r, s1)" by (simp add: after_settled_def)
    from does_prefixed [OF assms(1) this] quiet_settle [OF x] show ?thesis by simp
  qed
qed

lemma does_running:
  assumes "does [] k"
  shows "does (running_jobs plan st) (update_running (logged a) plan st k)"
proof (cases "is_set (am_running plan) \<and> am_running plan \<noteq> am_running st")
  case True
  then have "update_running (logged a) plan st k = after_job (logged a)
      (if value_bool (am_running plan) then ''app.start'' else ''app.stop'') [GStr (value_string (am_name plan))]
      (if value_bool (am_running plan) then ''Failed to start app'' else ''Failed to stop app'') k"
    by (intro ext) (simp add: update_running_def Let_def)
  with True does_job [OF _ assms] show ?thesis by (simp add: running_jobs_def)
next
  case False
  then have "update_running (logged a) plan st k = k" by (intro ext) (auto simp: update_running_def Let_def)
  with False assms show ?thesis by (auto simp: running_jobs_def)
qed

lemma does_documents:
  assumes "does js k"
  shows "does (document_jobs D plan st cfg @ js) (update_documents D (logged a) plan st cfg k)"
proof (cases "sends_documents plan st")
  case True
  note d = update_documents_def document_jobs_def
  show ?thesis
  proof (cases "app_update_payload D plan")
    case (Inl e)
    with True show ?thesis by (simp add: d does_def)
  next
    case (Inr p0)
    show ?thesis
    proof (cases "inject_secrets D p0 cfg")
      case None
      with True Inr show ?thesis by (simp add: d does_def)
    next
      case (Some r)
      with True Inr assms does_job [OF _ assms, of "''app.update''"] show ?thesis
        by (cases r) (simp_all add: d does_def)
    qed
  qed
next
  case False
  with assms show ?thesis by (simp add: update_documents_def document_jobs_def does_def)
qed


text \<open>An app that TrueNAS does not find is dropped from the state, or counted as deleted, only when Docker had been
  asked and was running.\<close>

definition docker_was_up :: "exchanged list \<Rightarrow> bool" where
  "docker_was_up l = (case rev l of
      (m, ps, Inr raw) # (m', ps', Inl e) # _ \<Rightarrow> m = ''docker.status'' \<and> is_not_found e \<and>
        Option.bind (as_object raw) (\<lambda>st. as_string (field st ''status'')) = Some docker_running
    | _ \<Rightarrow> False)"

lemma docker_up:
  assumes "docker_status (logged a) (w, l @ [(m, ps, Inl e)]) = (Inr docker_running, s1)" and "is_not_found e"
  shows "docker_was_up (snd s1)"
  using assms by (auto simp: docker_status_def docker_was_up_def noting_def split: sum.splits option.splits prod.splits)

lemma app_read_removed:
  assumes "app_read D (logged a) prior (w, []) = Some (Ended Removed, s1)"
  shows "docker_was_up (snd s1)"
proof -
  obtain x w1 where i: "app_instance (logged a) (value_string (am_name prior)) (w, []) = (x, w1)" by (metis surj_pair)
  show ?thesis
  proof (cases x)
    case (Inl e)
    with assms i have nf: "is_not_found e"
      and m: "app_missing (logged a) (value_string (am_name prior)) w1 = (Ended Removed, s1)"
      by (auto simp: app_read_def Let_def ended_def fail_err_def split: if_splits)
    have "\<not> is_not_found decode_error" by code_simp
    with i Inl nf have w1: "w1 = (fst w1, [] @ [(''app.get_instance'', [GStr (value_string (am_name prior))], Inl e)])"
      by (auto simp: app_instance_def noting_def split: sum.splits option.splits prod.splits)
    obtain r w2 where d: "docker_status (logged a) w1 = (r, w2)" by (metis surj_pair)
    with m have "r = Inr docker_running" "s1 = w2" by (auto simp: app_missing_def split: if_splits)
    with d w1 nf docker_up [of a "fst w1" "[]"] show ?thesis by metis
  next
    case (Inr api)
    with assms i show ?thesis
      by (auto simp: app_read_def Let_def ended_def split: if_splits sum.splits option.splits prod.splits)
  qed
qed

text \<open>C22. A refresh drops an app from the state, and a delete that TrueNAS answers with not found counts as done,
  only after docker.status has been asked and has answered that Docker is running.\<close>

theorem app_gone_only_with_docker_up:
  "(case app_read D (logged a) prior (w, []) of Some (Ended Removed, (w1, l)) \<Rightarrow> docker_was_up l | _ \<Rightarrow> True) \<and>
   (case app_delete (logged a) st (w, []) of
      Some ([], (w1, l)) \<Rightarrow> (case l of (m, ps, Inr v) # _ \<Rightarrow> m = ''app.delete'' | _ \<Rightarrow> docker_was_up l)
    | _ \<Rightarrow> True)"
proof
  show "case app_read D (logged a) prior (w, []) of Some (Ended Removed, (w1, l)) \<Rightarrow> docker_was_up l | _ \<Rightarrow> True"
  proof (cases "app_read D (logged a) prior (w, [])")
    case (Some p)
    then show ?thesis
      using app_read_removed [of D a prior w "snd p"]
      by (cases p) (auto split: app_read_result.splits outcome.splits)
  qed simp
next
  show "case app_delete (logged a) st (w, []) of
      Some ([], (w1, l)) \<Rightarrow> (case l of (m, ps, Inr v) # _ \<Rightarrow> m = ''app.delete'' | _ \<Rightarrow> docker_was_up l)
    | _ \<Rightarrow> True"
  proof (cases "api_job a ''app.delete''
      [GStr (value_string (am_id st)), GObj [(''remove_images'', GBool True), (''remove_ix_volumes'', GBool False)]] w")
    case None
    then show ?thesis by (simp add: app_delete_def Let_def)
  next
    case (Some p)
    obtain x w1 where p: "p = (x, w1)" by (metis surj_pair)
    show ?thesis
    proof (cases x)
      case (Inl e)
      let ?l = "[(''app.delete'', [GStr (value_string (am_id st)), GObj [(''remove_images'', GBool True), (''remove_ix_volumes'', GBool False)]], Inl e)]"
      obtain r w2 where d: "docker_status (logged a) (w1, ?l) = (r, w2)" by (metis surj_pair)
      have "docker_was_up (snd w2) \<and> (\<exists>y. hd (snd w2) = (''app.delete'', y, Inl e)) " if "is_not_found e" "r = Inr docker_running"
      proof -
        from d docker_up [of a w1 "[]"] that have "docker_was_up (snd w2)" by simp
        moreover from d have "hd (snd w2) = hd ?l"
          by (auto simp: docker_status_def noting_def split: sum.splits option.splits prod.splits)
        ultimately show ?thesis by simp
      qed
      with Some p Inl d show ?thesis
        by (cases w2; cases "snd w2") (auto simp: app_delete_def Let_def noting_def docker_was_up_def split: if_splits)
    qed (use Some p in \<open>simp add: app_delete_def Let_def noting_def\<close>)
  qed
qed

end
