(* ===== verification/Actions.thy ===== *)
theory Actions
  imports Resource
begin

text \<open>
  The actions (src/internal/actions): one-off operations that Terraform runs on request. Each is
  the function of its attributes that its method \<open>Invoke\<close> is; progress messages are left out. The result is the
  diagnostics added; \<open>None\<close> is a job that never returns.
\<close>

section \<open>Running one method\<close>

type_synonym 'w invocation = "'w \<Rightarrow> (diagnostic list \<times> 'w) option"

definition outcome_of :: "string \<Rightarrow> (go_error + gval) \<times> 'w \<Rightarrow> diagnostic list \<times> 'w" where
  "outcome_of summary rw = (case fst rw of Inl e \<Rightarrow> [(summary, err_text e)] | Inr _ \<Rightarrow> [], snd rw)"

definition run_call :: "'w api \<Rightarrow> string \<Rightarrow> gval list \<Rightarrow> string \<Rightarrow> 'w invocation" where
  "run_call a m ps summary w = Some (outcome_of summary (api_call a m ps w))"

definition run_job :: "'w api \<Rightarrow> string \<Rightarrow> gval list \<Rightarrow> string \<Rightarrow> 'w invocation" where
  "run_job a m ps summary w = map_option (outcome_of summary) (api_job a m ps w)"

text \<open>\<open>wait\<close> is true unless it is set to false; without it the job is started by a plain call.\<close>

definition run_waiting :: "'w api \<Rightarrow> bool tf \<Rightarrow> string \<Rightarrow> gval list \<Rightarrow> string \<Rightarrow> 'w invocation" where
  "run_waiting a waits m ps summary =
     (if (if is_set waits then value_bool waits else True) then run_job a m ps summary else run_call a m ps summary)"

section \<open>Apps and tasks\<close>

definition app_redeploy :: "'w api \<Rightarrow> string tf \<Rightarrow> bool tf \<Rightarrow> 'w invocation" where
  "app_redeploy a app_name waits = run_waiting a waits ''app.redeploy'' [GStr (value_string app_name)] ''App redeploy failed''"

definition app_start :: "'w api \<Rightarrow> string tf \<Rightarrow> bool tf \<Rightarrow> 'w invocation" where
  "app_start a app_name waits = run_waiting a waits ''app.start'' [GStr (value_string app_name)] ''App start failed''"

definition app_stop :: "'w api \<Rightarrow> string tf \<Rightarrow> bool tf \<Rightarrow> 'w invocation" where
  "app_stop a app_name waits = run_waiting a waits ''app.stop'' [GStr (value_string app_name)] ''App stop failed''"

definition cloudsync_run :: "'w api \<Rightarrow> int tf \<Rightarrow> bool tf \<Rightarrow> 'w invocation" where
  "cloudsync_run a i waits = run_waiting a waits ''cloudsync.sync'' [GInt (value_int64 i)] ''Cloud sync run failed''"

definition replication_run :: "'w api \<Rightarrow> int tf \<Rightarrow> bool tf \<Rightarrow> 'w invocation" where
  "replication_run a i waits = run_waiting a waits ''replication.run'' [GInt (value_int64 i)] ''Replication run failed''"

definition scrub_run :: "'w api \<Rightarrow> int tf \<Rightarrow> bool tf \<Rightarrow> 'w invocation" where
  "scrub_run a pool_id waits = run_waiting a waits ''pool.scrub'' [GInt (value_int64 pool_id), GStr ''START''] ''Scrub run failed''"

definition cronjob_run :: "'w api \<Rightarrow> int tf \<Rightarrow> bool tf \<Rightarrow> 'w invocation" where
  "cronjob_run a i skip_disabled = run_job a ''cronjob.run''
     (GInt (value_int64 i) # (if is_set skip_disabled then [GBool (value_bool skip_disabled)] else [])) ''Cron job run failed''"

definition snapshot_task_run :: "'w api \<Rightarrow> int tf \<Rightarrow> 'w invocation" where
  "snapshot_task_run a i = run_job a ''pool.snapshottask.run'' [GInt (value_int64 i)] ''Snapshot task run failed''"

definition ui_restart :: "'w api \<Rightarrow> int tf \<Rightarrow> 'w invocation" where
  "ui_restart a delay = run_call a ''system.general.ui_restart'' [GInt (if is_set delay then value_int64 delay else 0)] ''UI restart failed''"

text \<open>\<open>service.control\<close> does not exist before 26.0; not knowing the version is an error here.\<close>

definition service_control :: "'w api \<Rightarrow> string tf \<Rightarrow> string tf \<Rightarrow> bool tf \<Rightarrow> 'w invocation" where
  "service_control a service verb waits w = (case api_at_least a 26 0 w of
      (Inl e, w1) \<Rightarrow> Some ([(''Version probe failed'', err_text e)], w1)
    | (Inr False, w1) \<Rightarrow> Some ([(''TrueNAS version too old'',
        ''truenas_service_control requires TrueNAS 26.0 or later (service.control does not exist on earlier releases)'')], w1)
    | (Inr True, w1) \<Rightarrow> run_waiting a waits ''service.control'' [GStr (value_string verb), GStr (value_string service)]
        ''Service control failed'' w1)"

section \<open>Datasets and snapshots\<close>

definition dataset_lock :: "'w api \<Rightarrow> string tf \<Rightarrow> bool tf \<Rightarrow> 'w invocation" where
  "dataset_lock a dataset force_umount =
     run_job a ''pool.dataset.lock'' [GStr (value_string dataset), GObj (put_bool ''force_umount'' force_umount [])] ''Dataset lock failed''"

definition dataset_promote :: "'w api \<Rightarrow> string tf \<Rightarrow> 'w invocation" where
  "dataset_promote a dataset = run_call a ''pool.dataset.promote'' [GStr (value_string dataset)] ''Dataset promote failed''"

definition dataset_rename :: "'w api \<Rightarrow> string tf \<Rightarrow> string tf \<Rightarrow> bool tf \<Rightarrow> bool tf \<Rightarrow> 'w invocation" where
  "dataset_rename a dataset new_name recursive force = run_call a ''pool.dataset.rename''
     [GStr (value_string dataset), GObj (put_bool ''force'' force (put_bool ''recursive'' recursive
        [(''new_name'', GStr (value_string new_name))]))] ''Dataset rename failed''"

record quota =
  q_type :: "string tf"
  q_id :: "string tf"
  q_value :: "int tf"

definition quota_entry :: "quota \<Rightarrow> gval" where
  "quota_entry q = GObj [(''quota_type'', GStr (value_string (q_type q))), (''id'', GStr (value_string (q_id q))),
     (''quota_value'', GInt (value_int64 (q_value q)))]"

definition dataset_set_quota :: "'w api \<Rightarrow> string tf \<Rightarrow> quota tf list tf \<Rightarrow> 'w invocation" where
  "dataset_set_quota a dataset quotas w = (case elements_as quotas of
      Inl d \<Rightarrow> Some ([d], w)
    | Inr qs \<Rightarrow> run_call a ''pool.dataset.set_quota'' [GStr (value_string dataset), GArr (map quota_entry qs)]
        ''Dataset set_quota failed'' w)"

definition unlock_entry :: "string tf \<Rightarrow> string tf \<Rightarrow> string tf \<Rightarrow> gval" where
  "unlock_entry dataset passphrase key =
     GObj (put_str ''key'' key (put_str ''passphrase'' passphrase [(''name'', GStr (value_string dataset))]))"

definition dataset_unlock ::
  "'w api \<Rightarrow> string tf \<Rightarrow> string tf \<Rightarrow> string tf \<Rightarrow> bool tf \<Rightarrow> bool tf \<Rightarrow> bool tf \<Rightarrow> 'w invocation" where
  "dataset_unlock a dataset passphrase key recursive force toggle = run_job a ''pool.dataset.unlock''
     [GStr (value_string dataset), GObj (put_bool ''toggle_attachments'' toggle (put_bool ''force'' force
        (put_bool ''recursive'' recursive [(''datasets'', GArr [unlock_entry dataset passphrase key])])))] ''Dataset unlock failed''"

definition snapshot_clone :: "'w api \<Rightarrow> string tf \<Rightarrow> string tf \<Rightarrow> 'w invocation" where
  "snapshot_clone a snapshot dataset_dst = run_call a ''pool.snapshot.clone''
     [GObj [(''snapshot'', GStr (value_string snapshot)), (''dataset_dst'', GStr (value_string dataset_dst))]] ''Snapshot clone failed''"

definition snapshot_hold :: "'w api \<Rightarrow> string tf \<Rightarrow> bool tf \<Rightarrow> 'w invocation" where
  "snapshot_hold a snapshot recursive =
     run_call a ''pool.snapshot.hold'' [GStr (value_string snapshot), GObj (put_bool ''recursive'' recursive [])] ''Snapshot hold failed''"

definition snapshot_release :: "'w api \<Rightarrow> string tf \<Rightarrow> bool tf \<Rightarrow> 'w invocation" where
  "snapshot_release a snapshot recursive =
     run_call a ''pool.snapshot.release'' [GStr (value_string snapshot), GObj (put_bool ''recursive'' recursive [])] ''Snapshot release failed''"

definition snapshot_rollback ::
  "'w api \<Rightarrow> string tf \<Rightarrow> bool tf \<Rightarrow> bool tf \<Rightarrow> bool tf \<Rightarrow> bool tf \<Rightarrow> 'w invocation" where
  "snapshot_rollback a snapshot recursive recursive_clones recursive_rollback force = run_call a ''pool.snapshot.rollback''
     [GStr (value_string snapshot), GObj (put_bool ''force'' force (put_bool ''recursive_rollback'' recursive_rollback
        (put_bool ''recursive_clones'' recursive_clones (put_bool ''recursive'' recursive []))))] ''Snapshot rollback failed''"

text \<open>The full new name: the dataset of the snapshot is put before a name that has none.\<close>

definition renamed_snapshot :: "string \<Rightarrow> string \<Rightarrow> string" where
  "renamed_snapshot snapshot new_name = (case cut CHR ''@'' snapshot of (dataset, _, ok) \<Rightarrow>
     if ok \<and> CHR ''@'' \<notin> set new_name then dataset @ ''@'' @ new_name else new_name)"

definition snapshot_rename :: "'w api \<Rightarrow> string tf \<Rightarrow> string tf \<Rightarrow> bool tf \<Rightarrow> bool tf \<Rightarrow> 'w invocation" where
  "snapshot_rename a snapshot new_name force recursive w =
     (let name = renamed_snapshot (value_string snapshot) (value_string new_name) in
      case api_at_least a 26 0 w of (ok, w1) \<Rightarrow>
        if ok = Inr True then run_call a ''zfs.resource.snapshot.rename''
          [GObj (put_bool ''recursive'' recursive [(''current_name'', GStr (value_string snapshot)), (''new_name'', GStr name)])]
          ''Snapshot rename failed'' w1
        else run_call a ''pool.snapshot.rename'' [GStr (value_string snapshot),
          GObj (put_bool ''recursive'' recursive (put_bool ''force'' force [(''new_name'', GStr name)]))] ''Snapshot rename failed'' w1)"

section \<open>Virtual machines\<close>

definition vm_clone :: "'w api \<Rightarrow> int tf \<Rightarrow> string tf \<Rightarrow> 'w invocation" where
  "vm_clone a vm_id name =
     run_call a ''vm.clone'' (GInt (value_int64 vm_id) # (if is_set name then [GStr (value_string name)] else [])) ''VM clone failed''"

definition vm_reset :: "'w api \<Rightarrow> int tf \<Rightarrow> 'w invocation" where
  "vm_reset a vm_id w = (case api_at_least a 27 0 w of (ok, w1) \<Rightarrow>
     if ok = Inr False then Some ([(''vm_reset requires TrueNAS 27.0+'',
       ''The vm.reset API does not exist on this TrueNAS release. Use truenas_vm_restart instead.'')], w1)
     else run_call a ''vm.reset'' [GInt (value_int64 vm_id)] ''VM reset failed'' w1)"

definition vm_restart :: "'w api \<Rightarrow> int tf \<Rightarrow> 'w invocation" where
  "vm_restart a vm_id = run_job a ''vm.restart'' [GInt (value_int64 vm_id)] ''VM restart failed''"

definition vm_state :: "'w api \<Rightarrow> int \<Rightarrow> 'w \<Rightarrow> (diagnostic + string) \<times> 'w" where
  "vm_state a i w = (case api_read a ''vm.status'' [GInt i] w of
      (Inl e, w1) \<Rightarrow> (Inl (''VM status read failed'', err_text e), w1)
    | (Inr raw, w1) \<Rightarrow> (case Option.bind (as_object raw) (\<lambda>m. as_string (field m ''state'')) of
          None \<Rightarrow> (Inl (''Parse vm.status response'', err_text decode_error), w1)
        | Some s \<Rightarrow> (Inr s, w1)))"

definition should_start :: "string \<Rightarrow> bool" where "should_start st \<longleftrightarrow> st \<noteq> ''RUNNING''"

definition should_stop :: "string \<Rightarrow> bool" where "should_stop st \<longleftrightarrow> st = ''RUNNING''"

definition vm_start :: "'w api \<Rightarrow> int tf \<Rightarrow> bool tf \<Rightarrow> 'w invocation" where
  "vm_start a vm_id overcommit w = (let i = value_int64 vm_id in
     case vm_state a i w of
       (Inl d, w1) \<Rightarrow> Some ([d], w1)
     | (Inr st, w1) \<Rightarrow>
         if \<not> should_start st then Some ([], w1)
         else run_call a ''vm.start'' (GInt i # (if is_set overcommit then [GObj [(''overcommit'', GBool (value_bool overcommit))]] else []))
           ''VM start failed'' w1)"

definition stop_options :: "bool tf \<Rightarrow> bool tf \<Rightarrow> payload" where
  "stop_options force force_after_timeout = put_bool ''force_after_timeout'' force_after_timeout (put_bool ''force'' force [])"

definition vm_stop :: "'w api \<Rightarrow> int tf \<Rightarrow> bool tf \<Rightarrow> bool tf \<Rightarrow> 'w invocation" where
  "vm_stop a vm_id force force_after_timeout w = (let i = value_int64 vm_id in
     case vm_state a i w of
       (Inl d, w1) \<Rightarrow> Some ([d], w1)
     | (Inr st, w1) \<Rightarrow>
         if \<not> should_stop st then Some ([], w1)
         else run_job a ''vm.stop'' [GInt i, GObj (stop_options force force_after_timeout)] ''VM stop failed'' w1)"

section \<open>Facts\<close>

text \<open>What an action changed on the server: the requests it sent that are not reads.\<close>

definition changes :: "exchanged list \<Rightarrow> exchanged list" where
  "changes l = filter (\<lambda>(m, ps, r). m \<noteq> ''vm.status'') l"

text \<open>\<open>sends_once act\<close>: whatever the server answers, the action sends one change at most; when it reports no error, that
  change, if any, was accepted.\<close>

fun accepted_once :: "diagnostic list \<Rightarrow> exchanged list \<Rightarrow> bool" where
  "accepted_once ds [] = True"
| "accepted_once ds [(m, ps, r)] = ((ds = []) = (case r of Inr v \<Rightarrow> True | Inl e \<Rightarrow> False))"
| "accepted_once ds (x # y # l) = False"

definition sends_once :: "('w \<times> exchanged list) invocation \<Rightarrow> bool" where
  "sends_once act \<longleftrightarrow> (\<forall>s ds s1. changes (snd s) = [] \<longrightarrow> act s = Some (ds, s1) \<longrightarrow> accepted_once ds (changes (snd s1)))"

lemma changes_simps [simp]:
  "changes [] = []" "changes (l @ l') = changes l @ changes l'" "changes ((m, ps, r) # l) = (if m = ''vm.status'' then changes l else (m, ps, r) # changes l)"
  by (simp_all add: changes_def)

lemma accepted_outcome:
  assumes "m \<noteq> ''vm.status''" and "changes l = []" and "outcome_of summary (noting m ps rw l) = (ds, s1)"
  shows "accepted_once ds (changes (snd s1))"
  using assms by (cases "fst rw") (auto simp: outcome_of_def noting_def)

lemma sends_once_run [intro]:
  assumes "m \<noteq> ''vm.status''"
  shows "sends_once (run_call (logged a) m ps summary)" and "sends_once (run_job (logged a) m ps summary)"
    and "sends_once (run_waiting (logged a) waits m ps summary)"
proof -
  show c: "sends_once (run_call (logged a) m ps summary)"
    unfolding sends_once_def run_call_def logged_simps option.inject by (blast intro: accepted_outcome [OF assms])
  show j: "sends_once (run_job (logged a) m ps summary)"
    unfolding sends_once_def run_job_def logged_simps option.map_comp map_option_eq_Some comp_def
    by (blast intro: accepted_outcome [OF assms])
  show "sends_once (run_waiting (logged a) waits m ps summary)"
    using c j by (simp add: run_waiting_def)
qed

text \<open>A step before the request that only reads.\<close>

lemma sends_once_after:
  assumes "\<And>s x s1. f s = (x, s1) \<Longrightarrow> changes (snd s1) = changes (snd s)"
    and "\<And>s x s1. f s = (x, s1) \<Longrightarrow> \<exists>k. sends_once k \<and> act s = k s1"
  shows "sends_once act"
  unfolding sends_once_def
proof (intro allI impI)
  fix s ds s2
  assume c: "changes (snd s) = []" and r: "act s = Some (ds, s2)"
  obtain x s1 where x: "f s = (x, s1)" by (metis surj_pair)
  from assms(2) [OF x] r obtain k where "sends_once k" "k s1 = Some (ds, s2)" by auto
  moreover have "changes (snd s1) = []" using assms(1) [OF x] c by simp
  ultimately show "accepted_once ds (changes (snd s2))" unfolding sends_once_def by blast
qed

lemma sends_once_stop [intro]: "sends_once (\<lambda>s. Some (ds, s))"
  by (simp add: sends_once_def)

lemma quiet_at_least: "api_at_least (logged a) x y s = (r, s1) \<Longrightarrow> changes (snd s1) = changes (snd s)"
  by simp

lemma quiet_vm_state: "vm_state (logged a) i s = (r, s1) \<Longrightarrow> changes (snd s1) = changes (snd s)"
  by (auto simp: vm_state_def noting_def split: sum.splits option.splits prod.splits)


text \<open>The full new name that a rename asks for, in the last parameter of either method.\<close>

definition asked_name :: "exchanged list \<Rightarrow> gval option" where
  "asked_name l = (case l of
      [(m, ps, r)] \<Rightarrow> (case last ps of GObj p \<Rightarrow> map_of p ''new_name'' | _ \<Rightarrow> None)
    | _ \<Rightarrow> None)"

text \<open>C1. A snapshot that is renamed stays in its dataset, unless the new name names another: a new name without \<open>@\<close>
  is put behind the dataset of the snapshot, whichever of the two methods the release has.\<close>

theorem rename_keeps_dataset:
  assumes "CHR ''@'' \<notin> set ds" and "CHR ''@'' \<notin> set new"
  shows "case snapshot_rename (logged a) (Known (ds @ ''@'' @ old)) (Known new) force rec (w, []) of
      Some (_, (_, l)) \<Rightarrow> asked_name l = Some (GStr (ds @ ''@'' @ new))
    | None \<Rightarrow> False"
proof -
  have n: "renamed_snapshot (ds @ ''@'' @ old) new = ds @ ''@'' @ new"
    using assms cut_append [of "CHR ''@''" ds old] by (simp add: renamed_snapshot_def)
  obtain ok w1 where v: "api_at_least a 26 0 w = (ok, w1)" by fastforce
  then have v': "api_at_least (logged a) 26 0 (w, []) = (ok, (w1, []))" by simp
  show ?thesis
    unfolding snapshot_rename_def Let_def v' value_or_simps n prod.case
    by (cases "ok = Inr True") (simp_all add: run_call_def outcome_of_def noting_def payload_simps asked_name_def)
qed

text \<open>A server of release 26.0 that accepts every call.\<close>

definition accepting_api :: "unit api" where
  "accepting_api = \<lparr>api_call = (\<lambda>m ps w. (Inr GNil, w)), api_read = (\<lambda>m ps w. (Inr GNil, w)), api_job = (\<lambda>m ps w. Some (Inr GNil, w)),
     api_at_least = (\<lambda>x y w. (Inr (x \<le> 26), w)), api_now = (\<lambda>w. (0, w)), api_pause = (\<lambda>d w. (None, w))\<rparr>"

lemma rename_keeps_dataset_witness:
  "case snapshot_rename (logged accepting_api) (Known (''tank/a'' @ ''@'' @ ''old'')) (Known ''new'') TfNull (Known True) ((), []) of
      Some (_, (_, l)) \<Rightarrow> asked_name l = Some (GStr (''tank/a'' @ ''@'' @ ''new''))
    | None \<Rightarrow> False"
  by (rule rename_keeps_dataset) simp_all

end
