(* ===== verification/FsMutation.thy ===== *)
theory FsMutation
  imports Rpc
begin

text \<open>
  \<open>CallFilesystemMutation\<close> (src/internal/client/jobs.go): the callers of \<open>filesystem.setperm\<close> and
  \<open>filesystem.setacl\<close> share the mutex \<open>fsMutationMu\<close>. Each goroutine is a phase, the steps of different goroutines
  interleave freely, and a log holds what the server sees of the jobs. The job that runs under the mutex is
  \<open>call_job\<close> of theory Rpc, here split into the sending of the request, the polls, and its return.
\<close>

section \<open>State and steps\<close>

datatype fs_phase = Outside | Blocked | Holding | Mutating | Returning

datatype fs_event = Began | Polled | Ended

record fs_state =
  fs_mutex :: "nat option"
  fs_phase :: "nat \<Rightarrow> fs_phase"
  fs_log :: "(nat \<times> fs_event) list"

definition fs_start :: fs_state where
  "fs_start = \<lparr>fs_mutex = None, fs_phase = (\<lambda>i. Outside), fs_log = []\<rparr>"

definition fs_goes :: "nat \<Rightarrow> fs_phase \<Rightarrow> fs_state \<Rightarrow> fs_state" where
  "fs_goes i p s = s\<lparr>fs_phase := (fs_phase s)(i := p)\<rparr>"

definition fs_notes :: "nat \<Rightarrow> fs_event \<Rightarrow> fs_state \<Rightarrow> fs_state" where
  "fs_notes i e s = s\<lparr>fs_log := fs_log s @ [(i, e)]\<rparr>"

text \<open>\<open>Lock\<close> waits until the mutex is free; the deferred \<open>Unlock\<close> runs when the job has returned, with a result or an error.\<close>

definition fs_lock :: "nat \<Rightarrow> fs_state \<Rightarrow> fs_state option" where
  "fs_lock i s = (if fs_mutex s = None then Some (fs_goes i Holding (s\<lparr>fs_mutex := Some i\<rparr>)) else None)"

definition fs_unlock :: "nat \<Rightarrow> fs_state \<Rightarrow> fs_state" where
  "fs_unlock i s = fs_goes i Outside (s\<lparr>fs_mutex := None\<rparr>)"

text \<open>The method line by line: \<open>Lock\<close>, \<open>CallJob\<close>, \<open>Unlock\<close>.\<close>

fun call_filesystem_mutation :: "nat \<Rightarrow> fs_phase \<Rightarrow> fs_state \<Rightarrow> fs_state list" where
  "call_filesystem_mutation i Outside s = [fs_goes i Blocked s]"
| "call_filesystem_mutation i Blocked s = (case fs_lock i s of None \<Rightarrow> [] | Some s1 \<Rightarrow> [s1])"
| "call_filesystem_mutation i Holding s = [fs_goes i Mutating (fs_notes i Began s)]"
| "call_filesystem_mutation i Mutating s = [fs_notes i Polled s, fs_goes i Returning (fs_notes i Ended s)]"
| "call_filesystem_mutation i Returning s = [fs_unlock i s]"

inductive fs_step :: "fs_state \<Rightarrow> fs_state \<Rightarrow> bool" where
  run: "s' \<in> set (call_filesystem_mutation i (fs_phase s i) s) \<Longrightarrow> fs_step s s'"

inductive fs_reachable :: "fs_state \<Rightarrow> bool" where
  start: "fs_reachable fs_start"
| more: "fs_reachable s \<Longrightarrow> fs_step s s' \<Longrightarrow> fs_reachable s'"

inductive_cases fs_step_cases [elim]: "fs_step s s'"

section \<open>One mutation at a time\<close>

text \<open>\<open>serial_log l\<close> is the goroutine whose job is open after \<open>l\<close>, \<open>None\<close> as a whole when two jobs overlapped.\<close>

fun serial_next :: "nat option \<Rightarrow> nat \<times> fs_event \<Rightarrow> nat option option" where
  "serial_next None (i, Began) = Some (Some i)"
| "serial_next (Some j) (i, Polled) = (if i = j then Some (Some j) else None)"
| "serial_next (Some j) (i, Ended) = (if i = j then Some None else None)"
| "serial_next h ev = None"

definition serial_log :: "(nat \<times> fs_event) list \<Rightarrow> nat option option" where
  "serial_log l = fold (\<lambda>ev h. Option.bind h (\<lambda>j. serial_next j ev)) l (Some None)"

lemma serial_log_simps [simp]:
  "serial_log [] = Some None" "serial_log (l @ [ev]) = Option.bind (serial_log l) (\<lambda>j. serial_next j ev)"
  by (simp_all add: serial_log_def)

definition in_section :: "fs_phase \<Rightarrow> bool" where
  "in_section p \<longleftrightarrow> p \<in> {Holding, Mutating, Returning}"

definition open_job :: "fs_state \<Rightarrow> nat option" where
  "open_job s = (case fs_mutex s of Some i \<Rightarrow> if fs_phase s i = Mutating then Some i else None | None \<Rightarrow> None)"

definition fs_ok :: "fs_state \<Rightarrow> bool" where
  "fs_ok s \<longleftrightarrow> (\<forall>i. in_section (fs_phase s i) = (fs_mutex s = Some i)) \<and> serial_log (fs_log s) = Some (open_job s)"

lemma in_section_simps [simp]:
  "in_section Holding" "in_section Mutating" "in_section Returning" "\<not> in_section Outside" "\<not> in_section Blocked"
  by (simp_all add: in_section_def)

lemmas fs_defs = fs_goes_def fs_notes_def fs_lock_def fs_unlock_def open_job_def

lemma fs_ok_step:
  assumes "fs_ok s" and "fs_step s s'"
  shows "fs_ok s'"
  using assms(2)
proof cases
  case (run i)
  have h: "in_section (fs_phase s j) = (fs_mutex s = Some j)" for j
    using assms(1) by (simp add: fs_ok_def)
  have l: "serial_log (fs_log s) = Some (open_job s)"
    using assms(1) by (simp add: fs_ok_def)
  show ?thesis
  proof (cases "fs_phase s i")
    case Outside
    with run h [of i] h l show ?thesis by (auto simp: fs_ok_def fs_defs split: option.splits)
  next
    case Blocked
    with run h [of i] h l show ?thesis by (auto simp: fs_ok_def fs_defs split: option.splits if_splits)
  next
    case Holding
    with run h [of i] h l show ?thesis by (auto simp: fs_ok_def fs_defs split: option.splits)
  next
    case Mutating
    with run h [of i] h l show ?thesis by (auto simp: fs_ok_def fs_defs split: option.splits if_splits)
  next
    case Returning
    with run h [of i] h l show ?thesis by (auto simp: fs_ok_def fs_defs split: option.splits)
  qed
qed

lemma fs_reachable_ok: "fs_reachable s \<Longrightarrow> fs_ok s"
proof (induction rule: fs_reachable.induct)
  case start
  then show ?case by (simp add: fs_start_def fs_ok_def open_job_def)
next
  case (more s s')
  then show ?case by (blast intro: fs_ok_step)
qed

text \<open>A caller that waits for the mutex is never stuck: some goroutine can move.\<close>

lemma fs_no_deadlock:
  assumes "fs_reachable s" and "fs_phase s i \<noteq> Outside"
  shows "\<exists>j s'. fs_phase s j \<noteq> Outside \<and> s' \<in> set (call_filesystem_mutation j (fs_phase s j) s)"
proof (cases "fs_mutex s")
  case None
  then have "fs_phase s i = Blocked"
    using assms fs_reachable_ok [OF assms(1)] by (cases "fs_phase s i") (simp_all add: fs_ok_def in_section_def)
  then show ?thesis using None by (auto simp: fs_lock_def intro!: exI [of _ i])
next
  case (Some j)
  then have "in_section (fs_phase s j)" using fs_reachable_ok [OF assms(1)] by (simp add: fs_ok_def)
  then show ?thesis by (cases "fs_phase s j") (auto intro!: exI [of _ j])
qed

text \<open>Two goroutines, the second of which waits while the job of the first runs.\<close>

definition fs_contended :: fs_state where
  "fs_contended = fold (\<lambda>i s. last (call_filesystem_mutation i (fs_phase s i) s)) [0, 1, 0, 0] fs_start"

lemma fs_contended_reachable: "fs_reachable fs_contended"
proof -
  have next_state: "fs_reachable (last (call_filesystem_mutation i (fs_phase s i) s))"
    if "fs_reachable s" "call_filesystem_mutation i (fs_phase s i) s \<noteq> []" for i s
    using that by (blast intro: fs_reachable.more fs_step.run last_in_set)
  have a: "fs_reachable (fs_goes 0 Blocked fs_start)"
    using next_state [OF fs_reachable.start, of 0] by (simp add: fs_start_def)
  have b: "fs_reachable (fs_goes 1 Blocked (fs_goes 0 Blocked fs_start))"
    using next_state [OF a, of 1] by (simp add: fs_start_def fs_goes_def)
  have c: "fs_reachable (fs_goes 0 Holding ((fs_goes 1 Blocked (fs_goes 0 Blocked fs_start))\<lparr>fs_mutex := Some 0\<rparr>))"
    using next_state [OF b, of 0] by (simp add: fs_start_def fs_goes_def fs_lock_def)
  show ?thesis
    using next_state [OF c, of 0] by (simp add: fs_contended_def fs_start_def fs_goes_def fs_notes_def fs_lock_def)
qed



end
