(* ===== verification/Crud.thy ===== *)
theory Crud
  imports Resource
begin

text \<open>
  The resources that have one object per numeric id and nothing special: a service with the methods create,
  get_instance, update and delete. Their files resource.go differ only in names, in whether a change runs as a
  job, and in whether the answer of a change is stored or the object is read again after it. That text is written
  here once, and a resource is the record of what it puts in.
\<close>

section \<open>How a change is sent\<close>

text \<open>As a call, as a job, or as a call that is made again while the server says that the block device is not there
  yet (iscsi_extent/device.go, nvmet_namespace/wait.go): the server makes the device of a new zvol a little later.\<close>

datatype sending = By_call | By_job | By_waiting "go_error \<Rightarrow> bool"

definition device_wait_timeout :: duration where "device_wait_timeout = 60 * second"

definition device_wait_interval :: duration where "device_wait_interval = 2 * second"

partial_function (option) await_device ::
  "'w api \<Rightarrow> (go_error \<Rightarrow> bool) \<Rightarrow> duration \<Rightarrow> string \<Rightarrow> gval list \<Rightarrow> 'w \<Rightarrow> ((go_error + gval) \<times> 'w) option" where
  "await_device a missing deadline m ps w = (case api_call a m ps w of
      (Inr v, w1) \<Rightarrow> Some (Inr v, w1)
    | (Inl e, w1) \<Rightarrow> (if \<not> missing e then Some (Inl e, w1)
        else (case api_now a w1 of (now, w2) \<Rightarrow>
          if deadline < now then Some (Inl e, w2)
          else (case api_pause a device_wait_interval w2 of
              (Some _, w3) \<Rightarrow> Some (Inl e, w3)
            | (None, w3) \<Rightarrow> await_device a missing deadline m ps w3))))"

definition call_waiting_for_device ::
  "'w api \<Rightarrow> (go_error \<Rightarrow> bool) \<Rightarrow> string \<Rightarrow> gval list \<Rightarrow> 'w \<Rightarrow> ((go_error + gval) \<times> 'w) option" where
  "call_waiting_for_device a missing m ps w =
     (case api_now a w of (now, w1) \<Rightarrow> await_device a missing (now + device_wait_timeout) m ps w1)"

definition send_change :: "'w api \<Rightarrow> sending \<Rightarrow> string \<Rightarrow> gval list \<Rightarrow> 'w \<Rightarrow> ((go_error + gval) \<times> 'w) option" where
  "send_change a how m ps w = (case how of
      By_call \<Rightarrow> Some (api_call a m ps w)
    | By_job \<Rightarrow> api_job a m ps w
    | By_waiting missing \<Rightarrow> call_waiting_for_device a missing m ps w)"

section \<open>What a resource puts in\<close>

record ('m, 'r) crud =
  cr_service :: string
  cr_label :: string
  cr_change :: sending
  cr_remove :: sending
  cr_reads_back :: "(string \<times> string) option \<times> (string \<times> string) option"
  cr_plan_id :: bool
  cr_payload :: "'m \<Rightarrow> diagnostic list + payload"
  cr_decode :: "gval \<Rightarrow> 'r option"
  cr_answer_id :: "'r \<Rightarrow> int"
  cr_refresh :: "'r \<Rightarrow> 'm \<Rightarrow> diagnostic + 'm"
  cr_id :: "'m \<Rightarrow> int tf"
  cr_null :: 'm

text \<open>Where the object is read again after a create, and after an update: the texts of the two errors that can follow.\<close>

definition standard_read_back :: "(string \<times> string) option \<times> (string \<times> string) option" where
  "standard_read_back = (Some (''Read-back after create failed'', ''Parse get_instance response''),
     Some (''Read-back after update failed'', ''Parse get_instance response''))"

definition no_read_back :: "(string \<times> string) option \<times> (string \<times> string) option" where
  "no_read_back = (None, None)"

section \<open>The methods of the resource\<close>

definition crud_instance :: "'w api \<Rightarrow> ('m, 'r) crud \<Rightarrow> int \<Rightarrow> string \<Rightarrow> string \<Rightarrow> 'w \<Rightarrow> (diagnostic list + 'r) \<times> 'w" where
  "crud_instance a c i read_err parse_err w = (case api_read a (cr_service c @ ''.get_instance'') [GInt i] w of
      (Inl e, w1) \<Rightarrow> (Inl [(read_err, err_text e)], w1)
    | (Inr raw, w1) \<Rightarrow> (case cr_decode c raw of
          None \<Rightarrow> (Inl [(parse_err, err_text decode_error)], w1)
        | Some r \<Rightarrow> (Inr r, w1)))"

definition crud_store :: "('m, 'r) crud \<Rightarrow> 'r \<Rightarrow> 'm \<Rightarrow> 'm outcome" where
  "crud_store c r m = (case cr_refresh c r m of
      Inl d \<Rightarrow> Failure [d] | Inr m1 \<Rightarrow> Stored (itoa (value_int64 (cr_id c m1))) m1)"

text \<open>What follows a change that was accepted.\<close>

definition crud_settle :: "'w api \<Rightarrow> ('m, 'r) crud \<Rightarrow> int \<Rightarrow> string \<times> string \<Rightarrow> 'm \<Rightarrow> 'w \<Rightarrow> 'm outcome \<times> 'w" where
  "crud_settle a c i texts plan w =
     (case crud_instance a c i (fst texts) (snd texts) w of
        (Inl ds, w1) \<Rightarrow> (Failure ds, w1)
      | (Inr r, w1) \<Rightarrow> (crud_store c r plan, w1))"

definition crud_create :: "'w api \<Rightarrow> ('m, 'r) crud \<Rightarrow> 'm \<Rightarrow> 'w \<Rightarrow> ('m outcome \<times> 'w) option" where
  "crud_create a c plan w = (case cr_payload c plan of
      Inl ds \<Rightarrow> Some (Failure ds, w)
    | Inr p \<Rightarrow> (case send_change a (cr_change c) (cr_service c @ ''.create'') [GObj p] w of
          None \<Rightarrow> None
        | Some (Inl e, w1) \<Rightarrow> Some (fail_err (''Create '' @ cr_label c @ '' failed'') e, w1)
        | Some (Inr raw, w1) \<Rightarrow> (case cr_decode c raw of
              None \<Rightarrow> Some (parse_failure ''Parse create response'', w1)
            | Some r \<Rightarrow>
                Some (case fst (cr_reads_back c) of
                    Some texts \<Rightarrow> crud_settle a c (cr_answer_id c r) texts plan w1
                  | None \<Rightarrow> (crud_store c r plan, w1)))))"

definition crud_read :: "'w api \<Rightarrow> ('m, 'r) crud \<Rightarrow> 'm \<Rightarrow> 'w \<Rightarrow> 'm outcome \<times> 'w" where
  "crud_read a c st w =
     (case api_read a (cr_service c @ ''.get_instance'') [GInt (value_int64 (cr_id c st))] w of
        (Inl e, w1) \<Rightarrow> (if is_not_found e then Removed else fail_err (''Read '' @ cr_label c @ '' failed'') e, w1)
      | (Inr raw, w1) \<Rightarrow> (case cr_decode c raw of
            None \<Rightarrow> (parse_failure ''Parse response'', w1) | Some r \<Rightarrow> (crud_store c r st, w1)))"

definition crud_update :: "'w api \<Rightarrow> ('m, 'r) crud \<Rightarrow> 'm \<Rightarrow> 'm \<Rightarrow> 'w \<Rightarrow> ('m outcome \<times> 'w) option" where
  "crud_update a c plan st w = (let i = value_int64 (cr_id c (if cr_plan_id c then plan else st)) in
     case cr_payload c plan of
       Inl ds \<Rightarrow> Some (Failure ds, w)
     | Inr p \<Rightarrow> (case send_change a (cr_change c) (cr_service c @ ''.update'') [GInt i, GObj p] w of
           None \<Rightarrow> None
         | Some (Inl e, w1) \<Rightarrow> Some (fail_err (''Update '' @ cr_label c @ '' failed'') e, w1)
         | Some (Inr raw, w1) \<Rightarrow>
             Some (case snd (cr_reads_back c) of
                 Some texts \<Rightarrow> crud_settle a c i texts plan w1
               | None \<Rightarrow> (case cr_decode c raw of
                     None \<Rightarrow> (parse_failure ''Parse response'', w1) | Some r \<Rightarrow> (crud_store c r plan, w1)))))"

definition crud_delete :: "'w api \<Rightarrow> ('m, 'r) crud \<Rightarrow> 'm \<Rightarrow> 'w \<Rightarrow> (diagnostic list \<times> 'w) option" where
  "crud_delete a c st w = (case send_change a (cr_remove c) (cr_service c @ ''.delete'') [GInt (value_int64 (cr_id c st))] w of
      None \<Rightarrow> None
    | Some (Inl e, w1) \<Rightarrow> Some (if is_not_found e then [] else [(''Delete '' @ cr_label c @ '' failed'', err_text e)], w1)
    | Some (Inr _, w1) \<Rightarrow> Some ([], w1))"

definition crud_import :: "'w api \<Rightarrow> ('m, 'r) crud \<Rightarrow> int import_req \<Rightarrow> 'w \<Rightarrow> 'm outcome \<times> 'w" where
  "crud_import a c req w = (case import_int64 req of (i, ds) \<Rightarrow>
     if ds \<noteq> [] then (Failure ds, w)
     else (case crud_instance a c i (''Import '' @ cr_label c @ '' failed'') ''Parse import response'' w of
         (Inl ds, w1) \<Rightarrow> (Failure ds, w1)
       | (Inr r, w1) \<Rightarrow> (case cr_refresh c r (cr_null c) of
             Inl d \<Rightarrow> (Failure [d], w1) | Inr m \<Rightarrow> (Stored (itoa i) m, w1))))"

text \<open>A data source looks one object up by a filter. Some take the first of several matches, others refuse.\<close>

definition crud_lookup ::
  "'w api \<Rightarrow> ('m, 'r) crud \<Rightarrow> string \<Rightarrow> gval list \<Rightarrow> diagnostic \<Rightarrow> (nat \<Rightarrow> diagnostic option) \<Rightarrow> 'm \<Rightarrow> 'w \<Rightarrow> (diagnostic list + 'm) \<times> 'w" where
  "crud_lookup a c query_err filters missing ambiguous cfg w =
     (case api_read a (cr_service c @ ''.query'') [GArr filters] w of
        (Inl e, w1) \<Rightarrow> (Inl [(query_err, err_text e)], w1)
      | (Inr raw, w1) \<Rightarrow> (case as_list (cr_decode c) raw of
            None \<Rightarrow> (Inl [(''Parse query response'', err_text decode_error)], w1)
          | Some [] \<Rightarrow> (Inl [missing], w1)
          | Some (r # rs) \<Rightarrow> (case if rs = [] then None else ambiguous (Suc (length rs)) of
                Some d \<Rightarrow> (Inl [d], w1)
              | None \<Rightarrow> (case cr_refresh c r cfg of Inl d \<Rightarrow> (Inl [d], w1) | Inr m \<Rightarrow> (Inr m, w1)))))"

definition equal_filter :: "string \<Rightarrow> gval \<Rightarrow> gval" where
  "equal_filter k v = GArr [GStr k, GStr ''='', v]"

text \<open>A row of a listing: a display name, the id and, when asked for, the model.\<close>

definition crud_row :: "('m, 'r) crud \<Rightarrow> string \<Rightarrow> ('r \<Rightarrow> string) \<Rightarrow> bool \<Rightarrow> gval \<Rightarrow> diagnostic list + (string \<times> string \<times> 'm option)" where
  "crud_row c what display include_resource raw = (case cr_decode c raw of
      None \<Rightarrow> Inl [(''Parse '' @ what @ '' row'', err_text decode_error)]
    | Some r \<Rightarrow> (if include_resource
        then (case cr_refresh c r (cr_null c) of Inl d \<Rightarrow> Inl [d] | Inr m \<Rightarrow> Inr (display r, itoa (cr_answer_id c r), Some m))
        else Inr (display r, itoa (cr_answer_id c r), None)))"

section \<open>The contract of a resource\<close>

text \<open>
  \<open>held r\<close> is what the server holds, as the argument of an update would put it, for the answers \<open>r\<close> that satisfy
  \<open>good\<close>. A resource is well made when refreshing is idempotent, takes the id from the server, and when a
  refreshed model sends only what the server holds already.
\<close>

definition well_made :: "('m, 'r) crud \<Rightarrow> ('r \<Rightarrow> gval gomap) \<Rightarrow> ('r \<Rightarrow> bool) \<Rightarrow> bool" where
  "well_made c held good \<longleftrightarrow> (\<forall>r m. case cr_refresh c r m of
      Inl d \<Rightarrow> True
    | Inr m1 \<Rightarrow> cr_refresh c r m1 = Inr m1 \<and> cr_id c m1 = Known (cr_answer_id c r) \<and>
        (good r \<longrightarrow> (case cr_payload c m1 of Inl d \<Rightarrow> False | Inr p \<Rightarrow> map_of p \<subseteq>\<^sub>m map_of (held r))))"

locale plain_resource =
  fixes c :: "('m, 'r) crud"
    and held :: "'r \<Rightarrow> gval gomap"
    and good :: "'r \<Rightarrow> bool"
  assumes again: "cr_refresh c r m = Inr m1 \<Longrightarrow> cr_refresh c r m1 = Inr m1"
    and takes_id: "cr_refresh c r m = Inr m1 \<Longrightarrow> cr_id c m1 = Known (cr_answer_id c r)"
    and sends_back: "good r \<Longrightarrow> cr_refresh c r m = Inr m1 \<Longrightarrow>
      (case cr_payload c m1 of Inl d \<Rightarrow> False | Inr p \<Rightarrow> map_of p \<subseteq>\<^sub>m map_of (held r))"
begin

lemma is_well_made: "well_made c held good"
  unfolding well_made_def by (intro allI) (auto dest: again takes_id sends_back split: sum.splits)

end

text \<open>A payload that is built step by step holds only what a map \<open>h\<close> holds when each step puts in what \<open>h\<close> has.\<close>

named_theorems only_held \<open>rules for payloads that hold only what the server holds\<close>

lemma only_held_nil [only_held]: "map_of ([] :: payload) \<subseteq>\<^sub>m h"
  by simp

lemma only_held_cons [only_held]: "h k = Some v \<Longrightarrow> map_of p \<subseteq>\<^sub>m h \<Longrightarrow> map_of ((k, v) # p) \<subseteq>\<^sub>m h"
  by (auto simp: map_le_def)

lemma only_held_put [only_held]:
  "h k = Some v \<Longrightarrow> map_of p \<subseteq>\<^sub>m h \<Longrightarrow> map_of (put k v p) \<subseteq>\<^sub>m h"
  "h k = Some v \<Longrightarrow> f \<subseteq>\<^sub>m h \<Longrightarrow> f(k \<mapsto> v) \<subseteq>\<^sub>m h"
  by (auto simp: map_le_def)

lemma only_held_when [only_held]: "(c \<Longrightarrow> h k = Some v) \<Longrightarrow> map_of p \<subseteq>\<^sub>m h \<Longrightarrow> map_of (put_when c k v p) \<subseteq>\<^sub>m h"
  by (auto simp: map_le_def map_of_put_when)

lemma only_held_typed [only_held]:
  "(is_set s \<Longrightarrow> h k = Some (GStr (value_string s))) \<Longrightarrow> map_of p \<subseteq>\<^sub>m h \<Longrightarrow> map_of (put_str k s p) \<subseteq>\<^sub>m h"
  "(is_set i \<Longrightarrow> h k = Some (GInt (value_int64 i))) \<Longrightarrow> map_of p \<subseteq>\<^sub>m h \<Longrightarrow> map_of (put_int64 k i p) \<subseteq>\<^sub>m h"
  "(is_set b \<Longrightarrow> h k = Some (GBool (value_bool b))) \<Longrightarrow> map_of p \<subseteq>\<^sub>m h \<Longrightarrow> map_of (put_bool k b p) \<subseteq>\<^sub>m h"
  by (auto simp: put_str_def put_int64_def put_bool_def intro: only_held_when)

lemma well_made_stored:
  assumes "well_made c held good" and "crud_store c r m = Stored i m1"
  shows "crud_store c r m1 = Stored i m1 \<and> cr_id c m1 = Known (cr_answer_id c r) \<and> i = itoa (cr_answer_id c r)"
proof -
  from assms(2) have x: "cr_refresh c r m = Inr m1" by (auto simp: crud_store_def split: sum.splits)
  from assms(1) have "case cr_refresh c r m of Inl d \<Rightarrow> True
    | Inr m1 \<Rightarrow> cr_refresh c r m1 = Inr m1 \<and> cr_id c m1 = Known (cr_answer_id c r) \<and>
        (good r \<longrightarrow> (case cr_payload c m1 of Inl d \<Rightarrow> False | Inr p \<Rightarrow> map_of p \<subseteq>\<^sub>m map_of (held r)))"
    unfolding well_made_def by blast
  with x assms(2) show ?thesis by (simp add: crud_store_def)
qed

section \<open>What is sent, and what an apply leaves\<close>

text \<open>The log of an operation ends with the answer that is stored.\<close>

definition last_answer :: "exchanged list \<Rightarrow> go_error + gval" where
  "last_answer l = snd (snd (last l))"

text \<open>Only a request that was refused because the device is missing is made again.\<close>

definition refused :: "(go_error \<Rightarrow> bool) \<Rightarrow> string \<Rightarrow> gval list \<Rightarrow> exchanged list \<Rightarrow> bool" where
  "refused missing m ps l \<longleftrightarrow> (\<forall>x \<in> set l. \<exists>e. x = (m, ps, Inl e) \<and> missing e)"

lemma await_device_logged:
  assumes "await_device (logged a) missing deadline m ps s = Some (r, s1)"
  shows "\<exists>t. snd s1 = snd s @ t @ [(m, ps, r)] \<and> refused missing m ps t"
proof -
  define P where "P = (\<lambda>(a' :: ('a \<times> exchanged list) api) miss (d :: duration) m ps (s0 :: 'a \<times> exchanged list)
      (x :: (go_error + gval) \<times> 'a \<times> exchanged list). a' = logged a \<longrightarrow>
      (\<exists>t. snd (snd x) = snd s0 @ t @ [(m, ps, fst x)] \<and> refused miss m ps t))"
  have "P a' miss d m ps s0 x" if "await_device a' miss d m ps s0 = Some x" for a' miss d m ps s0 x
  proof (rule await_device.raw_induct [OF _ that, where P = P])
    fix loop a' miss d m ps s0 x
    assume IH: "\<And>a' miss d m ps s0 x. loop a' miss d m ps s0 = Some x \<Longrightarrow> P a' miss d m ps s0 x"
      and run: "(case api_call a' m ps s0 of
          (Inl e, w1) \<Rightarrow> (if \<not> miss e then Some (Inl e, w1)
            else (case api_now a' w1 of (now, w2) \<Rightarrow>
              if d < now then Some (Inl e, w2)
              else (case api_pause a' device_wait_interval w2 of
                  (None, w3) \<Rightarrow> loop a' miss d m ps w3 | (Some _, w3) \<Rightarrow> Some (Inl e, w3))))
        | (Inr v, w1) \<Rightarrow> Some (Inr v, w1)) = Some x"
    show "P a' miss d m ps s0 x"
      unfolding P_def
    proof
      assume a': "a' = logged a"
      show "\<exists>t. snd (snd x) = snd s0 @ t @ [(m, ps, fst x)] \<and> refused miss m ps t"
      proof (cases "\<exists>e w3. miss e \<and> loop (logged a) miss d m ps w3 = Some x \<and> snd w3 = snd s0 @ [(m, ps, Inl e)]")
        case True
        then obtain e w3 where e: "miss e" "loop (logged a) miss d m ps w3 = Some x" "snd w3 = snd s0 @ [(m, ps, Inl e)]"
          by blast
        from IH [OF e(2)] obtain t where "snd (snd x) = snd w3 @ t @ [(m, ps, fst x)]" "refused miss m ps t"
          by (auto simp: P_def)
        with e show ?thesis by (intro exI [of _ "(m, ps, Inl e) # t"]) (auto simp: refused_def)
      next
        case False
        with run a' have "snd (snd x) = snd s0 @ [(m, ps, fst x)]"
          by (auto simp: noting_def split: sum.splits prod.splits if_splits option.splits)
        then show ?thesis by (intro exI [of _ "[]"]) (simp add: refused_def)
      qed
    qed
  qed
  from this [OF assms] show ?thesis by (simp add: P_def)
qed

lemma await_device_returns:
  assumes t: "time_passes a"
  shows "await_device a missing deadline m ps w \<noteq> None"
proof (induction "nat (deadline + 1 - clock a w)" arbitrary: w rule: less_induct)
  case less
  obtain r w1 where r: "api_call a m ps w = (r, w1)" by fastforce
  obtain now w2 where n: "api_now a w1 = (now, w2)" by fastforce
  obtain p w3 where p: "api_pause a device_wait_interval w2 = (p, w3)" by fastforce
  have c: "clock a w \<le> clock a w1" using t r unfolding time_passes_def by (metis snd_conv)
  have n': "now = clock a w1" using n by (simp add: clock_def)
  have c2: "clock a w1 \<le> clock a w2" using t n unfolding time_passes_def by (metis snd_conv)
  have c3: "clock a w2 + device_wait_interval \<le> clock a w3" if "p = None"
    using t p that unfolding time_passes_def by blast
  show ?case
  proof (cases "p = None \<and> \<not> deadline < now")
    case True
    then have "nat (deadline + 1 - clock a w3) < nat (deadline + 1 - clock a w)"
      using c c2 c3 n' by (simp add: device_wait_interval_def second_def)
    from less [OF this] show ?thesis
      by (subst await_device.simps) (simp add: r n p True split: sum.split)
  next
    case False
    then show ?thesis
      by (subst await_device.simps) (auto simp: r n p split: sum.split option.split)
  qed
qed

lemma send_change_logged:
  assumes "send_change (logged a) how m ps s = Some (r, s1)"
  shows "\<exists>t. snd s1 = snd s @ t @ [(m, ps, r)] \<and>
     (case how of By_waiting missing \<Rightarrow> refused missing m ps t | _ \<Rightarrow> t = [])"
  using assms
  by (auto simp: send_change_def call_waiting_for_device_def quietly_def split: sending.splits prod.splits
      dest!: await_device_logged)

lemma send_change_returns:
  assumes "time_passes a"
  shows "\<exists>r w1. send_change a how m ps w = Some (r, w1)"
proof (cases how)
  case By_job
  with assms show ?thesis unfolding time_passes_def by (force simp: send_change_def)
next
  case (By_waiting missing)
  with await_device_returns [OF assms, of missing] show ?thesis
    by (auto simp: send_change_def call_waiting_for_device_def split: prod.splits)
qed (auto simp: send_change_def)

lemma settle_logged:
  assumes "crud_settle (logged a) c i texts plan s = (Stored k m, s1)"
  shows "\<exists>r raw. last_answer (snd s1) = Inr raw \<and> cr_decode c raw = Some r \<and> crud_store c r plan = Stored k m"
  using assms by (auto simp: crud_settle_def crud_instance_def last_answer_def split: sum.splits prod.splits option.splits)

lemma create_logged:
  assumes "crud_create (logged a) c plan s = Some (Stored k m, s1)"
  shows "\<exists>r raw. last_answer (snd s1) = Inr raw \<and> cr_decode c raw = Some r \<and> crud_store c r plan = Stored k m"
  using assms
  by (auto simp: crud_create_def fail_err_def parse_failure_def last_answer_def
      split: sum.splits prod.splits option.splits if_splits
      dest!: send_change_logged dest: settle_logged [unfolded last_answer_def])

lemma update_logged:
  assumes "crud_update (logged a) c plan st s = Some (Stored k m, s1)"
  shows "\<exists>r raw. last_answer (snd s1) = Inr raw \<and> cr_decode c raw = Some r \<and> crud_store c r plan = Stored k m"
  using assms
  by (auto simp: crud_update_def Let_def fail_err_def parse_failure_def last_answer_def
      split: sum.splits prod.splits option.splits if_splits
      dest!: send_change_logged dest: settle_logged [unfolded last_answer_def])

text \<open>C35. An apply leaves no drift. What a create or an update of a well-made resource stored is what the server answered
  last; a refresh that gets the same answer stores the very same, under the id the server gave.\<close>

theorem apply_leaves_no_drift:
  assumes "well_made c held good"
    and "crud_create (logged a) c plan (w, []) = Some (Stored k m, s1) \<or>
         crud_update (logged a) c plan st (w, []) = Some (Stored k m, s1)"
    and "api_read b (cr_service c @ ''.get_instance'') [GInt (value_int64 (cr_id c m))] v = (last_answer (snd s1), v1)"
  shows "crud_read b c m v = (Stored k m, v1) \<and> k = itoa (value_int64 (cr_id c m))"
proof -
  from assms(2) obtain r raw where r: "last_answer (snd s1) = Inr raw" "cr_decode c raw = Some r" "crud_store c r plan = Stored k m"
    by (blast dest: create_logged update_logged)
  from well_made_stored [OF assms(1) r(3)] assms(3) r show ?thesis
    by (simp add: crud_read_def)
qed

text \<open>What an operation does when the server refuses it or does not have the object: only a missing object is
  forgotten by a read, and a delete of a missing object is done.\<close>

lemma read_removes:
  "crud_read a c st w = (Removed, w1) \<longleftrightarrow>
   (\<exists>e. api_read a (cr_service c @ ''.get_instance'') [GInt (value_int64 (cr_id c st))] w = (Inl e, w1) \<and> is_not_found e)"
  by (auto simp: crud_read_def crud_store_def fail_err_def parse_failure_def split: sum.splits prod.splits option.splits if_splits)

end
