(* ===== verification/Directory.thy ===== *)
theory Directory
  imports Crud
begin

text \<open>
  Kerberos realms and privileges: src/internal/resources/kerberos_realm and privilege. Models, server
  objects and mappings (model.go), the record for the shared methods (resource.go), data sources and rows.
\<close>

section \<open>Lists that may not convert\<close>

definition errors_of :: "diagnostic + 'a \<Rightarrow> diagnostic list" where
  "errors_of x = (case x of Inl d \<Rightarrow> [d] | Inr _ \<Rightarrow> [])"

definition got :: "diagnostic + 'a list \<Rightarrow> 'a list" where
  "got x = (case x of Inl _ \<Rightarrow> [] | Inr xs \<Rightarrow> xs)"

lemma errors_got_simps [simp]: "errors_of (Inr x) = []" "got (Inr xs) = xs" "errors_of (Inl d) = [d]" "got (Inl d) = []"
  by (simp_all add: errors_of_def got_def)

section \<open>Kerberos realms\<close>

record realm_model =
  kr_id :: "int tf"
  kr_realm :: "string tf"
  kr_primary_kdc :: "string tf"
  kr_kdc :: "string tf list tf"
  kr_admin_server :: "string tf list tf"
  kr_kpasswd_server :: "string tf list tf"

record realm_response =
  ka_id :: int
  ka_realm :: string
  ka_primary_kdc :: "string option"
  ka_kdc :: "string list"
  ka_admin_server :: "string list"
  ka_kpasswd_server :: "string list"

definition decode_realm :: "gval \<Rightarrow> realm_response option" where
  "decode_realm v = do {
     m \<leftarrow> as_object v;
     i \<leftarrow> as_int64 (field m ''id'');
     realm \<leftarrow> as_string (field m ''realm'');
     pk \<leftarrow> as_ptr as_string (field m ''primary_kdc'');
     kdc \<leftarrow> as_list as_string (field m ''kdc'');
     adm \<leftarrow> as_list as_string (field m ''admin_server'');
     pw \<leftarrow> as_list as_string (field m ''kpasswd_server'');
     Some \<lparr>ka_id = i, ka_realm = realm, ka_primary_kdc = pk, ka_kdc = kdc, ka_admin_server = adm, ka_kpasswd_server = pw\<rparr> }"

definition nullable_string_value :: "string option \<Rightarrow> string tf" where
  "nullable_string_value v = (case v of None \<Rightarrow> TfNull | Some s \<Rightarrow> Known s)"

definition realm_to_model :: "realm_response \<Rightarrow> realm_model \<Rightarrow> diagnostic + realm_model" where
  "realm_to_model r m = Inr (m\<lparr>kr_id := Known (ka_id r), kr_realm := Known (ka_realm r),
     kr_primary_kdc := nullable_string_value (ka_primary_kdc r), kr_kdc := known_list (ka_kdc r),
     kr_admin_server := known_list (ka_admin_server r), kr_kpasswd_server := known_list (ka_kpasswd_server r)\<rparr>)"

definition put_strings :: "string \<Rightarrow> string tf list tf \<Rightarrow> payload \<Rightarrow> payload" where
  "put_strings k l = put_when (is_set l) k (GArr (map GStr (got (set_elements l))))"

definition realm_payload :: "realm_model \<Rightarrow> diagnostic list + payload" where
  "realm_payload m =
     (let ds = concat (map (\<lambda>l. errors_of (set_elements l)) [kr_kdc m, kr_admin_server m, kr_kpasswd_server m])
      in if ds \<noteq> [] then Inl ds
         else Inr (put_strings ''kpasswd_server'' (kr_kpasswd_server m) (put_strings ''admin_server'' (kr_admin_server m)
           (put_strings ''kdc'' (kr_kdc m)
             [(''realm'', GStr (value_string (kr_realm m))),
              (''primary_kdc'', if is_set (kr_primary_kdc m) then GStr (value_string (kr_primary_kdc m)) else GNil)]))))"

definition kerberos_realm :: "(realm_model, realm_response) crud" where
  "kerberos_realm = \<lparr>cr_service = ''kerberos.realm'', cr_label = ''Kerberos realm'', cr_change = By_call, cr_remove = By_call,
     cr_reads_back = no_read_back, cr_plan_id = False, cr_payload = realm_payload, cr_decode = decode_realm, cr_answer_id = ka_id,
     cr_refresh = realm_to_model, cr_id = kr_id, cr_null = \<lparr>kr_id = TfNull, kr_realm = TfNull, kr_primary_kdc = TfNull,
       kr_kdc = TfNull, kr_admin_server = TfNull, kr_kpasswd_server = TfNull\<rparr>\<rparr>"

definition realm_create :: "'w api \<Rightarrow> realm_model \<Rightarrow> 'w \<Rightarrow> (realm_model outcome \<times> 'w) option" where
  "realm_create a = crud_create a kerberos_realm"

definition realm_read :: "'w api \<Rightarrow> realm_model \<Rightarrow> 'w \<Rightarrow> realm_model outcome \<times> 'w" where
  "realm_read a = crud_read a kerberos_realm"

definition realm_update :: "'w api \<Rightarrow> realm_model \<Rightarrow> realm_model \<Rightarrow> 'w \<Rightarrow> (realm_model outcome \<times> 'w) option" where
  "realm_update a = crud_update a kerberos_realm"

definition realm_delete :: "'w api \<Rightarrow> realm_model \<Rightarrow> 'w \<Rightarrow> (diagnostic list \<times> 'w) option" where
  "realm_delete a = crud_delete a kerberos_realm"

definition realm_import :: "'w api \<Rightarrow> int import_req \<Rightarrow> 'w \<Rightarrow> realm_model outcome \<times> 'w" where
  "realm_import a = crud_import a kerberos_realm"

definition realm_data_source :: "'w api \<Rightarrow> realm_model \<Rightarrow> 'w \<Rightarrow> (diagnostic list + realm_model) \<times> 'w" where
  "realm_data_source a cfg = (let realm = value_string (kr_realm cfg) in
     crud_lookup a kerberos_realm ''Query Kerberos realms failed'' [equal_filter ''realm'' (GStr realm)]
       (''Kerberos realm not found'', ''no Kerberos realm found with name '' @ quoted realm) (\<lambda>n. None) cfg)"

definition realm_row :: "bool \<Rightarrow> gval \<Rightarrow> diagnostic list + (string \<times> string \<times> realm_model option)" where
  "realm_row = crud_row kerberos_realm ''Kerberos realm'' ka_realm"

definition realm_held :: "realm_response \<Rightarrow> gval gomap" where
  "realm_held r = [(''realm'', GStr (ka_realm r)), (''primary_kdc'', case ka_primary_kdc r of None \<Rightarrow> GNil | Some s \<Rightarrow> GStr s),
     (''kdc'', GArr (map GStr (ka_kdc r))), (''admin_server'', GArr (map GStr (ka_admin_server r))),
     (''kpasswd_server'', GArr (map GStr (ka_kpasswd_server r)))]"

interpretation realm: plain_resource kerberos_realm realm_held "\<lambda>r. True"
  by unfold_locales
    (auto simp: kerberos_realm_def realm_to_model_def realm_payload_def realm_held_def put_strings_def nullable_string_value_def
      split: option.splits intro!: only_held)

section \<open>Privileges\<close>

record privilege_model =
  pm_id :: "int tf"
  pm_name :: "string tf"
  pm_local_groups :: "int tf list tf"
  pm_ds_groups :: "int tf list tf"
  pm_roles :: "string tf list tf"
  pm_web_shell :: "bool tf"
  pm_builtin_name :: "string tf"

text \<open>Groups come as objects with a gid and are sent as plain gids; they are kept undecoded until the model is built.\<close>

record privilege_response =
  pv_id :: int
  pv_builtin_name :: "string option"
  pv_name :: string
  pv_local_groups :: gval
  pv_ds_groups :: gval
  pv_roles :: "string list"
  pv_web_shell :: bool

definition decode_privilege :: "gval \<Rightarrow> privilege_response option" where
  "decode_privilege v = do {
     m \<leftarrow> as_object v;
     i \<leftarrow> as_int64 (field m ''id'');
     bn \<leftarrow> as_ptr as_string (field m ''builtin_name'');
     name \<leftarrow> as_string (field m ''name'');
     roles \<leftarrow> as_list as_string (field m ''roles'');
     ws \<leftarrow> as_bool (field m ''web_shell'');
     Some \<lparr>pv_id = i, pv_builtin_name = bn, pv_name = name, pv_local_groups = field m ''local_groups'',
       pv_ds_groups = field m ''ds_groups'', pv_roles = roles, pv_web_shell = ws\<rparr> }"

text \<open>A group without a gid is left out: it no longer exists on the server.\<close>

definition group_refs_to_gids :: "gval \<Rightarrow> int list option" where
  "group_refs_to_gids v = map_option (\<lambda>gs. concat (map (\<lambda>g. case g of None \<Rightarrow> [] | Some i \<Rightarrow> [i]) gs))
     (as_list (\<lambda>g. do { m \<leftarrow> as_object g; as_ptr as_int64 (field m ''gid'') }) v)"

definition privilege_to_model :: "privilege_response \<Rightarrow> privilege_model \<Rightarrow> diagnostic + privilege_model" where
  "privilege_to_model r m = (case group_refs_to_gids (pv_local_groups r) of
      None \<Rightarrow> Inl (''Invalid local_groups in API response'', err_text decode_error)
    | Some ls \<Rightarrow> (case group_refs_to_gids (pv_ds_groups r) of
          None \<Rightarrow> Inl (''Invalid ds_groups in API response'', err_text decode_error)
        | Some ds \<Rightarrow> Inr (m\<lparr>pm_id := Known (pv_id r), pm_name := Known (pv_name r), pm_local_groups := known_list ls,
            pm_ds_groups := known_list ds, pm_roles := known_list (pv_roles r), pm_web_shell := Known (pv_web_shell r),
            pm_builtin_name := nullable_string_value (pv_builtin_name r)\<rparr>)))"

definition privilege_payload :: "privilege_model \<Rightarrow> diagnostic list + payload" where
  "privilege_payload m =
     (let ls = set_elements (pm_local_groups m); dg = set_elements (pm_ds_groups m); rs = set_elements (pm_roles m);
          ds = errors_of ls @ errors_of dg @ errors_of rs
      in if ds \<noteq> [] then Inl ds
         else Inr [(''name'', GStr (value_string (pm_name m))), (''local_groups'', GArr (map GInt (got ls))),
           (''ds_groups'', GArr (map GInt (got dg))), (''roles'', GArr (map GStr (got rs))),
           (''web_shell'', GBool (value_bool (pm_web_shell m)))])"

definition privilege :: "(privilege_model, privilege_response) crud" where
  "privilege = \<lparr>cr_service = ''privilege'', cr_label = ''privilege'', cr_change = By_call, cr_remove = By_call,
     cr_reads_back = no_read_back, cr_plan_id = False, cr_payload = privilege_payload, cr_decode = decode_privilege, cr_answer_id = pv_id,
     cr_refresh = privilege_to_model, cr_id = pm_id, cr_null = \<lparr>pm_id = TfNull, pm_name = TfNull, pm_local_groups = TfNull,
       pm_ds_groups = TfNull, pm_roles = TfNull, pm_web_shell = TfNull, pm_builtin_name = TfNull\<rparr>\<rparr>"

definition privilege_create :: "'w api \<Rightarrow> privilege_model \<Rightarrow> 'w \<Rightarrow> (privilege_model outcome \<times> 'w) option" where
  "privilege_create a = crud_create a privilege"

definition privilege_read :: "'w api \<Rightarrow> privilege_model \<Rightarrow> 'w \<Rightarrow> privilege_model outcome \<times> 'w" where
  "privilege_read a = crud_read a privilege"

definition privilege_update :: "'w api \<Rightarrow> privilege_model \<Rightarrow> privilege_model \<Rightarrow> 'w \<Rightarrow> (privilege_model outcome \<times> 'w) option" where
  "privilege_update a = crud_update a privilege"

definition privilege_delete :: "'w api \<Rightarrow> privilege_model \<Rightarrow> 'w \<Rightarrow> (diagnostic list \<times> 'w) option" where
  "privilege_delete a = crud_delete a privilege"

definition privilege_import :: "'w api \<Rightarrow> int import_req \<Rightarrow> 'w \<Rightarrow> privilege_model outcome \<times> 'w" where
  "privilege_import a = crud_import a privilege"

definition privilege_data_source :: "'w api \<Rightarrow> privilege_model \<Rightarrow> 'w \<Rightarrow> (diagnostic list + privilege_model) \<times> 'w" where
  "privilege_data_source a cfg = (let name = value_string (pm_name cfg) in
     crud_lookup a privilege ''Query privileges failed'' [equal_filter ''name'' (GStr name)]
       (''Privilege not found'', ''no privilege found with name '' @ quoted name) (\<lambda>n. None) cfg)"

definition privilege_row :: "bool \<Rightarrow> gval \<Rightarrow> diagnostic list + (string \<times> string \<times> privilege_model option)" where
  "privilege_row = crud_row privilege ''privilege'' pv_name"

definition gids_held :: "gval \<Rightarrow> gval" where
  "gids_held v = (case group_refs_to_gids v of None \<Rightarrow> GNil | Some is \<Rightarrow> GArr (map GInt is))"

definition privilege_held :: "privilege_response \<Rightarrow> gval gomap" where
  "privilege_held r = [(''name'', GStr (pv_name r)), (''local_groups'', gids_held (pv_local_groups r)),
     (''ds_groups'', gids_held (pv_ds_groups r)), (''roles'', GArr (map GStr (pv_roles r))), (''web_shell'', GBool (pv_web_shell r))]"

interpretation priv: plain_resource privilege privilege_held "\<lambda>r. True"
  by unfold_locales
    (auto simp: privilege_def privilege_to_model_def privilege_payload_def privilege_held_def gids_held_def Let_def
      split: option.splits intro!: only_held)

end
