(* ===== verification/Iscsi.thy ===== *)
theory Iscsi
  imports Crud "HOL-Library.Multiset"
begin

text \<open>
  The iSCSI objects of src/internal/resources/iscsi_initiator, iscsi_portal, iscsi_target and
  iscsi_targetextent: models, server objects and mappings (model.go), the record for the shared methods (resource.go),
  data sources and rows. The addresses of a portal keep the order of the configuration (\<open>orderListen\<close>).
\<close>

section \<open>Initiators\<close>

record initiator_model =
  in_id :: "int tf"
  in_comment :: "string tf"
  in_initiators :: "string tf list tf"

record initiator_response =
  na_id :: int
  na_comment :: string
  na_initiators :: "string list"

definition decode_initiator :: "gval \<Rightarrow> initiator_response option" where
  "decode_initiator v = do {
     m \<leftarrow> as_object v;
     i \<leftarrow> as_int64 (field m ''id'');
     com \<leftarrow> as_string (field m ''comment'');
     inits \<leftarrow> as_list as_string (field m ''initiators'');
     Some \<lparr>na_id = i, na_comment = com, na_initiators = inits\<rparr> }"

definition initiator_to_model :: "initiator_response \<Rightarrow> initiator_model \<Rightarrow> diagnostic + initiator_model" where
  "initiator_to_model r m =
     Inr (m\<lparr>in_id := Known (na_id r), in_comment := Known (na_comment r), in_initiators := known_list (na_initiators r)\<rparr>)"

text \<open>Both attributes are sent unless unknown: null stands for the empty text and the empty list.\<close>

definition initiator_payload :: "initiator_model \<Rightarrow> diagnostic list + payload" where
  "initiator_payload m = (case set_elements (in_initiators m) of
      Inl d \<Rightarrow> Inl [d]
    | Inr xs \<Rightarrow> Inr (put_when (\<not> is_unknown (in_initiators m)) ''initiators'' (GArr (map GStr xs))
        (put_when (\<not> is_unknown (in_comment m)) ''comment'' (GStr (value_string (in_comment m))) [])))"

definition iscsi_initiator :: "(initiator_model, initiator_response) crud" where
  "iscsi_initiator = \<lparr>cr_service = ''iscsi.initiator'', cr_label = ''iSCSI initiator'', cr_change = By_call, cr_remove = By_job,
     cr_reads_back = standard_read_back, cr_plan_id = False, cr_payload = initiator_payload, cr_decode = decode_initiator,
     cr_answer_id = na_id, cr_refresh = initiator_to_model, cr_id = in_id,
     cr_null = \<lparr>in_id = TfNull, in_comment = TfNull, in_initiators = TfNull\<rparr>\<rparr>"

definition initiator_create :: "'w api \<Rightarrow> initiator_model \<Rightarrow> 'w \<Rightarrow> (initiator_model outcome \<times> 'w) option" where
  "initiator_create a = crud_create a iscsi_initiator"

definition initiator_read :: "'w api \<Rightarrow> initiator_model \<Rightarrow> 'w \<Rightarrow> initiator_model outcome \<times> 'w" where
  "initiator_read a = crud_read a iscsi_initiator"

definition initiator_update :: "'w api \<Rightarrow> initiator_model \<Rightarrow> initiator_model \<Rightarrow> 'w \<Rightarrow> (initiator_model outcome \<times> 'w) option" where
  "initiator_update a = crud_update a iscsi_initiator"

definition initiator_delete :: "'w api \<Rightarrow> initiator_model \<Rightarrow> 'w \<Rightarrow> (diagnostic list \<times> 'w) option" where
  "initiator_delete a = crud_delete a iscsi_initiator"

definition initiator_import :: "'w api \<Rightarrow> int import_req \<Rightarrow> 'w \<Rightarrow> initiator_model outcome \<times> 'w" where
  "initiator_import a = crud_import a iscsi_initiator"

definition initiator_data_source :: "'w api \<Rightarrow> initiator_model \<Rightarrow> 'w \<Rightarrow> (diagnostic list + initiator_model) \<times> 'w" where
  "initiator_data_source a cfg = (let i = value_int64 (in_id cfg) in
     crud_lookup a iscsi_initiator ''Query iSCSI initiators failed'' [equal_filter ''id'' (GInt i)]
       (''iSCSI initiator not found'', ''No iSCSI initiator with ID '' @ itoa i @ '' was found.'') (\<lambda>n. None) cfg)"

definition initiator_row :: "bool \<Rightarrow> gval \<Rightarrow> diagnostic list + (string \<times> string \<times> initiator_model option)" where
  "initiator_row = crud_row iscsi_initiator ''iSCSI initiator'' na_comment"

definition initiator_held :: "initiator_response \<Rightarrow> gval gomap" where
  "initiator_held r = [(''comment'', GStr (na_comment r)), (''initiators'', GArr (map GStr (na_initiators r)))]"

interpretation initiator: plain_resource iscsi_initiator initiator_held "\<lambda>r. True"
  by unfold_locales
    (auto simp: iscsi_initiator_def initiator_to_model_def initiator_payload_def initiator_held_def intro!: only_held)

section \<open>The order of a portal's addresses\<close>

record listen_response =
  li_ip :: string
  li_port :: int

text \<open>The inner loop of \<open>orderListen\<close>: the first address not used yet that has the wanted text. \<open>used\<close> holds the
  positions taken so far, last first.\<close>

definition find_listen :: "listen_response list \<Rightarrow> nat list \<Rightarrow> string \<Rightarrow> nat option" where
  "find_listen api used ip = find (\<lambda>i. i \<notin> set used \<and> li_ip (api ! i) = ip) [0..<length api]"

fun order_loop :: "listen_response list \<Rightarrow> nat list \<Rightarrow> string list \<Rightarrow> nat list option" where
  "order_loop api used [] = Some (rev used)"
| "order_loop api used (ip # want) = (case find_listen api used ip of
      None \<Rightarrow> None | Some i \<Rightarrow> order_loop api (i # used) want)"

definition order_listen :: "listen_response list \<Rightarrow> string list \<Rightarrow> listen_response list" where
  "order_listen api want =
     (if length want \<noteq> length api \<or> api = [] then api
      else (case order_loop api [] want of None \<Rightarrow> api | Some out \<Rightarrow> map (\<lambda>i. api ! i) out))"

lemma find_listen_Some:
  "find_listen api used ip = Some i \<Longrightarrow> i < length api \<and> i \<notin> set used \<and> li_ip (api ! i) = ip"
  by (auto simp: find_listen_def find_Some_iff)

lemma find_listen_None:
  "find_listen api used ip = None \<Longrightarrow> i < length api \<Longrightarrow> i \<notin> set used \<Longrightarrow> li_ip (api ! i) \<noteq> ip"
  by (auto simp: find_listen_def find_None_iff)

text \<open>What the loop returns are distinct positions with the wanted texts, in the wanted order.\<close>

lemma order_loop_Some:
  assumes "order_loop api used want = Some out" and "distinct used" and "set used \<subseteq> {..<length api}"
  shows "distinct out \<and> set out \<subseteq> {..<length api} \<and>
    map (\<lambda>i. li_ip (api ! i)) out = map (\<lambda>i. li_ip (api ! i)) (rev used) @ want"
  using assms
proof (induction want arbitrary: used)
  case (Cons ip want)
  then obtain i where i: "find_listen api used ip = Some i" "order_loop api (i # used) want = Some out"
    by (auto split: option.splits)
  from find_listen_Some [OF i(1)] Cons.IH [OF i(2)] Cons.prems(2,3) show ?case by auto
qed auto

text \<open>The loop succeeds when the wanted texts are, with their multiplicities, those of the unused addresses.\<close>

definition unused :: "listen_response list \<Rightarrow> nat list \<Rightarrow> string multiset" where
  "unused api used = image_mset (\<lambda>i. li_ip (api ! i)) (mset_set ({..<length api} - set used))"

lemma order_loop_finds:
  assumes "mset want \<subseteq># unused api used"
  shows "order_loop api used want \<noteq> None"
  using assms
proof (induction want arbitrary: used)
  case (Cons ip want)
  have "ip \<in># unused api used" using Cons.prems by (simp add: insert_subset_eq_iff)
  then obtain j where j: "j < length api" "j \<notin> set used" "li_ip (api ! j) = ip"
    by (auto simp: unused_def)
  then obtain i where i: "find_listen api used ip = Some i"
    using find_listen_None by (cases "find_listen api used ip") blast+
  let ?S = "{..<length api} - set used"
  have s: "i \<in> ?S" "li_ip (api ! i) = ip" using find_listen_Some [OF i] by auto
  have "{..<length api} - set (i # used) = ?S - {i}" by auto
  then have "unused api used = add_mset ip (unused api (i # used))"
    using s mset_set.remove [of ?S i] by (simp add: unused_def)
  with Cons.prems have "mset want \<subseteq># unused api (i # used)" by simp
  from Cons.IH [OF this] i show ?case by simp
qed simp

lemma nth_mset: "image_mset (\<lambda>i. f (xs ! i)) (mset_set {..<length xs}) = mset (map f xs)"
proof -
  have "image_mset (\<lambda>i. f (xs ! i)) (mset_set {..<length xs}) = mset (map (\<lambda>i. f (xs ! i)) [0..<length xs])"
    by (simp add: mset_map atLeast0LessThan)
  also have "map (\<lambda>i. f (xs ! i)) [0..<length xs] = map f xs"
    by (rule nth_equalityI) simp_all
  finally show ?thesis .
qed

lemma positions_permute:
  assumes "distinct out" and "set out \<subseteq> {..<length api}" and "length out = length api"
  shows "mset (map (\<lambda>i. api ! i) out) = mset api"
proof -
  have "set out = {..<length api}"
    using assms distinct_card [of out] by (metis card_lessThan card_subset_eq finite_lessThan)
  then have "mset out = mset_set {..<length api}" using assms(1) mset_set_set by metis
  then show ?thesis using nth_mset [of "\<lambda>x. x" api] by (simp add: mset_map)
qed

lemma order_listen_cases:
  "(mset want = mset (map li_ip api) \<and> map li_ip (order_listen api want) = want \<and> mset (order_listen api want) = mset api) \<or>
   (mset want \<noteq> mset (map li_ip api) \<and> order_listen api want = api)"
proof (cases "length want \<noteq> length api \<or> api = []")
  case True
  then have "order_listen api want = api" by (simp add: order_listen_def)
  with True show ?thesis by (cases "api = []") (auto dest!: arg_cong [of "mset want" _ size])
next
  case False
  show ?thesis
  proof (cases "order_loop api [] want")
    case None
    have "mset want \<noteq> mset (map li_ip api)"
      using order_loop_finds [of want api "[]"] None by (auto simp: unused_def nth_mset [of li_ip])
    with False None show ?thesis by (simp add: order_listen_def)
  next
    case (Some out)
    have o: "distinct out" "set out \<subseteq> {..<length api}" "map (\<lambda>i. li_ip (api ! i)) out = want"
      using order_loop_Some [OF Some] by auto
    then have "length out = length api" using False by (metis length_map)
    from positions_permute [OF o(1,2) this]
    have m: "mset (map (\<lambda>i. api ! i) out) = mset api" .
    have e: "order_listen api want = map (\<lambda>i. api ! i) out" using False Some by (simp add: order_listen_def)
    have w: "map li_ip (order_listen api want) = want" using o(3) by (simp add: e comp_def)
    have "mset (map li_ip (order_listen api want)) = image_mset li_ip (mset api)"
      using m by (simp only: e mset_map)
    with m w show ?thesis by (simp add: e)
  qed
qed

text \<open>C36. The addresses of a portal are never lost nor invented by the reordering, and they come back in the order of
  the configuration exactly when the server holds the same addresses, whatever order it stored them in.\<close>

theorem portal_keeps_order:
  "mset (order_listen api want) = mset api \<and>
   (map li_ip (order_listen api want) = want) = (mset want = mset (map li_ip api))"
  using order_listen_cases [of want api] by auto

text \<open>Ordering what is in order already changes nothing.\<close>

lemma order_loop_same:
  assumes "k \<le> length api" and "used = rev [0..<k]"
  shows "order_loop api used (map li_ip (drop k api)) = Some [0..<length api]"
  using assms
proof (induction "length api - k" arbitrary: k used)
  case 0
  then show ?case by simp
next
  case (Suc n)
  then have k: "k < length api" by simp
  have f: "find_listen api used (li_ip (api ! k)) = Some k"
    using Suc.prems k by (auto simp: find_listen_def find_Some_iff intro!: exI [of _ k])
  have "order_loop api (k # used) (map li_ip (drop (Suc k) api)) = Some [0..<length api]"
    using Suc.hyps(1) [of "Suc k"] Suc.hyps(2) Suc.prems k by simp
  with f k show ?case by (simp add: Cons_nth_drop_Suc [symmetric])
qed

lemma order_listen_same: "order_listen api (map li_ip api) = api"
  using order_loop_same [of 0 api "[]"] by (simp add: order_listen_def map_nth)

lemma order_listen_again: "order_listen api (map li_ip (order_listen api want)) = order_listen api want"
  using order_listen_cases [of want api] order_listen_same [of api] by auto

section \<open>Portals\<close>

record listen =
  lm_ip :: "string tf"
  lm_port :: "int tf"

record portal_model =
  po_id :: "int tf"
  po_comment :: "string tf"
  po_listen :: "listen tf list tf"
  po_tag :: "int tf"

record portal_response =
  qa_id :: int
  qa_comment :: string
  qa_listen :: "listen_response list"
  qa_tag :: int

definition decode_listen :: "gval \<Rightarrow> listen_response option" where
  "decode_listen v = do {
     m \<leftarrow> as_object v;
     ip \<leftarrow> as_string (field m ''ip'');
     port \<leftarrow> as_int64 (field m ''port'');
     Some \<lparr>li_ip = ip, li_port = port\<rparr> }"

definition decode_portal :: "gval \<Rightarrow> portal_response option" where
  "decode_portal v = do {
     m \<leftarrow> as_object v;
     i \<leftarrow> as_int64 (field m ''id'');
     com \<leftarrow> as_string (field m ''comment'');
     ls \<leftarrow> as_list decode_listen (field m ''listen'');
     tag \<leftarrow> as_int64 (field m ''tag'');
     Some \<lparr>qa_id = i, qa_comment = com, qa_listen = ls, qa_tag = tag\<rparr> }"

text \<open>The addresses a model names, none when one of them is not known.\<close>

definition model_listen_ips :: "listen tf list tf \<Rightarrow> string list" where
  "model_listen_ips l = (case set_elements l of
      Inl d \<Rightarrow> []
    | Inr items \<Rightarrow> (if list_all (\<lambda>it. is_set (lm_ip it)) items then map (\<lambda>it. value_string (lm_ip it)) items else []))"

definition portal_to_model :: "portal_response \<Rightarrow> portal_model \<Rightarrow> diagnostic + portal_model" where
  "portal_to_model r m = Inr (m\<lparr>po_id := Known (qa_id r), po_comment := Known (qa_comment r), po_tag := Known (qa_tag r),
     po_listen := known_list (map (\<lambda>l. \<lparr>lm_ip = Known (li_ip l), lm_port = Known (li_port l)\<rparr>)
       (order_listen (qa_listen r) (model_listen_ips (po_listen m))))\<rparr>)"

text \<open>Only the address of each entry is sent, the port is the server's.\<close>

definition portal_payload :: "portal_model \<Rightarrow> diagnostic list + payload" where
  "portal_payload m = (case set_elements (po_listen m) of
      Inl d \<Rightarrow> Inl [d]
    | Inr items \<Rightarrow> Inr (put_str ''comment'' (po_comment m)
        [(''listen'', GArr (map (\<lambda>l. GObj [(''ip'', GStr (value_string (lm_ip l)))]) items))]))"

definition iscsi_portal :: "(portal_model, portal_response) crud" where
  "iscsi_portal = \<lparr>cr_service = ''iscsi.portal'', cr_label = ''iSCSI portal'', cr_change = By_call, cr_remove = By_call,
     cr_reads_back = standard_read_back, cr_plan_id = False, cr_payload = portal_payload, cr_decode = decode_portal,
     cr_answer_id = qa_id, cr_refresh = portal_to_model, cr_id = po_id,
     cr_null = \<lparr>po_id = TfNull, po_comment = TfNull, po_listen = TfNull, po_tag = TfNull\<rparr>\<rparr>"

definition portal_create :: "'w api \<Rightarrow> portal_model \<Rightarrow> 'w \<Rightarrow> (portal_model outcome \<times> 'w) option" where
  "portal_create a = crud_create a iscsi_portal"

definition portal_read :: "'w api \<Rightarrow> portal_model \<Rightarrow> 'w \<Rightarrow> portal_model outcome \<times> 'w" where
  "portal_read a = crud_read a iscsi_portal"

definition portal_update :: "'w api \<Rightarrow> portal_model \<Rightarrow> portal_model \<Rightarrow> 'w \<Rightarrow> (portal_model outcome \<times> 'w) option" where
  "portal_update a = crud_update a iscsi_portal"

definition portal_delete :: "'w api \<Rightarrow> portal_model \<Rightarrow> 'w \<Rightarrow> (diagnostic list \<times> 'w) option" where
  "portal_delete a = crud_delete a iscsi_portal"

definition portal_import :: "'w api \<Rightarrow> int import_req \<Rightarrow> 'w \<Rightarrow> portal_model outcome \<times> 'w" where
  "portal_import a = crud_import a iscsi_portal"

definition portal_row :: "bool \<Rightarrow> gval \<Rightarrow> diagnostic list + (string \<times> string \<times> portal_model option)" where
  "portal_row = crud_row iscsi_portal ''iSCSI portal'' qa_comment"

lemma model_listen_known [simp]:
  "model_listen_ips (known_list (map (\<lambda>l. \<lparr>lm_ip = Known (li_ip l), lm_port = Known (li_port l)\<rparr>) ls)) = map li_ip ls"
  by (simp add: model_listen_ips_def list_all_iff comp_def)

text \<open>What an update has to say of the addresses: which they are, in any order.\<close>

definition ip_entry :: "string \<Rightarrow> gval" where
  "ip_entry ip = GObj [(''ip'', GStr ip)]"

definition sent_ips :: "payload \<Rightarrow> gval list" where
  "sent_ips p = (case map_of p ''listen'' of Some (GArr vs) \<Rightarrow> vs | _ \<Rightarrow> [])"

lemma portal_settles:
  assumes "portal_to_model r m = Inr m1"
  shows "portal_to_model r m1 = Inr m1"
  using assms by (auto simp: portal_to_model_def order_listen_again)

lemma portal_sends_back:
  assumes "portal_to_model r m = Inr m1"
  shows "\<exists>p. portal_payload m1 = Inr p \<and> map_of p ''comment'' = Some (GStr (qa_comment r)) \<and>
    mset (sent_ips p) = mset (map (ip_entry \<circ> li_ip) (qa_listen r))"
proof -
  let ?ls = "order_listen (qa_listen r) (model_listen_ips (po_listen m))"
  have "mset (map (ip_entry \<circ> li_ip) ?ls) = mset (map (ip_entry \<circ> li_ip) (qa_listen r))"
    using order_listen_cases [of "model_listen_ips (po_listen m)" "qa_listen r"] by auto
  then show ?thesis
    using assms by (auto simp: portal_to_model_def portal_payload_def sent_ips_def payload_simps ip_entry_def comp_def)
qed

text \<open>A portal keeps the contract; that it sends what the server holds entry by entry is clear where there is no order.\<close>

definition portal_held :: "portal_response \<Rightarrow> gval gomap" where
  "portal_held r = [(''comment'', GStr (qa_comment r)), (''listen'', GArr (map (ip_entry \<circ> li_ip) (qa_listen r)))]"

lemma order_listen_short: "length api \<le> 1 \<Longrightarrow> order_listen api want = api"
  using order_listen_cases [of want api] by (cases api) auto

interpretation portal: plain_resource iscsi_portal portal_held "\<lambda>r. length (qa_listen r) \<le> 1"
proof unfold_locales
  fix r m m1
  assume x: "cr_refresh iscsi_portal r m = Inr m1"
  then show "cr_refresh iscsi_portal r m1 = Inr m1" by (simp add: iscsi_portal_def portal_settles)
  from x show "cr_id iscsi_portal m1 = Known (cr_answer_id iscsi_portal r)"
    by (auto simp: iscsi_portal_def portal_to_model_def)
  assume "length (qa_listen r) \<le> 1"
  with x show "case cr_payload iscsi_portal m1 of Inl d \<Rightarrow> False | Inr p \<Rightarrow> map_of p \<subseteq>\<^sub>m map_of (portal_held r)"
    by (auto simp: iscsi_portal_def portal_to_model_def portal_payload_def portal_held_def order_listen_short ip_entry_def comp_def
        intro!: only_held)
qed

section \<open>Associations of targets and extents\<close>

record association_model =
  ax_id :: "int tf"
  ax_target :: "int tf"
  ax_extent :: "int tf"
  ax_lunid :: "int tf"

record association_response =
  xa_id :: int
  xa_target :: int
  xa_extent :: int
  xa_lunid :: int

definition decode_association :: "gval \<Rightarrow> association_response option" where
  "decode_association v = do {
     m \<leftarrow> as_object v;
     i \<leftarrow> as_int64 (field m ''id'');
     t \<leftarrow> as_int64 (field m ''target'');
     e \<leftarrow> as_int64 (field m ''extent'');
     l \<leftarrow> as_int64 (field m ''lunid'');
     Some \<lparr>xa_id = i, xa_target = t, xa_extent = e, xa_lunid = l\<rparr> }"

definition association_to_model :: "association_response \<Rightarrow> association_model \<Rightarrow> diagnostic + association_model" where
  "association_to_model r m = Inr (m\<lparr>ax_id := Known (xa_id r), ax_target := Known (xa_target r), ax_extent := Known (xa_extent r),
     ax_lunid := Known (xa_lunid r)\<rparr>)"

definition association_payload :: "association_model \<Rightarrow> diagnostic list + payload" where
  "association_payload m = Inr (put_int64 ''lunid'' (ax_lunid m)
     [(''target'', GInt (value_int64 (ax_target m))), (''extent'', GInt (value_int64 (ax_extent m)))])"

definition target_extent :: "(association_model, association_response) crud" where
  "target_extent = \<lparr>cr_service = ''iscsi.targetextent'', cr_label = ''iSCSI target/extent association'', cr_change = By_call,
     cr_remove = By_call, cr_reads_back = standard_read_back, cr_plan_id = False, cr_payload = association_payload,
     cr_decode = decode_association, cr_answer_id = xa_id, cr_refresh = association_to_model, cr_id = ax_id,
     cr_null = \<lparr>ax_id = TfNull, ax_target = TfNull, ax_extent = TfNull, ax_lunid = TfNull\<rparr>\<rparr>"

definition association_create :: "'w api \<Rightarrow> association_model \<Rightarrow> 'w \<Rightarrow> (association_model outcome \<times> 'w) option" where
  "association_create a = crud_create a target_extent"

definition association_read :: "'w api \<Rightarrow> association_model \<Rightarrow> 'w \<Rightarrow> association_model outcome \<times> 'w" where
  "association_read a = crud_read a target_extent"

definition association_update :: "'w api \<Rightarrow> association_model \<Rightarrow> association_model \<Rightarrow> 'w \<Rightarrow> (association_model outcome \<times> 'w) option" where
  "association_update a = crud_update a target_extent"

definition association_delete :: "'w api \<Rightarrow> association_model \<Rightarrow> 'w \<Rightarrow> (diagnostic list \<times> 'w) option" where
  "association_delete a = crud_delete a target_extent"

definition association_import :: "'w api \<Rightarrow> int import_req \<Rightarrow> 'w \<Rightarrow> association_model outcome \<times> 'w" where
  "association_import a = crud_import a target_extent"

definition association_data_source :: "'w api \<Rightarrow> association_model \<Rightarrow> 'w \<Rightarrow> (diagnostic list + association_model) \<times> 'w" where
  "association_data_source a cfg w =
     (case crud_instance a target_extent (value_int64 (ax_id cfg)) ''Read iSCSI target/extent association failed''
         ''Parse get_instance response'' w of
        (Inl ds, w1) \<Rightarrow> (Inl ds, w1)
      | (Inr r, w1) \<Rightarrow> (map_sum (\<lambda>d. [d]) id (association_to_model r cfg), w1))"

definition association_row :: "bool \<Rightarrow> gval \<Rightarrow> diagnostic list + (string \<times> string \<times> association_model option)" where
  "association_row = crud_row target_extent ''iSCSI target/extent''
     (\<lambda>r. ''target '' @ itoa (xa_target r) @ '' / extent '' @ itoa (xa_extent r))"

definition association_held :: "association_response \<Rightarrow> gval gomap" where
  "association_held r = [(''target'', GInt (xa_target r)), (''extent'', GInt (xa_extent r)), (''lunid'', GInt (xa_lunid r))]"

interpretation association: plain_resource target_extent association_held "\<lambda>r. True"
  by unfold_locales
    (auto simp: target_extent_def association_to_model_def association_payload_def association_held_def intro!: only_held)

section \<open>Targets\<close>

record target_group =
  tg_portal :: "int tf"
  tg_initiator :: "int tf"
  tg_auth :: "int tf"
  tg_authmethod :: "string tf"

record target_model =
  ta_id :: "int tf"
  ta_name :: "string tf"
  ta_alias :: "string tf"
  ta_mode :: "string tf"
  ta_groups :: "target_group tf list tf"
  ta_auth_networks :: "string tf list tf"
  ta_parameters :: "int tf tf"
  ta_rel_tgt_id :: "int tf"

record group_answer =
  ga_portal :: int
  ga_initiator :: "int option"
  ga_auth :: "int option"
  ga_authmethod :: string

record target_response =
  va_id :: int
  va_name :: string
  va_alias :: "string option"
  va_mode :: string
  va_groups :: "group_answer list"
  va_auth_networks :: "string list"
  va_parameters :: "int option option"
  va_rel_tgt_id :: int

definition decode_target_group :: "gval \<Rightarrow> group_answer option" where
  "decode_target_group v = do {
     m \<leftarrow> as_object v;
     p \<leftarrow> as_int64 (field m ''portal'');
     i \<leftarrow> as_ptr as_int64 (field m ''initiator'');
     au \<leftarrow> as_ptr as_int64 (field m ''auth'');
     am \<leftarrow> as_string (field m ''authmethod'');
     Some \<lparr>ga_portal = p, ga_initiator = i, ga_auth = au, ga_authmethod = am\<rparr> }"

definition decode_parameters :: "gval \<Rightarrow> int option option" where
  "decode_parameters v = do { m \<leftarrow> as_object v; as_ptr as_int64 (field m ''QueuedCommands'') }"

definition decode_target :: "gval \<Rightarrow> target_response option" where
  "decode_target v = do {
     m \<leftarrow> as_object v;
     i \<leftarrow> as_int64 (field m ''id'');
     name \<leftarrow> as_string (field m ''name'');
     al \<leftarrow> as_ptr as_string (field m ''alias'');
     mode \<leftarrow> as_string (field m ''mode'');
     gs \<leftarrow> as_list decode_target_group (field m ''groups'');
     nets \<leftarrow> as_list as_string (field m ''auth_networks'');
     par \<leftarrow> as_ptr decode_parameters (field m ''iscsi_parameters'');
     rel \<leftarrow> as_int64 (field m ''rel_tgt_id'');
     Some \<lparr>va_id = i, va_name = name, va_alias = al, va_mode = mode, va_groups = gs, va_auth_networks = nets,
       va_parameters = par, va_rel_tgt_id = rel\<rparr> }"

text \<open>An initiator or credential that is not given is 0 in the state.\<close>

definition or_zero :: "int option \<Rightarrow> int" where
  "or_zero v = (case v of None \<Rightarrow> 0 | Some i \<Rightarrow> i)"

definition group_of_answer :: "group_answer \<Rightarrow> target_group" where
  "group_of_answer g = \<lparr>tg_portal = Known (ga_portal g), tg_initiator = Known (or_zero (ga_initiator g)),
     tg_auth = Known (or_zero (ga_auth g)), tg_authmethod = Known (ga_authmethod g)\<rparr>"

definition target_to_model :: "target_response \<Rightarrow> target_model \<Rightarrow> diagnostic + target_model" where
  "target_to_model r m = Inr (m\<lparr>ta_id := Known (va_id r), ta_name := Known (va_name r), ta_mode := Known (va_mode r),
     ta_rel_tgt_id := Known (va_rel_tgt_id r), ta_alias := Known (case va_alias r of None \<Rightarrow> [] | Some s \<Rightarrow> s),
     ta_groups := known_list (map group_of_answer (va_groups r)), ta_auth_networks := known_list (va_auth_networks r),
     ta_parameters := (case va_parameters r of None \<Rightarrow> TfNull
       | Some None \<Rightarrow> Known TfNull | Some (Some i) \<Rightarrow> Known (Known i))\<rparr>)"

definition zero_as_null :: "int tf \<Rightarrow> gval" where
  "zero_as_null v = (if value_int64 v \<noteq> 0 then GInt (value_int64 v) else GNil)"

definition target_group_payload :: "target_group \<Rightarrow> gval" where
  "target_group_payload g = GObj (put ''auth'' (zero_as_null (tg_auth g)) (put ''initiator'' (zero_as_null (tg_initiator g))
     (put_when (is_set (tg_authmethod g) \<and> value_string (tg_authmethod g) \<noteq> []) ''authmethod'' (GStr (value_string (tg_authmethod g)))
       [(''portal'', GInt (value_int64 (tg_portal g)))])))"

definition parameters_payload :: "int tf \<Rightarrow> gval" where
  "parameters_payload q = GObj [(''QueuedCommands'', if is_set q then GInt (value_int64 q) else GNil)]"

definition put_parameters :: "int tf tf \<Rightarrow> payload \<Rightarrow> payload" where
  "put_parameters v p = (case v of Known q \<Rightarrow> put ''iscsi_parameters'' (parameters_payload q) p | _ \<Rightarrow> p)"

definition target_payload :: "target_model \<Rightarrow> diagnostic list + payload" where
  "target_payload m = (case (set_elements (ta_groups m), set_elements (ta_auth_networks m)) of
      (Inl d, Inl e) \<Rightarrow> Inl [d, e]
    | (Inl d, Inr nets) \<Rightarrow> Inl [d]
    | (Inr gs, Inl d) \<Rightarrow> Inl [d]
    | (Inr gs, Inr nets) \<Rightarrow> Inr (put_parameters (ta_parameters m)
        (put_when (is_set (ta_mode m) \<and> value_string (ta_mode m) \<noteq> []) ''mode'' (GStr (value_string (ta_mode m)))
        (put_when (is_set (ta_alias m)) ''alias'' (if value_string (ta_alias m) \<noteq> [] then GStr (value_string (ta_alias m)) else GNil)
          [(''name'', GStr (value_string (ta_name m))), (''groups'', GArr (map target_group_payload gs)),
           (''auth_networks'', GArr (map GStr nets))]))))"

definition iscsi_target :: "(target_model, target_response) crud" where
  "iscsi_target = \<lparr>cr_service = ''iscsi.target'', cr_label = ''iSCSI target'', cr_change = By_call, cr_remove = By_job,
     cr_reads_back = standard_read_back, cr_plan_id = False, cr_payload = target_payload, cr_decode = decode_target,
     cr_answer_id = va_id, cr_refresh = target_to_model, cr_id = ta_id, cr_null = \<lparr>ta_id = TfNull, ta_name = TfNull, ta_alias = TfNull,
       ta_mode = TfNull, ta_groups = TfNull, ta_auth_networks = TfNull, ta_parameters = TfNull, ta_rel_tgt_id = TfNull\<rparr>\<rparr>"

definition target_create :: "'w api \<Rightarrow> target_model \<Rightarrow> 'w \<Rightarrow> (target_model outcome \<times> 'w) option" where
  "target_create a = crud_create a iscsi_target"

definition target_read :: "'w api \<Rightarrow> target_model \<Rightarrow> 'w \<Rightarrow> target_model outcome \<times> 'w" where
  "target_read a = crud_read a iscsi_target"

definition target_update :: "'w api \<Rightarrow> target_model \<Rightarrow> target_model \<Rightarrow> 'w \<Rightarrow> (target_model outcome \<times> 'w) option" where
  "target_update a = crud_update a iscsi_target"

definition target_delete :: "'w api \<Rightarrow> target_model \<Rightarrow> 'w \<Rightarrow> (diagnostic list \<times> 'w) option" where
  "target_delete a = crud_delete a iscsi_target"

definition target_import :: "'w api \<Rightarrow> int import_req \<Rightarrow> 'w \<Rightarrow> target_model outcome \<times> 'w" where
  "target_import a = crud_import a iscsi_target"

definition target_data_source :: "'w api \<Rightarrow> target_model \<Rightarrow> 'w \<Rightarrow> (diagnostic list + target_model) \<times> 'w" where
  "target_data_source a cfg = (let name = value_string (ta_name cfg) in
     crud_lookup a iscsi_target ''Query iSCSI targets failed'' [equal_filter ''name'' (GStr name)]
       (''iSCSI target not found'', ''No iSCSI target named '' @ quoted name @ '' was found.'') (\<lambda>n. None) cfg)"

definition target_row :: "bool \<Rightarrow> gval \<Rightarrow> diagnostic list + (string \<times> string \<times> target_model option)" where
  "target_row = crud_row iscsi_target ''iSCSI target'' va_name"

text \<open>What the server holds. It never answers with a zero id, an empty method of authentication or an empty alias.\<close>

definition or_nil :: "('a \<Rightarrow> gval) \<Rightarrow> 'a option \<Rightarrow> gval" where
  "or_nil f v = (case v of None \<Rightarrow> GNil | Some x \<Rightarrow> f x)"

definition group_held :: "group_answer \<Rightarrow> gval" where
  "group_held g = GObj [(''portal'', GInt (ga_portal g)), (''authmethod'', GStr (ga_authmethod g)),
     (''initiator'', or_nil GInt (ga_initiator g)), (''auth'', or_nil GInt (ga_auth g))]"

definition target_held :: "target_response \<Rightarrow> gval gomap" where
  "target_held r = [(''name'', GStr (va_name r)), (''alias'', or_nil GStr (va_alias r)), (''mode'', GStr (va_mode r)),
     (''groups'', GArr (map group_held (va_groups r))), (''auth_networks'', GArr (map GStr (va_auth_networks r))),
     (''iscsi_parameters'', or_nil (\<lambda>q. GObj [(''QueuedCommands'', or_nil GInt q)]) (va_parameters r))]"

definition target_proper :: "target_response \<Rightarrow> bool" where
  "target_proper r \<longleftrightarrow> va_alias r \<noteq> Some [] \<and>
     list_all (\<lambda>g. ga_initiator g \<noteq> Some 0 \<and> ga_auth g \<noteq> Some 0 \<and> ga_authmethod g \<noteq> []) (va_groups r)"

lemma group_sent_back:
  "ga_initiator g \<noteq> Some 0 \<Longrightarrow> ga_auth g \<noteq> Some 0 \<Longrightarrow> ga_authmethod g \<noteq> [] \<Longrightarrow>
   target_group_payload (group_of_answer g) = group_held g"
  by (cases "ga_initiator g"; cases "ga_auth g")
    (simp_all add: target_group_payload_def group_of_answer_def group_held_def zero_as_null_def or_zero_def or_nil_def put_when_def)

lemma only_held_parameters [only_held]:
  "(\<And>q. v = Known q \<Longrightarrow> h ''iscsi_parameters'' = Some (parameters_payload q)) \<Longrightarrow> map_of p \<subseteq>\<^sub>m h \<Longrightarrow>
   map_of (put_parameters v p) \<subseteq>\<^sub>m h"
  by (cases v) (auto simp: put_parameters_def intro: only_held)

interpretation target: plain_resource iscsi_target target_held target_proper
proof unfold_locales
  fix r m m1
  assume x: "cr_refresh iscsi_target r m = Inr m1" and g: "target_proper r"
  have gs: "map (target_group_payload \<circ> group_of_answer) (va_groups r) = map group_held (va_groups r)"
    using g by (auto simp: target_proper_def list_all_iff group_sent_back)
  from x g show "case cr_payload iscsi_target m1 of Inl d \<Rightarrow> False | Inr p \<Rightarrow> map_of p \<subseteq>\<^sub>m map_of (target_held r)"
    by (auto simp: iscsi_target_def target_to_model_def target_payload_def target_held_def target_proper_def gs or_nil_def
        parameters_payload_def split: option.splits intro!: only_held)
qed (auto simp: iscsi_target_def target_to_model_def)

end
