(* ===== verification/Config.thy ===== *)
theory Config
  imports Directory Iscsi
begin

text \<open>
  Singletons: settings that the server always has, so that a create is an update, a read never removes anything, a
  delete only warns, and any import id is accepted. Six of them have the same text in resource.go, datasource.go
  and list.go: src/internal/resources/iscsi_global, kerberos_config, nvmet_global, replication_config,
  resilver_config and ssh_config. That text is written once; each adds its model and its two mappings (model.go).
\<close>

section \<open>The shared methods\<close>

record ('m, 'r) config =
  cf_id :: string
  cf_service :: string
  cf_label :: string
  cf_title :: string
  cf_payload :: "'m \<Rightarrow> diagnostic list + payload"
  cf_decode :: "gval \<Rightarrow> 'r option"
  cf_refresh :: "'r \<Rightarrow> 'm \<Rightarrow> 'm"
  cf_imported :: 'm

definition fetch_config :: "'w api \<Rightarrow> ('m, 'r) config \<Rightarrow> 'w \<Rightarrow> (go_error + 'r) \<times> 'w" where
  "fetch_config a c w = (case api_read a (cf_service c @ ''.config'') [] w of
      (Inl e, w1) \<Rightarrow> (Inl e, w1)
    | (Inr raw, w1) \<Rightarrow> (case cf_decode c raw of None \<Rightarrow> (Inl decode_error, w1) | Some r \<Rightarrow> (Inr r, w1)))"

text \<open>Create and update are the same but for their names.\<close>

definition config_change :: "'w api \<Rightarrow> ('m, 'r) config \<Rightarrow> string \<Rightarrow> string \<Rightarrow> 'm \<Rightarrow> 'w \<Rightarrow> 'm outcome \<times> 'w" where
  "config_change a c verb after plan w = (case cf_payload c plan of
      Inl ds \<Rightarrow> (Failure ds, w)
    | Inr p \<Rightarrow> (case api_call a (cf_service c @ ''.update'') [GObj p] w of
          (Inl e, w1) \<Rightarrow> (fail_err (verb @ '' '' @ cf_label c @ '' failed'') e, w1)
        | (Inr _, w1) \<Rightarrow> (case fetch_config a c w1 of
              (Inl e, w2) \<Rightarrow> (fail_err (''Read-back after '' @ after @ '' failed'') e, w2)
            | (Inr r, w2) \<Rightarrow> (Stored (cf_id c) (cf_refresh c r plan), w2))))"

definition config_read :: "'w api \<Rightarrow> ('m, 'r) config \<Rightarrow> 'm \<Rightarrow> 'w \<Rightarrow> 'm outcome \<times> 'w" where
  "config_read a c st w = (case fetch_config a c w of
      (Inl e, w1) \<Rightarrow> (fail_err (''Read '' @ cf_label c @ '' failed'') e, w1)
    | (Inr r, w1) \<Rightarrow> (Stored (cf_id c) (cf_refresh c r st), w1))"

text \<open>No call is made: the warning says that the settings stay.\<close>

definition config_delete :: "('m, 'r) config \<Rightarrow> diagnostic list" where
  "config_delete c = [(cf_title c @ '' left in place'', cf_title c @ '' left in place; removed from Terraform state only'')]"

definition config_import :: "('m, 'r) config \<Rightarrow> 'm outcome" where
  "config_import c = Stored (cf_id c) (cf_imported c)"

text \<open>The data source starts from an empty state.\<close>

definition config_data_source :: "'w api \<Rightarrow> ('m, 'r) config \<Rightarrow> 'w \<Rightarrow> (diagnostic list + 'm) \<times> 'w" where
  "config_data_source a c w = (case api_read a (cf_service c @ ''.config'') [] w of
      (Inl e, w1) \<Rightarrow> (Inl [(''Read '' @ cf_label c @ '' failed'', err_text e)], w1)
    | (Inr raw, w1) \<Rightarrow> (case cf_decode c raw of
          None \<Rightarrow> (Inl [(''Parse '' @ cf_service c @ ''.config response'', err_text decode_error)], w1)
        | Some r \<Rightarrow> (Inr (cf_refresh c r (cf_imported c)), w1)))"

definition config_row :: "('m, 'r) config \<Rightarrow> bool \<Rightarrow> gval \<Rightarrow> diagnostic list + (string \<times> string \<times> 'm option)" where
  "config_row c include_resource raw = (case cf_decode c raw of
      None \<Rightarrow> Inl [(''Parse '' @ cf_id c, err_text decode_error)]
    | Some r \<Rightarrow> Inr (cf_id c, cf_id c, if include_resource then Some (cf_refresh c r (cf_imported c)) else None))"

section \<open>The contract\<close>

definition config_well_made :: "('m, 'r) config \<Rightarrow> ('r \<Rightarrow> gval gomap) \<Rightarrow> ('r \<Rightarrow> bool) \<Rightarrow> bool" where
  "config_well_made c held good \<longleftrightarrow> (\<forall>r m. cf_refresh c r (cf_refresh c r m) = cf_refresh c r m \<and>
     (good r \<longrightarrow> (case cf_payload c (cf_refresh c r m) of Inl ds \<Rightarrow> False | Inr p \<Rightarrow> map_of p \<subseteq>\<^sub>m map_of (held r))))"

locale plain_config =
  fixes c :: "('m, 'r) config"
    and held :: "'r \<Rightarrow> gval gomap"
    and good :: "'r \<Rightarrow> bool"
  assumes again: "cf_refresh c r (cf_refresh c r m) = cf_refresh c r m"
    and sends_back: "good r \<Longrightarrow> case cf_payload c (cf_refresh c r m) of Inl ds \<Rightarrow> False | Inr p \<Rightarrow> map_of p \<subseteq>\<^sub>m map_of (held r)"
begin

lemma is_well_made: "config_well_made c held good"
  unfolding config_well_made_def using again sends_back by blast

end

text \<open>Values that are sent in their own way: a number that is cleared by zero, and lists.\<close>

definition put_nonzero :: "string \<Rightarrow> int tf \<Rightarrow> payload \<Rightarrow> payload" where
  "put_nonzero k v = put_when (is_set v) k (zero_as_null v)"

definition put_ints :: "string \<Rightarrow> int tf list tf \<Rightarrow> payload \<Rightarrow> payload" where
  "put_ints k l = put_when (is_set l) k (GArr (map GInt (got (set_elements l))))"

lemma only_held_special [only_held]:
  "(is_set v \<Longrightarrow> h k = Some (zero_as_null v)) \<Longrightarrow> map_of p \<subseteq>\<^sub>m h \<Longrightarrow> map_of (put_nonzero k v p) \<subseteq>\<^sub>m h"
  "(is_set l \<Longrightarrow> h k = Some (GArr (map GStr (got (set_elements l))))) \<Longrightarrow> map_of p \<subseteq>\<^sub>m h \<Longrightarrow> map_of (put_strings k l p) \<subseteq>\<^sub>m h"
  "(is_set l' \<Longrightarrow> h k = Some (GArr (map GInt (got (set_elements l'))))) \<Longrightarrow> map_of p \<subseteq>\<^sub>m h \<Longrightarrow> map_of (put_ints k l' p) \<subseteq>\<^sub>m h"
  by (auto simp: put_nonzero_def put_strings_def put_ints_def intro: only_held)

lemma zero_as_null_known [simp]: "zero_as_null (Known i) = (if i \<noteq> 0 then GInt i else GNil)"
  by (simp add: zero_as_null_def)

section \<open>iSCSI global configuration\<close>

record iscsi_global_model =
  ig_id :: "string tf"
  ig_basename :: "string tf"
  ig_listen_port :: "int tf"
  ig_alua :: "bool tf"
  ig_iser :: "bool tf"
  ig_isns_servers :: "string tf list tf"
  ig_threshold :: "int tf"

record iscsi_global_response =
  iga_basename :: string
  iga_listen_port :: int
  iga_alua :: bool
  iga_iser :: bool
  iga_isns_servers :: "string list"
  iga_threshold :: "int option"

definition decode_iscsi_global :: "gval \<Rightarrow> iscsi_global_response option" where
  "decode_iscsi_global v = do {
     m \<leftarrow> as_object v;
     _ \<leftarrow> as_int64 (field m ''id'');
     v_basename \<leftarrow> as_string (field m ''basename'');
     v_listen_port \<leftarrow> as_int64 (field m ''listen_port'');
     v_alua \<leftarrow> as_bool (field m ''alua'');
     v_iser \<leftarrow> as_bool (field m ''iser'');
     v_isns_servers \<leftarrow> as_list as_string (field m ''isns_servers'');
     v_threshold \<leftarrow> as_ptr as_int64 (field m ''pool_avail_threshold'');
     Some \<lparr>iga_basename = v_basename, iga_listen_port = v_listen_port, iga_alua = v_alua, iga_iser = v_iser,
       iga_isns_servers = v_isns_servers, iga_threshold = v_threshold\<rparr> }"

definition iscsi_global_to_model :: "iscsi_global_response \<Rightarrow> iscsi_global_model \<Rightarrow> iscsi_global_model" where
  "iscsi_global_to_model r m = m\<lparr>ig_id := Known ''iscsi_global'', ig_basename := Known (iga_basename r), ig_listen_port := Known (iga_listen_port r),
     ig_alua := Known (iga_alua r), ig_iser := Known (iga_iser r), ig_isns_servers := known_list (iga_isns_servers r),
     ig_threshold := Known (or_zero (iga_threshold r))\<rparr>"

definition iscsi_global_payload :: "iscsi_global_model \<Rightarrow> diagnostic list + payload" where
  "iscsi_global_payload m =
     (let ds = errors_of (set_elements (ig_isns_servers m))
      in if ds \<noteq> [] then Inl ds else Inr (
     put_nonzero ''pool_avail_threshold'' (ig_threshold m) ( put_strings ''isns_servers'' (ig_isns_servers m) (
     put_bool ''iser'' (ig_iser m) ( put_bool ''alua'' (ig_alua m) ( put_int64 ''listen_port'' (ig_listen_port m) (
     put_str ''basename'' (ig_basename m) ([]))))))))"

definition iscsi_global :: "(iscsi_global_model, iscsi_global_response) config" where
  "iscsi_global = \<lparr>cf_id = ''iscsi_global'', cf_service = ''iscsi.global'', cf_label = ''iSCSI global configuration'', cf_title = ''iSCSI global configuration'',
     cf_payload = iscsi_global_payload, cf_decode = decode_iscsi_global, cf_refresh = iscsi_global_to_model,
     cf_imported = \<lparr>ig_id = Known ''iscsi_global'', ig_basename = TfNull, ig_listen_port = TfNull, ig_alua = TfNull, ig_iser = TfNull, ig_isns_servers = TfNull,
       ig_threshold = TfNull\<rparr>\<rparr>"

definition iscsi_global_create :: "'w api \<Rightarrow> iscsi_global_model \<Rightarrow> 'w \<Rightarrow> iscsi_global_model outcome \<times> 'w" where
  "iscsi_global_create a = config_change a iscsi_global ''Create'' ''create''"

definition iscsi_global_read :: "'w api \<Rightarrow> iscsi_global_model \<Rightarrow> 'w \<Rightarrow> iscsi_global_model outcome \<times> 'w" where
  "iscsi_global_read a = config_read a iscsi_global"

definition iscsi_global_update :: "'w api \<Rightarrow> iscsi_global_model \<Rightarrow> 'w \<Rightarrow> iscsi_global_model outcome \<times> 'w" where
  "iscsi_global_update a = config_change a iscsi_global ''Update'' ''update''"

definition iscsi_global_data_source :: "'w api \<Rightarrow> 'w \<Rightarrow> (diagnostic list + iscsi_global_model) \<times> 'w" where
  "iscsi_global_data_source a = config_data_source a iscsi_global"

definition iscsi_global_row :: "bool \<Rightarrow> gval \<Rightarrow> diagnostic list + (string \<times> string \<times> iscsi_global_model option)" where
  "iscsi_global_row = config_row iscsi_global"

definition iscsi_global_held :: "iscsi_global_response \<Rightarrow> gval gomap" where
  "iscsi_global_held r = [(''basename'', GStr (iga_basename r)), (''listen_port'', GInt (iga_listen_port r)), (''alua'', GBool (iga_alua r)),
     (''iser'', GBool (iga_iser r)), (''isns_servers'', GArr (map GStr (iga_isns_servers r))),
     (''pool_avail_threshold'', or_nil GInt (iga_threshold r))]"

interpretation iscsi_global: plain_config iscsi_global iscsi_global_held "\<lambda>r. iga_threshold r \<noteq> Some 0"
proof unfold_locales
  fix r m
  show "cf_refresh iscsi_global r (cf_refresh iscsi_global r m) = cf_refresh iscsi_global r m"
    by (simp add: iscsi_global_def iscsi_global_to_model_def)
  assume good: "iga_threshold r \<noteq> Some 0"
  show "case cf_payload iscsi_global (cf_refresh iscsi_global r m) of Inl ds \<Rightarrow> False | Inr p \<Rightarrow> map_of p \<subseteq>\<^sub>m map_of (iscsi_global_held r)"
    using good by (cases "iga_threshold r") (auto simp: iscsi_global_def iscsi_global_to_model_def iscsi_global_payload_def iscsi_global_held_def or_zero_def or_nil_def intro!: only_held)
qed

section \<open>Kerberos configuration\<close>

record kerberos_config_model =
  kc_id :: "string tf"
  kc_appdefaults :: "string tf"
  kc_libdefaults :: "string tf"

record kerberos_config_response =
  kca_appdefaults :: string
  kca_libdefaults :: string

definition decode_kerberos_config :: "gval \<Rightarrow> kerberos_config_response option" where
  "decode_kerberos_config v = do {
     m \<leftarrow> as_object v;
     _ \<leftarrow> as_int64 (field m ''id'');
     v_appdefaults \<leftarrow> as_string (field m ''appdefaults_aux'');
     v_libdefaults \<leftarrow> as_string (field m ''libdefaults_aux'');
     Some \<lparr>kca_appdefaults = v_appdefaults, kca_libdefaults = v_libdefaults\<rparr> }"

definition kerberos_config_to_model :: "kerberos_config_response \<Rightarrow> kerberos_config_model \<Rightarrow> kerberos_config_model" where
  "kerberos_config_to_model r m = m\<lparr>kc_id := Known ''kerberos_config'', kc_appdefaults := Known (kca_appdefaults r),
     kc_libdefaults := Known (kca_libdefaults r)\<rparr>"

definition kerberos_config_payload :: "kerberos_config_model \<Rightarrow> diagnostic list + payload" where
  "kerberos_config_payload m = Inr (
     put_str ''libdefaults_aux'' (kc_libdefaults m) ( put_str ''appdefaults_aux'' (kc_appdefaults m) ([])))"

definition kerberos_config :: "(kerberos_config_model, kerberos_config_response) config" where
  "kerberos_config = \<lparr>cf_id = ''kerberos_config'', cf_service = ''kerberos'', cf_label = ''Kerberos configuration'', cf_title = ''Kerberos configuration'',
     cf_payload = kerberos_config_payload, cf_decode = decode_kerberos_config, cf_refresh = kerberos_config_to_model,
     cf_imported = \<lparr>kc_id = Known ''kerberos_config'', kc_appdefaults = TfNull, kc_libdefaults = TfNull\<rparr>\<rparr>"

definition kerberos_config_create :: "'w api \<Rightarrow> kerberos_config_model \<Rightarrow> 'w \<Rightarrow> kerberos_config_model outcome \<times> 'w" where
  "kerberos_config_create a = config_change a kerberos_config ''Create'' ''create''"

definition kerberos_config_read :: "'w api \<Rightarrow> kerberos_config_model \<Rightarrow> 'w \<Rightarrow> kerberos_config_model outcome \<times> 'w" where
  "kerberos_config_read a = config_read a kerberos_config"

definition kerberos_config_update :: "'w api \<Rightarrow> kerberos_config_model \<Rightarrow> 'w \<Rightarrow> kerberos_config_model outcome \<times> 'w" where
  "kerberos_config_update a = config_change a kerberos_config ''Update'' ''update''"

definition kerberos_config_data_source :: "'w api \<Rightarrow> 'w \<Rightarrow> (diagnostic list + kerberos_config_model) \<times> 'w" where
  "kerberos_config_data_source a = config_data_source a kerberos_config"

definition kerberos_config_row :: "bool \<Rightarrow> gval \<Rightarrow> diagnostic list + (string \<times> string \<times> kerberos_config_model option)" where
  "kerberos_config_row = config_row kerberos_config"

definition kerberos_config_held :: "kerberos_config_response \<Rightarrow> gval gomap" where
  "kerberos_config_held r = [(''appdefaults_aux'', GStr (kca_appdefaults r)), (''libdefaults_aux'', GStr (kca_libdefaults r))]"

interpretation kerberos_config: plain_config kerberos_config kerberos_config_held "\<lambda>r. True"
proof unfold_locales
  fix r m
  show "cf_refresh kerberos_config r (cf_refresh kerberos_config r m) = cf_refresh kerberos_config r m"
    by (simp add: kerberos_config_def kerberos_config_to_model_def)
  assume good: "True"
  show "case cf_payload kerberos_config (cf_refresh kerberos_config r m) of Inl ds \<Rightarrow> False | Inr p \<Rightarrow> map_of p \<subseteq>\<^sub>m map_of (kerberos_config_held r)"
    by (auto simp: kerberos_config_def kerberos_config_to_model_def kerberos_config_payload_def kerberos_config_held_def intro!: only_held)
qed

section \<open>NVMe-oF global configuration\<close>

record nvmet_global_model =
  ng_id :: "string tf"
  ng_basenqn :: "string tf"
  ng_ana :: "bool tf"
  ng_kernel :: "bool tf"
  ng_rdma :: "bool tf"
  ng_xport_referral :: "bool tf"

record nvmet_global_response =
  nga_basenqn :: string
  nga_ana :: bool
  nga_kernel :: bool
  nga_rdma :: bool
  nga_xport_referral :: bool

definition decode_nvmet_global :: "gval \<Rightarrow> nvmet_global_response option" where
  "decode_nvmet_global v = do {
     m \<leftarrow> as_object v;
     _ \<leftarrow> as_int64 (field m ''id'');
     v_basenqn \<leftarrow> as_string (field m ''basenqn'');
     v_ana \<leftarrow> as_bool (field m ''ana'');
     v_kernel \<leftarrow> as_bool (field m ''kernel'');
     v_rdma \<leftarrow> as_bool (field m ''rdma'');
     v_xport_referral \<leftarrow> as_bool (field m ''xport_referral'');
     Some \<lparr>nga_basenqn = v_basenqn, nga_ana = v_ana, nga_kernel = v_kernel, nga_rdma = v_rdma, nga_xport_referral = v_xport_referral\<rparr> }"

definition nvmet_global_to_model :: "nvmet_global_response \<Rightarrow> nvmet_global_model \<Rightarrow> nvmet_global_model" where
  "nvmet_global_to_model r m = m\<lparr>ng_id := Known ''nvmet_global'', ng_basenqn := Known (nga_basenqn r), ng_ana := Known (nga_ana r),
     ng_kernel := Known (nga_kernel r), ng_rdma := Known (nga_rdma r), ng_xport_referral := Known (nga_xport_referral r)\<rparr>"

definition nvmet_global_payload :: "nvmet_global_model \<Rightarrow> diagnostic list + payload" where
  "nvmet_global_payload m = Inr (
     put_bool ''xport_referral'' (ng_xport_referral m) ( put_bool ''rdma'' (ng_rdma m) ( put_bool ''kernel'' (ng_kernel m) (
     put_bool ''ana'' (ng_ana m) ( put_str ''basenqn'' (ng_basenqn m) ([]))))))"

definition nvmet_global :: "(nvmet_global_model, nvmet_global_response) config" where
  "nvmet_global = \<lparr>cf_id = ''nvmet_global'', cf_service = ''nvmet.global'', cf_label = ''NVMe-oF global configuration'', cf_title = ''NVMe-oF global configuration'',
     cf_payload = nvmet_global_payload, cf_decode = decode_nvmet_global, cf_refresh = nvmet_global_to_model,
     cf_imported = \<lparr>ng_id = Known ''nvmet_global'', ng_basenqn = TfNull, ng_ana = TfNull, ng_kernel = TfNull, ng_rdma = TfNull, ng_xport_referral = TfNull\<rparr>\<rparr>"

definition nvmet_global_create :: "'w api \<Rightarrow> nvmet_global_model \<Rightarrow> 'w \<Rightarrow> nvmet_global_model outcome \<times> 'w" where
  "nvmet_global_create a = config_change a nvmet_global ''Create'' ''create''"

definition nvmet_global_read :: "'w api \<Rightarrow> nvmet_global_model \<Rightarrow> 'w \<Rightarrow> nvmet_global_model outcome \<times> 'w" where
  "nvmet_global_read a = config_read a nvmet_global"

definition nvmet_global_update :: "'w api \<Rightarrow> nvmet_global_model \<Rightarrow> 'w \<Rightarrow> nvmet_global_model outcome \<times> 'w" where
  "nvmet_global_update a = config_change a nvmet_global ''Update'' ''update''"

definition nvmet_global_data_source :: "'w api \<Rightarrow> 'w \<Rightarrow> (diagnostic list + nvmet_global_model) \<times> 'w" where
  "nvmet_global_data_source a = config_data_source a nvmet_global"

definition nvmet_global_row :: "bool \<Rightarrow> gval \<Rightarrow> diagnostic list + (string \<times> string \<times> nvmet_global_model option)" where
  "nvmet_global_row = config_row nvmet_global"

definition nvmet_global_held :: "nvmet_global_response \<Rightarrow> gval gomap" where
  "nvmet_global_held r = [(''basenqn'', GStr (nga_basenqn r)), (''ana'', GBool (nga_ana r)), (''kernel'', GBool (nga_kernel r)),
     (''rdma'', GBool (nga_rdma r)), (''xport_referral'', GBool (nga_xport_referral r))]"

interpretation nvmet_global: plain_config nvmet_global nvmet_global_held "\<lambda>r. True"
proof unfold_locales
  fix r m
  show "cf_refresh nvmet_global r (cf_refresh nvmet_global r m) = cf_refresh nvmet_global r m"
    by (simp add: nvmet_global_def nvmet_global_to_model_def)
  assume good: "True"
  show "case cf_payload nvmet_global (cf_refresh nvmet_global r m) of Inl ds \<Rightarrow> False | Inr p \<Rightarrow> map_of p \<subseteq>\<^sub>m map_of (nvmet_global_held r)"
    by (auto simp: nvmet_global_def nvmet_global_to_model_def nvmet_global_payload_def nvmet_global_held_def intro!: only_held)
qed

section \<open>Replication configuration\<close>

record replication_config_model =
  rc_id :: "string tf"
  rc_max_parallel :: "int tf"

record replication_config_response =
  rca_max_parallel :: "int option"

definition decode_replication_config :: "gval \<Rightarrow> replication_config_response option" where
  "decode_replication_config v = do {
     m \<leftarrow> as_object v;
     _ \<leftarrow> as_int64 (field m ''id'');
     v_max_parallel \<leftarrow> as_ptr as_int64 (field m ''max_parallel_replication_tasks'');
     Some \<lparr>rca_max_parallel = v_max_parallel\<rparr> }"

definition replication_config_to_model :: "replication_config_response \<Rightarrow> replication_config_model \<Rightarrow> replication_config_model" where
  "replication_config_to_model r m = m\<lparr>rc_id := Known ''replication_config'', rc_max_parallel := Known (or_zero (rca_max_parallel r))\<rparr>"

definition replication_config_payload :: "replication_config_model \<Rightarrow> diagnostic list + payload" where
  "replication_config_payload m = Inr (
     put_nonzero ''max_parallel_replication_tasks'' (rc_max_parallel m) ([]))"

definition replication_config :: "(replication_config_model, replication_config_response) config" where
  "replication_config = \<lparr>cf_id = ''replication_config'', cf_service = ''replication.config'', cf_label = ''replication configuration'', cf_title = ''Replication configuration'',
     cf_payload = replication_config_payload, cf_decode = decode_replication_config, cf_refresh = replication_config_to_model,
     cf_imported = \<lparr>rc_id = Known ''replication_config'', rc_max_parallel = TfNull\<rparr>\<rparr>"

definition replication_config_create :: "'w api \<Rightarrow> replication_config_model \<Rightarrow> 'w \<Rightarrow> replication_config_model outcome \<times> 'w" where
  "replication_config_create a = config_change a replication_config ''Create'' ''create''"

definition replication_config_read :: "'w api \<Rightarrow> replication_config_model \<Rightarrow> 'w \<Rightarrow> replication_config_model outcome \<times> 'w" where
  "replication_config_read a = config_read a replication_config"

definition replication_config_update :: "'w api \<Rightarrow> replication_config_model \<Rightarrow> 'w \<Rightarrow> replication_config_model outcome \<times> 'w" where
  "replication_config_update a = config_change a replication_config ''Update'' ''update''"

definition replication_config_data_source :: "'w api \<Rightarrow> 'w \<Rightarrow> (diagnostic list + replication_config_model) \<times> 'w" where
  "replication_config_data_source a = config_data_source a replication_config"

definition replication_config_row :: "bool \<Rightarrow> gval \<Rightarrow> diagnostic list + (string \<times> string \<times> replication_config_model option)" where
  "replication_config_row = config_row replication_config"

definition replication_config_held :: "replication_config_response \<Rightarrow> gval gomap" where
  "replication_config_held r = [(''max_parallel_replication_tasks'', or_nil GInt (rca_max_parallel r))]"

interpretation replication_config: plain_config replication_config replication_config_held "\<lambda>r. rca_max_parallel r \<noteq> Some 0"
proof unfold_locales
  fix r m
  show "cf_refresh replication_config r (cf_refresh replication_config r m) = cf_refresh replication_config r m"
    by (simp add: replication_config_def replication_config_to_model_def)
  assume good: "rca_max_parallel r \<noteq> Some 0"
  show "case cf_payload replication_config (cf_refresh replication_config r m) of Inl ds \<Rightarrow> False | Inr p \<Rightarrow> map_of p \<subseteq>\<^sub>m map_of (replication_config_held r)"
    using good by (cases "rca_max_parallel r") (auto simp: replication_config_def replication_config_to_model_def replication_config_payload_def replication_config_held_def or_zero_def or_nil_def intro!: only_held)
qed

section \<open>Resilver configuration\<close>

record resilver_config_model =
  rs_id :: "string tf"
  rs_begin :: "string tf"
  rs_end :: "string tf"
  rs_enabled :: "bool tf"
  rs_weekday :: "int tf list tf"

record resilver_config_response =
  rsa_begin :: string
  rsa_end :: string
  rsa_enabled :: bool
  rsa_weekday :: "int list"

definition decode_resilver_config :: "gval \<Rightarrow> resilver_config_response option" where
  "decode_resilver_config v = do {
     m \<leftarrow> as_object v;
     _ \<leftarrow> as_int64 (field m ''id'');
     v_begin \<leftarrow> as_string (field m ''begin'');
     v_end \<leftarrow> as_string (field m ''end'');
     v_enabled \<leftarrow> as_bool (field m ''enabled'');
     v_weekday \<leftarrow> as_list as_int64 (field m ''weekday'');
     Some \<lparr>rsa_begin = v_begin, rsa_end = v_end, rsa_enabled = v_enabled, rsa_weekday = v_weekday\<rparr> }"

definition resilver_config_to_model :: "resilver_config_response \<Rightarrow> resilver_config_model \<Rightarrow> resilver_config_model" where
  "resilver_config_to_model r m = m\<lparr>rs_id := Known ''resilver_config'', rs_begin := Known (rsa_begin r), rs_end := Known (rsa_end r),
     rs_enabled := Known (rsa_enabled r), rs_weekday := known_list (rsa_weekday r)\<rparr>"

definition resilver_config_payload :: "resilver_config_model \<Rightarrow> diagnostic list + payload" where
  "resilver_config_payload m =
     (let ds = errors_of (set_elements (rs_weekday m))
      in if ds \<noteq> [] then Inl ds else Inr (
     put_ints ''weekday'' (rs_weekday m) ( put_bool ''enabled'' (rs_enabled m) ( put_str ''end'' (rs_end m) (
     put_str ''begin'' (rs_begin m) ([]))))))"

definition resilver_config :: "(resilver_config_model, resilver_config_response) config" where
  "resilver_config = \<lparr>cf_id = ''resilver_config'', cf_service = ''pool.resilver'', cf_label = ''resilver configuration'', cf_title = ''Resilver configuration'',
     cf_payload = resilver_config_payload, cf_decode = decode_resilver_config, cf_refresh = resilver_config_to_model,
     cf_imported = \<lparr>rs_id = Known ''resilver_config'', rs_begin = TfNull, rs_end = TfNull, rs_enabled = TfNull, rs_weekday = TfNull\<rparr>\<rparr>"

definition resilver_config_create :: "'w api \<Rightarrow> resilver_config_model \<Rightarrow> 'w \<Rightarrow> resilver_config_model outcome \<times> 'w" where
  "resilver_config_create a = config_change a resilver_config ''Create'' ''create''"

definition resilver_config_read :: "'w api \<Rightarrow> resilver_config_model \<Rightarrow> 'w \<Rightarrow> resilver_config_model outcome \<times> 'w" where
  "resilver_config_read a = config_read a resilver_config"

definition resilver_config_update :: "'w api \<Rightarrow> resilver_config_model \<Rightarrow> 'w \<Rightarrow> resilver_config_model outcome \<times> 'w" where
  "resilver_config_update a = config_change a resilver_config ''Update'' ''update''"

definition resilver_config_data_source :: "'w api \<Rightarrow> 'w \<Rightarrow> (diagnostic list + resilver_config_model) \<times> 'w" where
  "resilver_config_data_source a = config_data_source a resilver_config"

definition resilver_config_row :: "bool \<Rightarrow> gval \<Rightarrow> diagnostic list + (string \<times> string \<times> resilver_config_model option)" where
  "resilver_config_row = config_row resilver_config"

definition resilver_config_held :: "resilver_config_response \<Rightarrow> gval gomap" where
  "resilver_config_held r = [(''begin'', GStr (rsa_begin r)), (''end'', GStr (rsa_end r)), (''enabled'', GBool (rsa_enabled r)),
     (''weekday'', GArr (map GInt (rsa_weekday r)))]"

interpretation resilver_config: plain_config resilver_config resilver_config_held "\<lambda>r. True"
proof unfold_locales
  fix r m
  show "cf_refresh resilver_config r (cf_refresh resilver_config r m) = cf_refresh resilver_config r m"
    by (simp add: resilver_config_def resilver_config_to_model_def)
  assume good: "True"
  show "case cf_payload resilver_config (cf_refresh resilver_config r m) of Inl ds \<Rightarrow> False | Inr p \<Rightarrow> map_of p \<subseteq>\<^sub>m map_of (resilver_config_held r)"
    by (auto simp: resilver_config_def resilver_config_to_model_def resilver_config_payload_def resilver_config_held_def intro!: only_held)
qed

section \<open>SSH configuration\<close>

record ssh_config_model =
  sh_id :: "string tf"
  sh_bindiface :: "string tf list tf"
  sh_compression :: "bool tf"
  sh_kerberosauth :: "bool tf"
  sh_options :: "string tf"
  sh_login_groups :: "string tf list tf"
  sh_passwordauth :: "bool tf"
  sh_log_facility :: "string tf"
  sh_log_level :: "string tf"
  sh_tcpfwd :: "bool tf"
  sh_tcpport :: "int tf"
  sh_weak_ciphers :: "string tf list tf"

record ssh_config_response =
  sha_bindiface :: "string list"
  sha_compression :: bool
  sha_kerberosauth :: bool
  sha_options :: string
  sha_login_groups :: "string list"
  sha_passwordauth :: bool
  sha_log_facility :: string
  sha_log_level :: string
  sha_tcpfwd :: bool
  sha_tcpport :: int
  sha_weak_ciphers :: "string list"

definition decode_ssh_config :: "gval \<Rightarrow> ssh_config_response option" where
  "decode_ssh_config v = do {
     m \<leftarrow> as_object v;
     _ \<leftarrow> as_int64 (field m ''id'');
     v_bindiface \<leftarrow> as_list as_string (field m ''bindiface'');
     v_compression \<leftarrow> as_bool (field m ''compression'');
     v_kerberosauth \<leftarrow> as_bool (field m ''kerberosauth'');
     v_options \<leftarrow> as_string (field m ''options'');
     v_login_groups \<leftarrow> as_list as_string (field m ''password_login_groups'');
     v_passwordauth \<leftarrow> as_bool (field m ''passwordauth'');
     v_log_facility \<leftarrow> as_string (field m ''sftp_log_facility'');
     v_log_level \<leftarrow> as_string (field m ''sftp_log_level'');
     v_tcpfwd \<leftarrow> as_bool (field m ''tcpfwd'');
     v_tcpport \<leftarrow> as_int64 (field m ''tcpport'');
     v_weak_ciphers \<leftarrow> as_list as_string (field m ''weak_ciphers'');
     Some \<lparr>sha_bindiface = v_bindiface, sha_compression = v_compression, sha_kerberosauth = v_kerberosauth, sha_options = v_options,
       sha_login_groups = v_login_groups, sha_passwordauth = v_passwordauth, sha_log_facility = v_log_facility,
       sha_log_level = v_log_level, sha_tcpfwd = v_tcpfwd, sha_tcpport = v_tcpport, sha_weak_ciphers = v_weak_ciphers\<rparr> }"

definition ssh_config_to_model :: "ssh_config_response \<Rightarrow> ssh_config_model \<Rightarrow> ssh_config_model" where
  "ssh_config_to_model r m = m\<lparr>sh_id := Known ''ssh_config'', sh_bindiface := known_list (sha_bindiface r), sh_compression := Known (sha_compression r),
     sh_kerberosauth := Known (sha_kerberosauth r), sh_options := Known (sha_options r),
     sh_login_groups := known_list (sha_login_groups r), sh_passwordauth := Known (sha_passwordauth r),
     sh_log_facility := Known (sha_log_facility r), sh_log_level := Known (sha_log_level r), sh_tcpfwd := Known (sha_tcpfwd r),
     sh_tcpport := Known (sha_tcpport r), sh_weak_ciphers := known_list (sha_weak_ciphers r)\<rparr>"

definition ssh_config_payload :: "ssh_config_model \<Rightarrow> diagnostic list + payload" where
  "ssh_config_payload m =
     (let ds = errors_of (set_elements (sh_bindiface m)) @ errors_of (set_elements (sh_login_groups m)) @ errors_of (set_elements (sh_weak_ciphers m))
      in if ds \<noteq> [] then Inl ds else Inr (
     put_strings ''weak_ciphers'' (sh_weak_ciphers m) ( put_int64 ''tcpport'' (sh_tcpport m) (
     put_bool ''tcpfwd'' (sh_tcpfwd m) ( put_str ''sftp_log_level'' (sh_log_level m) (
     put_str ''sftp_log_facility'' (sh_log_facility m) ( put_bool ''passwordauth'' (sh_passwordauth m) (
     put_strings ''password_login_groups'' (sh_login_groups m) ( put_str ''options'' (sh_options m) (
     put_bool ''kerberosauth'' (sh_kerberosauth m) ( put_bool ''compression'' (sh_compression m) (
     put_strings ''bindiface'' (sh_bindiface m) ([])))))))))))))"

definition ssh_config :: "(ssh_config_model, ssh_config_response) config" where
  "ssh_config = \<lparr>cf_id = ''ssh_config'', cf_service = ''ssh'', cf_label = ''SSH configuration'', cf_title = ''SSH configuration'',
     cf_payload = ssh_config_payload, cf_decode = decode_ssh_config, cf_refresh = ssh_config_to_model,
     cf_imported = \<lparr>sh_id = Known ''ssh_config'', sh_bindiface = TfNull, sh_compression = TfNull, sh_kerberosauth = TfNull, sh_options = TfNull, sh_login_groups = TfNull,
       sh_passwordauth = TfNull, sh_log_facility = TfNull, sh_log_level = TfNull, sh_tcpfwd = TfNull, sh_tcpport = TfNull,
       sh_weak_ciphers = TfNull\<rparr>\<rparr>"

definition ssh_config_create :: "'w api \<Rightarrow> ssh_config_model \<Rightarrow> 'w \<Rightarrow> ssh_config_model outcome \<times> 'w" where
  "ssh_config_create a = config_change a ssh_config ''Create'' ''create''"

definition ssh_config_read :: "'w api \<Rightarrow> ssh_config_model \<Rightarrow> 'w \<Rightarrow> ssh_config_model outcome \<times> 'w" where
  "ssh_config_read a = config_read a ssh_config"

definition ssh_config_update :: "'w api \<Rightarrow> ssh_config_model \<Rightarrow> 'w \<Rightarrow> ssh_config_model outcome \<times> 'w" where
  "ssh_config_update a = config_change a ssh_config ''Update'' ''update''"

definition ssh_config_data_source :: "'w api \<Rightarrow> 'w \<Rightarrow> (diagnostic list + ssh_config_model) \<times> 'w" where
  "ssh_config_data_source a = config_data_source a ssh_config"

definition ssh_config_row :: "bool \<Rightarrow> gval \<Rightarrow> diagnostic list + (string \<times> string \<times> ssh_config_model option)" where
  "ssh_config_row = config_row ssh_config"

definition ssh_config_held :: "ssh_config_response \<Rightarrow> gval gomap" where
  "ssh_config_held r = [(''bindiface'', GArr (map GStr (sha_bindiface r))), (''compression'', GBool (sha_compression r)),
     (''kerberosauth'', GBool (sha_kerberosauth r)), (''options'', GStr (sha_options r)),
     (''password_login_groups'', GArr (map GStr (sha_login_groups r))), (''passwordauth'', GBool (sha_passwordauth r)),
     (''sftp_log_facility'', GStr (sha_log_facility r)), (''sftp_log_level'', GStr (sha_log_level r)),
     (''tcpfwd'', GBool (sha_tcpfwd r)), (''tcpport'', GInt (sha_tcpport r)),
     (''weak_ciphers'', GArr (map GStr (sha_weak_ciphers r)))]"

interpretation ssh_config: plain_config ssh_config ssh_config_held "\<lambda>r. True"
proof unfold_locales
  fix r m
  show "cf_refresh ssh_config r (cf_refresh ssh_config r m) = cf_refresh ssh_config r m"
    by (simp add: ssh_config_def ssh_config_to_model_def)
  assume good: "True"
  show "case cf_payload ssh_config (cf_refresh ssh_config r m) of Inl ds \<Rightarrow> False | Inr p \<Rightarrow> map_of p \<subseteq>\<^sub>m map_of (ssh_config_held r)"
    by (auto simp: ssh_config_def ssh_config_to_model_def ssh_config_payload_def ssh_config_held_def intro!: only_held)
qed

section \<open>The settings side by side\<close>

text \<open>Reading settings again changes nothing, and settings that were read send only what the server has, for each of the
  singletons.\<close>

lemma plain_configs_well_made:
  "config_well_made iscsi_global iscsi_global_held (\<lambda>r. iga_threshold r \<noteq> Some 0) \<and>
   config_well_made kerberos_config kerberos_config_held (\<lambda>r. True) \<and>
   config_well_made nvmet_global nvmet_global_held (\<lambda>r. True) \<and>
   config_well_made replication_config replication_config_held (\<lambda>r. rca_max_parallel r \<noteq> Some 0) \<and>
   config_well_made resilver_config resilver_config_held (\<lambda>r. True) \<and>
   config_well_made ssh_config ssh_config_held (\<lambda>r. True)"
  by (intro conjI iscsi_global.is_well_made kerberos_config.is_well_made nvmet_global.is_well_made
      replication_config.is_well_made resilver_config.is_well_made ssh_config.is_well_made)

end
