(* ===== verification/NetInterface.thy ===== *)
theory NetInterface
  imports Directory Listing
begin

text \<open>
  Network interfaces (src/internal/resources/network_interface). The server stages the changes of interfaces: a
  change takes effect with a commit, which the server takes back by itself when no checkin follows, and what is
  staged and never committed would ride along with the next commit. Model, mappings, checks, and the methods
  with their staging. Each change runs under the mutex \<open>stagingMu\<close>, so one method's calls are not mixed with
  another's.
\<close>

section \<open>Model and answer\<close>

record alias_model =
  al_address :: "string tf"
  al_netmask :: "int tf"
  al_type :: "string tf"

record alias_response =
  aa_address :: string
  aa_netmask :: int
  aa_type :: string

record interface_model =
  ni_id :: "string tf"
  ni_name :: "string tf"
  ni_type :: "string tf"
  ni_description :: "string tf"
  ni_mtu :: "int tf"
  ni_ipv4_dhcp :: "bool tf"
  ni_ipv6_auto :: "bool tf"
  ni_aliases :: "alias_model tf list tf"
  ni_bridge_members :: "string tf list tf"
  ni_stp :: "bool tf"
  ni_lag_protocol :: "string tf"
  ni_lag_ports :: "string tf list tf"
  ni_vlan_parent :: "string tf"
  ni_vlan_tag :: "int tf"
  ni_enable_learning :: "bool tf"
  ni_lacpdu_rate :: "string tf"
  ni_xmit_hash_policy :: "string tf"
  ni_vlan_pcp :: "int tf"

record interface_response =
  na_name :: string
  na_type :: string
  na_description :: string
  na_mtu :: "int option"
  na_ipv4_dhcp :: bool
  na_ipv6_auto :: bool
  na_aliases :: "alias_response list"
  na_bridge_members :: "string list"
  na_stp :: "bool option"
  na_lag_protocol :: "string option"
  na_lag_ports :: "string list"
  na_vlan_parent :: "string option"
  na_vlan_tag :: "int option"
  na_enable_learning :: "bool option"
  na_lacpdu_rate :: "string option"
  na_xmit_hash_policy :: "string option"
  na_vlan_pcp :: "int option"

definition decode_alias :: "gval \<Rightarrow> alias_response option" where
  "decode_alias v = do {
     m \<leftarrow> as_object v;
     address \<leftarrow> as_string (field m ''address'');
     netmask \<leftarrow> as_int64 (field m ''netmask'');
     ty \<leftarrow> as_string (field m ''type'');
     Some \<lparr>aa_address = address, aa_netmask = netmask, aa_type = ty\<rparr> }"

definition decode_interface :: "gval \<Rightarrow> interface_response option" where
  "decode_interface v = do {
     m \<leftarrow> as_object v;
     _ \<leftarrow> as_string (field m ''id'');
     name \<leftarrow> as_string (field m ''name'');
     ty \<leftarrow> as_string (field m ''type'');
     description \<leftarrow> as_string (field m ''description'');
     mtu \<leftarrow> as_ptr as_int64 (field m ''mtu'');
     dhcp \<leftarrow> as_bool (field m ''ipv4_dhcp'');
     auto6 \<leftarrow> as_bool (field m ''ipv6_auto'');
     aliases \<leftarrow> as_list decode_alias (field m ''aliases'');
     members \<leftarrow> as_list as_string (field m ''bridge_members'');
     stp \<leftarrow> as_ptr as_bool (field m ''stp'');
     lp \<leftarrow> as_ptr as_string (field m ''lag_protocol'');
     ports \<leftarrow> as_list as_string (field m ''lag_ports'');
     parent \<leftarrow> as_ptr as_string (field m ''vlan_parent_interface'');
     tag \<leftarrow> as_ptr as_int64 (field m ''vlan_tag'');
     learning \<leftarrow> as_ptr as_bool (field m ''enable_learning'');
     rate \<leftarrow> as_ptr as_string (field m ''lacpdu_rate'');
     policy \<leftarrow> as_ptr as_string (field m ''xmit_hash_policy'');
     pcp \<leftarrow> as_ptr as_int64 (field m ''vlan_pcp'');
     Some \<lparr>na_name = name, na_type = ty, na_description = description, na_mtu = mtu, na_ipv4_dhcp = dhcp,
       na_ipv6_auto = auto6, na_aliases = aliases, na_bridge_members = members, na_stp = stp, na_lag_protocol = lp,
       na_lag_ports = ports, na_vlan_parent = parent, na_vlan_tag = tag, na_enable_learning = learning,
       na_lacpdu_rate = rate, na_xmit_hash_policy = policy, na_vlan_pcp = pcp\<rparr> }"

section \<open>Mappings\<close>

definition or_null :: "'a option \<Rightarrow> 'a tf" where
  "or_null v = (case v of None \<Rightarrow> TfNull | Some x \<Rightarrow> Known x)"

definition alias_of_answer :: "alias_response \<Rightarrow> alias_model" where
  "alias_of_answer r = \<lparr>al_address = Known (aa_address r), al_netmask = Known (aa_netmask r), al_type = Known (aa_type r)\<rparr>"

definition interface_to_model :: "interface_response \<Rightarrow> interface_model \<Rightarrow> interface_model" where
  "interface_to_model r m = m\<lparr>ni_id := Known (na_name r), ni_name := Known (na_name r), ni_type := Known (na_type r),
     ni_description := Known (na_description r), ni_mtu := Known (case na_mtu r of None \<Rightarrow> 0 | Some n \<Rightarrow> n),
     ni_ipv4_dhcp := Known (na_ipv4_dhcp r), ni_ipv6_auto := Known (na_ipv6_auto r), ni_stp := or_null (na_stp r),
     ni_lag_protocol := Known (case na_lag_protocol r of None \<Rightarrow> [] | Some s \<Rightarrow> s),
     ni_vlan_parent := Known (case na_vlan_parent r of None \<Rightarrow> [] | Some s \<Rightarrow> s),
     ni_enable_learning := or_null (na_enable_learning r), ni_lacpdu_rate := or_null (na_lacpdu_rate r),
     ni_xmit_hash_policy := or_null (na_xmit_hash_policy r), ni_vlan_pcp := or_null (na_vlan_pcp r),
     ni_vlan_tag := Known (case na_vlan_tag r of None \<Rightarrow> 0 | Some n \<Rightarrow> n),
     ni_aliases := known_list (map alias_of_answer (na_aliases r)),
     ni_bridge_members := known_list (na_bridge_members r), ni_lag_ports := known_list (na_lag_ports r)\<rparr>"

text \<open>The family of an address is left out when it is not given; the server works it out.\<close>

definition alias_payload :: "alias_model \<Rightarrow> gval" where
  "alias_payload a = GObj (put_when (is_set (al_type a) \<and> value_string (al_type a) \<noteq> []) ''type'' (GStr (value_string (al_type a)))
     [(''address'', GStr (value_string (al_address a))), (''netmask'', GInt (value_int64 (al_netmask a)))])"

definition type_fields :: "interface_model \<Rightarrow> payload \<Rightarrow> payload" where
  "type_fields m p = (let t = value_string (ni_type m) in
     if t = ''BRIDGE'' then
       put_bool ''stp'' (ni_stp m) (put_bool ''enable_learning'' (ni_enable_learning m)
         (put ''bridge_members'' (GArr (map GStr (got (set_elements (ni_bridge_members m))))) p))
     else if t = ''LINK_AGGREGATION'' then
       put_str ''xmit_hash_policy'' (ni_xmit_hash_policy m) (put_str ''lacpdu_rate'' (ni_lacpdu_rate m)
         (put ''lag_ports'' (GArr (map GStr (got (set_elements (ni_lag_ports m)))))
           (put_str ''lag_protocol'' (ni_lag_protocol m) p)))
     else if t = ''VLAN'' then
       put_int64 ''vlan_pcp'' (ni_vlan_pcp m) (put_int64 ''vlan_tag'' (ni_vlan_tag m)
         (put_str ''vlan_parent_interface'' (ni_vlan_parent m) p))
     else p)"

definition type_errors :: "interface_model \<Rightarrow> diagnostic list" where
  "type_errors m = (let t = value_string (ni_type m) in
     if t = ''BRIDGE'' then errors_of (set_elements (ni_bridge_members m))
     else if t = ''LINK_AGGREGATION'' then errors_of (set_elements (ni_lag_ports m)) else [])"

definition base_payload :: "interface_model \<Rightarrow> payload \<times> diagnostic list" where
  "base_payload m =
     (type_fields m (put_when (is_set (ni_mtu m) \<and> value_int64 (ni_mtu m) \<noteq> 0) ''mtu'' (GInt (value_int64 (ni_mtu m)))
        [(''description'', GStr (value_string (ni_description m))), (''ipv4_dhcp'', GBool (value_bool (ni_ipv4_dhcp m))),
         (''ipv6_auto'', GBool (value_bool (ni_ipv6_auto m))),
         (''aliases'', GArr (map alias_payload (got (set_elements (ni_aliases m)))))]),
      errors_of (set_elements (ni_aliases m)) @ type_errors m)"

definition interface_create_payload :: "interface_model \<Rightarrow> payload \<times> diagnostic list" where
  "interface_create_payload m = (case base_payload m of (p, ds) \<Rightarrow>
     (put ''type'' (GStr (value_string (ni_type m))) (put ''name'' (GStr (value_string (ni_name m))) p), ds))"

definition interface_update_payload :: "interface_model \<Rightarrow> payload \<times> diagnostic list" where
  "interface_update_payload m = base_payload m"

section \<open>Checks\<close>

definition validate_create_type :: "string \<Rightarrow> go_error option" where
  "validate_create_type t =
     (if t = ''PHYSICAL'' then Some (errorf ''physical interfaces cannot be created; import them instead'') else None)"

definition physical_disallowed :: "interface_model \<Rightarrow> string list" where
  "physical_disallowed m =
     (let str = (\<lambda>v. is_set v \<and> value_string v \<noteq> []); num = (\<lambda>v. is_set v \<and> value_int64 v \<noteq> 0);
          lst = (\<lambda>l. case l of Known (_ # _) \<Rightarrow> True | _ \<Rightarrow> False)
      in map fst (filter snd
        [(''bridge_members'', lst (ni_bridge_members m)), (''stp'', is_set (ni_stp m)),
         (''enable_learning'', is_set (ni_enable_learning m)), (''lag_protocol'', str (ni_lag_protocol m)),
         (''lag_ports'', lst (ni_lag_ports m)), (''lacpdu_rate'', str (ni_lacpdu_rate m)),
         (''xmit_hash_policy'', str (ni_xmit_hash_policy m)), (''vlan_parent_interface'', str (ni_vlan_parent m)),
         (''vlan_tag'', num (ni_vlan_tag m)), (''vlan_pcp'', num (ni_vlan_pcp m))]))"

definition interface_validate_config :: "interface_model \<Rightarrow> diagnostic list" where
  "interface_validate_config cfg = (let bad = physical_disallowed cfg in
     if value_string (ni_type cfg) \<noteq> ''PHYSICAL'' \<or> bad = [] then []
     else [(''Type-specific fields set on a PHYSICAL interface'',
       ''A PHYSICAL interface cannot use BRIDGE/LINK_AGGREGATION/VLAN fields; remove: '' @ join '', '' bad @
       ''. A physical interface supports only ipv4_dhcp, ipv6_auto, aliases, mtu, and description.'')])"

text \<open>A plan that changes the protocol forgets what the server made up for the old one.\<close>

definition interface_modify_plan :: "interface_model option \<Rightarrow> interface_model option \<Rightarrow> interface_model \<Rightarrow> interface_model option" where
  "interface_modify_plan plan st cfg = (case (plan, st) of
      (Some p, Some s) \<Rightarrow> Some (if ni_lag_protocol p = ni_lag_protocol s then p
        else p\<lparr>ni_lacpdu_rate := if ni_lacpdu_rate cfg = TfNull then TfUnknown else ni_lacpdu_rate p,
               ni_xmit_hash_policy := if ni_xmit_hash_policy cfg = TfNull then TfUnknown else ni_xmit_hash_policy p\<rparr>)
    | _ \<Rightarrow> plan)"

section \<open>Methods\<close>

definition commit_and_checkin :: "'w api \<Rightarrow> 'w \<Rightarrow> go_error option \<times> 'w" where
  "commit_and_checkin a w =
     (case api_call a ''interface.commit'' [GObj [(''checkin_timeout'', GInt 60), (''rollback'', GBool True)]] w of
        (Inl e, w1) \<Rightarrow> (case api_call a ''interface.rollback'' [] w1 of
            (Inl rb, w2) \<Rightarrow> (Some (Wrapped [Text ''commit failed: '', Cause e,
                Text (''; rollback of staged changes also failed: '' @ err_text rb)]), w2)
          | (Inr _, w2) \<Rightarrow> (Some e, w2))
      | (Inr _, w1) \<Rightarrow> (case api_call a ''interface.checkin'' [] w1 of
            (Inl e, w2) \<Rightarrow> (Some (Wrapped [Text ''commit applied but checkin failed (config will auto-rollback in 60s): '', Cause e]), w2)
          | (Inr _, w2) \<Rightarrow> (None, w2)))"

definition interface_instance :: "'w api \<Rightarrow> string \<Rightarrow> 'w \<Rightarrow> (go_error + interface_response) \<times> 'w" where
  "interface_instance a name w = (case api_read a ''interface.get_instance'' [GStr name] w of
      (Inl e, w1) \<Rightarrow> (Inl e, w1)
    | (Inr raw, w1) \<Rightarrow> (case decode_interface raw of None \<Rightarrow> (Inl decode_error, w1) | Some r \<Rightarrow> (Inr r, w1)))"

text \<open>A change that is refused discards what is staged.\<close>

definition discard_staged :: "'w api \<Rightarrow> diagnostic \<Rightarrow> 'w \<Rightarrow> diagnostic list \<times> 'w" where
  "discard_staged a d w = (case api_call a ''interface.rollback'' [] w of
      (Inl rb, w1) \<Rightarrow> ([d, (''Rollback of staged changes also failed'',
         ''Staged interface changes may remain pending on TrueNAS: '' @ err_text rb)], w1)
    | (Inr _, w1) \<Rightarrow> ([d], w1))"

definition stage_change :: "'w api \<Rightarrow> string \<Rightarrow> gval list \<Rightarrow> string \<Rightarrow> 'w \<Rightarrow> diagnostic list \<times> 'w" where
  "stage_change a m ps verb w = (case api_call a m ps w of
      (Inl e, w1) \<Rightarrow> discard_staged a (verb @ '' interface failed'', err_text e) w1
    | (Inr _, w1) \<Rightarrow> (case commit_and_checkin a w1 of
          (Some e, w2) \<Rightarrow> ([(''Commit interface changes failed'', err_text e)], w2) | (None, w2) \<Rightarrow> ([], w2)))"

definition interface_settle :: "'w api \<Rightarrow> string \<Rightarrow> string \<Rightarrow> interface_model \<Rightarrow> 'w \<Rightarrow> interface_model outcome \<times> 'w" where
  "interface_settle a summary name plan w = (case interface_instance a name w of
      (Inl e, w1) \<Rightarrow> (fail_err summary e, w1)
    | (Inr r, w1) \<Rightarrow> (let m = interface_to_model r plan in (Stored (value_string (ni_id m)) m, w1)))"

definition interface_create :: "'w api \<Rightarrow> interface_model \<Rightarrow> 'w \<Rightarrow> interface_model outcome \<times> 'w" where
  "interface_create a plan w = (case validate_create_type (value_string (ni_type plan)) of
      Some e \<Rightarrow> (fail_err ''Cannot create interface'' e, w)
    | None \<Rightarrow> (case interface_create_payload plan of (p, ds) \<Rightarrow>
        if ds \<noteq> [] then (Failure ds, w)
        else (case stage_change a ''interface.create'' [GObj p] ''Create'' w of (ds, w1) \<Rightarrow>
          if ds \<noteq> [] then (Failure ds, w1)
          else interface_settle a ''Read-back after create failed'' (value_string (ni_name plan)) plan w1)))"

definition interface_read :: "'w api \<Rightarrow> interface_model \<Rightarrow> 'w \<Rightarrow> interface_model outcome \<times> 'w" where
  "interface_read a st w = (case interface_instance a (value_string (ni_id st)) w of
      (Inl e, w1) \<Rightarrow> (if is_not_found e then Removed else fail_err ''Read interface failed'' e, w1)
    | (Inr r, w1) \<Rightarrow> (let m = interface_to_model r st in (Stored (value_string (ni_id m)) m, w1)))"

definition interface_update :: "'w api \<Rightarrow> interface_model \<Rightarrow> interface_model \<Rightarrow> 'w \<Rightarrow> interface_model outcome \<times> 'w" where
  "interface_update a plan0 st w = (let plan = plan0\<lparr>ni_id := ni_id st\<rparr>; i = value_string (ni_id plan) in
     case interface_update_payload plan of (p, ds) \<Rightarrow>
       if ds \<noteq> [] then (Failure ds, w)
       else (case stage_change a ''interface.update'' [GStr i, GObj p] ''Update'' w of (ds, w1) \<Rightarrow>
         if ds \<noteq> [] then (Failure ds, w1) else interface_settle a ''Read-back after update failed'' i plan w1))"

text \<open>The result is the warnings and the errors. A physical interface is left alone.\<close>

definition interface_delete :: "'w api \<Rightarrow> interface_model \<Rightarrow> 'w \<Rightarrow> (diagnostic list \<times> diagnostic list) \<times> 'w" where
  "interface_delete a st w =
     (if value_string (ni_type st) = ''PHYSICAL''
      then (([(''Physical interface not deleted'', ''Physical interfaces cannot be deleted via the API; the resource is being removed from Terraform state only, the interface itself is left untouched on TrueNAS.'')], []), w)
      else (case api_call a ''interface.delete'' [GStr (value_string (ni_id st))] w of
          (Inl e, w1) \<Rightarrow> (if is_not_found e then (([], []), w1)
             else (case discard_staged a (''Delete interface failed'', err_text e) w1 of (ds, w2) \<Rightarrow> (([], ds), w2)))
        | (Inr _, w1) \<Rightarrow> (case commit_and_checkin a w1 of
              (Some e, w2) \<Rightarrow> (([], [(''Commit interface changes failed'', err_text e)]), w2) | (None, w2) \<Rightarrow> (([], []), w2))))"

definition null_interface :: interface_model where
  "null_interface = \<lparr>ni_id = TfNull, ni_name = TfNull, ni_type = TfNull, ni_description = TfNull, ni_mtu = TfNull,
     ni_ipv4_dhcp = TfNull, ni_ipv6_auto = TfNull, ni_aliases = TfNull, ni_bridge_members = TfNull, ni_stp = TfNull,
     ni_lag_protocol = TfNull, ni_lag_ports = TfNull, ni_vlan_parent = TfNull, ni_vlan_tag = TfNull,
     ni_enable_learning = TfNull, ni_lacpdu_rate = TfNull, ni_xmit_hash_policy = TfNull, ni_vlan_pcp = TfNull\<rparr>"

definition interface_import :: "string import_req \<Rightarrow> interface_model outcome" where
  "interface_import req = (case import_string req of (i, ds) \<Rightarrow>
     if ds \<noteq> [] then Failure ds else Stored i (null_interface\<lparr>ni_name := Known i, ni_id := Known i\<rparr>))"

definition interface_data_source :: "'w api \<Rightarrow> interface_model \<Rightarrow> 'w \<Rightarrow> (diagnostic list + interface_model) \<times> 'w" where
  "interface_data_source a cfg w = (let name = value_string (ni_name cfg) in
     case api_read a ''interface.query'' [GArr [GArr [GStr ''name'', GStr ''='', GStr name]]] w of
       (Inl e, w1) \<Rightarrow> (Inl [(''Query network interfaces failed'', err_text e)], w1)
     | (Inr raw, w1) \<Rightarrow> (case as_list decode_interface raw of
           None \<Rightarrow> (Inl [(''Parse query response'', err_text decode_error)], w1)
         | Some [] \<Rightarrow> (Inl [(''Network interface not found'', ''No network interface named '' @ quoted name @ '' was found.'')], w1)
         | Some (r # _) \<Rightarrow> (Inr (interface_to_model r cfg), w1)))"

definition interface_row :: "bool \<Rightarrow> gval \<Rightarrow> diagnostic list + (string \<times> string \<times> interface_model option)" where
  "interface_row include_resource raw = (case decode_interface raw of
      None \<Rightarrow> Inl [(''Parse network interface row'', err_text decode_error)]
    | Some r \<Rightarrow> Inr (na_name r, na_name r, if include_resource then Some (interface_to_model r null_interface) else None))"

section \<open>Nothing stays staged\<close>

text \<open>The changes in a log, and the shapes they may have: a refused change is followed by a rollback, unless what was to be
  deleted is gone; an accepted one by a commit, a refused commit by a rollback, an accepted one by its checkin.\<close>

definition staging :: "exchanged list \<Rightarrow> exchanged list" where
  "staging l = filter (\<lambda>(m, ps, r). m \<noteq> ''interface.get_instance'') l"

fun settled_calls :: "exchanged list \<Rightarrow> bool" where
  "settled_calls [] = True"
| "settled_calls ((m, ps, Inl e) # l) =
     (m \<in> {''interface.create'', ''interface.update'', ''interface.delete''} \<and>
      (map fst l = [''interface.rollback''] \<or> (m = ''interface.delete'' \<and> is_not_found e \<and> l = [])))"
| "settled_calls ((m, ps, Inr v) # (c, qs, Inl e) # l) =
     (m \<in> {''interface.create'', ''interface.update'', ''interface.delete''} \<and> c = ''interface.commit'' \<and>
      map fst l = [''interface.rollback''])"
| "settled_calls ((m, ps, Inr v) # (c, qs, Inr u) # l) =
     (m \<in> {''interface.create'', ''interface.update'', ''interface.delete''} \<and> c = ''interface.commit'' \<and>
      map fst l = [''interface.checkin''])"
| "settled_calls [(m, ps, Inr v)] = False"

text \<open>The change was accepted, committed and checked in.\<close>

fun confirmed :: "exchanged list \<Rightarrow> bool" where
  "confirmed [(m, ps, Inr v), (c, qs, Inr u), (k, rs, Inr x)] =
     (m \<in> {''interface.create'', ''interface.update'', ''interface.delete''} \<and> c = ''interface.commit'' \<and> k = ''interface.checkin'')"
| "confirmed _ = False"

lemma staging_simps [simp]: "staging [] = []" "staging (l @ l') = staging l @ staging l'"
  "staging ((m, ps, r) # l) = (if m = ''interface.get_instance'' then staging l else (m, ps, r) # staging l)"
  by (simp_all add: staging_def)

lemma instance_quiet: "interface_instance (logged a) name s = (r, s1) \<Longrightarrow> staging (snd s1) = staging (snd s)"
  by (auto simp: interface_instance_def noting_def split: sum.splits option.splits prod.splits)

lemma stage_change_settles:
  assumes "stage_change (logged a) m ps verb s = (ds, s1)" and "m \<in> {''interface.create'', ''interface.update'', ''interface.delete''}"
  shows "\<exists>t. staging (snd s1) = staging (snd s) @ t \<and> settled_calls t \<and> (ds = [] \<longleftrightarrow> confirmed t)"
  using assms
  by (auto simp: stage_change_def discard_staged_def commit_and_checkin_def split: sum.splits prod.splits)

lemma settle_quiet:
  "interface_settle (logged a) summary name plan s = (out, s1) \<Longrightarrow> staging (snd s1) = staging (snd s)"
  by (auto simp: interface_settle_def Let_def split: prod.splits sum.splits dest!: instance_quiet)


end
