(* ===== verification/Devices.thy ===== *)
theory Devices
  imports Config NetInterface
begin

text \<open>
  Objects that sit on a block device or are in use while they change: src/internal/resources/iscsi_extent,
  nvmet_namespace and nvmet_port. A create or an update waits for the device of a new zvol (theory Crud); an update of
  an enabled namespace or port first disables it, since the server refuses to change what is in use.
\<close>

section \<open>Changing what is in use\<close>

definition switch :: "int \<Rightarrow> bool \<Rightarrow> gval list" where
  "switch i b = [GInt i, GObj [(''enabled'', GBool b)]]"

definition disabling_update ::
  "'w api \<Rightarrow> ('m, 'r) crud \<Rightarrow> string \<times> string \<Rightarrow> (payload \<Rightarrow> bool) \<Rightarrow> 'm \<Rightarrow> 'm \<Rightarrow> 'w \<Rightarrow> ('m outcome \<times> 'w) option" where
  "disabling_update a c texts in_use plan st w =
     (let i = value_int64 (cr_id c st); m = cr_service c @ ''.update''; summary = ''Update '' @ cr_label c @ '' failed'' in
      case cr_payload c plan of
        Inl ds \<Rightarrow> Some (Failure ds, w)
      | Inr p \<Rightarrow> (case (if in_use p then api_call a m (switch i False) w else (Inr GNil, w)) of
            (Inl e, w1) \<Rightarrow> Some (Failure [(summary, fst texts @ err_text e)], w1)
          | (Inr _, w1) \<Rightarrow> (case send_change a (cr_change c) m [GInt i, GObj p] w1 of
                None \<Rightarrow> None
              | Some (Inl e, w2) \<Rightarrow> Some (if \<not> in_use p then (Failure [(summary, err_text e)], w2)
                  else (case api_call a m (switch i True) w2 of
                      (Inl r, w3) \<Rightarrow> (Failure [(summary, err_text e @ newline @ newline @ snd texts @ err_text r)], w3)
                    | (Inr _, w3) \<Rightarrow> (Failure [(summary, err_text e)], w3)))
              | Some (Inr _, w2) \<Rightarrow>
                  Some (crud_settle a c i (''Read-back after update failed'', ''Parse get_instance response'') plan w2))))"

text \<open>The updates in a log, and what one says of \<open>enabled\<close>.\<close>

definition updates :: "string \<Rightarrow> exchanged list \<Rightarrow> exchanged list" where
  "updates m l = filter (\<lambda>x. fst x = m) l"

definition enabled_sent :: "exchanged \<Rightarrow> gval option" where
  "enabled_sent x = (case x of (m, [i, GObj p], r) \<Rightarrow> map_of p ''enabled'' | _ \<Rightarrow> None)"

text \<open>The server accepted it.\<close>

definition accepted :: "exchanged \<Rightarrow> bool" where
  "accepted x = (case x of (m, ps, Inr v) \<Rightarrow> True | _ \<Rightarrow> False)"

text \<open>When a state was stored, the last update was accepted and asks for the planned state. Otherwise no update that
  disables was accepted, or the last update was accepted and asks for the planned state, or it turns on again.\<close>

definition not_left_disabled :: "bool \<Rightarrow> bool \<Rightarrow> exchanged list \<Rightarrow> bool" where
  "not_left_disabled stored planned u \<longleftrightarrow>
     (u \<noteq> [] \<and> accepted (last u) \<and> enabled_sent (last u) = Some (GBool planned)) \<or>
     (\<not> stored \<and> (list_all (\<lambda>x. \<not> (accepted x \<and> enabled_sent x = Some (GBool False))) u \<or>
        enabled_sent (last u) = Some (GBool True)))"

lemma updates_simps [simp]: "updates m [] = []" "updates m (l @ l') = updates m l @ updates m l'"
  "updates m ((k, ps, r) # l) = (if k = m then (k, ps, r) # updates m l else updates m l)"
  by (simp_all add: updates_def)

lemma updates_refused: "refused missing m ps l \<Longrightarrow> updates m l = l"
  by (auto simp: updates_def refused_def filter_id_conv)

lemma settle_updates:
  assumes "crud_settle (logged a) c i texts plan s = (out, s1)" and "m \<noteq> cr_service c @ ''.get_instance''"
  shows "updates m (snd s1) = updates m (snd s)"
  using assms by (auto simp: crud_settle_def crud_instance_def split: sum.splits prod.splits option.splits)

lemma change_updates:
  assumes "send_change (logged a) how m ps s = Some (r, s1)"
  shows "\<exists>t. updates m (snd s1) = updates m (snd s) @ t @ [(m, ps, r)] \<and> list_all (\<lambda>x. \<not> accepted x) t"
proof -
  from send_change_logged [OF assms] obtain t where "snd s1 = snd s @ t @ [(m, ps, r)]"
    and "case how of By_waiting missing \<Rightarrow> refused missing m ps t | _ \<Rightarrow> t = []" by blast
  then have "updates m (snd s1) = updates m (snd s) @ updates m t @ [(m, ps, r)]" and "list_all (\<lambda>x. \<not> accepted x) (updates m t)"
    by (auto simp: updates_def list_all_iff refused_def accepted_def split: sending.splits)
  then show ?thesis by blast
qed

lemma time_passes_logged: "time_passes a \<Longrightarrow> time_passes (logged a)"
  unfolding time_passes_def clock_def by (auto simp: quietly_def noting_def split: prod.splits) (metis fst_conv snd_conv)+

lemma disabling_update_returns:
  assumes "time_passes a \<or> cr_change c = By_call"
  shows "disabling_update a c texts in_use plan st w \<noteq> None"
proof -
  have "send_change a (cr_change c) m ps v \<noteq> None" for m ps v
    using assms send_change_returns [of a "cr_change c" m ps v] by (auto simp: send_change_def)
  then show ?thesis
    by (simp add: disabling_update_def Let_def del: not_None_eq split: sum.split prod.split option.split)
qed

lemma enabled_sent_simps [simp]:
  "enabled_sent (m, switch i b, r) = Some (GBool b)" "enabled_sent (m, [j, GObj p], r) = map_of p ''enabled''"
  by (simp_all add: enabled_sent_def switch_def)

lemma accepted_simps [simp]: "accepted (m, ps, Inr v)" "\<not> accepted (m, ps, Inl e)"
  by (simp_all add: accepted_def)

lemma update_not_left_disabled:
  assumes run: "disabling_update (logged a) c texts in_use plan st (w, []) = Some (out, (w1, l))"
    and sends: "\<And>p. cr_payload c plan = Inr p \<Longrightarrow> map_of p ''enabled'' = Some (GBool planned)"
  shows "not_left_disabled (case out of Stored i m \<Rightarrow> True | _ \<Rightarrow> False) planned (updates (cr_service c @ ''.update'') l)"
proof (cases "cr_payload c plan")
  case (Inl ds)
  with run show ?thesis by (auto simp: disabling_update_def not_left_disabled_def Let_def)
next
  case (Inr p)
  let ?m = "cr_service c @ ''.update''" and ?i = "value_int64 (cr_id c st)"
  note p = sends [OF Inr]
  obtain r0 s0 where off: "(if in_use p then api_call (logged a) ?m (switch ?i False) (w, []) else (Inr GNil, (w, []))) = (r0, s0)"
    by (metis surj_pair)
  show ?thesis
  proof (cases r0)
    case (Inl e)
    with run Inr off show ?thesis
      by (auto simp: disabling_update_def not_left_disabled_def Let_def noting_def split: if_splits)
  next
    case r0: (Inr v)
    obtain r s1 where c: "send_change (logged a) (cr_change c) ?m [GInt ?i, GObj p] s0 = Some (r, s1)"
      using run Inr off r0 by (auto simp: disabling_update_def Let_def split: option.splits)
    from change_updates [OF c] obtain t where
      t: "updates ?m (snd s1) = updates ?m (snd s0) @ t @ [(?m, [GInt ?i, GObj p], r)]" "list_all (\<lambda>x. \<not> accepted x) t"
      by blast
    show ?thesis
    proof (cases r)
      case (Inl e)
      with run Inr off r0 c t p show ?thesis
        by (auto simp: disabling_update_def not_left_disabled_def Let_def noting_def list_all_iff split: if_splits sum.splits prod.splits)
    next
      case r: (Inr u)
      have n: "?m \<noteq> cr_service c @ ''.get_instance''" by simp
      from run Inr off r0 c r have
        "crud_settle (logged a) c ?i (''Read-back after update failed'', ''Parse get_instance response'') plan s1 = (out, (w1, l))"
        by (simp add: disabling_update_def Let_def)
      from settle_updates [OF this n] t p r show ?thesis
        by (auto simp: not_left_disabled_def)
    qed
  qed
qed

section \<open>iSCSI extents\<close>

definition or_empty :: "string option \<Rightarrow> string" where
  "or_empty v = (case v of None \<Rightarrow> [] | Some s \<Rightarrow> s)"

text \<open>The size comes as a number or as text. \<open>F\<close> reads a number literal as float64 and cuts it to an int64.\<close>

definition coerce_int64 :: "(string \<Rightarrow> int) \<Rightarrow> gval \<Rightarrow> int" where
  "coerce_int64 F v = (case v of
      GNumber s \<Rightarrow> F s
    | GInt i \<Rightarrow> i
    | GStr s \<Rightarrow> (case atoi s of (i, None) \<Rightarrow> i | (i, Some e) \<Rightarrow> 0)
    | _ \<Rightarrow> 0)"

record extent_model =
  ix_id :: "int tf"
  ix_name :: "string tf"
  ix_type :: "string tf"
  ix_disk :: "string tf"
  ix_path :: "string tf"
  ix_filesize :: "int tf"
  ix_comment :: "string tf"
  ix_blocksize :: "int tf"
  ix_pblocksize :: "bool tf"
  ix_threshold :: "int tf"
  ix_insecure_tpc :: "bool tf"
  ix_xen :: "bool tf"
  ix_ro :: "bool tf"
  ix_rpm :: "string tf"
  ix_enabled :: "bool tf"
  ix_naa :: "string tf"
  ix_serial :: "string tf"
  ix_product_id :: "string tf"
  ix_vendor :: "string tf"
  ix_locked :: "bool tf"

record extent_response =
  xa_id :: int
  xa_name :: string
  xa_type :: string
  xa_disk :: "string option"
  xa_path :: string
  xa_filesize :: gval
  xa_comment :: string
  xa_blocksize :: int
  xa_pblocksize :: bool
  xa_threshold :: "int option"
  xa_insecure_tpc :: bool
  xa_xen :: bool
  xa_ro :: bool
  xa_rpm :: string
  xa_enabled :: bool
  xa_naa :: string
  xa_serial :: string
  xa_product_id :: string
  xa_vendor :: string
  xa_locked :: bool

definition decode_extent :: "gval \<Rightarrow> extent_response option" where
  "decode_extent v = do {
     m \<leftarrow> as_object v;
     v_id \<leftarrow> as_int64 (field m ''id'');
     v_name \<leftarrow> as_string (field m ''name'');
     v_type \<leftarrow> as_string (field m ''type'');
     v_disk \<leftarrow> as_ptr as_string (field m ''disk'');
     v_path \<leftarrow> as_string (field m ''path'');
     v_comment \<leftarrow> as_string (field m ''comment'');
     v_blocksize \<leftarrow> as_int64 (field m ''blocksize'');
     v_pblocksize \<leftarrow> as_bool (field m ''pblocksize'');
     v_threshold \<leftarrow> as_ptr as_int64 (field m ''avail_threshold'');
     v_insecure_tpc \<leftarrow> as_bool (field m ''insecure_tpc'');
     v_xen \<leftarrow> as_bool (field m ''xen'');
     v_ro \<leftarrow> as_bool (field m ''ro'');
     v_rpm \<leftarrow> as_string (field m ''rpm'');
     v_enabled \<leftarrow> as_bool (field m ''enabled'');
     v_naa \<leftarrow> as_string (field m ''naa'');
     v_serial \<leftarrow> as_string (field m ''serial'');
     v_product_id \<leftarrow> as_string (field m ''product_id'');
     v_vendor \<leftarrow> as_string (field m ''vendor'');
     v_locked \<leftarrow> as_bool (field m ''locked'');
     Some \<lparr>xa_id = v_id, xa_name = v_name, xa_type = v_type, xa_disk = v_disk, xa_path = v_path,
       xa_filesize = field m ''filesize'', xa_comment = v_comment, xa_blocksize = v_blocksize, xa_pblocksize = v_pblocksize,
       xa_threshold = v_threshold, xa_insecure_tpc = v_insecure_tpc, xa_xen = v_xen, xa_ro = v_ro, xa_rpm = v_rpm,
       xa_enabled = v_enabled, xa_naa = v_naa, xa_serial = v_serial, xa_product_id = v_product_id, xa_vendor = v_vendor,
       xa_locked = v_locked\<rparr> }"

definition extent_to_model :: "(string \<Rightarrow> int) \<Rightarrow> extent_response \<Rightarrow> extent_model \<Rightarrow> diagnostic + extent_model" where
  "extent_to_model F r m = Inr (m\<lparr>ix_id := Known (xa_id r), ix_name := Known (xa_name r), ix_type := Known (xa_type r),
     ix_disk := Known (or_empty (xa_disk r)), ix_path := Known (xa_path r),
     ix_filesize := Known (coerce_int64 F (xa_filesize r)), ix_comment := Known (xa_comment r),
     ix_blocksize := Known (xa_blocksize r), ix_pblocksize := Known (xa_pblocksize r),
     ix_threshold := Known (or_zero (xa_threshold r)), ix_insecure_tpc := Known (xa_insecure_tpc r),
     ix_xen := Known (xa_xen r), ix_ro := Known (xa_ro r), ix_rpm := Known (xa_rpm r), ix_enabled := Known (xa_enabled r),
     ix_naa := Known (xa_naa r), ix_serial := Known (xa_serial r), ix_product_id := Known (xa_product_id r),
     ix_vendor := Known (xa_vendor r), ix_locked := Known (xa_locked r)\<rparr>)"

text \<open>A DISK extent sends its disk; a FILE extent its path and, unless it is zero, its size.\<close>

definition put_device :: "extent_model \<Rightarrow> payload \<Rightarrow> payload" where
  "put_device m p =
     (if value_string (ix_type m) = ''DISK'' then put ''disk'' (GStr (value_string (ix_disk m))) p
      else put_when (value_int64 (ix_filesize m) \<noteq> 0) ''filesize'' (GInt (value_int64 (ix_filesize m)))
        (put ''path'' (GStr (value_string (ix_path m))) p))"

definition extent_payload :: "extent_model \<Rightarrow> diagnostic list + payload" where
  "extent_payload m = Inr (put_device m (
     put_bool ''enabled'' (ix_enabled m) ( put_str ''rpm'' (ix_rpm m) ( put_bool ''ro'' (ix_ro m) (
     put_bool ''xen'' (ix_xen m) ( put_bool ''insecure_tpc'' (ix_insecure_tpc m) (
     put_bool ''pblocksize'' (ix_pblocksize m) ( put_int64 ''blocksize'' (ix_blocksize m) (
     put_str ''comment'' (ix_comment m) ( put_nonzero ''avail_threshold'' (ix_threshold m) ([(''name'', GStr (value_string (ix_name m))), (''type'', GStr (value_string (ix_type m)))])))))))))))"

definition extent_device_missing :: "go_error \<Rightarrow> bool" where
  "extent_device_missing e = (contains_str (err_text e) ''Device '/dev/zvol/'' \<and> contains_str (err_text e) ''does not exist'')"

definition iscsi_extent :: "(string \<Rightarrow> int) \<Rightarrow> (extent_model, extent_response) crud" where
  "iscsi_extent F = \<lparr>cr_service = ''iscsi.extent'', cr_label = ''iSCSI extent'', cr_change = By_waiting extent_device_missing,
     cr_remove = By_call, cr_reads_back = standard_read_back, cr_plan_id = False, cr_payload = extent_payload,
     cr_decode = decode_extent, cr_answer_id = xa_id, cr_refresh = extent_to_model F, cr_id = ix_id,
     cr_null = \<lparr>ix_id = TfNull, ix_name = TfNull, ix_type = TfNull, ix_disk = TfNull, ix_path = TfNull, ix_filesize = TfNull,
       ix_comment = TfNull, ix_blocksize = TfNull, ix_pblocksize = TfNull, ix_threshold = TfNull, ix_insecure_tpc = TfNull,
       ix_xen = TfNull, ix_ro = TfNull, ix_rpm = TfNull, ix_enabled = TfNull, ix_naa = TfNull, ix_serial = TfNull,
       ix_product_id = TfNull, ix_vendor = TfNull, ix_locked = TfNull\<rparr>\<rparr>"

definition extent_create :: "(string \<Rightarrow> int) \<Rightarrow> 'w api \<Rightarrow> extent_model \<Rightarrow> 'w \<Rightarrow> (extent_model outcome \<times> 'w) option" where
  "extent_create F a = crud_create a (iscsi_extent F)"

definition extent_read :: "(string \<Rightarrow> int) \<Rightarrow> 'w api \<Rightarrow> extent_model \<Rightarrow> 'w \<Rightarrow> extent_model outcome \<times> 'w" where
  "extent_read F a = crud_read a (iscsi_extent F)"

definition extent_update :: "(string \<Rightarrow> int) \<Rightarrow> 'w api \<Rightarrow> extent_model \<Rightarrow> extent_model \<Rightarrow> 'w \<Rightarrow> (extent_model outcome \<times> 'w) option" where
  "extent_update F a = crud_update a (iscsi_extent F)"

definition extent_import :: "(string \<Rightarrow> int) \<Rightarrow> 'w api \<Rightarrow> int import_req \<Rightarrow> 'w \<Rightarrow> extent_model outcome \<times> 'w" where
  "extent_import F a = crud_import a (iscsi_extent F)"

text \<open>The zvol behind a disk. The server set readonly on it for a read-only extent and does not take it back, so the
  delete does. The result of the delete is its warnings and its errors.\<close>

definition zvol_name :: "string \<Rightarrow> string option" where
  "zvol_name disk = (if \<not> has_prefix disk ''zvol/'' then None
     else (let name = map (\<lambda>c. if c = CHR ''+'' then CHR '' '' else c) (trim_prefix disk ''zvol/'')
       in if name = [] \<or> contains_str name ''@'' then None else Some name))"

definition extent_delete :: "'w api \<Rightarrow> extent_model \<Rightarrow> 'w \<Rightarrow> (diagnostic list \<times> diagnostic list) \<times> 'w" where
  "extent_delete a st w =
     (case api_call a ''iscsi.extent.delete'' [GInt (value_int64 (ix_id st)), GBool False, GBool False] w of (r, w1) \<Rightarrow>
      (case (case r of Inl e \<Rightarrow> if is_not_found e then None else Some e | Inr _ \<Rightarrow> None) of
         Some e \<Rightarrow> (([], [(''Delete iSCSI extent failed'', err_text e)]), w1)
       | None \<Rightarrow>
           (case (if value_bool (ix_ro st) \<and> value_string (ix_type st) = ''DISK'' then zvol_name (value_string (ix_disk st)) else None) of
              None \<Rightarrow> (([], []), w1)
            | Some name \<Rightarrow> (case api_call a ''pool.dataset.update'' [GStr name, GObj [(''readonly'', GStr ''INHERIT'')]] w1 of
                (Inl e, w2) \<Rightarrow> (if is_not_found e then ([], []) else ([(''Could not reset zvol readonly property'',
                    ''The extent was deleted, but resetting readonly to inherit on zvol '' @ quoted name @ '' failed: '' @ err_text e @
                    ''. TrueNAS set readonly=on on it because the extent had ro = true.'')], []), w2)
              | (Inr _, w2) \<Rightarrow> (([], []), w2)))))"

definition extent_data_source :: "(string \<Rightarrow> int) \<Rightarrow> 'w api \<Rightarrow> extent_model \<Rightarrow> 'w \<Rightarrow> (diagnostic list + extent_model) \<times> 'w" where
  "extent_data_source F a cfg = (let name = value_string (ix_name cfg) in
     crud_lookup a (iscsi_extent F) ''Query iSCSI extents failed'' [equal_filter ''name'' (GStr name)]
       (''iSCSI extent not found'', ''No iSCSI extent named '' @ quoted name @ '' was found.'') (\<lambda>n. None) cfg)"

definition extent_row :: "(string \<Rightarrow> int) \<Rightarrow> bool \<Rightarrow> gval \<Rightarrow> diagnostic list + (string \<times> string \<times> extent_model option)" where
  "extent_row F = crud_row (iscsi_extent F) ''iSCSI extent'' xa_name"

definition extent_validate_config :: "extent_model \<Rightarrow> diagnostic list" where
  "extent_validate_config cfg = (let t = value_string (ix_type cfg); disk = ix_disk cfg; path = ix_path cfg in
     if \<not> is_set (ix_type cfg) then []
     else if t = ''DISK'' then
       (if disk = TfNull \<or> disk = Known [] then [(''disk is required for a DISK extent'',
          ''Set disk to the zvol path, for example \"zvol/${truenas_zvol.x.name}\".'')] else []) @
       (if is_set path \<and> disk \<noteq> TfUnknown \<and> value_string path \<noteq> value_string disk then [(''path must be unset for a DISK extent'',
          ''TrueNAS stores a DISK extent's zvol in path, so path always reads back as the disk value. Remove path.'')] else [])
     else if t = ''FILE'' then
       (if path = TfNull \<or> path = Known [] then [(''path is required for a FILE extent'',
          ''Set path to the backing file, for example \"${truenas_dataset.x.mountpoint}/extent.img\".'')] else []) @
       (if is_set disk \<and> value_string disk \<noteq> [] then [(''disk must be unset for a FILE extent'',
          ''TrueNAS ignores disk for FILE extents and reports it as empty. Remove disk.'')] else [])
     else [])"

text \<open>Plan modifiers of attributes that the configuration leaves out: \<open>st\<close> is the prior state, \<open>v\<close> the attribute in it.\<close>

definition keep_if_same_type :: "extent_model option \<Rightarrow> string tf \<Rightarrow> string tf \<Rightarrow> string tf" where
  "keep_if_same_type st v t = (case st of
      None \<Rightarrow> TfUnknown
    | Some s \<Rightarrow> if v = TfNull \<or> ix_type s \<noteq> t then TfUnknown else v)"

definition disk_follows_type :: "string tf \<Rightarrow> string tf \<Rightarrow> extent_model option \<Rightarrow> string tf \<Rightarrow> string tf \<Rightarrow> string tf" where
  "disk_follows_type cfg t st v plan =
     (if cfg \<noteq> TfNull then plan else if t = TfUnknown then TfUnknown
      else if value_string t = ''FILE'' then Known [] else keep_if_same_type st v t)"

definition path_follows_disk :: "string tf \<Rightarrow> string tf \<Rightarrow> string tf \<Rightarrow> extent_model option \<Rightarrow> string tf \<Rightarrow> string tf \<Rightarrow> string tf" where
  "path_follows_disk cfg t cfg_disk st v plan =
     (if cfg \<noteq> TfNull then plan else if t = TfUnknown then TfUnknown
      else if value_string t = ''DISK'' then (if is_set cfg_disk then cfg_disk else TfUnknown) else keep_if_same_type st v t)"

definition extent_held :: "(string \<Rightarrow> int) \<Rightarrow> extent_response \<Rightarrow> gval gomap" where
  "extent_held F r = [(''name'', GStr (xa_name r)), (''type'', GStr (xa_type r)), (''avail_threshold'', or_nil GInt (xa_threshold r)),
     (''comment'', GStr (xa_comment r)), (''blocksize'', GInt (xa_blocksize r)), (''pblocksize'', GBool (xa_pblocksize r)),
     (''insecure_tpc'', GBool (xa_insecure_tpc r)), (''xen'', GBool (xa_xen r)), (''ro'', GBool (xa_ro r)), (''rpm'', GStr (xa_rpm r)),
     (''enabled'', GBool (xa_enabled r)), (''disk'', GStr (or_empty (xa_disk r))), (''path'', GStr (xa_path r)),
     (''filesize'', GInt (coerce_int64 F (xa_filesize r)))]"

interpretation extent: plain_resource "iscsi_extent F" "extent_held F" "\<lambda>r. xa_threshold r \<noteq> Some 0" for F
proof unfold_locales
  fix r m m1
  assume m: "cr_refresh (iscsi_extent F) r m = Inr m1"
  then show "cr_refresh (iscsi_extent F) r m1 = Inr m1" and "cr_id (iscsi_extent F) m1 = Known (cr_answer_id (iscsi_extent F) r)"
    by (auto simp: iscsi_extent_def extent_to_model_def)
  assume "xa_threshold r \<noteq> Some 0"
  with m show "case cr_payload (iscsi_extent F) m1 of Inl d \<Rightarrow> False | Inr p \<Rightarrow> map_of p \<subseteq>\<^sub>m map_of (extent_held F r)"
    by (cases "xa_threshold r")
      (auto simp: iscsi_extent_def extent_to_model_def extent_payload_def put_device_def extent_held_def or_zero_def or_nil_def
        intro!: only_held)
qed

section \<open>NVMe-oF namespaces\<close>

text \<open>The subsystem comes as an object or as its id; an object without an id counts as 0. The text of the last error is
  left without the raw JSON it quotes.\<close>

definition decode_subsys_id :: "gval \<Rightarrow> go_error + int" where
  "decode_subsys_id v = (if v = GNil then Inl (errorf ''subsys is null in API response'')
     else (case Option.bind (as_object v) (\<lambda>m. as_int64 (field m ''id'')) of
         Some i \<Rightarrow> Inr i
       | None \<Rightarrow> (case as_int64 v of
             Some i \<Rightarrow> Inr i | None \<Rightarrow> Inl (errorf ''cannot decode subsys field as object with id or bare integer''))))"

record namespace_model =
  nn_id :: "int tf"
  nn_subsys_id :: "int tf"
  nn_device_path :: "string tf"
  nn_device_type :: "string tf"
  nn_enabled :: "bool tf"
  nn_filesize :: "int tf"
  nn_nsid :: "int tf"
  nn_nguid :: "string tf"
  nn_uuid :: "string tf"
  nn_locked :: "bool tf"

record namespace_response =
  ns_id :: int
  ns_subsys_id :: gval
  ns_device_path :: string
  ns_device_type :: string
  ns_enabled :: bool
  ns_filesize :: "int option"
  ns_nsid :: int
  ns_nguid :: string
  ns_uuid :: string
  ns_locked :: bool

definition decode_namespace :: "gval \<Rightarrow> namespace_response option" where
  "decode_namespace v = do {
     m \<leftarrow> as_object v;
     v_id \<leftarrow> as_int64 (field m ''id'');
     v_device_path \<leftarrow> as_string (field m ''device_path'');
     v_device_type \<leftarrow> as_string (field m ''device_type'');
     v_enabled \<leftarrow> as_bool (field m ''enabled'');
     v_filesize \<leftarrow> as_ptr as_int64 (field m ''filesize'');
     v_nsid \<leftarrow> as_int64 (field m ''nsid'');
     v_nguid \<leftarrow> as_string (field m ''device_nguid'');
     v_uuid \<leftarrow> as_string (field m ''device_uuid'');
     v_locked \<leftarrow> as_bool (field m ''locked'');
     Some \<lparr>ns_id = v_id, ns_subsys_id = field m ''subsys'', ns_device_path = v_device_path, ns_device_type = v_device_type,
       ns_enabled = v_enabled, ns_filesize = v_filesize, ns_nsid = v_nsid, ns_nguid = v_nguid, ns_uuid = v_uuid,
       ns_locked = v_locked\<rparr> }"

definition namespace_to_model :: "namespace_response \<Rightarrow> namespace_model \<Rightarrow> diagnostic + namespace_model" where
  "namespace_to_model r m = (case decode_subsys_id (ns_subsys_id r) of
      Inl e \<Rightarrow> Inl (''Invalid subsys in API response'', err_text e)
    | Inr i \<Rightarrow> Inr (m\<lparr>nn_id := Known (ns_id r), nn_subsys_id := Known i, nn_device_path := Known (ns_device_path r),
     nn_device_type := Known (ns_device_type r), nn_enabled := Known (ns_enabled r), nn_filesize := or_null (ns_filesize r),
     nn_nsid := Known (ns_nsid r), nn_nguid := Known (ns_nguid r), nn_uuid := Known (ns_uuid r),
     nn_locked := Known (ns_locked r)\<rparr>))"

definition infer_device_type :: "string \<Rightarrow> string" where
  "infer_device_type path = (if has_prefix path ''zvol/'' \<or> has_prefix path ''/dev/zvol/'' then ''ZVOL'' else ''FILE'')"

definition device_type_from_path :: "string tf \<Rightarrow> string tf \<Rightarrow> string tf \<Rightarrow> string tf" where
  "device_type_from_path cfg path plan = (if cfg \<noteq> TfNull then plan
     else if \<not> is_set path then TfUnknown else Known (infer_device_type (value_string path)))"

definition namespace_guarded :: "namespace_model \<Rightarrow> payload" where
  "namespace_guarded m = put_int64 ''filesize'' (nn_filesize m) (put_bool ''enabled'' (nn_enabled m)
     (if is_set (nn_device_type m) then [(''device_type'', GStr (value_string (nn_device_type m)))]
      else put_when (is_set (nn_device_path m)) ''device_type'' (GStr (infer_device_type (value_string (nn_device_path m)))) []))"

definition namespace_create_payload :: "namespace_model \<Rightarrow> diagnostic list + payload" where
  "namespace_create_payload m = Inr (put_int64 ''nsid'' (nn_nsid m) (put ''device_path'' (GStr (value_string (nn_device_path m)))
     (put ''subsys_id'' (GInt (value_int64 (nn_subsys_id m))) (namespace_guarded m))))"

definition namespace_update_payload :: "namespace_model \<Rightarrow> diagnostic list + payload" where
  "namespace_update_payload m = Inr (put_str ''device_path'' (nn_device_path m) (namespace_guarded m))"

definition device_changed :: "namespace_model \<Rightarrow> namespace_model \<Rightarrow> bool" where
  "device_changed plan st \<longleftrightarrow>
     (nn_device_path plan \<noteq> TfUnknown \<and> nn_device_path plan \<noteq> nn_device_path st) \<or>
     (let t = (if nn_device_type plan = TfUnknown \<and> nn_device_path plan \<noteq> TfUnknown
               then Known (infer_device_type (value_string (nn_device_path plan))) else nn_device_type plan)
      in t \<noteq> TfUnknown \<and> t \<noteq> nn_device_type st)"

definition namespace_device_missing :: "go_error \<Rightarrow> bool" where
  "namespace_device_missing e = contains_str (err_text e) ''ZVOL device_path must be a block device''"

definition nvmet_namespace :: "(namespace_model \<Rightarrow> diagnostic list + payload) \<Rightarrow> (namespace_model, namespace_response) crud" where
  "nvmet_namespace body = \<lparr>cr_service = ''nvmet.namespace'', cr_label = ''NVMe-oF namespace'',
     cr_change = By_waiting namespace_device_missing, cr_remove = By_call, cr_reads_back = standard_read_back, cr_plan_id = False,
     cr_payload = body, cr_decode = decode_namespace, cr_answer_id = ns_id, cr_refresh = namespace_to_model, cr_id = nn_id,
     cr_null = \<lparr>nn_id = TfNull, nn_subsys_id = TfNull, nn_device_path = TfNull, nn_device_type = TfNull, nn_enabled = TfNull,
       nn_filesize = TfNull, nn_nsid = TfNull, nn_nguid = TfNull, nn_uuid = TfNull, nn_locked = TfNull\<rparr>\<rparr>"

definition namespace_create :: "'w api \<Rightarrow> namespace_model \<Rightarrow> 'w \<Rightarrow> (namespace_model outcome \<times> 'w) option" where
  "namespace_create a = crud_create a (nvmet_namespace namespace_create_payload)"

definition namespace_read :: "'w api \<Rightarrow> namespace_model \<Rightarrow> 'w \<Rightarrow> namespace_model outcome \<times> 'w" where
  "namespace_read a = crud_read a (nvmet_namespace namespace_update_payload)"

definition namespace_delete :: "'w api \<Rightarrow> namespace_model \<Rightarrow> 'w \<Rightarrow> (diagnostic list \<times> 'w) option" where
  "namespace_delete a = crud_delete a (nvmet_namespace namespace_update_payload)"

definition namespace_import :: "'w api \<Rightarrow> int import_req \<Rightarrow> 'w \<Rightarrow> namespace_model outcome \<times> 'w" where
  "namespace_import a = crud_import a (nvmet_namespace namespace_update_payload)"

definition namespace_update :: "'w api \<Rightarrow> namespace_model \<Rightarrow> namespace_model \<Rightarrow> 'w \<Rightarrow> (namespace_model outcome \<times> 'w) option" where
  "namespace_update a plan st = disabling_update a (nvmet_namespace namespace_update_payload)
     (''Disabling the namespace before changing its device failed: '',
      ''The namespace was disabled to change its device and re-enabling it also failed: '')
     (\<lambda>p. value_bool (nn_enabled st) \<and> device_changed plan st) plan st"

definition namespace_data_source :: "'w api \<Rightarrow> namespace_model \<Rightarrow> 'w \<Rightarrow> (diagnostic list + namespace_model) \<times> 'w" where
  "namespace_data_source a cfg = (let path = value_string (nn_device_path cfg) in
     crud_lookup a (nvmet_namespace namespace_update_payload) ''Query NVMe-oF namespaces failed''
       [equal_filter ''device_path'' (GStr path)]
       (''NVMe-oF namespace not found'', ''No NVMe-oF namespace with device_path '' @ quoted path @ '' was found.'') (\<lambda>n. None) cfg)"

definition namespace_row :: "bool \<Rightarrow> gval \<Rightarrow> diagnostic list + (string \<times> string \<times> namespace_model option)" where
  "namespace_row = crud_row (nvmet_namespace namespace_update_payload) ''NVMe-oF namespace'' ns_device_path"

definition namespace_held :: "namespace_response \<Rightarrow> gval gomap" where
  "namespace_held r = [(''device_path'', GStr (ns_device_path r)), (''device_type'', GStr (ns_device_type r)),
     (''enabled'', GBool (ns_enabled r)), (''filesize'', or_nil GInt (ns_filesize r))]"

interpretation namespace: plain_resource "nvmet_namespace namespace_update_payload" namespace_held "\<lambda>r. True"
  by unfold_locales
    (auto simp: nvmet_namespace_def namespace_to_model_def namespace_update_payload_def namespace_guarded_def namespace_held_def
      or_null_def or_nil_def split: sum.splits option.splits intro!: only_held)

section \<open>NVMe-oF ports\<close>

record port_model =
  np_id :: "int tf"
  np_trtype :: "string tf"
  np_traddr :: "string tf"
  np_trsvcid :: "int tf"
  np_enabled :: "bool tf"
  np_inline_data_size :: "int tf"
  np_max_queue_size :: "int tf"
  np_pi_enable :: "bool tf"
  np_index :: "int tf"
  np_adrfam :: "string tf"

record port_response =
  pt_id :: int
  pt_trtype :: string
  pt_traddr :: string
  pt_trsvcid :: int
  pt_enabled :: bool
  pt_inline_data_size :: "int option"
  pt_max_queue_size :: "int option"
  pt_pi_enable :: "bool option"
  pt_index :: int
  pt_adrfam :: string

definition decode_port :: "gval \<Rightarrow> port_response option" where
  "decode_port v = do {
     m \<leftarrow> as_object v;
     v_id \<leftarrow> as_int64 (field m ''id'');
     v_trtype \<leftarrow> as_string (field m ''addr_trtype'');
     v_traddr \<leftarrow> as_string (field m ''addr_traddr'');
     v_trsvcid \<leftarrow> as_int64 (field m ''addr_trsvcid'');
     v_enabled \<leftarrow> as_bool (field m ''enabled'');
     v_inline_data_size \<leftarrow> as_ptr as_int64 (field m ''inline_data_size'');
     v_max_queue_size \<leftarrow> as_ptr as_int64 (field m ''max_queue_size'');
     v_pi_enable \<leftarrow> as_ptr as_bool (field m ''pi_enable'');
     v_index \<leftarrow> as_int64 (field m ''index'');
     v_adrfam \<leftarrow> as_string (field m ''addr_adrfam'');
     Some \<lparr>pt_id = v_id, pt_trtype = v_trtype, pt_traddr = v_traddr, pt_trsvcid = v_trsvcid, pt_enabled = v_enabled,
       pt_inline_data_size = v_inline_data_size, pt_max_queue_size = v_max_queue_size, pt_pi_enable = v_pi_enable,
       pt_index = v_index, pt_adrfam = v_adrfam\<rparr> }"

definition port_to_model :: "port_response \<Rightarrow> port_model \<Rightarrow> diagnostic + port_model" where
  "port_to_model r m = Inr (m\<lparr>np_id := Known (pt_id r), np_trtype := Known (pt_trtype r), np_traddr := Known (pt_traddr r),
     np_trsvcid := Known (pt_trsvcid r), np_enabled := Known (pt_enabled r),
     np_inline_data_size := or_null (pt_inline_data_size r), np_max_queue_size := or_null (pt_max_queue_size r),
     np_pi_enable := or_null (pt_pi_enable r), np_index := Known (pt_index r), np_adrfam := Known (pt_adrfam r)\<rparr>)"

definition port_guarded :: "port_model \<Rightarrow> payload" where
  "port_guarded m =
     put_bool ''pi_enable'' (np_pi_enable m) ( put_int64 ''max_queue_size'' (np_max_queue_size m) (
     put_int64 ''inline_data_size'' (np_inline_data_size m) ( put_bool ''enabled'' (np_enabled m) (
     put_int64 ''addr_trsvcid'' (np_trsvcid m) ([])))))"

definition port_create_payload :: "port_model \<Rightarrow> diagnostic list + payload" where
  "port_create_payload m = Inr (put ''addr_traddr'' (GStr (value_string (np_traddr m)))
     (put ''addr_trtype'' (GStr (value_string (np_trtype m))) (port_guarded m)))"

definition port_update_payload :: "port_model \<Rightarrow> diagnostic list + payload" where
  "port_update_payload m = Inr (put ''addr_traddr'' (GStr (value_string (np_traddr m))) (port_guarded m))"

text \<open>Whether a payload changes anything but \<open>enabled\<close>.\<close>

definition payload_equal :: "gval \<Rightarrow> gval tf \<Rightarrow> bool" where
  "payload_equal v prior = (case prior of Known g \<Rightarrow> v = g | _ \<Rightarrow> v = GNil)"

definition port_prior :: "port_model \<Rightarrow> attrs" where
  "port_prior st = [(''addr_traddr'', str_attr (np_traddr st)), (''addr_trsvcid'', int_attr (np_trsvcid st)),
     (''inline_data_size'', int_attr (np_inline_data_size st)), (''max_queue_size'', int_attr (np_max_queue_size st)),
     (''pi_enable'', bool_attr (np_pi_enable st))]"

definition port_settings_changed :: "payload \<Rightarrow> port_model \<Rightarrow> bool" where
  "port_settings_changed p st = list_ex (\<lambda>(k, v). k \<noteq> ''enabled'' \<and>
     (case map_of (port_prior st) k of None \<Rightarrow> True | Some prior \<Rightarrow> \<not> payload_equal v prior)) p"

definition nvmet_port :: "(port_model \<Rightarrow> diagnostic list + payload) \<Rightarrow> (port_model, port_response) crud" where
  "nvmet_port body = \<lparr>cr_service = ''nvmet.port'', cr_label = ''NVMe-oF port'', cr_change = By_call, cr_remove = By_call,
     cr_reads_back = standard_read_back, cr_plan_id = False, cr_payload = body, cr_decode = decode_port, cr_answer_id = pt_id,
     cr_refresh = port_to_model, cr_id = np_id,
     cr_null = \<lparr>np_id = TfNull, np_trtype = TfNull, np_traddr = TfNull, np_trsvcid = TfNull, np_enabled = TfNull,
       np_inline_data_size = TfNull, np_max_queue_size = TfNull, np_pi_enable = TfNull, np_index = TfNull,
       np_adrfam = TfNull\<rparr>\<rparr>"

definition port_create :: "'w api \<Rightarrow> port_model \<Rightarrow> 'w \<Rightarrow> (port_model outcome \<times> 'w) option" where
  "port_create a = crud_create a (nvmet_port port_create_payload)"

definition port_read :: "'w api \<Rightarrow> port_model \<Rightarrow> 'w \<Rightarrow> port_model outcome \<times> 'w" where
  "port_read a = crud_read a (nvmet_port port_update_payload)"

definition port_delete :: "'w api \<Rightarrow> port_model \<Rightarrow> 'w \<Rightarrow> (diagnostic list \<times> 'w) option" where
  "port_delete a = crud_delete a (nvmet_port port_update_payload)"

definition port_import :: "'w api \<Rightarrow> int import_req \<Rightarrow> 'w \<Rightarrow> port_model outcome \<times> 'w" where
  "port_import a = crud_import a (nvmet_port port_update_payload)"

definition port_update :: "'w api \<Rightarrow> port_model \<Rightarrow> port_model \<Rightarrow> 'w \<Rightarrow> (port_model outcome \<times> 'w) option" where
  "port_update a plan st = disabling_update a (nvmet_port port_update_payload)
     (''Disabling the port before changing it failed: '',
      ''The port was disabled to apply the change and re-enabling it also failed: '')
     (\<lambda>p. value_bool (np_enabled st) \<and> port_settings_changed p st) plan st"

text \<open>The data source reads a port by its id.\<close>

definition port_data_source :: "'w api \<Rightarrow> port_model \<Rightarrow> 'w \<Rightarrow> (diagnostic list + port_model) \<times> 'w" where
  "port_data_source a cfg w =
     (case crud_instance a (nvmet_port port_update_payload) (value_int64 (np_id cfg)) ''Read NVMe-oF port failed'' ''Parse get_instance response'' w of
        (Inl ds, w1) \<Rightarrow> (Inl ds, w1)
      | (Inr r, w1) \<Rightarrow> (map_sum (\<lambda>d. [d]) id (port_to_model r cfg), w1))"

definition port_row :: "bool \<Rightarrow> gval \<Rightarrow> diagnostic list + (string \<times> string \<times> port_model option)" where
  "port_row = crud_row (nvmet_port port_update_payload) ''NVMe-oF port'' (\<lambda>r. pt_trtype r @ '' '' @ pt_traddr r)"

definition port_held :: "port_response \<Rightarrow> gval gomap" where
  "port_held r = [(''addr_traddr'', GStr (pt_traddr r)), (''addr_trsvcid'', GInt (pt_trsvcid r)), (''enabled'', GBool (pt_enabled r)),
     (''inline_data_size'', or_nil GInt (pt_inline_data_size r)), (''max_queue_size'', or_nil GInt (pt_max_queue_size r)),
     (''pi_enable'', or_nil GBool (pt_pi_enable r))]"

interpretation port: plain_resource "nvmet_port port_update_payload" port_held "\<lambda>r. True"
  by unfold_locales
    (auto simp: nvmet_port_def port_to_model_def port_update_payload_def port_guarded_def port_held_def or_null_def or_nil_def
      split: option.splits intro!: only_held)

section \<open>Nothing in use is left disabled\<close>


end
