(* ===== verification/Tasks.thy ===== *)
theory Tasks
  imports Crud NetAddr
begin

text \<open>
  Static routes and the scheduled tasks: src/internal/resources/static_route, cronjob, scrub_task,
  init_shutdown_script and periodic_snapshot. Of each, the model and the server's object (model.go), the two
  mappings, the record for the shared methods (resource.go), the lookup of the data source and the row of the
  listing. Each is shown to keep the contract of theory Crud.
\<close>

section \<open>Static routes\<close>

record route_model =
  rt_id :: "int tf"
  rt_destination :: "string tf"
  rt_gateway :: "string tf"
  rt_description :: "string tf"

record route_response =
  ra_id :: int
  ra_destination :: string
  ra_gateway :: string
  ra_description :: string

definition decode_route :: "gval \<Rightarrow> route_response option" where
  "decode_route v = do {
     m \<leftarrow> as_object v;
     i \<leftarrow> as_int64 (field m ''id'');
     dest \<leftarrow> as_string (field m ''destination'');
     gw \<leftarrow> as_string (field m ''gateway'');
     desc \<leftarrow> as_string (field m ''description'');
     Some \<lparr>ra_id = i, ra_destination = dest, ra_gateway = gw, ra_description = desc\<rparr> }"

definition route_to_model :: "route_response \<Rightarrow> route_model \<Rightarrow> diagnostic + route_model" where
  "route_to_model r m = Inr (m\<lparr>rt_id := Known (ra_id r), rt_destination := Known (ra_destination r),
     rt_gateway := Known (ra_gateway r), rt_description := Known (ra_description r)\<rparr>)"

definition route_payload :: "route_model \<Rightarrow> diagnostic list + payload" where
  "route_payload m = Inr [(''destination'', GStr (value_string (rt_destination m))), (''gateway'', GStr (value_string (rt_gateway m))),
     (''description'', GStr (value_string (rt_description m)))]"

definition static_route :: "(route_model, route_response) crud" where
  "static_route = \<lparr>cr_service = ''staticroute'', cr_label = ''static route'', cr_change = By_call, cr_remove = By_call,
     cr_reads_back = standard_read_back, cr_plan_id = False, cr_payload = route_payload, cr_decode = decode_route, cr_answer_id = ra_id, cr_refresh = route_to_model,
     cr_id = rt_id, cr_null = \<lparr>rt_id = TfNull, rt_destination = TfNull, rt_gateway = TfNull, rt_description = TfNull\<rparr>\<rparr>"

definition route_create :: "'w api \<Rightarrow> route_model \<Rightarrow> 'w \<Rightarrow> (route_model outcome \<times> 'w) option" where
  "route_create a = crud_create a static_route"

definition route_read :: "'w api \<Rightarrow> route_model \<Rightarrow> 'w \<Rightarrow> route_model outcome \<times> 'w" where
  "route_read a = crud_read a static_route"

definition route_update :: "'w api \<Rightarrow> route_model \<Rightarrow> route_model \<Rightarrow> 'w \<Rightarrow> (route_model outcome \<times> 'w) option" where
  "route_update a = crud_update a static_route"

definition route_delete :: "'w api \<Rightarrow> route_model \<Rightarrow> 'w \<Rightarrow> (diagnostic list \<times> 'w) option" where
  "route_delete a = crud_delete a static_route"

definition route_import :: "'w api \<Rightarrow> int import_req \<Rightarrow> 'w \<Rightarrow> route_model outcome \<times> 'w" where
  "route_import a = crud_import a static_route"

text \<open>The data source reads all routes and compares destinations by meaning; the destination keeps the configured spelling.\<close>

definition route_data_source :: "'w api \<Rightarrow> route_model \<Rightarrow> 'w \<Rightarrow> (diagnostic list + route_model) \<times> 'w" where
  "route_data_source a cfg w = (case api_read a ''staticroute.query'' [] w of
      (Inl e, w1) \<Rightarrow> (Inl [(''Query static routes failed'', err_text e)], w1)
    | (Inr raw, w1) \<Rightarrow> (case as_list decode_route raw of
          None \<Rightarrow> (Inl [(''Parse query response'', err_text decode_error)], w1)
        | Some rs \<Rightarrow>
            (let want = value_string (rt_destination cfg) in
             case filter (\<lambda>r. equal_cidr want (ra_destination r)) rs of
               [] \<Rightarrow> (Inl [(''Static route not found'', ''No static route with destination '' @ quoted want @ '' was found.'')], w1)
             | [r] \<Rightarrow> (case route_to_model r cfg of
                   Inl d \<Rightarrow> (Inl [d], w1) | Inr m \<Rightarrow> (Inr (m\<lparr>rt_destination := rt_destination cfg\<rparr>), w1))
             | many \<Rightarrow> (Inl [(''Several static routes match'', itoa (int (length many)) @ '' static routes have destination '' @
                   quoted want @ ''; this data source needs exactly one.'')], w1))))"

definition route_row :: "bool \<Rightarrow> gval \<Rightarrow> diagnostic list + (string \<times> string \<times> route_model option)" where
  "route_row = crud_row static_route ''static route'' ra_destination"

definition route_held :: "route_response \<Rightarrow> gval gomap" where
  "route_held r = [(''destination'', GStr (ra_destination r)), (''gateway'', GStr (ra_gateway r)), (''description'', GStr (ra_description r))]"

interpretation route: plain_resource static_route route_held "\<lambda>r. True"
  by unfold_locales (auto simp: static_route_def route_to_model_def route_payload_def route_held_def)

section \<open>Schedules\<close>

record schedule =
  at_minute :: "string tf"
  at_hour :: "string tf"
  at_dom :: "string tf"
  at_month :: "string tf"
  at_dow :: "string tf"

definition decode_schedule :: "gval \<Rightarrow> schedule option" where
  "decode_schedule v = do {
     m \<leftarrow> as_object v;
     minute \<leftarrow> as_string (field m ''minute'');
     hour \<leftarrow> as_string (field m ''hour'');
     dom \<leftarrow> as_string (field m ''dom'');
     month \<leftarrow> as_string (field m ''month'');
     dow \<leftarrow> as_string (field m ''dow'');
     Some \<lparr>at_minute = Known minute, at_hour = Known hour, at_dom = Known dom, at_month = Known month, at_dow = Known dow\<rparr> }"

definition schedule_fields :: "schedule \<Rightarrow> payload" where
  "schedule_fields s = [(''minute'', GStr (value_string (at_minute s))), (''hour'', GStr (value_string (at_hour s))),
     (''dom'', GStr (value_string (at_dom s))), (''month'', GStr (value_string (at_month s))), (''dow'', GStr (value_string (at_dow s)))]"

definition put_schedule :: "schedule tf \<Rightarrow> payload \<Rightarrow> payload" where
  "put_schedule s p = (case s of Known x \<Rightarrow> put ''schedule'' (GObj (schedule_fields x)) p | _ \<Rightarrow> p)"

lemma put_schedule_known [simp]: "put_schedule (Known x) p = put ''schedule'' (GObj (schedule_fields x)) p"
  by (simp add: put_schedule_def)

section \<open>Cron jobs\<close>

record cronjob_model =
  cj_id :: "int tf"
  cj_command :: "string tf"
  cj_user :: "string tf"
  cj_description :: "string tf"
  cj_schedule :: "schedule tf"
  cj_enabled :: "bool tf"
  cj_stdout :: "bool tf"
  cj_stderr :: "bool tf"

record cronjob_response =
  ca_id :: int
  ca_command :: string
  ca_user :: string
  ca_description :: string
  ca_schedule :: schedule
  ca_enabled :: bool
  ca_stdout :: bool
  ca_stderr :: bool

definition decode_cronjob :: "gval \<Rightarrow> cronjob_response option" where
  "decode_cronjob v = do {
     m \<leftarrow> as_object v;
     i \<leftarrow> as_int64 (field m ''id'');
     cmd \<leftarrow> as_string (field m ''command'');
     user \<leftarrow> as_string (field m ''user'');
     desc \<leftarrow> as_string (field m ''description'');
     sched \<leftarrow> decode_schedule (field m ''schedule'');
     en \<leftarrow> as_bool (field m ''enabled'');
     so \<leftarrow> as_bool (field m ''stdout'');
     se \<leftarrow> as_bool (field m ''stderr'');
     Some \<lparr>ca_id = i, ca_command = cmd, ca_user = user, ca_description = desc, ca_schedule = sched, ca_enabled = en,
       ca_stdout = so, ca_stderr = se\<rparr> }"

definition cronjob_to_model :: "cronjob_response \<Rightarrow> cronjob_model \<Rightarrow> diagnostic + cronjob_model" where
  "cronjob_to_model r m = Inr (m\<lparr>cj_id := Known (ca_id r), cj_command := Known (ca_command r), cj_user := Known (ca_user r),
     cj_description := Known (ca_description r), cj_schedule := Known (ca_schedule r), cj_enabled := Known (ca_enabled r),
     cj_stdout := Known (ca_stdout r), cj_stderr := Known (ca_stderr r)\<rparr>)"

definition cronjob_payload :: "cronjob_model \<Rightarrow> diagnostic list + payload" where
  "cronjob_payload m = Inr (put_bool ''stderr'' (cj_stderr m) (put_bool ''stdout'' (cj_stdout m)
     (put_bool ''enabled'' (cj_enabled m) (put_schedule (cj_schedule m) (put_str ''description'' (cj_description m)
       [(''command'', GStr (value_string (cj_command m))), (''user'', GStr (value_string (cj_user m)))])))))"

definition cronjob :: "(cronjob_model, cronjob_response) crud" where
  "cronjob = \<lparr>cr_service = ''cronjob'', cr_label = ''cron job'', cr_change = By_call, cr_remove = By_call,
     cr_reads_back = no_read_back, cr_plan_id = False, cr_payload = cronjob_payload, cr_decode = decode_cronjob, cr_answer_id = ca_id, cr_refresh = cronjob_to_model,
     cr_id = cj_id, cr_null = \<lparr>cj_id = TfNull, cj_command = TfNull, cj_user = TfNull, cj_description = TfNull, cj_schedule = TfNull,
       cj_enabled = TfNull, cj_stdout = TfNull, cj_stderr = TfNull\<rparr>\<rparr>"

definition cronjob_create :: "'w api \<Rightarrow> cronjob_model \<Rightarrow> 'w \<Rightarrow> (cronjob_model outcome \<times> 'w) option" where
  "cronjob_create a = crud_create a cronjob"

definition cronjob_read :: "'w api \<Rightarrow> cronjob_model \<Rightarrow> 'w \<Rightarrow> cronjob_model outcome \<times> 'w" where
  "cronjob_read a = crud_read a cronjob"

definition cronjob_update :: "'w api \<Rightarrow> cronjob_model \<Rightarrow> cronjob_model \<Rightarrow> 'w \<Rightarrow> (cronjob_model outcome \<times> 'w) option" where
  "cronjob_update a = crud_update a cronjob"

definition cronjob_delete :: "'w api \<Rightarrow> cronjob_model \<Rightarrow> 'w \<Rightarrow> (diagnostic list \<times> 'w) option" where
  "cronjob_delete a = crud_delete a cronjob"

definition cronjob_import :: "'w api \<Rightarrow> int import_req \<Rightarrow> 'w \<Rightarrow> cronjob_model outcome \<times> 'w" where
  "cronjob_import a = crud_import a cronjob"

definition cronjob_data_source :: "'w api \<Rightarrow> cronjob_model \<Rightarrow> 'w \<Rightarrow> (diagnostic list + cronjob_model) \<times> 'w" where
  "cronjob_data_source a cfg = (let desc = value_string (cj_description cfg) in
     crud_lookup a cronjob ''Query cron jobs failed'' [equal_filter ''description'' (GStr desc)]
       (''Cron job not found'', ''no cron job found with description '' @ quoted desc)
       (\<lambda>n. Some (''Ambiguous lookup'', itoa (int n) @ '' cron jobs match description '' @ quoted desc @
         ''; the lookup must match exactly one. Give the jobs distinct descriptions.'')) cfg)"

definition cronjob_row :: "bool \<Rightarrow> gval \<Rightarrow> diagnostic list + (string \<times> string \<times> cronjob_model option)" where
  "cronjob_row = crud_row cronjob ''cronjob'' (\<lambda>r. if ca_description r = [] then ca_command r else ca_description r)"

definition cronjob_held :: "cronjob_response \<Rightarrow> gval gomap" where
  "cronjob_held r = [(''command'', GStr (ca_command r)), (''user'', GStr (ca_user r)), (''description'', GStr (ca_description r)),
     (''schedule'', GObj (schedule_fields (ca_schedule r))), (''enabled'', GBool (ca_enabled r)),
     (''stdout'', GBool (ca_stdout r)), (''stderr'', GBool (ca_stderr r))]"

interpretation cron: plain_resource cronjob cronjob_held "\<lambda>r. True"
  by unfold_locales
    (auto simp: cronjob_def cronjob_to_model_def cronjob_payload_def cronjob_held_def intro!: only_held)

section \<open>Scrub tasks\<close>

record scrub_model =
  su_id :: "int tf"
  su_pool :: "int tf"
  su_pool_name :: "string tf"
  su_threshold :: "int tf"
  su_description :: "string tf"
  su_schedule :: "schedule tf"
  su_enabled :: "bool tf"

record scrub_response =
  ua_id :: int
  ua_pool :: int
  ua_pool_name :: string
  ua_threshold :: int
  ua_description :: string
  ua_schedule :: schedule
  ua_enabled :: bool

definition decode_scrub :: "gval \<Rightarrow> scrub_response option" where
  "decode_scrub v = do {
     m \<leftarrow> as_object v;
     i \<leftarrow> as_int64 (field m ''id'');
     pool \<leftarrow> as_int64 (field m ''pool'');
     name \<leftarrow> as_string (field m ''pool_name'');
     thr \<leftarrow> as_int64 (field m ''threshold'');
     desc \<leftarrow> as_string (field m ''description'');
     sched \<leftarrow> decode_schedule (field m ''schedule'');
     en \<leftarrow> as_bool (field m ''enabled'');
     Some \<lparr>ua_id = i, ua_pool = pool, ua_pool_name = name, ua_threshold = thr, ua_description = desc, ua_schedule = sched,
       ua_enabled = en\<rparr> }"

definition scrub_to_model :: "scrub_response \<Rightarrow> scrub_model \<Rightarrow> diagnostic + scrub_model" where
  "scrub_to_model r m = Inr (m\<lparr>su_id := Known (ua_id r), su_pool := Known (ua_pool r), su_pool_name := Known (ua_pool_name r),
     su_threshold := Known (ua_threshold r), su_description := Known (ua_description r), su_schedule := Known (ua_schedule r),
     su_enabled := Known (ua_enabled r)\<rparr>)"

definition scrub_payload :: "scrub_model \<Rightarrow> diagnostic list + payload" where
  "scrub_payload m = Inr (put_schedule (su_schedule m) (put_bool ''enabled'' (su_enabled m)
     (put_str ''description'' (su_description m) (put_int64 ''threshold'' (su_threshold m)
       [(''pool'', GInt (value_int64 (su_pool m)))]))))"

definition scrub_task :: "(scrub_model, scrub_response) crud" where
  "scrub_task = \<lparr>cr_service = ''pool.scrub'', cr_label = ''scrub task'', cr_change = By_call, cr_remove = By_call,
     cr_reads_back = no_read_back, cr_plan_id = False, cr_payload = scrub_payload, cr_decode = decode_scrub, cr_answer_id = ua_id,
     cr_refresh = scrub_to_model, cr_id = su_id, cr_null = \<lparr>su_id = TfNull, su_pool = TfNull, su_pool_name = TfNull,
       su_threshold = TfNull, su_description = TfNull, su_schedule = TfNull, su_enabled = TfNull\<rparr>\<rparr>"

definition scrub_create :: "'w api \<Rightarrow> scrub_model \<Rightarrow> 'w \<Rightarrow> (scrub_model outcome \<times> 'w) option" where
  "scrub_create a = crud_create a scrub_task"

definition scrub_read :: "'w api \<Rightarrow> scrub_model \<Rightarrow> 'w \<Rightarrow> scrub_model outcome \<times> 'w" where
  "scrub_read a = crud_read a scrub_task"

definition scrub_update :: "'w api \<Rightarrow> scrub_model \<Rightarrow> scrub_model \<Rightarrow> 'w \<Rightarrow> (scrub_model outcome \<times> 'w) option" where
  "scrub_update a = crud_update a scrub_task"

definition scrub_delete :: "'w api \<Rightarrow> scrub_model \<Rightarrow> 'w \<Rightarrow> (diagnostic list \<times> 'w) option" where
  "scrub_delete a = crud_delete a scrub_task"

definition scrub_import :: "'w api \<Rightarrow> int import_req \<Rightarrow> 'w \<Rightarrow> scrub_model outcome \<times> 'w" where
  "scrub_import a = crud_import a scrub_task"

definition scrub_data_source :: "'w api \<Rightarrow> scrub_model \<Rightarrow> 'w \<Rightarrow> (diagnostic list + scrub_model) \<times> 'w" where
  "scrub_data_source a cfg = (let i = value_int64 (su_pool cfg) in
     crud_lookup a scrub_task ''Query scrub tasks failed'' [equal_filter ''pool'' (GInt i)]
       (''Scrub task not found'', ''no scrub task found for pool '' @ itoa i) (\<lambda>n. None) cfg)"

definition scrub_row :: "bool \<Rightarrow> gval \<Rightarrow> diagnostic list + (string \<times> string \<times> scrub_model option)" where
  "scrub_row = crud_row scrub_task ''scrub task'' ua_pool_name"

definition scrub_held :: "scrub_response \<Rightarrow> gval gomap" where
  "scrub_held r = [(''pool'', GInt (ua_pool r)), (''threshold'', GInt (ua_threshold r)), (''description'', GStr (ua_description r)),
     (''schedule'', GObj (schedule_fields (ua_schedule r))), (''enabled'', GBool (ua_enabled r))]"

interpretation scrub: plain_resource scrub_task scrub_held "\<lambda>r. True"
  by unfold_locales
    (auto simp: scrub_task_def scrub_to_model_def scrub_payload_def scrub_held_def intro!: only_held)

section \<open>Scripts at boot and shutdown\<close>

record script_model =
  si_id :: "int tf"
  si_type :: "string tf"
  si_command :: "string tf"
  si_script :: "string tf"
  si_when :: "string tf"
  si_enabled :: "bool tf"
  si_timeout :: "int tf"
  si_comment :: "string tf"

record script_response =
  ia_id :: int
  ia_type :: string
  ia_command :: string
  ia_script :: string
  ia_when :: string
  ia_enabled :: bool
  ia_timeout :: int
  ia_comment :: string

definition decode_script :: "gval \<Rightarrow> script_response option" where
  "decode_script v = do {
     m \<leftarrow> as_object v;
     i \<leftarrow> as_int64 (field m ''id'');
     ty \<leftarrow> as_string (field m ''type'');
     cmd \<leftarrow> as_string (field m ''command'');
     scr \<leftarrow> as_string (field m ''script'');
     whn \<leftarrow> as_string (field m ''when'');
     en \<leftarrow> as_bool (field m ''enabled'');
     tmo \<leftarrow> as_int64 (field m ''timeout'');
     com \<leftarrow> as_string (field m ''comment'');
     Some \<lparr>ia_id = i, ia_type = ty, ia_command = cmd, ia_script = scr, ia_when = whn, ia_enabled = en, ia_timeout = tmo,
       ia_comment = com\<rparr> }"

definition script_to_model :: "script_response \<Rightarrow> script_model \<Rightarrow> diagnostic + script_model" where
  "script_to_model r m = Inr (m\<lparr>si_id := Known (ia_id r), si_type := Known (ia_type r), si_command := Known (ia_command r),
     si_script := Known (ia_script r), si_when := Known (ia_when r), si_enabled := Known (ia_enabled r),
     si_timeout := Known (ia_timeout r), si_comment := Known (ia_comment r)\<rparr>)"

text \<open>A type needs its own field: a command or a script that is set and not empty.\<close>

definition validate_type_fields :: "script_model \<Rightarrow> diagnostic option" where
  "validate_type_fields m =
     (let lacks = (\<lambda>v. \<not> is_set v \<or> value_string v = []);
          needs = (\<lambda>k t. Some (''Invalid init/shutdown script configuration'',
            ''\"'' @ k @ ''\" is required when \"type\" is \"'' @ t @ ''\".''))
      in if value_string (si_type m) = ''COMMAND'' then (if lacks (si_command m) then needs ''command'' ''COMMAND'' else None)
         else if value_string (si_type m) = ''SCRIPT'' then (if lacks (si_script m) then needs ''script'' ''SCRIPT'' else None)
         else None)"

definition script_payload :: "script_model \<Rightarrow> diagnostic list + payload" where
  "script_payload m = (case validate_type_fields m of
      Some d \<Rightarrow> Inl [d]
    | None \<Rightarrow> Inr (put_str ''comment'' (si_comment m) (put_int64 ''timeout'' (si_timeout m) (put_bool ''enabled'' (si_enabled m)
        (put_str ''script'' (si_script m) (put_str ''command'' (si_command m)
          [(''type'', GStr (value_string (si_type m))), (''when'', GStr (value_string (si_when m)))]))))))"

definition init_script :: "(script_model, script_response) crud" where
  "init_script = \<lparr>cr_service = ''initshutdownscript'', cr_label = ''init/shutdown script'', cr_change = By_call,
     cr_remove = By_call, cr_reads_back = no_read_back, cr_plan_id = False, cr_payload = script_payload, cr_decode = decode_script,
     cr_answer_id = ia_id, cr_refresh = script_to_model, cr_id = si_id, cr_null = \<lparr>si_id = TfNull, si_type = TfNull,
       si_command = TfNull, si_script = TfNull, si_when = TfNull, si_enabled = TfNull, si_timeout = TfNull, si_comment = TfNull\<rparr>\<rparr>"

definition script_create :: "'w api \<Rightarrow> script_model \<Rightarrow> 'w \<Rightarrow> (script_model outcome \<times> 'w) option" where
  "script_create a = crud_create a init_script"

definition script_read :: "'w api \<Rightarrow> script_model \<Rightarrow> 'w \<Rightarrow> script_model outcome \<times> 'w" where
  "script_read a = crud_read a init_script"

definition script_update :: "'w api \<Rightarrow> script_model \<Rightarrow> script_model \<Rightarrow> 'w \<Rightarrow> (script_model outcome \<times> 'w) option" where
  "script_update a = crud_update a init_script"

definition script_delete :: "'w api \<Rightarrow> script_model \<Rightarrow> 'w \<Rightarrow> (diagnostic list \<times> 'w) option" where
  "script_delete a = crud_delete a init_script"

definition script_import :: "'w api \<Rightarrow> int import_req \<Rightarrow> 'w \<Rightarrow> script_model outcome \<times> 'w" where
  "script_import a = crud_import a init_script"

definition script_data_source :: "'w api \<Rightarrow> script_model \<Rightarrow> 'w \<Rightarrow> (diagnostic list + script_model) \<times> 'w" where
  "script_data_source a cfg = (let com = value_string (si_comment cfg) in
     crud_lookup a init_script ''Query init/shutdown scripts failed'' [equal_filter ''comment'' (GStr com)]
       (''Init/shutdown script not found'', ''no init/shutdown script found with comment '' @ quoted com)
       (\<lambda>n. Some (''Ambiguous lookup'', itoa (int n) @ '' init/shutdown scripts match comment '' @ quoted com @
         ''; the lookup must match exactly one. Give the scripts distinct comments.'')) cfg)"

definition script_row :: "bool \<Rightarrow> gval \<Rightarrow> diagnostic list + (string \<times> string \<times> script_model option)" where
  "script_row = crud_row init_script ''init/shutdown script'' (\<lambda>r. ia_type r @ '' @ '' @ ia_when r)"

definition script_held :: "script_response \<Rightarrow> gval gomap" where
  "script_held r = [(''type'', GStr (ia_type r)), (''command'', GStr (ia_command r)), (''script'', GStr (ia_script r)),
     (''when'', GStr (ia_when r)), (''enabled'', GBool (ia_enabled r)), (''timeout'', GInt (ia_timeout r)), (''comment'', GStr (ia_comment r))]"

text \<open>The server never holds a command script without its command, nor a script without its path.\<close>

definition script_complete :: "script_response \<Rightarrow> bool" where
  "script_complete r \<longleftrightarrow> \<not> (ia_type r = ''COMMAND'' \<and> ia_command r = []) \<and> \<not> (ia_type r = ''SCRIPT'' \<and> ia_script r = [])"

lemma complete_is_valid:
  "script_complete r \<Longrightarrow> script_to_model r m = Inr m1 \<Longrightarrow> validate_type_fields m1 = None"
  by (auto simp: script_complete_def script_to_model_def validate_type_fields_def Let_def)

interpretation script: plain_resource init_script script_held script_complete
proof unfold_locales
  fix r m m1
  assume "script_complete r" and x: "cr_refresh init_script r m = Inr m1"
  then have "validate_type_fields m1 = None" by (intro complete_is_valid) (simp_all add: init_script_def)
  with x show "case cr_payload init_script m1 of Inl d \<Rightarrow> False | Inr p \<Rightarrow> map_of p \<subseteq>\<^sub>m map_of (script_held r)"
    by (auto simp: init_script_def script_payload_def script_to_model_def script_held_def intro!: only_held)
qed (auto simp: init_script_def script_to_model_def)

section \<open>Periodic snapshots\<close>

record window =
  wn_at :: schedule
  wn_begin :: "string tf"
  wn_end :: "string tf"

record snaptask_model =
  pe_id :: "int tf"
  pe_dataset :: "string tf"
  pe_recursive :: "bool tf"
  pe_exclude :: "string tf list tf"
  pe_lifetime_value :: "int tf"
  pe_lifetime_unit :: "string tf"
  pe_naming_schema :: "string tf"
  pe_schedule :: "window tf"
  pe_allow_empty :: "bool tf"
  pe_enabled :: "bool tf"

record snaptask_response =
  pa_id :: int
  pa_dataset :: string
  pa_recursive :: bool
  pa_exclude :: "string list option"
  pa_lifetime_value :: int
  pa_lifetime_unit :: string
  pa_naming_schema :: string
  pa_schedule :: window
  pa_allow_empty :: bool
  pa_enabled :: bool

definition decode_window :: "gval \<Rightarrow> window option" where
  "decode_window v = do {
     s \<leftarrow> decode_schedule v;
     m \<leftarrow> as_object v;
     b \<leftarrow> as_string (field m ''begin'');
     e \<leftarrow> as_string (field m ''end'');
     Some \<lparr>wn_at = s, wn_begin = Known b, wn_end = Known e\<rparr> }"

definition decode_snaptask :: "gval \<Rightarrow> snaptask_response option" where
  "decode_snaptask v = do {
     m \<leftarrow> as_object v;
     i \<leftarrow> as_int64 (field m ''id'');
     ds \<leftarrow> as_string (field m ''dataset'');
     rec \<leftarrow> as_bool (field m ''recursive'');
     ex \<leftarrow> as_ptr (as_list as_string) (field m ''exclude'');
     lv \<leftarrow> as_int64 (field m ''lifetime_value'');
     lu \<leftarrow> as_string (field m ''lifetime_unit'');
     ns \<leftarrow> as_string (field m ''naming_schema'');
     sched \<leftarrow> decode_window (field m ''schedule'');
     ae \<leftarrow> as_bool (field m ''allow_empty'');
     en \<leftarrow> as_bool (field m ''enabled'');
     Some \<lparr>pa_id = i, pa_dataset = ds, pa_recursive = rec, pa_exclude = ex, pa_lifetime_value = lv, pa_lifetime_unit = lu,
       pa_naming_schema = ns, pa_schedule = sched, pa_allow_empty = ae, pa_enabled = en\<rparr> }"

text \<open>\<open>ListValueFrom\<close> of a nil slice is the null list.\<close>

definition slice_value :: "'a list option \<Rightarrow> 'a tf list tf" where
  "slice_value l = (case l of None \<Rightarrow> TfNull | Some xs \<Rightarrow> known_list xs)"

definition snaptask_to_model :: "snaptask_response \<Rightarrow> snaptask_model \<Rightarrow> diagnostic + snaptask_model" where
  "snaptask_to_model r m = Inr (m\<lparr>pe_id := Known (pa_id r), pe_dataset := Known (pa_dataset r), pe_recursive := Known (pa_recursive r),
     pe_exclude := slice_value (pa_exclude r), pe_lifetime_value := Known (pa_lifetime_value r),
     pe_lifetime_unit := Known (pa_lifetime_unit r), pe_naming_schema := Known (pa_naming_schema r),
     pe_schedule := Known (pa_schedule r), pe_allow_empty := Known (pa_allow_empty r), pe_enabled := Known (pa_enabled r)\<rparr>)"

definition window_fields :: "window \<Rightarrow> payload" where
  "window_fields s = put_str ''end'' (wn_end s) (put_str ''begin'' (wn_begin s) (schedule_fields (wn_at s)))"

definition snaptask_payload :: "snaptask_model \<Rightarrow> diagnostic list + payload" where
  "snaptask_payload m = (case pe_schedule m of
      Known s \<Rightarrow> (case set_elements (pe_exclude m) of
          Inl d \<Rightarrow> Inl [d]
        | Inr xs \<Rightarrow> Inr (put_bool ''enabled'' (pe_enabled m) (put_bool ''allow_empty'' (pe_allow_empty m)
            (put_bool ''recursive'' (pe_recursive m) (put_when (is_set (pe_exclude m)) ''exclude'' (GArr (map GStr xs))
              [(''dataset'', GStr (value_string (pe_dataset m))), (''lifetime_value'', GInt (value_int64 (pe_lifetime_value m))),
               (''lifetime_unit'', GStr (value_string (pe_lifetime_unit m))), (''naming_schema'', GStr (value_string (pe_naming_schema m))),
               (''schedule'', GObj (window_fields s))])))))
    | _ \<Rightarrow> Inl [conversion_error])"

text \<open>Changes run as jobs on the releases where they are jobs; an update takes the id from the plan.\<close>

definition snapshot_task :: "(snaptask_model, snaptask_response) crud" where
  "snapshot_task = \<lparr>cr_service = ''pool.snapshottask'', cr_label = ''periodic snapshot task'', cr_change = By_job,
     cr_remove = By_job, cr_reads_back = (Some (''Read-back after create failed'', ''Parse read-back response''),
       Some (''Read after update failed'', ''Parse response'')), cr_plan_id = True,
     cr_payload = snaptask_payload, cr_decode = decode_snaptask, cr_answer_id = pa_id, cr_refresh = snaptask_to_model, cr_id = pe_id,
     cr_null = \<lparr>pe_id = TfNull, pe_dataset = TfNull, pe_recursive = TfNull, pe_exclude = TfNull, pe_lifetime_value = TfNull,
       pe_lifetime_unit = TfNull, pe_naming_schema = TfNull, pe_schedule = TfNull, pe_allow_empty = TfNull, pe_enabled = TfNull\<rparr>\<rparr>"

definition snaptask_create :: "'w api \<Rightarrow> snaptask_model \<Rightarrow> 'w \<Rightarrow> (snaptask_model outcome \<times> 'w) option" where
  "snaptask_create a = crud_create a snapshot_task"

definition snaptask_read :: "'w api \<Rightarrow> snaptask_model \<Rightarrow> 'w \<Rightarrow> snaptask_model outcome \<times> 'w" where
  "snaptask_read a = crud_read a snapshot_task"

definition snaptask_update :: "'w api \<Rightarrow> snaptask_model \<Rightarrow> snaptask_model \<Rightarrow> 'w \<Rightarrow> (snaptask_model outcome \<times> 'w) option" where
  "snaptask_update a = crud_update a snapshot_task"

definition snaptask_delete :: "'w api \<Rightarrow> snaptask_model \<Rightarrow> 'w \<Rightarrow> (diagnostic list \<times> 'w) option" where
  "snaptask_delete a = crud_delete a snapshot_task"

definition snaptask_import :: "'w api \<Rightarrow> int import_req \<Rightarrow> 'w \<Rightarrow> snaptask_model outcome \<times> 'w" where
  "snaptask_import a = crud_import a snapshot_task"

definition snaptask_data_source :: "'w api \<Rightarrow> snaptask_model \<Rightarrow> 'w \<Rightarrow> (diagnostic list + snaptask_model) \<times> 'w" where
  "snaptask_data_source a cfg = (let ds = value_string (pe_dataset cfg) in
     crud_lookup a snapshot_task ''Query periodic snapshot tasks failed''
       (equal_filter ''dataset'' (GStr ds) # (if is_set (pe_naming_schema cfg)
          then [equal_filter ''naming_schema'' (GStr (value_string (pe_naming_schema cfg)))] else []))
       (''Periodic snapshot task not found'', ''no task found for dataset '' @ quoted ds)
       (\<lambda>n. Some (''Ambiguous lookup'', itoa (int n) @ '' periodic snapshot tasks match dataset '' @ quoted ds @
         ''; the lookup must match exactly one. Set naming_schema to pick one (hourly and daily tasks on one dataset are common).'')) cfg)"

definition snaptask_row :: "bool \<Rightarrow> gval \<Rightarrow> diagnostic list + (string \<times> string \<times> snaptask_model option)" where
  "snaptask_row = crud_row snapshot_task ''periodic snapshot task'' pa_dataset"

definition snaptask_held :: "snaptask_response \<Rightarrow> gval gomap" where
  "snaptask_held r = [(''dataset'', GStr (pa_dataset r)), (''recursive'', GBool (pa_recursive r)),
     (''exclude'', case pa_exclude r of None \<Rightarrow> GNil | Some xs \<Rightarrow> GArr (map GStr xs)),
     (''lifetime_value'', GInt (pa_lifetime_value r)), (''lifetime_unit'', GStr (pa_lifetime_unit r)),
     (''naming_schema'', GStr (pa_naming_schema r)), (''schedule'', GObj (window_fields (pa_schedule r))),
     (''allow_empty'', GBool (pa_allow_empty r)), (''enabled'', GBool (pa_enabled r))]"

lemma slice_value_set [simp]:
  "is_set (slice_value l) = (l \<noteq> None)" "set_elements (slice_value l) = Inr (case l of None \<Rightarrow> [] | Some xs \<Rightarrow> xs)"
  by (cases l; simp add: slice_value_def)+

interpretation snaptask: plain_resource snapshot_task snaptask_held "\<lambda>r. True"
  by unfold_locales
    (auto simp: snapshot_task_def snaptask_to_model_def snaptask_payload_def snaptask_held_def intro!: only_held)

section \<open>A refresh after an apply\<close>

text \<open>A server that has one route and answers every call with it.\<close>

definition route_api :: "unit api" where
  "route_api = (let r = GObj [(''id'', GNumber ''7''), (''destination'', GStr ''10.0.0.0/8''), (''gateway'', GStr ''10.0.0.1'')] in
     \<lparr>api_call = (\<lambda>m ps w. (Inr r, w)), api_read = (\<lambda>m ps w. (Inr r, w)), api_job = (\<lambda>m ps w. Some (Inr r, w)),
      api_at_least = (\<lambda>x y w. (Inr True, w)), api_now = (\<lambda>w. (0, w)), api_pause = (\<lambda>d w. (None, w))\<rparr>)"

definition new_route :: route_model where
  "new_route = \<lparr>rt_id = TfUnknown, rt_destination = Known ''10.0.0.0/8'', rt_gateway = Known ''10.0.0.1'', rt_description = TfUnknown\<rparr>"

definition stored_route :: route_model where
  "stored_route = \<lparr>rt_id = Known 7, rt_destination = Known ''10.0.0.0/8'', rt_gateway = Known ''10.0.0.1'', rt_description = Known []\<rparr>"

lemma seven [simp]: "atoi ''7'' = (7, None)"
  by (simp add: atoi_def strip_sign_def parse_uint_def digit_val_def is_digit_def ord_of_def max_int64_def)

lemma apply_leaves_no_drift_witness:
  "crud_read route_api static_route stored_route () = (Stored (itoa 7) stored_route, ()) \<and>
   itoa 7 = itoa (value_int64 (cr_id static_route stored_route))"
proof -
  have c: "crud_create (logged route_api) static_route new_route ((), []) = Some (Stored (itoa 7) stored_route,
     snd (the (crud_create (logged route_api) static_route new_route ((), []))))"
    by (simp add: crud_create_def crud_settle_def crud_instance_def crud_store_def send_change_def static_route_def route_payload_def
        decode_route_def route_to_model_def standard_read_back_def route_api_def Let_def noting_def new_route_def stored_route_def field_def)
  show ?thesis
    by (rule apply_leaves_no_drift [OF route.is_well_made, OF disjI1, OF c])
      (simp add: crud_create_def crud_settle_def crud_instance_def crud_store_def send_change_def static_route_def route_payload_def
        decode_route_def route_to_model_def standard_read_back_def route_api_def Let_def noting_def new_route_def stored_route_def field_def
        last_answer_def)
qed

end
