(* ===== verification/Replication.thy ===== *)
theory Replication
  imports Tasks Directory PlanMod
begin

text \<open>
  Replication tasks: src/internal/resources/replication. The model and the server's object with both mappings
  (model.go), the checks of a configuration, the transport a plan infers, and the operations with the write-only
  encryption key (resource.go). \<open>F\<close> reads a JSON number as a float64 and truncates it to an int64, as the code does
  for the id of the credentials.
\<close>

section \<open>The model and the object of the server\<close>

record lifetime =
  lf_schedule :: "schedule tf"
  lf_value :: "int tf"
  lf_unit :: "string tf"

record replication_model =
  rp_id :: "int tf"
  rp_name :: "string tf"
  rp_direction :: "string tf"
  rp_transport :: "string tf"
  rp_ssh_credentials :: "int tf"
  rp_sudo :: "bool tf"
  rp_compression :: "string tf"
  rp_speed_limit :: "int tf"
  rp_nc_side :: "string tf"
  rp_nc_listen :: "string tf"
  rp_nc_port_min :: "int tf"
  rp_nc_port_max :: "int tf"
  rp_nc_connect :: "string tf"
  rp_source_datasets :: "string tf list tf"
  rp_target_dataset :: "string tf"
  rp_recursive :: "bool tf"
  rp_exclude :: "string tf list tf"
  rp_properties :: "bool tf"
  rp_replicate :: "bool tf"
  rp_tasks :: "int tf list tf"
  rp_naming_schema :: "string tf list tf"
  rp_also_include :: "string tf list tf"
  rp_name_regex :: "string tf"
  rp_auto :: "bool tf"
  rp_schedule :: "window tf"
  rp_retention_policy :: "string tf"
  rp_lifetime_value :: "int tf"
  rp_lifetime_unit :: "string tf"
  rp_readonly :: "string tf"
  rp_enabled :: "bool tf"
  rp_retries :: "int tf"
  rp_compressed :: "bool tf"
  rp_embed :: "bool tf"
  rp_large_block :: "bool tf"
  rp_allow_from_scratch :: "bool tf"
  rp_hold_pending :: "bool tf"
  rp_only_matching :: "bool tf"
  rp_logging_level :: "string tf"
  rp_properties_exclude :: "string tf list tf"
  rp_encryption :: "bool tf"
  rp_encryption_inherit :: "bool tf"
  rp_encryption_key_format :: "string tf"
  rp_encryption_key_location :: "string tf"
  rp_restrict_schedule :: "window tf"
  rp_properties_override :: "(string \<times> string tf) list tf"
  rp_lifetimes :: "lifetime tf list tf"
  rp_encryption_key :: "string tf"
  rp_key_wo_version :: "int tf"

record replication_response =
  ry_id :: int
  ry_name :: string
  ry_direction :: string
  ry_transport :: string
  ry_ssh_credentials :: gval
  ry_sudo :: bool
  ry_compression :: "string option"
  ry_speed_limit :: "int option"
  ry_nc_side :: "string option"
  ry_nc_listen :: "string option"
  ry_nc_port_min :: "int option"
  ry_nc_port_max :: "int option"
  ry_nc_connect :: "string option"
  ry_source_datasets :: "string list"
  ry_target_dataset :: string
  ry_recursive :: bool
  ry_exclude :: "string list"
  ry_properties :: bool
  ry_replicate :: bool
  ry_tasks :: "int list"
  ry_naming_schema :: "string list"
  ry_also_include :: "string list"
  ry_name_regex :: "string option"
  ry_auto :: bool
  ry_schedule :: "window option"
  ry_retention_policy :: string
  ry_lifetime_value :: "int option"
  ry_lifetime_unit :: "string option"
  ry_readonly :: string
  ry_enabled :: bool
  ry_retries :: int
  ry_compressed :: bool
  ry_embed :: bool
  ry_large_block :: bool
  ry_allow_from_scratch :: bool
  ry_hold_pending :: bool
  ry_only_matching :: bool
  ry_logging_level :: "string option"
  ry_properties_exclude :: "string list"
  ry_encryption :: bool
  ry_encryption_inherit :: "bool option"
  ry_encryption_key_format :: "string option"
  ry_encryption_key_location :: "string option"
  ry_restrict_schedule :: "window option"
  ry_properties_override :: "(string \<times> string) list"
  ry_lifetimes :: "lifetime list"

definition ptr_value :: "'a option \<Rightarrow> 'a tf" where
  "ptr_value p = (case p of None \<Rightarrow> TfNull | Some x \<Rightarrow> Known x)"

definition null_if_empty :: "string \<Rightarrow> string tf" where
  "null_if_empty s = (if s = [] then TfNull else Known s)"

definition decode_embedded :: "gval \<Rightarrow> int option" where
  "decode_embedded v = do { m \<leftarrow> as_object v; as_int64 (field m ''id'') }"

definition decode_plain_window :: "gval \<Rightarrow> window option" where
  "decode_plain_window v = map_option (\<lambda>w. w\<lparr>wn_begin := null_if_empty (value_string (wn_begin w)),
     wn_end := null_if_empty (value_string (wn_end w))\<rparr>) (decode_window v)"

definition as_string_map :: "gval \<Rightarrow> (string \<times> string) list option" where
  "as_string_map v = do { m \<leftarrow> as_object v; map_opt (\<lambda>(k, x). map_option (Pair k) (as_string x)) m }"

definition decode_lifetime :: "gval \<Rightarrow> lifetime option" where
  "decode_lifetime v = do {
     m \<leftarrow> as_object v;
     s \<leftarrow> decode_schedule (field m ''schedule'');
     n \<leftarrow> as_int64 (field m ''lifetime_value'');
     u \<leftarrow> as_string (field m ''lifetime_unit'');
     Some \<lparr>lf_schedule = Known s, lf_value = Known n, lf_unit = Known u\<rparr> }"

definition decode_replication :: "gval \<Rightarrow> replication_response option" where
  "decode_replication v = do {
     m \<leftarrow> as_object v;
     i \<leftarrow> as_int64 (field m ''id'');
     v_name \<leftarrow> as_string (field m ''name'');
     v_direction \<leftarrow> as_string (field m ''direction'');
     v_transport \<leftarrow> as_string (field m ''transport'');
     v_ssh_credentials \<leftarrow> Some (field m ''ssh_credentials'');
     v_sudo \<leftarrow> as_bool (field m ''sudo'');
     v_compression \<leftarrow> as_ptr as_string (field m ''compression'');
     v_speed_limit \<leftarrow> as_ptr as_int64 (field m ''speed_limit'');
     v_nc_side \<leftarrow> as_ptr as_string (field m ''netcat_active_side'');
     v_nc_listen \<leftarrow> as_ptr as_string (field m ''netcat_active_side_listen_address'');
     v_nc_port_min \<leftarrow> as_ptr as_int64 (field m ''netcat_active_side_port_min'');
     v_nc_port_max \<leftarrow> as_ptr as_int64 (field m ''netcat_active_side_port_max'');
     v_nc_connect \<leftarrow> as_ptr as_string (field m ''netcat_passive_side_connect_address'');
     v_source_datasets \<leftarrow> as_list as_string (field m ''source_datasets'');
     v_target_dataset \<leftarrow> as_string (field m ''target_dataset'');
     v_recursive \<leftarrow> as_bool (field m ''recursive'');
     v_exclude \<leftarrow> as_list as_string (field m ''exclude'');
     v_properties \<leftarrow> as_bool (field m ''properties'');
     v_replicate \<leftarrow> as_bool (field m ''replicate'');
     v_tasks \<leftarrow> as_list decode_embedded (field m ''periodic_snapshot_tasks'');
     v_naming_schema \<leftarrow> as_list as_string (field m ''naming_schema'');
     v_also_include \<leftarrow> as_list as_string (field m ''also_include_naming_schema'');
     v_name_regex \<leftarrow> as_ptr as_string (field m ''name_regex'');
     v_auto \<leftarrow> as_bool (field m ''auto'');
     v_schedule \<leftarrow> as_ptr decode_plain_window (field m ''schedule'');
     v_retention_policy \<leftarrow> as_string (field m ''retention_policy'');
     v_lifetime_value \<leftarrow> as_ptr as_int64 (field m ''lifetime_value'');
     v_lifetime_unit \<leftarrow> as_ptr as_string (field m ''lifetime_unit'');
     v_readonly \<leftarrow> as_string (field m ''readonly'');
     v_enabled \<leftarrow> as_bool (field m ''enabled'');
     v_retries \<leftarrow> as_int64 (field m ''retries'');
     v_compressed \<leftarrow> as_bool (field m ''compressed'');
     v_embed \<leftarrow> as_bool (field m ''embed'');
     v_large_block \<leftarrow> as_bool (field m ''large_block'');
     v_allow_from_scratch \<leftarrow> as_bool (field m ''allow_from_scratch'');
     v_hold_pending \<leftarrow> as_bool (field m ''hold_pending_snapshots'');
     v_only_matching \<leftarrow> as_bool (field m ''only_matching_schedule'');
     v_logging_level \<leftarrow> as_ptr as_string (field m ''logging_level'');
     v_properties_exclude \<leftarrow> as_list as_string (field m ''properties_exclude'');
     v_encryption \<leftarrow> as_bool (field m ''encryption'');
     v_encryption_inherit \<leftarrow> as_ptr as_bool (field m ''encryption_inherit'');
     v_encryption_key_format \<leftarrow> as_ptr as_string (field m ''encryption_key_format'');
     v_encryption_key_location \<leftarrow> as_ptr as_string (field m ''encryption_key_location'');
     v_restrict_schedule \<leftarrow> as_ptr decode_plain_window (field m ''restrict_schedule'');
     v_properties_override \<leftarrow> as_string_map (field m ''properties_override'');
     v_lifetimes \<leftarrow> as_list decode_lifetime (field m ''lifetimes'');
     Some \<lparr>ry_id = i, ry_name = v_name, ry_direction = v_direction, ry_transport = v_transport, ry_ssh_credentials = v_ssh_credentials,
       ry_sudo = v_sudo, ry_compression = v_compression, ry_speed_limit = v_speed_limit, ry_nc_side = v_nc_side,
       ry_nc_listen = v_nc_listen, ry_nc_port_min = v_nc_port_min, ry_nc_port_max = v_nc_port_max, ry_nc_connect = v_nc_connect,
       ry_source_datasets = v_source_datasets, ry_target_dataset = v_target_dataset, ry_recursive = v_recursive,
       ry_exclude = v_exclude, ry_properties = v_properties, ry_replicate = v_replicate, ry_tasks = v_tasks,
       ry_naming_schema = v_naming_schema, ry_also_include = v_also_include, ry_name_regex = v_name_regex, ry_auto = v_auto,
       ry_schedule = v_schedule, ry_retention_policy = v_retention_policy, ry_lifetime_value = v_lifetime_value,
       ry_lifetime_unit = v_lifetime_unit, ry_readonly = v_readonly, ry_enabled = v_enabled, ry_retries = v_retries,
       ry_compressed = v_compressed, ry_embed = v_embed, ry_large_block = v_large_block,
       ry_allow_from_scratch = v_allow_from_scratch, ry_hold_pending = v_hold_pending, ry_only_matching = v_only_matching,
       ry_logging_level = v_logging_level, ry_properties_exclude = v_properties_exclude, ry_encryption = v_encryption,
       ry_encryption_inherit = v_encryption_inherit, ry_encryption_key_format = v_encryption_key_format,
       ry_encryption_key_location = v_encryption_key_location, ry_restrict_schedule = v_restrict_schedule,
       ry_properties_override = v_properties_override, ry_lifetimes = v_lifetimes\<rparr> }"

text \<open>Credentials come as null, as a number, or as an object with an id; anything else counts as none.\<close>

definition number_id :: "(string \<Rightarrow> int) \<Rightarrow> gval \<Rightarrow> int" where
  "number_id F v = (case v of GNumber s \<Rightarrow> F s | GInt i \<Rightarrow> i | _ \<Rightarrow> 0)"

definition ssh_credentials_id :: "(string \<Rightarrow> int) \<Rightarrow> gval \<Rightarrow> int" where
  "ssh_credentials_id F v = (case v of GObj m \<Rightarrow> number_id F (field m ''id'') | _ \<Rightarrow> number_id F v)"

definition replication_to_model :: "(string \<Rightarrow> int) \<Rightarrow> replication_response \<Rightarrow> replication_model \<Rightarrow> diagnostic + replication_model" where
  "replication_to_model F r m = Inr (m\<lparr>rp_id := Known (ry_id r),
     rp_name := Known (ry_name r), rp_direction := Known (ry_direction r), rp_transport := Known (ry_transport r),
     rp_ssh_credentials := Known (ssh_credentials_id F (ry_ssh_credentials r)), rp_sudo := Known (ry_sudo r),
     rp_compression := ptr_value (ry_compression r), rp_speed_limit := ptr_value (ry_speed_limit r),
     rp_nc_side := ptr_value (ry_nc_side r), rp_nc_listen := ptr_value (ry_nc_listen r),
     rp_nc_port_min := ptr_value (ry_nc_port_min r), rp_nc_port_max := ptr_value (ry_nc_port_max r),
     rp_nc_connect := ptr_value (ry_nc_connect r), rp_source_datasets := known_list (ry_source_datasets r),
     rp_target_dataset := Known (ry_target_dataset r), rp_recursive := Known (ry_recursive r),
     rp_exclude := known_list (ry_exclude r), rp_properties := Known (ry_properties r), rp_replicate := Known (ry_replicate r),
     rp_tasks := known_list (ry_tasks r), rp_naming_schema := known_list (ry_naming_schema r),
     rp_also_include := known_list (ry_also_include r),
     rp_name_regex := Known (case ry_name_regex r of None \<Rightarrow> [] | Some s \<Rightarrow> s),
     rp_auto := Known (ry_auto r), rp_schedule := ptr_value (ry_schedule r),
     rp_retention_policy := Known (ry_retention_policy r), rp_lifetime_value := ptr_value (ry_lifetime_value r),
     rp_lifetime_unit := ptr_value (ry_lifetime_unit r), rp_readonly := Known (ry_readonly r),
     rp_enabled := Known (ry_enabled r), rp_retries := Known (ry_retries r), rp_compressed := Known (ry_compressed r),
     rp_embed := Known (ry_embed r), rp_large_block := Known (ry_large_block r),
     rp_allow_from_scratch := Known (ry_allow_from_scratch r), rp_hold_pending := Known (ry_hold_pending r),
     rp_only_matching := Known (ry_only_matching r), rp_logging_level := ptr_value (ry_logging_level r),
     rp_properties_exclude := known_list (ry_properties_exclude r), rp_encryption := Known (ry_encryption r),
     rp_encryption_inherit := ptr_value (ry_encryption_inherit r),
     rp_encryption_key_format := ptr_value (ry_encryption_key_format r),
     rp_encryption_key_location := ptr_value (ry_encryption_key_location r),
     rp_restrict_schedule := ptr_value (ry_restrict_schedule r),
     rp_properties_override := (if ry_properties_override r = [] then TfNull else Known (map (\<lambda>(k, s). (k, Known s)) (ry_properties_override r))),
     rp_lifetimes := (if ry_lifetimes r = [] then TfNull else known_list (ry_lifetimes r))\<rparr>)"

section \<open>What is sent\<close>

definition cron_with_window :: "window \<Rightarrow> gval" where
  "cron_with_window w = GObj
     (put_when (is_set (wn_end w) \<and> value_string (wn_end w) \<noteq> []) ''end'' (GStr (value_string (wn_end w)))
     (put_when (is_set (wn_begin w) \<and> value_string (wn_begin w) \<noteq> []) ''begin'' (GStr (value_string (wn_begin w)))
       (schedule_fields (wn_at w))))"

definition lifetime_payload :: "lifetime \<Rightarrow> gval" where
  "lifetime_payload l = GObj [(''schedule'', GObj (case lf_schedule l of Known s \<Rightarrow> schedule_fields s | _ \<Rightarrow> [])),
     (''lifetime_value'', GInt (value_int64 (lf_value l))), (''lifetime_unit'', GStr (value_string (lf_unit l)))]"

text \<open>An attribute that is cleared by null (\<open>put_or_null\<close>) and one that is cleared by another value and left out when unknown
  (\<open>put_or\<close>).\<close>

definition put_or_null :: "bool \<Rightarrow> string \<Rightarrow> gval \<Rightarrow> payload \<Rightarrow> payload" where
  "put_or_null c k v = put k (if c then v else GNil)"

definition put_or :: "gval \<Rightarrow> string \<Rightarrow> ('a \<Rightarrow> gval) \<Rightarrow> 'a tf \<Rightarrow> payload \<Rightarrow> payload" where
  "put_or cleared k f v p = (case v of TfNull \<Rightarrow> put k cleared p | TfUnknown \<Rightarrow> p | Known x \<Rightarrow> put k (f x) p)"

definition nonzero :: "int \<Rightarrow> gval" where
  "nonzero i = (if i \<noteq> 0 then GInt i else GNil)"

definition map_elements :: "(string \<times> string tf) list \<Rightarrow> diagnostic + (string \<times> string) list" where
  "map_elements kvs = (case map_opt (\<lambda>(k, v). map_option (Pair k) (known_value v)) kvs of
      None \<Rightarrow> Inl conversion_error | Some ps \<Rightarrow> Inr ps)"

definition string_map :: "(string \<times> string tf) list \<Rightarrow> gval" where
  "string_map kvs = GObj (map (\<lambda>(k, s). (k, GStr s)) (got (map_elements kvs)))"

text \<open>The conversions that can fail, in the order of the code.\<close>

definition replication_errors :: "replication_model \<Rightarrow> diagnostic list" where
  "replication_errors m =
     errors_of (set_elements (rp_source_datasets m)) @ errors_of (set_elements (rp_exclude m)) @
     errors_of (set_elements (rp_tasks m)) @ errors_of (set_elements (rp_properties_exclude m)) @
     (case rp_properties_override m of Known kvs \<Rightarrow> errors_of (map_elements kvs) | _ \<Rightarrow> []) @
     errors_of (set_elements (rp_lifetimes m)) @
     concat (map (\<lambda>l. if is_set (lf_schedule l) then [] else [conversion_error]) (got (set_elements (rp_lifetimes m)))) @
     (if value_string (rp_name_regex m) = [] then errors_of (set_elements (rp_naming_schema m)) @
        errors_of (set_elements (rp_also_include m)) else [])"

definition replication_required :: "replication_model \<Rightarrow> payload" where
  "replication_required m =
     [(''name'', GStr (value_string (rp_name m))), (''direction'', GStr (value_string (rp_direction m))),
      (''transport'', GStr (value_string (rp_transport m))), (''ssh_credentials'', nonzero (value_int64 (rp_ssh_credentials m))),
      (''source_datasets'', GArr (map GStr (got (set_elements (rp_source_datasets m))))),
      (''target_dataset'', GStr (value_string (rp_target_dataset m))), (''recursive'', GBool (value_bool (rp_recursive m))),
      (''exclude'', GArr (map GStr (got (set_elements (rp_exclude m))))),
      (''periodic_snapshot_tasks'', GArr (map GInt (got (set_elements (rp_tasks m))))),
      (''auto'', GBool (value_bool (rp_auto m))), (''retention_policy'', GStr (value_string (rp_retention_policy m)))]"

definition replication_optional :: "replication_model \<Rightarrow> payload \<Rightarrow> payload" where
  "replication_optional m p =
     put_str ''encryption_key_location'' (rp_encryption_key_location m) (put_str ''encryption_key_format'' (rp_encryption_key_format m)
     (put_bool ''encryption_inherit'' (rp_encryption_inherit m) (put_bool ''encryption'' (rp_encryption m)
     (put_strings ''properties_exclude'' (rp_properties_exclude m) (put_str ''logging_level'' (rp_logging_level m)
     (put_bool ''only_matching_schedule'' (rp_only_matching m) (put_bool ''hold_pending_snapshots'' (rp_hold_pending m)
     (put_bool ''allow_from_scratch'' (rp_allow_from_scratch m) (put_bool ''large_block'' (rp_large_block m)
     (put_bool ''embed'' (rp_embed m) (put_bool ''compressed'' (rp_compressed m) (put_int64 ''retries'' (rp_retries m)
     (put_bool ''enabled'' (rp_enabled m) (put_str ''readonly'' (rp_readonly m) (put_bool ''replicate'' (rp_replicate m)
     (put_bool ''properties'' (rp_properties m) (put_bool ''sudo'' (rp_sudo m) p)))))))))))))))))"

definition replication_clearable :: "replication_model \<Rightarrow> payload \<Rightarrow> payload" where
  "replication_clearable m p =
     put_or_null (is_set (rp_nc_connect m)) ''netcat_passive_side_connect_address'' (GStr (value_string (rp_nc_connect m)))
     (put_or_null (is_set (rp_nc_port_max m)) ''netcat_active_side_port_max'' (GInt (value_int64 (rp_nc_port_max m)))
     (put_or_null (is_set (rp_nc_port_min m)) ''netcat_active_side_port_min'' (GInt (value_int64 (rp_nc_port_min m)))
     (put_or_null (is_set (rp_nc_listen m)) ''netcat_active_side_listen_address'' (GStr (value_string (rp_nc_listen m)))
     (put_or_null (is_set (rp_nc_side m)) ''netcat_active_side'' (GStr (value_string (rp_nc_side m)))
     (put_or_null (is_set (rp_speed_limit m)) ''speed_limit'' (GInt (value_int64 (rp_speed_limit m)))
     (put_or_null (is_set (rp_compression m)) ''compression'' (GStr (value_string (rp_compression m)))
     (put_or (GArr []) ''lifetimes'' (\<lambda>_. GArr (map lifetime_payload (got (set_elements (rp_lifetimes m))))) (rp_lifetimes m)
     (put_or (GObj []) ''properties_override'' string_map (rp_properties_override m)
     (put_or GNil ''restrict_schedule'' cron_with_window (rp_restrict_schedule m) p)))))))))"

text \<open>Either the regular expression or both naming schemas.\<close>

definition put_naming :: "replication_model \<Rightarrow> payload \<Rightarrow> payload" where
  "put_naming m p =
     (if value_string (rp_name_regex m) \<noteq> [] then put ''name_regex'' (GStr (value_string (rp_name_regex m))) p
      else put ''also_include_naming_schema'' (GArr (map GStr (got (set_elements (rp_also_include m)))))
        (put ''naming_schema'' (GArr (map GStr (got (set_elements (rp_naming_schema m))))) p))"

definition replication_payload :: "replication_model \<Rightarrow> diagnostic list + payload" where
  "replication_payload m =
     (if replication_errors m \<noteq> [] then Inl (replication_errors m)
      else Inr (put_or GNil ''schedule'' cron_with_window (rp_schedule m)
        (put_or_null (is_set (rp_lifetime_unit m) \<and> value_string (rp_lifetime_unit m) \<noteq> []) ''lifetime_unit''
          (GStr (value_string (rp_lifetime_unit m)))
        (put_or_null (is_set (rp_lifetime_value m) \<and> value_int64 (rp_lifetime_value m) \<noteq> 0) ''lifetime_value''
          (GInt (value_int64 (rp_lifetime_value m)))
        (put_naming m (replication_clearable m (replication_optional m (replication_required m))))))))"

text \<open>The key is write-only: it is read from the configuration.\<close>

definition inject_encryption_key :: "replication_model \<Rightarrow> payload \<Rightarrow> payload" where
  "inject_encryption_key cfg = put_str ''encryption_key'' (rp_encryption_key cfg)"

definition own_key :: "replication_model \<Rightarrow> bool" where
  "own_key m \<longleftrightarrow> value_bool (rp_encryption m) \<and> \<not> value_bool (rp_encryption_inherit m)"

definition encryption_key_resend_needed :: "replication_model \<Rightarrow> replication_model \<Rightarrow> bool" where
  "encryption_key_resend_needed plan prior \<longleftrightarrow>
     (if rp_key_wo_version plan \<noteq> rp_key_wo_version prior then True else own_key plan \<and> \<not> own_key prior)"

section \<open>The operations\<close>

definition null_replication :: replication_model where
  "null_replication = \<lparr>rp_id = TfNull, rp_name = TfNull, rp_direction = TfNull, rp_transport = TfNull, rp_ssh_credentials = TfNull, rp_sudo = TfNull,
     rp_compression = TfNull, rp_speed_limit = TfNull, rp_nc_side = TfNull, rp_nc_listen = TfNull, rp_nc_port_min = TfNull,
     rp_nc_port_max = TfNull, rp_nc_connect = TfNull, rp_source_datasets = TfNull, rp_target_dataset = TfNull,
     rp_recursive = TfNull, rp_exclude = TfNull, rp_properties = TfNull, rp_replicate = TfNull, rp_tasks = TfNull,
     rp_naming_schema = TfNull, rp_also_include = TfNull, rp_name_regex = TfNull, rp_auto = TfNull, rp_schedule = TfNull,
     rp_retention_policy = TfNull, rp_lifetime_value = TfNull, rp_lifetime_unit = TfNull, rp_readonly = TfNull,
     rp_enabled = TfNull, rp_retries = TfNull, rp_compressed = TfNull, rp_embed = TfNull, rp_large_block = TfNull,
     rp_allow_from_scratch = TfNull, rp_hold_pending = TfNull, rp_only_matching = TfNull, rp_logging_level = TfNull,
     rp_properties_exclude = TfNull, rp_encryption = TfNull, rp_encryption_inherit = TfNull, rp_encryption_key_format = TfNull,
     rp_encryption_key_location = TfNull, rp_restrict_schedule = TfNull, rp_properties_override = TfNull, rp_lifetimes = TfNull,
     rp_encryption_key = TfNull, rp_key_wo_version = TfNull\<rparr>"

text \<open>\<open>inject\<close> is what the operation does to the payload.\<close>

definition replication :: "(string \<Rightarrow> int) \<Rightarrow> (payload \<Rightarrow> payload) \<Rightarrow> (replication_model, replication_response) crud" where
  "replication F inject = \<lparr>cr_service = ''replication'', cr_label = ''replication task'', cr_change = By_call, cr_remove = By_call,
     cr_reads_back = standard_read_back, cr_plan_id = False, cr_payload = map_sum id inject \<circ> replication_payload,
     cr_decode = decode_replication, cr_answer_id = ry_id, cr_refresh = replication_to_model F, cr_id = rp_id,
     cr_null = null_replication\<rparr>"

definition replication_create ::
  "(string \<Rightarrow> int) \<Rightarrow> 'w api \<Rightarrow> raw \<Rightarrow> priv_state option \<Rightarrow> replication_model \<Rightarrow> replication_model \<Rightarrow> 'w \<Rightarrow>
   ((replication_model outcome \<times> priv_state option) \<times> 'w) option" where
  "replication_create F a raw_cfg pr cfg plan w =
     map_option (\<lambda>(out, w1). ((out, case out of Stored i m \<Rightarrow> record_managed raw_cfg pr [''transport''] | _ \<Rightarrow> pr), w1))
       (crud_create a (replication F (inject_encryption_key cfg)) plan w)"

definition replication_read :: "(string \<Rightarrow> int) \<Rightarrow> 'w api \<Rightarrow> replication_model \<Rightarrow> 'w \<Rightarrow> replication_model outcome \<times> 'w" where
  "replication_read F a = crud_read a (replication F id)"

definition replication_update ::
  "(string \<Rightarrow> int) \<Rightarrow> 'w api \<Rightarrow> replication_model \<Rightarrow> replication_model \<Rightarrow> replication_model \<Rightarrow> 'w \<Rightarrow>
   (replication_model outcome \<times> 'w) option" where
  "replication_update F a cfg plan st =
     crud_update a (replication F (if encryption_key_resend_needed plan st then inject_encryption_key cfg else id)) plan st"

definition replication_delete :: "'w api \<Rightarrow> replication_model \<Rightarrow> 'w \<Rightarrow> (diagnostic list \<times> 'w) option" where
  "replication_delete a = crud_delete a (replication (\<lambda>_. 0) id)"

definition replication_import :: "(string \<Rightarrow> int) \<Rightarrow> 'w api \<Rightarrow> int import_req \<Rightarrow> 'w \<Rightarrow> replication_model outcome \<times> 'w" where
  "replication_import F a = crud_import a (replication F id)"

definition replication_data_source ::
  "(string \<Rightarrow> int) \<Rightarrow> 'w api \<Rightarrow> replication_model \<Rightarrow> 'w \<Rightarrow> (diagnostic list + replication_model) \<times> 'w" where
  "replication_data_source F a cfg = (let name = value_string (rp_name cfg) in
     crud_lookup a (replication F id) ''Query replication tasks failed'' [equal_filter ''name'' (GStr name)]
       (''Replication task not found'', ''no replication task found with name '' @ quoted name) (\<lambda>n. None) cfg)"

definition replication_row ::
  "(string \<Rightarrow> int) \<Rightarrow> bool \<Rightarrow> gval \<Rightarrow> diagnostic list + (string \<times> string \<times> replication_model option)" where
  "replication_row F = crud_row (replication F id) ''replication task'' ry_name"

section \<open>The configuration and the plan\<close>

definition name_regex_conflict :: "replication_model \<Rightarrow> bool" where
  "name_regex_conflict c \<longleftrightarrow>
     (let some = (\<lambda>l. case l of Known vs \<Rightarrow> vs \<noteq> [] | _ \<Rightarrow> False)
      in (is_set (rp_name_regex c) \<and> value_string (rp_name_regex c) \<noteq> []) \<and>
         (some (rp_naming_schema c) \<or> some (rp_also_include c)))"

text \<open>The transport as far as the configuration tells; empty where it does not.\<close>

definition transport_or_default :: "replication_model \<Rightarrow> string" where
  "transport_or_default c = (if is_set (rp_transport c) then value_string (rp_transport c) else [])"

definition ssh_credentials_set :: "replication_model \<Rightarrow> bool" where
  "ssh_credentials_set c \<longleftrightarrow> is_set (rp_ssh_credentials c) \<and> value_int64 (rp_ssh_credentials c) \<noteq> 0"

definition transport_credentials_mismatch :: "replication_model \<Rightarrow> string" where
  "transport_credentials_mismatch c =
     (let t = transport_or_default c in
      if is_unknown (rp_ssh_credentials c) \<or> t = [] then []
      else if t = ''SSH'' \<or> t = ''SSH+NETCAT'' then
        (if \<not> ssh_credentials_set c then ''transport = '' @ quoted t @
           '' requires ssh_credentials to be set (the id of a truenas_keychain_ssh_connection credential).'' else [])
      else if t = ''LOCAL'' then
        (if ssh_credentials_set c then ''transport = \"LOCAL\" (the default) does not accept ssh_credentials; either unset '' @
           ''ssh_credentials or set transport = \"SSH\" or \"SSH+NETCAT\".'' else [])
      else [])"

definition netcat_set :: "replication_model \<Rightarrow> bool" where
  "netcat_set c \<longleftrightarrow> is_set (rp_nc_side c) \<or> is_set (rp_nc_listen c) \<or> is_set (rp_nc_port_min c) \<or> is_set (rp_nc_port_max c) \<or>
     is_set (rp_nc_connect c)"

definition netcat_fields_mismatch :: "replication_model \<Rightarrow> string" where
  "netcat_fields_mismatch c =
     (let t = transport_or_default c in
      if t = [] then []
      else if t \<noteq> ''SSH+NETCAT'' then
        (if netcat_set c then ''the netcat_active_side, netcat_active_side_listen_address, '' @
           ''netcat_active_side_port_min, netcat_active_side_port_max, and '' @
           ''netcat_passive_side_connect_address attributes are only valid for transport = \"SSH+NETCAT\".'' else [])
      else if is_unknown (rp_nc_side c) then []
      else if is_null (rp_nc_side c) then ''transport = \"SSH+NETCAT\" requires netcat_active_side to be set (LOCAL or REMOTE).''
      else [])"

definition ssh_only_fields_without_ssh :: "replication_model \<Rightarrow> string" where
  "ssh_only_fields_without_ssh c =
     (let t = transport_or_default c in
      if t = [] \<or> t = ''SSH'' then []
      else if is_set (rp_compression c) \<or> is_set (rp_speed_limit c)
        then ''compression and speed_limit are only valid for transport = \"SSH\".'' else [])"

definition replication_validate_config :: "replication_model \<Rightarrow> diagnostic list" where
  "replication_validate_config c =
     (let report = (\<lambda>summary msg. if msg \<noteq> [] then [(summary, msg)] else [])
      in (if name_regex_conflict c then [(''Conflicting attributes'',
            ''name_regex is mutually exclusive with naming_schema and also_include_naming_schema.'')] else []) @
         report ''Invalid ssh_credentials for transport'' (transport_credentials_mismatch c) @
         report ''SSH-only attribute set'' (ssh_only_fields_without_ssh c) @
         report ''Invalid netcat configuration for transport'' (netcat_fields_mismatch c))"

text \<open>A create without a transport in the configuration gets one from the credentials. \<open>plan\<close> is \<open>None\<close> on a destroy,
  \<open>st\<close> is \<open>None\<close> on a create.\<close>

definition replication_modify_plan ::
  "replication_model \<Rightarrow> replication_model option \<Rightarrow> replication_model option \<Rightarrow> replication_model option" where
  "replication_modify_plan cfg st plan = (case plan of
      None \<Rightarrow> None
    | Some p \<Rightarrow> (if st \<noteq> None \<or> \<not> is_null (rp_transport cfg) then Some p
        else Some (p\<lparr>rp_transport := Known (if ssh_credentials_set cfg then ''SSH'' else ''LOCAL'')\<rparr>)))"

definition effective_transport :: "string tf \<Rightarrow> string" where
  "effective_transport v = (if \<not> is_set v then ''LOCAL'' else value_string v)"

definition replace_if_transport_changed :: "string tf \<Rightarrow> string tf \<Rightarrow> bool" where
  "replace_if_transport_changed st plan \<longleftrightarrow> effective_transport st \<noteq> effective_transport plan"

section \<open>Facts\<close>

definition or_null :: "('a \<Rightarrow> gval) \<Rightarrow> 'a option \<Rightarrow> gval" where
  "or_null f v = (case v of None \<Rightarrow> GNil | Some x \<Rightarrow> f x)"

text \<open>What the server holds of a task, and what its answers are like: no lifetime of zero length or of an empty unit,
  and a schedule for each of its lifetimes.\<close>

definition replication_held :: "(string \<Rightarrow> int) \<Rightarrow> replication_response \<Rightarrow> gval gomap" where
  "replication_held F r = [(''name'', GStr (ry_name r)), (''direction'', GStr (ry_direction r)), (''transport'', GStr (ry_transport r)),
     (''ssh_credentials'', nonzero (ssh_credentials_id F (ry_ssh_credentials r))), (''sudo'', GBool (ry_sudo r)),
     (''compression'', or_null GStr (ry_compression r)), (''speed_limit'', or_null GInt (ry_speed_limit r)),
     (''netcat_active_side'', or_null GStr (ry_nc_side r)),
     (''netcat_active_side_listen_address'', or_null GStr (ry_nc_listen r)),
     (''netcat_active_side_port_min'', or_null GInt (ry_nc_port_min r)),
     (''netcat_active_side_port_max'', or_null GInt (ry_nc_port_max r)),
     (''netcat_passive_side_connect_address'', or_null GStr (ry_nc_connect r)),
     (''source_datasets'', GArr (map GStr (ry_source_datasets r))), (''target_dataset'', GStr (ry_target_dataset r)),
     (''recursive'', GBool (ry_recursive r)), (''exclude'', GArr (map GStr (ry_exclude r))),
     (''properties'', GBool (ry_properties r)), (''replicate'', GBool (ry_replicate r)),
     (''periodic_snapshot_tasks'', GArr (map GInt (ry_tasks r))), (''naming_schema'', GArr (map GStr (ry_naming_schema r))),
     (''also_include_naming_schema'', GArr (map GStr (ry_also_include r))), (''name_regex'', or_null GStr (ry_name_regex r)),
     (''auto'', GBool (ry_auto r)), (''schedule'', or_null cron_with_window (ry_schedule r)),
     (''retention_policy'', GStr (ry_retention_policy r)), (''lifetime_value'', or_null GInt (ry_lifetime_value r)),
     (''lifetime_unit'', or_null GStr (ry_lifetime_unit r)), (''readonly'', GStr (ry_readonly r)),
     (''enabled'', GBool (ry_enabled r)), (''retries'', GInt (ry_retries r)), (''compressed'', GBool (ry_compressed r)),
     (''embed'', GBool (ry_embed r)), (''large_block'', GBool (ry_large_block r)),
     (''allow_from_scratch'', GBool (ry_allow_from_scratch r)), (''hold_pending_snapshots'', GBool (ry_hold_pending r)),
     (''only_matching_schedule'', GBool (ry_only_matching r)), (''logging_level'', or_null GStr (ry_logging_level r)),
     (''properties_exclude'', GArr (map GStr (ry_properties_exclude r))), (''encryption'', GBool (ry_encryption r)),
     (''encryption_inherit'', or_null GBool (ry_encryption_inherit r)),
     (''encryption_key_format'', or_null GStr (ry_encryption_key_format r)),
     (''encryption_key_location'', or_null GStr (ry_encryption_key_location r)),
     (''restrict_schedule'', or_null cron_with_window (ry_restrict_schedule r)),
     (''properties_override'', GObj (map (\<lambda>(k, s). (k, GStr s)) (ry_properties_override r))),
     (''lifetimes'', GArr (map lifetime_payload (ry_lifetimes r)))]"

definition replication_proper :: "replication_response \<Rightarrow> bool" where
  "replication_proper r \<longleftrightarrow> ry_lifetime_value r \<noteq> Some 0 \<and> ry_lifetime_unit r \<noteq> Some [] \<and>
     list_all (\<lambda>l. is_set (lf_schedule l)) (ry_lifetimes r)"

lemma is_set_ptr [simp]: "is_set (ptr_value p) = (p \<noteq> None)"
  by (cases p) (simp_all add: ptr_value_def)

lemma map_elements_known [simp]: "map_elements (map (\<lambda>(k, s). (k, Known s)) ps) = Inr ps"
proof -
  have "map_opt (\<lambda>(k, v). map_option (Pair k) (known_value v)) (map (\<lambda>(k, s). (k, Known s)) ps) = Some ps"
    by (induction ps) (auto simp: known_value_def)
  then show ?thesis by (simp add: map_elements_def)
qed

lemma null_when_empty [simp]:
  "set_elements (if xs = [] then TfNull else known_list xs) = Inr xs"
  by simp

lemma refreshed_fields:
  assumes "replication_to_model F r m = Inr m1"
  shows "rp_name m1 = Known (ry_name r)"
    "rp_direction m1 = Known (ry_direction r)"
    "rp_transport m1 = Known (ry_transport r)"
    "rp_ssh_credentials m1 = Known (ssh_credentials_id F (ry_ssh_credentials r))"
    "rp_sudo m1 = Known (ry_sudo r)"
    "rp_compression m1 = ptr_value (ry_compression r)"
    "rp_speed_limit m1 = ptr_value (ry_speed_limit r)"
    "rp_nc_side m1 = ptr_value (ry_nc_side r)"
    "rp_nc_listen m1 = ptr_value (ry_nc_listen r)"
    "rp_nc_port_min m1 = ptr_value (ry_nc_port_min r)"
    "rp_nc_port_max m1 = ptr_value (ry_nc_port_max r)"
    "rp_nc_connect m1 = ptr_value (ry_nc_connect r)"
    "rp_source_datasets m1 = known_list (ry_source_datasets r)"
    "rp_target_dataset m1 = Known (ry_target_dataset r)"
    "rp_recursive m1 = Known (ry_recursive r)"
    "rp_exclude m1 = known_list (ry_exclude r)"
    "rp_properties m1 = Known (ry_properties r)"
    "rp_replicate m1 = Known (ry_replicate r)"
    "rp_tasks m1 = known_list (ry_tasks r)"
    "rp_naming_schema m1 = known_list (ry_naming_schema r)"
    "rp_also_include m1 = known_list (ry_also_include r)"
    "rp_name_regex m1 = Known (case ry_name_regex r of None \<Rightarrow> [] | Some s \<Rightarrow> s)"
    "rp_auto m1 = Known (ry_auto r)"
    "rp_schedule m1 = ptr_value (ry_schedule r)"
    "rp_retention_policy m1 = Known (ry_retention_policy r)"
    "rp_lifetime_value m1 = ptr_value (ry_lifetime_value r)"
    "rp_lifetime_unit m1 = ptr_value (ry_lifetime_unit r)"
    "rp_readonly m1 = Known (ry_readonly r)"
    "rp_enabled m1 = Known (ry_enabled r)"
    "rp_retries m1 = Known (ry_retries r)"
    "rp_compressed m1 = Known (ry_compressed r)"
    "rp_embed m1 = Known (ry_embed r)"
    "rp_large_block m1 = Known (ry_large_block r)"
    "rp_allow_from_scratch m1 = Known (ry_allow_from_scratch r)"
    "rp_hold_pending m1 = Known (ry_hold_pending r)"
    "rp_only_matching m1 = Known (ry_only_matching r)"
    "rp_logging_level m1 = ptr_value (ry_logging_level r)"
    "rp_properties_exclude m1 = known_list (ry_properties_exclude r)"
    "rp_encryption m1 = Known (ry_encryption r)"
    "rp_encryption_inherit m1 = ptr_value (ry_encryption_inherit r)"
    "rp_encryption_key_format m1 = ptr_value (ry_encryption_key_format r)"
    "rp_encryption_key_location m1 = ptr_value (ry_encryption_key_location r)"
    "rp_restrict_schedule m1 = ptr_value (ry_restrict_schedule r)"
    "rp_properties_override m1 = (if ry_properties_override r = [] then TfNull else Known (map (\<lambda>(k, s). (k, Known s)) (ry_properties_override r)))"
    "rp_lifetimes m1 = (if ry_lifetimes r = [] then TfNull else known_list (ry_lifetimes r))"
  using assms by (auto simp: replication_to_model_def)

text \<open>A nullable answer, read into the model and sent again.\<close>

lemma send_ptr [simp]:
  "put_str k (ptr_value s) p = put_when (s \<noteq> None) k (or_null GStr s) p"
  "put_bool k (ptr_value b) p = put_when (b \<noteq> None) k (or_null GBool b) p"
  "put_or_null (is_set (ptr_value s)) k (GStr (value_string (ptr_value s))) p = put k (or_null GStr s) p"
  "put_or_null (is_set (ptr_value i)) k (GInt (value_int64 (ptr_value i))) p = put k (or_null GInt i) p"
  "put_or GNil k f (ptr_value v) p = put k (or_null f v) p"
proof -
  show "put_str k (ptr_value s) p = put_when (s \<noteq> None) k (or_null GStr s) p"
    and "put_or_null (is_set (ptr_value s)) k (GStr (value_string (ptr_value s))) p = put k (or_null GStr s) p"
    by (cases s; simp add: put_str_def put_or_null_def ptr_value_def or_null_def put_when_def)+
  show "put_bool k (ptr_value b) p = put_when (b \<noteq> None) k (or_null GBool b) p"
    by (cases b; simp add: put_bool_def ptr_value_def or_null_def put_when_def)
  show "put_or_null (is_set (ptr_value i)) k (GInt (value_int64 (ptr_value i))) p = put k (or_null GInt i) p"
    by (cases i; simp add: put_or_null_def ptr_value_def or_null_def)
  show "put_or GNil k f (ptr_value v) p = put k (or_null f v) p"
    by (cases v; simp add: put_or_def ptr_value_def or_null_def)
qed

lemma send_lifetime [simp]:
  "i \<noteq> Some 0 \<Longrightarrow> put_or_null (is_set (ptr_value i) \<and> value_int64 (ptr_value i) \<noteq> 0) k (GInt (value_int64 (ptr_value i))) p =
     put k (or_null GInt i) p"
  "s \<noteq> Some [] \<Longrightarrow> put_or_null (is_set (ptr_value s) \<and> value_string (ptr_value s) \<noteq> []) k (GStr (value_string (ptr_value s))) p =
     put k (or_null GStr s) p"
  by (cases i; simp add: put_or_null_def ptr_value_def or_null_def) (cases s; simp add: put_or_null_def ptr_value_def or_null_def)

lemma refreshed_converts:
  assumes "replication_proper r" and "replication_to_model F r m = Inr m1"
  shows "replication_errors m1 = []"
proof -
  have l: "concat (map (\<lambda>l. if is_set (lf_schedule l) then [] else [conversion_error]) (ry_lifetimes r)) = []"
    using assms(1) by (auto simp: replication_proper_def list_all_iff)
  show ?thesis
    unfolding replication_errors_def refreshed_fields [OF assms(2)] using l by simp
qed

lemma only_held_or [only_held]:
  "h k = Some (if c then v else GNil) \<Longrightarrow> map_of p \<subseteq>\<^sub>m h \<Longrightarrow> map_of (put_or_null c k v p) \<subseteq>\<^sub>m h"
  "(v' = TfNull \<Longrightarrow> h k = Some d) \<Longrightarrow> (\<And>x. v' = Known x \<Longrightarrow> h k = Some (f x)) \<Longrightarrow> map_of p \<subseteq>\<^sub>m h \<Longrightarrow> map_of (put_or d k f v' p) \<subseteq>\<^sub>m h"
  by (auto simp: put_or_null_def put_or_def intro: only_held split: tf.splits)

lemma only_held_strings [only_held]:
  "(is_set l \<Longrightarrow> h k = Some (GArr (map GStr (got (set_elements l))))) \<Longrightarrow> map_of p \<subseteq>\<^sub>m h \<Longrightarrow> map_of (put_strings k l p) \<subseteq>\<^sub>m h"
  by (auto simp: put_strings_def intro: only_held)

text \<open>What the server holds, key by key, is what each step of the payload puts in.\<close>

lemma refreshed_sends_held:
  assumes "replication_proper r" and "replication_to_model F r m = Inr m1"
  shows "\<exists>p. replication_payload m1 = Inr p \<and> map_of p \<subseteq>\<^sub>m map_of (replication_held F r)"
proof -
  let ?h = "map_of (replication_held F r)"
  note f = refreshed_fields [OF assms(2)]
  have h: "map_of (replication_required m1) \<subseteq>\<^sub>m ?h"
    unfolding replication_required_def f by (intro only_held) (simp_all add: replication_held_def)
  have h: "map_of (replication_optional m1 (replication_required m1)) \<subseteq>\<^sub>m ?h"
    unfolding replication_optional_def f send_ptr by (intro only_held h) (simp_all add: replication_held_def)
  have h: "map_of (replication_clearable m1 (replication_optional m1 (replication_required m1))) \<subseteq>\<^sub>m ?h"
    unfolding replication_clearable_def f send_ptr
    by (intro only_held h) (auto simp: replication_held_def string_map_def known_list_def set_elements_def split: if_splits)
  have h: "map_of (put_naming m1 (replication_clearable m1 (replication_optional m1 (replication_required m1)))) \<subseteq>\<^sub>m ?h"
    unfolding put_naming_def f
    by (split if_split) (intro conjI impI only_held h; auto simp: replication_held_def or_null_def split: option.splits)
  show ?thesis
    using assms(1) refreshed_converts [OF assms]
    unfolding replication_payload_def f send_ptr
    by (simp add: replication_proper_def) (intro only_held h; auto simp: replication_held_def ptr_value_def or_null_def split: option.splits)
qed

interpretation repl: plain_resource "replication F id" "replication_held F" replication_proper for F
proof unfold_locales
  fix r m m1
  assume x: "cr_refresh (replication F id) r m = Inr m1"
  then show "cr_refresh (replication F id) r m1 = Inr m1" "cr_id (replication F id) m1 = Known (cr_answer_id (replication F id) r)"
    by (auto simp: replication_def replication_to_model_def)
  assume "replication_proper r"
  with x show "case cr_payload (replication F id) m1 of Inl d \<Rightarrow> False | Inr p \<Rightarrow> map_of p \<subseteq>\<^sub>m map_of (replication_held F r)"
    using refreshed_sends_held [of r F m m1] by (auto simp: replication_def)
qed

section \<open>The encryption key\<close>

text \<open>A step leaves the other keys alone.\<close>

lemma other_key:
  "k \<noteq> j \<Longrightarrow> map_of (put_str k s p) j = map_of p j" "k \<noteq> j \<Longrightarrow> map_of (put_int64 k i p) j = map_of p j"
  "k \<noteq> j \<Longrightarrow> map_of (put_bool k b p) j = map_of p j" "k \<noteq> j \<Longrightarrow> map_of (put_strings k l p) j = map_of p j"
  "k \<noteq> j \<Longrightarrow> map_of (put_or_null c k v p) j = map_of p j" "k \<noteq> j \<Longrightarrow> map_of (put_or d k f t p) j = map_of p j"
  by (simp_all add: put_or_null_def put_or_def put_strings_def payload_simps split: tf.splits)

lemma required_and_optional:
  "j \<in> {''encryption_key'', ''name_regex''} \<Longrightarrow>
     map_of (replication_clearable m (replication_optional m (replication_required m))) j = None"
  by (auto simp: replication_clearable_def replication_optional_def replication_required_def other_key)

lemma payload_without_key:
  "replication_payload m = Inr p \<Longrightarrow> map_of p ''encryption_key'' = None"
  by (auto simp: replication_payload_def put_naming_def other_key required_and_optional split: if_splits)

definition sent_key :: "exchanged list \<Rightarrow> gval option" where
  "sent_key l = (case l of (m, ps, r) # _ \<Rightarrow> (case last ps of GObj p \<Rightarrow> map_of p ''encryption_key'' | _ \<Rightarrow> None) | [] \<Rightarrow> None)"

lemma settle_keeps_log:
  "crud_settle (logged a) c i texts plan s = (out, s1) \<Longrightarrow> \<exists>m ps r. snd s1 = snd s @ [(m, ps, r)]"
  by (auto simp: crud_settle_def crud_instance_def split: sum.splits prod.splits option.splits)

lemma stored_key:
  "crud_store (replication F g) r plan = Stored i m \<Longrightarrow> rp_encryption_key m = rp_encryption_key plan"
  by (auto simp: crud_store_def replication_def replication_to_model_def)

lemma settle_stored_key:
  "crud_settle (logged a) (replication F g) i texts plan s = (Stored k m, s1) \<Longrightarrow> rp_encryption_key m = rp_encryption_key plan"
  by (auto simp: crud_settle_def dest: stored_key split: sum.splits prod.splits)

text \<open>C37. An update sends the write-only key exactly when the configuration has it and it is needed: when its version
  changed or encryption with an own key is turned on. What is stored is never the key of the configuration.\<close>

theorem replication_key_sent_when_needed:
  "case replication_update F (logged a) cfg plan st (w, []) of
     None \<Rightarrow> False
   | Some (out, (w1, l)) \<Rightarrow>
       sent_key l = (if l \<noteq> [] \<and> is_set (rp_encryption_key cfg) \<and>
           (if rp_key_wo_version plan = rp_key_wo_version st then own_key plan \<and> \<not> own_key st else True)
         then Some (GStr (value_string (rp_encryption_key cfg))) else None) \<and>
       (case out of Stored i m \<Rightarrow> rp_encryption_key m = rp_encryption_key plan | _ \<Rightarrow> True)"
proof (cases "replication_payload plan")
  case (Inl ds)
  then show ?thesis by (simp add: replication_update_def crud_update_def replication_def sent_key_def Let_def)
next
  case (Inr p)
  define g where "g = (if encryption_key_resend_needed plan st then inject_encryption_key cfg else id)"
  let ?c = "replication F g"
  let ?ps = "[GInt (value_int64 (rp_id st)), GObj (g p)]"
  obtain r w1 where c: "api_call a ''replication.update'' ?ps w = (r, w1)" by fastforce
  have k: "sent_key ((m, ?ps, x) # l) = map_of (g p) ''encryption_key''" for m x l
    by (simp add: sent_key_def)
  have key: "map_of (g p) ''encryption_key'' = (if is_set (rp_encryption_key cfg) \<and> encryption_key_resend_needed plan st
      then Some (GStr (value_string (rp_encryption_key cfg))) else None)"
    using payload_without_key [OF Inr] by (simp add: g_def inject_encryption_key_def payload_simps)
  have u: "replication_update F (logged a) cfg plan st (w, []) =
    Some (case r of Inl e \<Rightarrow> (fail_err ''Update replication task failed'' e, (w1, [(''replication.update'', ?ps, r)]))
      | Inr raw \<Rightarrow> crud_settle (logged a) ?c (value_int64 (rp_id st)) (''Read-back after update failed'', ''Parse get_instance response'')
          plan (w1, [(''replication.update'', ?ps, r)]))"
    using Inr c by (simp add: replication_update_def crud_update_def replication_def g_def [symmetric] Let_def send_change_def noting_def
        standard_read_back_def split: sum.splits)
  show ?thesis
  proof (cases r)
    case (Inl e)
    then show ?thesis by (simp add: u k key encryption_key_resend_needed_def fail_err_def)
  next
    case (Inr raw)
    obtain out s1 where s: "crud_settle (logged a) ?c (value_int64 (rp_id st)) (''Read-back after update failed'', ''Parse get_instance response'')
          plan (w1, [(''replication.update'', ?ps, r)]) = (out, s1)" by (metis surj_pair)
    from settle_keeps_log [OF s] have "sent_key (snd s1) = map_of (g p) ''encryption_key''" by (auto simp: k)
    moreover have "case out of Stored i m \<Rightarrow> rp_encryption_key m = rp_encryption_key plan | _ \<Rightarrow> True"
      using settle_stored_key s by (cases out) fastforce+
    moreover have "snd s1 \<noteq> []" using settle_keeps_log [OF s] by auto
    ultimately show ?thesis using Inr s by (auto simp: u key encryption_key_resend_needed_def)
  qed
qed

section \<open>Two gaps\<close>

text \<open>A regular expression is never cleared: no payload sends null for it, and an empty one is left out, which keeps what the
  server has.\<close>

lemma name_regex_never_cleared:
  assumes "replication_payload m = Inr p"
  shows "map_of p ''name_regex'' = (if value_string (rp_name_regex m) = [] then None else Some (GStr (value_string (rp_name_regex m))))"
  using assms by (auto simp: replication_payload_def put_naming_def other_key required_and_optional split: if_splits)

text \<open>Credentials that are not known yet when the plan is made, as those of a connection that is created with the task, count as
  none, and the task is planned as a local one.\<close>

lemma unknown_credentials_plan_local:
  "is_null (rp_transport cfg) \<Longrightarrow> is_unknown (rp_ssh_credentials cfg) \<Longrightarrow>
   map_option rp_transport (replication_modify_plan cfg None (Some plan)) = Some (Known ''LOCAL'')"
  by (cases "rp_ssh_credentials cfg") (simp_all add: replication_modify_plan_def ssh_credentials_set_def)

end
