(* ===== verification/Plain.thy ===== *)
theory Plain
  imports Tasks Iscsi Directory Replication Config Devices
begin

text \<open>The resources with the shared methods, side by side: each keeps the contract of theory Crud, the singletons that of theory Config.\<close>


end
