(* ===== verification/Spec2Isabelle.thy ===== *)
theory Spec2Isabelle
  imports Auth Version SemEq PlanMod Overlay Listing ConnState Provider Zvol Pool User Group FilesystemAcl Smb App Actions FsMutation Config NetInterface Devices Plain
begin

text \<open>
  A verification development of the TrueNAS Terraform provider, a Go program under src/.

  \<^bold>\<open>The program.\<close> Terraform starts the provider as a process and asks it to plan, create, read,
  update and delete resources. src/internal/provider/provider.go turns the configuration and
  the environment into the settings of a client and shares one client per endpoint and
  credentials. src/internal/client speaks JSON-RPC over a websocket: it dials, logs in, keeps the
  connection alive, matches replies to requests, re-dials a dropped connection, repeats reads
  but never changes, and waits for the jobs that some methods start on the server. Each package of
  src/internal/resources maps the attributes of one kind of object to the payloads of the
  methods that create and change it and maps the answers back. They share
  src/internal/normalize (values the server may spell differently), src/internal/planmod (plan modifiers),
  src/internal/writeonly (secrets that stay out of state), src/internal/stateupgrade and
  src/internal/listing.

  \<^bold>\<open>Theories and sources.\<close>
  \<^item> Prelude: Go strings and the functions of strings and strconv the provider calls, association
    lists for Go maps, Terraform attribute values (null, unknown, known). Values: decoded documents
    (\<open>any\<close>, \<open>json.RawMessage\<close>) and src/internal/normalize/json.go. Kinds and NetAddr:
    text.go, time.go, net.go. SemEq: string.go, list.go, types.go, planmod.go.
  \<^item> GoError: the error values of the client and the predicates on them (client.go).
    Transport: what one caller sees of \<open>Client\<close>: \<open>dialOnce\<close>, \<open>Connect\<close>, \<open>reconnect\<close>, \<open>send\<close>,
    \<open>Call\<close>. ConnState: the shared fields of \<open>Client\<close> with every goroutine that touches them, as a
    step relation; also message dispatch, options and tls.go. Rpc: \<open>CallRead\<close>, \<open>CallJob\<close>,
    \<open>waitJob\<close>, \<open>ServerVersion\<close> (callread.go, jobs.go). FsMutation: \<open>CallFilesystemMutation\<close> (jobs.go)
    with the mutex between its callers, as a step relation. Version: version.go. Sha512, Scram, Auth:
    scram.go and auth.go with the parts of crypto/* they use.
  \<^item> Provider: provider.go. PlanMod, Overlay, Listing: the packages planmod, writeonly,
    stateupgrade and listing. Resource: the steps that all resources repeat.
  \<^item> ZfsProps, Dataset, DatasetDelete, Zvol: resources/dataset and resources/zvol. DiskIdent, Pool:
    resources/pool. User, Group: resources/user and resources/group. FilesystemAcl:
    resources/filesystem_acl. Smb: resources/smb.
  \<^item> Regex, Yaml11, YamlNumbers: resources/app/yaml11.go, the rules by which it reads a scalar and expands aliases.
    Compose: compose.go and values.go, the documents of an app. App: the other files of resources/app.
  \<^item> Actions: every package of src/internal/actions.
  \<^item> Crud: the text that the plain resources share (create, read, update, delete, import, data source, list row),
    written once over a record of what differs. Tasks (static_route, cronjob, scrub_task, init_shutdown_script,
    periodic_snapshot), Iscsi (iscsi_initiator, iscsi_portal, iscsi_targetextent, iscsi_target), Directory
    (kerberos_realm, privilege) and Replication (replication) are its instances, with their own checks and mappings.
    Config: the same for singletons (iscsi_global, kerberos_config, nvmet_global, replication_config,
    resilver_config, ssh_config). Plain states their contract side by side.
  \<^item> NetInterface: resources/network_interface, with the staging, the commit and the checkin of its changes.
  \<^item> Devices: resources/iscsi_extent, nvmet_namespace and nvmet_port, which wait for a device or disable what they change.

  A struct is a record whose fields have the struct's names (prefixed where two records would
  clash); a method is a function of the record and the state it touches. A resource method
  takes the operations of the client as an argument (the record of operations that Rpc declares),
  the plan and state models, and a world, and returns an outcome: what was stored
  and which diagnostics were added. The client's operations on a connection are an instance
  of that argument, so what is proved of resources against the interface holds for the
  client of Transport.

  \<^bold>\<open>Interfaces.\<close> The locale \<open>rpc\<close> (Rpc) states what resources need of the client: one call
  sends at most one request, pausing and re-dialling send none; Auth interprets it on the client.
  \<open>spelling\<close> (Kinds) is the contract of a comparison of spellings, interpreted for
  every kind of string; \<open>partial_equivalence\<close> (SemEq) is what matching unordered lists needs;
  \<open>private_data\<close> (PlanMod) is the framework's private state; \<open>managed_object\<close> (Resource) is the
  contract of a resource's two mappings, that refreshing settles and that a settled state
  sends nothing, interpreted for datasets, zvols, users and groups. \<open>plain_resource\<close> (Crud) and
  \<open>plain_config\<close> (Config) are the contracts of the two mappings of a plain resource and of a singleton: refreshing is
  idempotent and a refreshed state sends only what the server holds; each is interpreted for every instance.

  \<^bold>\<open>Parameters.\<close> Code that is not under src/ is an argument: the parser and printer of
  encoding/json and the reading of number literals (\<open>json_lib\<close>, \<open>decode\<close>), net/url, reading
  files, parsing certificates, the node tree of gopkg.in/yaml.v3, the arithmetic of float64 and its printing, SHA-256 of the cache key, random bytes, clocks, and the TrueNAS
  server with the network before it (\<open>env\<close>: what each exchange answers, as a function of what
  has been sent). The Terraform framework is written out where the code uses it: null,
  unknown and known values, diagnostics, \<open>RemoveResource\<close>, private state, plan modifiers.

  \<^bold>\<open>Loops and bounds.\<close> Loops over lists are structural recursions. The retry of reads runs
  over the list of its delays, the dial over its attempts. The wait for a job and the wait for
  the blockers of a delete end because time passes: they are partial functions with an
  option result, and that a result exists is a theorem whose premise bounds the clock. The expansion of a YAML document
  carries the budget of the code, a million nodes and a depth of a thousand. The waits for an app to settle and for
  the device of a new zvol are such partial functions too. Addresses, masks,
  SHA-512 and the parsed parts of a version keep their widths; the request counter of the client is a natural
  number, since 64 bits do not run out.

  \<^bold>\<open>What the lemmas show.\<close>
  \<^item> Client: a change is sent at most once whatever the network does, a job's result
    is the one reported, reads recover, every waiting caller gets its answer or has a live
    reader, replies are delivered once to the caller that asked, calls in flight are bounded;
    the shared state refines a life of single calls. SCRAM accepts only a server that knows the
    key, and is complete; the plain key is sent only to a server without SCRAM.
  \<^item> Values: each comparison is an equivalence and has the meaning its documentation gives;
    unordered lists are compared as multisets of documents; the plan modifiers keep
    or replace exactly as stated.
  \<^item> Resources: exactly what an update sends; that a refresh settles; that an inherited ZFS property
    never becomes local; that a delete without \<open>force_destroy\<close> is not recursive; that secrets are
    not stored; which pool plans are accepted and that the repair of a topology leaves the
    configuration alone; which SMB options are sent; that an app's secrets from the overlay are projected away before its
    document is stored and that a read gives the base text back when the server has it; that an action sends its
    change once; that filesystem mutations of one client never overlap on the server; that no change of a network interface is left staged
    and that an update which disables a port or a namespace does not leave it disabled.

  \<^bold>\<open>Not modelled.\<close> The schema files and markdown descriptions are declarations for
  the framework. src/internal/acctest and the _test files are tests; src/cmd holds diagnostic
  programs that print. The resources that are not named above are further mappings of the same shape and are
  not translated. Log output (\<open>tflog\<close>), contexts other than
  as the end of a wait, and the byte layout of websocket frames are left out.
\<close>

end
